(* ===== verification/Vito_Prelude.thy ===== *)
theory Vito_Prelude
  imports Main "HOL-Library.Sublist"
begin

text \<open>
  Shared vocabulary of the development: the JavaScript string operations the
  sources call (\<open>trim\<close>, \<open>includes\<close>, \<open>startsWith\<close>, \<open>endsWith\<close>, \<open>split\<close>,
  \<open>join\<close>, the decimal rendering of a length), truthiness of optional strings,
  and the generic facts about lists, options and sums that the component
  theories use.

  A JavaScript string is a list of code units.  The model uses HOL's
  \<^typ>\<open>string\<close>, so a code unit is a \<^typ>\<open>char\<close>: the code units 0 to 255.  In
  that range the white space of \<open>trim\<close> and of \<open>\s\<close> is exactly TAB, LF, VT,
  FF, CR, SPACE and NO-BREAK SPACE.  A failing call (a thrown exception) is
  the left injection of a sum.
\<close>

section \<open>Collections of facts\<close>

named_theorems js_string \<open>characterisations of the JavaScript string operations\<close>
named_theorems vito_defs \<open>definitions unfolded by the component proofs\<close>

section \<open>Results of calls that may throw\<close>

fun bindE :: "'e + 'a \<Rightarrow> ('a \<Rightarrow> 'e + 'b) \<Rightarrow> 'e + 'b" where
  "bindE (Inl e) f = Inl e"
| "bindE (Inr x) f = f x"

lemma bindE_Inr_iff [simp]:
  "bindE m f = Inr y \<longleftrightarrow> (\<exists>x. m = Inr x \<and> f x = Inr y)"
  by (cases m) auto

lemma bindE_Inl_iff:
  "bindE m f = Inl e \<longleftrightarrow> m = Inl e \<or> (\<exists>x. m = Inr x \<and> f x = Inl e)"
  by (cases m) auto

definition guardE :: "bool \<Rightarrow> 'e \<Rightarrow> 'e + unit" where
  "guardE b e = (if b then Inl e else Inr ())"

lemma guardE_Inr_iff [simp]: "guardE b e = Inr u \<longleftrightarrow> \<not> b"
  by (simp add: guardE_def)

lemma guardE_Inl_iff [simp]: "guardE b e = Inl e' \<longleftrightarrow> b \<and> e' = e"
  by (auto simp: guardE_def)

section \<open>Optional values\<close>

text \<open>\<open>if (x)\<close> on an optional string: absent and empty are both falsy.\<close>

definition truthy :: "string option \<Rightarrow> bool" where
  "truthy s = (case s of None \<Rightarrow> False | Some t \<Rightarrow> t \<noteq> [])"

lemma truthy_simps [simp]:
  "truthy None = False" "truthy (Some t) = (t \<noteq> [])"
  by (simp_all add: truthy_def)

text \<open>\<open>x?.f === y\<close> and its like: a test that an absent value fails.\<close>

definition option_test :: "('a \<Rightarrow> bool) \<Rightarrow> 'a option \<Rightarrow> bool" where
  "option_test P x = (case x of None \<Rightarrow> False | Some y \<Rightarrow> P y)"

lemma option_test_iff [simp]: "option_test P x \<longleftrightarrow> (\<exists>y. x = Some y \<and> P y)"
  by (cases x) (simp_all add: option_test_def)

lemma truthy_iff: "truthy s \<longleftrightarrow> (\<exists>t. s = Some t \<and> t \<noteq> [])"
  by (cases s) auto

text \<open>\<open>x === undefined || P(x)\<close>.\<close>

definition option_all :: "('a \<Rightarrow> bool) \<Rightarrow> 'a option \<Rightarrow> bool" where
  "option_all P x = (case x of None \<Rightarrow> True | Some y \<Rightarrow> P y)"

lemma option_all_simps [simp]: "option_all P None" "option_all P (Some y) = P y"
  by (simp_all add: option_all_def)

text \<open>\<open>new Set(xs).size\<close>.\<close>

definition set_size :: "'a list \<Rightarrow> nat" where
  "set_size xs = length (remdups xs)"

lemma set_size_card [js_string]: "set_size xs = card (set xs)"
  by (simp add: set_size_def length_remdups_card_conv)

lemma set_size_less_iff: "set_size xs < length xs \<longleftrightarrow> \<not> distinct xs"
proof -
  have "card (set xs) \<le> length xs" by (rule card_length)
  moreover have "card (set xs) = length xs \<longleftrightarrow> distinct xs"
    by (auto simp: distinct_card card_distinct)
  ultimately show ?thesis by (auto simp: set_size_card)
qed

lemma set_size_map_less_iff: "set_size (map f xs) < length xs \<longleftrightarrow> \<not> distinct (map f xs)"
  using set_size_less_iff [of "map f xs"] by simp

section \<open>White space and trimming\<close>

definition js_ws :: "char \<Rightarrow> bool" where
  "js_ws c = (of_char c \<in> {9, 10, 11, 12, 13, 32, 160 :: nat})"

definition js_trim :: "string \<Rightarrow> string" where
  "js_trim s = rev (dropWhile js_ws (rev (dropWhile js_ws s)))"

lemma js_trim_Nil [simp]: "js_trim [] = []"
  by (simp add: js_trim_def)

lemma set_js_trim: "set (js_trim s) \<subseteq> set s"
  by (auto simp: js_trim_def dest!: set_dropWhileD)

lemma js_trim_eq_Nil_iff: "js_trim s = [] \<longleftrightarrow> (\<forall>c \<in> set s. js_ws c)"
proof -
  have "js_trim s = [] \<longleftrightarrow> (\<forall>c \<in> set (dropWhile js_ws s). js_ws c)"
    by (simp add: js_trim_def)
  also have "\<dots> \<longleftrightarrow> (\<forall>c \<in> set s. js_ws c)"
    by (metis dropWhile_eq_Nil_conv hd_dropWhile hd_in_set set_dropWhileD)
  finally show ?thesis .
qed

lemma dropWhile_hd_not: "s = [] \<or> \<not> P (hd s) \<Longrightarrow> dropWhile P s = s"
  by (cases s) auto

lemma js_trim_id:
  assumes "s = [] \<or> \<not> js_ws (hd s) \<and> \<not> js_ws (last s)"
  shows "js_trim s = s"
  using assms by (cases "s = []") (simp_all add: js_trim_def dropWhile_hd_not hd_rev)

lemma js_trim_ends:
  assumes "js_trim s \<noteq> []"
  shows "\<not> js_ws (hd (js_trim s)) \<and> \<not> js_ws (last (js_trim s))"
proof -
  let ?t = "dropWhile js_ws s"
  let ?u = "dropWhile js_ws (rev ?t)"
  have u: "?u \<noteq> []" using assms by (simp add: js_trim_def)
  then have "\<not> js_ws (hd ?u)" by (rule hd_dropWhile)
  then have l: "\<not> js_ws (last (js_trim s))"
    by (simp add: js_trim_def last_rev)
  have "suffix ?u (rev ?t)" by (rule suffix_dropWhile)
  then have "prefix (rev ?u) ?t" by (metis rev_rev_ident suffix_to_prefix)
  moreover from u have "rev ?u \<noteq> []" by simp
  ultimately have "hd (rev ?u) = hd ?t" by (metis hd_append2 prefix_def)
  moreover have "?t \<noteq> []" using u by (metis dropWhile.simps(1) rev.simps(1))
  ultimately show ?thesis using l by (simp add: js_trim_def hd_dropWhile)
qed

lemma js_trim_idem [simp]: "js_trim (js_trim s) = js_trim s"
  by (metis js_trim_ends js_trim_id)

section \<open>Searching\<close>

definition js_starts_with :: "string \<Rightarrow> string \<Rightarrow> bool" where
  "js_starts_with s p = (take (length p) s = p)"

lemma js_starts_with_iff [js_string]: "js_starts_with s p \<longleftrightarrow> prefix p s"
  by (metis append_eq_conv_conj js_starts_with_def prefix_def take_is_prefix)

definition js_ends_with :: "string \<Rightarrow> string \<Rightarrow> bool" where
  "js_ends_with s p = (length p \<le> length s \<and> drop (length s - length p) s = p)"

lemma js_ends_with_iff [js_string]: "js_ends_with s p \<longleftrightarrow> suffix p s"
  by (auto simp: js_ends_with_def suffix_def) (metis append_take_drop_id)

fun js_includes :: "string \<Rightarrow> string \<Rightarrow> bool" where
  "js_includes [] n = (n = [])"
| "js_includes (c # cs) n = (js_starts_with (c # cs) n \<or> js_includes cs n)"

lemma js_includes_iff [js_string]: "js_includes s n \<longleftrightarrow> sublist n s"
  by (induction s) (auto simp: js_starts_with_iff sublist_Cons_right)

section \<open>Splitting and joining\<close>

text \<open>\<open>s.split(c)\<close> for a one-character separator, and \<open>xs.join(sep)\<close>.\<close>

fun js_split :: "char \<Rightarrow> string \<Rightarrow> string list" where
  "js_split c [] = [[]]"
| "js_split c (x # xs) =
     (if x = c then [] # js_split c xs
      else (case js_split c xs of [] \<Rightarrow> [[x]] | p # ps \<Rightarrow> (x # p) # ps))"

fun js_join :: "string \<Rightarrow> string list \<Rightarrow> string" where
  "js_join sep [] = []"
| "js_join sep [x] = x"
| "js_join sep (x # y # ys) = x @ sep @ js_join sep (y # ys)"

lemma js_split_not_Nil [simp]: "js_split c s \<noteq> []"
  by (induction s) (auto split: list.splits)

lemma js_split_no_sep: "p \<in> set (js_split c s) \<Longrightarrow> c \<notin> set p"
  by (induction s arbitrary: p) (auto split: list.splits if_splits)

lemma js_join_split [simp]: "js_join [c] (js_split c s) = s"
proof (induction s)
  case (Cons x xs)
  then show ?case
    by (cases "js_split c xs"; cases "tl (js_split c xs)") auto
qed simp

lemma js_split_append_sep:
  "js_split c (p @ c # s) = js_split c p @ js_split c s"
  by (induction p) (auto split: list.splits)

lemma js_split_no_occurrence: "c \<notin> set s \<Longrightarrow> js_split c s = [s]"
  by (induction s) auto

lemma js_split_join:
  "xs \<noteq> [] \<Longrightarrow> (\<forall>x \<in> set xs. c \<notin> set x) \<Longrightarrow> js_split c (js_join [c] xs) = xs"
  by (induction "[c]" xs rule: js_join.induct)
     (auto simp: js_split_no_occurrence js_split_append_sep)

section \<open>Decimal rendering of a number\<close>

definition digit_char :: "nat \<Rightarrow> char" where
  "digit_char d = char_of (48 + d)"

fun dec :: "nat \<Rightarrow> string" where
  "dec n = (if n < 10 then [digit_char n] else dec (n div 10) @ [digit_char (n mod 10)])"

declare dec.simps [simp del]

definition is_digit :: "char \<Rightarrow> bool" where
  "is_digit c = (48 \<le> (of_char c :: nat) \<and> (of_char c :: nat) \<le> 57)"

lemma digit_char_inj: "a < 10 \<Longrightarrow> b < 10 \<Longrightarrow> digit_char a = digit_char b \<Longrightarrow> a = b"
proof -
  assume ab: "a < 10" "b < 10" and "digit_char a = digit_char b"
  then have "(of_char (char_of (48 + a)) :: nat) = of_char (char_of (48 + b))"
    by (simp add: digit_char_def)
  with ab show "a = b" by simp
qed

lemma is_digit_digit_char: "d < 10 \<Longrightarrow> is_digit (digit_char d)"
  by (simp add: is_digit_def digit_char_def)

lemma dec_digits: "c \<in> set (dec n) \<Longrightarrow> is_digit c"
proof (induction n rule: dec.induct)
  case (1 n)
  show ?case
  proof (cases "n < 10")
    case True
    with "1.prems" show ?thesis by (simp add: dec.simps [of n] is_digit_digit_char)
  next
    case False
    with "1" show ?thesis
      by (auto simp: dec.simps [of n] is_digit_digit_char)
  qed
qed

lemma dec_not_Nil [simp]: "dec n \<noteq> []"
  by (subst dec.simps) simp

lemma Nil_not_dec [simp]: "[] \<noteq> dec n"
  by (metis dec_not_Nil)

lemma dec_inj: "dec m = dec n \<Longrightarrow> m = n"
proof (induction m arbitrary: n rule: dec.induct)
  case (1 m)
  show ?case
  proof (cases "m < 10"; cases "n < 10")
    assume mn: "\<not> m < 10" "\<not> n < 10"
    with "1.prems" have "dec (m div 10) = dec (n div 10)"
      and "digit_char (m mod 10) = digit_char (n mod 10)"
      by (simp_all add: dec.simps [of m] dec.simps [of n])
    with mn "1.IH" have "m div 10 = n div 10" "m mod 10 = n mod 10"
      by (auto intro: digit_char_inj)
    then show ?thesis by (metis div_mult_mod_eq)
  qed (use "1.prems" in \<open>auto simp: dec.simps [of m] dec.simps [of n] append_eq_Cons_conv
         intro: digit_char_inj\<close>)
qed

lemma colon_not_digit: "CHR '':'' \<notin> set (dec n)"
  using dec_digits [of "CHR '':''" n] by (auto simp: is_digit_def)

section \<open>Stable sorting by a comparison\<close>

text \<open>\<open>xs.sort(cmp)\<close>, which is stable; \<open>le x y\<close> is \<open>cmp(x, y) <= 0\<close>.\<close>

fun insert_by :: "('a \<Rightarrow> 'a \<Rightarrow> bool) \<Rightarrow> 'a \<Rightarrow> 'a list \<Rightarrow> 'a list" where
  "insert_by le x [] = [x]"
| "insert_by le x (y # ys) = (if le x y then x # y # ys else y # insert_by le x ys)"

definition sort_by :: "('a \<Rightarrow> 'a \<Rightarrow> bool) \<Rightarrow> 'a list \<Rightarrow> 'a list" where
  "sort_by le xs = foldr (insert_by le) xs []"

lemma set_insert_by [simp]: "set (insert_by le x ys) = insert x (set ys)"
  by (induction ys) auto

lemma sort_by_simps [simp]: "sort_by le [] = []" "sort_by le (x # xs) = insert_by le x (sort_by le xs)"
  by (simp_all add: sort_by_def)

lemma set_sort_by [simp]: "set (sort_by le xs) = set xs"
  by (induction xs) simp_all

lemma sort_by_eq_Nil_iff [simp]: "sort_by le xs = [] \<longleftrightarrow> xs = []"
  by (metis set_empty set_sort_by)

lemma sorted_wrt_insert_by:
  assumes "\<And>x y. le x y \<or> le y x" and "\<And>x y z. le x y \<Longrightarrow> le y z \<Longrightarrow> le x z" and "sorted_wrt le ys"
  shows "sorted_wrt le (insert_by le x ys)"
  using assms(3)
proof (induction ys)
  case (Cons y ys)
  then show ?case using assms(1) [of x y] by (auto intro: assms(2))
qed simp

lemma sorted_wrt_sort_by:
  assumes "\<And>x y. le x y \<or> le y x" and "\<And>x y z. le x y \<Longrightarrow> le y z \<Longrightarrow> le x z"
  shows "sorted_wrt le (sort_by le xs)"
  by (induction xs) (auto intro: sorted_wrt_insert_by [OF assms])

lemma sort_by_hd_least:
  assumes "\<And>x y. le x y \<or> le y x" and "\<And>x y z. le x y \<Longrightarrow> le y z \<Longrightarrow> le x z"
    and "sort_by le xs = y # ys" and "x \<in> set xs"
  shows "le y x"
proof -
  have "le y y" using assms(1) by blast
  moreover have "sorted_wrt le (y # ys)" using sorted_wrt_sort_by [where le = le and xs = xs, OF assms(1,2)] assms(3) by simp
  moreover have "x \<in> set (y # ys)" using assms(3,4) set_sort_by [of le xs] by simp
  ultimately show ?thesis by auto
qed

end
