(* ===== verification/Vito_Regex.thy ===== *)
theory Vito_Regex
  imports Vito_Prelude
begin

text \<open>
  The regular expressions of the sources are JavaScript \<open>RegExp\<close> literals.
  This theory gives them a semantics as a relation between positions of the
  subject string and an executable backtracking matcher that enumerates the
  end positions in the order a JavaScript engine tries them, and proves that
  the matcher computes exactly the relation.

  A position carries the code unit before it (\<^const>\<open>None\<close> at the start of the
  subject) and the rest of the subject, which is what \<open>^\<close>, \<open>$\<close>, \<open>\b\<close> and the
  one-character look-around assertions read.
\<close>

section \<open>Syntax\<close>

type_synonym rx_pos = "char option \<times> string"

datatype rx =
    REps
  | RCls "char \<Rightarrow> bool"
  | RSeq rx rx
  | RAlt rx rx
  | RStar rx
  | RLazy rx
  | RBol
  | REol
  | RWordB
  | RNotPrev char
  | RNotNext char

text \<open>Derived forms: literals, optional parts and counted repetition.\<close>

definition RChr :: "char \<Rightarrow> rx" where
  "RChr c = RCls (\<lambda>d. d = c)"

fun RStr :: "string \<Rightarrow> rx" where
  "RStr [] = REps"
| "RStr (c # cs) = RSeq (RChr c) (RStr cs)"

definition ROpt :: "rx \<Rightarrow> rx" where
  "ROpt r = RAlt r REps"

fun RRep :: "nat \<Rightarrow> rx \<Rightarrow> rx" where
  "RRep 0 r = REps"
| "RRep (Suc n) r = RSeq r (RRep n r)"

definition RMin :: "nat \<Rightarrow> rx \<Rightarrow> rx" where
  "RMin n r = RSeq (RRep n r) (RStar r)"

fun RUpTo :: "nat \<Rightarrow> rx \<Rightarrow> rx" where
  "RUpTo 0 r = REps"
| "RUpTo (Suc n) r = ROpt (RSeq r (RUpTo n r))"

definition RBetween :: "nat \<Rightarrow> nat \<Rightarrow> rx \<Rightarrow> rx" where
  "RBetween m n r = RSeq (RRep m r) (RUpTo (n - m) r)"

fun RAlts :: "rx list \<Rightarrow> rx" where
  "RAlts [] = RCls (\<lambda>_. False)"
| "RAlts [r] = r"
| "RAlts (r # rs) = RAlt r (RAlts rs)"

fun RSeqs :: "rx list \<Rightarrow> rx" where
  "RSeqs [] = REps"
| "RSeqs [r] = r"
| "RSeqs (r # rs) = RSeq r (RSeqs rs)"

text \<open>Character classes.  \<open>.\<close> excludes the line terminators LF and CR.\<close>

definition between_chars :: "char \<Rightarrow> char \<Rightarrow> char \<Rightarrow> bool" where
  "between_chars a b c = ((of_char a :: nat) \<le> of_char c \<and> (of_char c :: nat) \<le> of_char b)"

definition is_lower :: "char \<Rightarrow> bool" where
  "is_lower = between_chars (CHR ''a'') (CHR ''z'')"

definition is_upper :: "char \<Rightarrow> bool" where
  "is_upper = between_chars (CHR ''A'') (CHR ''Z'')"

definition is_alnum :: "char \<Rightarrow> bool" where
  "is_alnum c = (is_lower c \<or> is_upper c \<or> is_digit c)"

definition is_word :: "char \<Rightarrow> bool" where
  "is_word c = (is_alnum c \<or> c = CHR ''_'')"

definition is_dot :: "char \<Rightarrow> bool" where
  "is_dot c = (c \<noteq> CHR 0x0A \<and> c \<noteq> CHR 0x0D)"

lemmas char_class_defs = between_chars_def is_lower_def is_upper_def is_alnum_def is_word_def
  is_dot_def is_digit_def js_ws_def

text \<open>The \<open>i\<close> flag: a class accepts a character when it accepts the other ASCII case too.\<close>

definition swap_case :: "char \<Rightarrow> char" where
  "swap_case c =
     (if is_lower c then char_of ((of_char c :: nat) - 32)
      else if is_upper c then char_of ((of_char c :: nat) + 32) else c)"

text \<open>Letters are the codes 65 to 90 and 97 to 122: bit 5 tells the case.\<close>

lemma swap_case_code [code]:
  "swap_case (Char b0 b1 b2 b3 b4 b5 b6 b7) =
     (if b6 \<and> \<not> b7 \<and> (b0 \<or> b1 \<or> b2 \<or> b3 \<or> b4) \<and> \<not> (b4 \<and> b3 \<and> (b2 \<or> b1 \<and> b0))
      then Char b0 b1 b2 b3 b4 (\<not> b5) b6 b7 else Char b0 b1 b2 b3 b4 b5 b6 b7)"
  by (cases b0; cases b1; cases b2; cases b3; cases b4; cases b5; cases b6; cases b7;
      simp add: swap_case_def is_lower_def is_upper_def between_chars_def char_of_def bit_0)

definition icase_cls :: "(char \<Rightarrow> bool) \<Rightarrow> char \<Rightarrow> bool" where
  "icase_cls P c = (P c \<or> P (swap_case c))"

primrec rx_icase :: "rx \<Rightarrow> rx" where
  "rx_icase REps = REps"
| "rx_icase (RCls P) = RCls (icase_cls P)"
| "rx_icase (RSeq r s) = RSeq (rx_icase r) (rx_icase s)"
| "rx_icase (RAlt r s) = RAlt (rx_icase r) (rx_icase s)"
| "rx_icase (RStar r) = RStar (rx_icase r)"
| "rx_icase (RLazy r) = RLazy (rx_icase r)"
| "rx_icase RBol = RBol"
| "rx_icase REol = REol"
| "rx_icase RWordB = RWordB"
| "rx_icase (RNotPrev c) = RNotPrev c"
| "rx_icase (RNotNext c) = RNotNext c"

section \<open>Semantics\<close>

definition word_before :: "rx_pos \<Rightarrow> bool" where
  "word_before p = (case fst p of None \<Rightarrow> False | Some c \<Rightarrow> is_word c)"

definition word_after :: "rx_pos \<Rightarrow> bool" where
  "word_after p = (case snd p of [] \<Rightarrow> False | c # _ \<Rightarrow> is_word c)"

inductive rx_match :: "rx \<Rightarrow> rx_pos \<Rightarrow> rx_pos \<Rightarrow> bool" where
  m_eps: "rx_match REps p p"
| m_cls: "P c \<Longrightarrow> rx_match (RCls P) (b, c # cs) (Some c, cs)"
| m_seq: "rx_match r p q \<Longrightarrow> rx_match s q t \<Longrightarrow> rx_match (RSeq r s) p t"
| m_alt1: "rx_match r p q \<Longrightarrow> rx_match (RAlt r s) p q"
| m_alt2: "rx_match s p q \<Longrightarrow> rx_match (RAlt r s) p q"
| m_star_refl: "rx_match (RStar r) p p"
| m_star_step: "rx_match r p q \<Longrightarrow> rx_match (RStar r) q t \<Longrightarrow> rx_match (RStar r) p t"
| m_lazy_refl: "rx_match (RLazy r) p p"
| m_lazy_step: "rx_match r p q \<Longrightarrow> rx_match (RLazy r) q t \<Longrightarrow> rx_match (RLazy r) p t"
| m_bol: "fst p = None \<Longrightarrow> rx_match RBol p p"
| m_eol: "snd p = [] \<Longrightarrow> rx_match REol p p"
| m_wordb: "word_before p \<noteq> word_after p \<Longrightarrow> rx_match RWordB p p"
| m_notprev: "fst p \<noteq> Some c \<Longrightarrow> rx_match (RNotPrev c) p p"
| m_notnext: "take 1 (snd p) \<noteq> [c] \<Longrightarrow> rx_match (RNotNext c) p p"

inductive_simps rx_match_simps:
  "rx_match REps p q" "rx_match (RCls P) p q" "rx_match (RSeq r s) p q"
  "rx_match (RAlt r s) p q" "rx_match RBol p q" "rx_match REol p q"
  "rx_match RWordB p q" "rx_match (RNotPrev c) p q" "rx_match (RNotNext c) p q"

text \<open>A position only moves forward: the rest after a match is a suffix.\<close>

lemma rx_match_suffix: "rx_match r p q \<Longrightarrow> suffix (snd q) (snd p)"
  by (induction rule: rx_match.induct) (auto intro: suffix_order.trans suffix_ConsI)

lemma suffix_same_length: "suffix xs ys \<Longrightarrow> length ys \<le> length xs \<Longrightarrow> xs = ys"
  by (auto simp: suffix_def)

text \<open>The character before a position is determined by the part consumed.\<close>

lemma rx_match_prev:
  "rx_match r p q \<Longrightarrow> snd q = snd p \<Longrightarrow> fst q = fst p"
proof (induction rule: rx_match.induct)
  case (m_seq r p q s t)
  then have "snd q = snd p"
    by (metis rx_match_suffix suffix_order.antisym)
  with m_seq show ?case by simp
next
  case (m_star_step r p q t)
  then have "snd q = snd p"
    by (metis rx_match_suffix suffix_order.antisym)
  with m_star_step show ?case by simp
next
  case (m_lazy_step r p q t)
  then have "snd q = snd p"
    by (metis rx_match_suffix suffix_order.antisym)
  with m_lazy_step show ?case by simp
qed auto

section \<open>The backtracking matcher\<close>

text \<open>
  One more round of a starred body is only tried after a round that consumed
  something, as the ECMAScript repetition does.
\<close>

function star_ends :: "(rx_pos \<Rightarrow> rx_pos list) \<Rightarrow> rx_pos \<Rightarrow> rx_pos list" where
  "star_ends f p =
     concat (map (\<lambda>q. if length (snd q) < length (snd p) then star_ends f q else []) (f p)) @ [p]"
  by pat_completeness auto
termination
  by (relation "measure (\<lambda>(f, p). length (snd p))") auto

function lazy_ends :: "(rx_pos \<Rightarrow> rx_pos list) \<Rightarrow> rx_pos \<Rightarrow> rx_pos list" where
  "lazy_ends f p =
     p # concat (map (\<lambda>q. if length (snd q) < length (snd p) then lazy_ends f q else []) (f p))"
  by pat_completeness auto
termination
  by (relation "measure (\<lambda>(f, p). length (snd p))") auto

declare star_ends.simps [simp del] lazy_ends.simps [simp del]

primrec rx_ends :: "rx \<Rightarrow> rx_pos \<Rightarrow> rx_pos list" where
  "rx_ends REps p = [p]"
| "rx_ends (RCls P) p = (case snd p of [] \<Rightarrow> [] | c # cs \<Rightarrow> if P c then [(Some c, cs)] else [])"
| "rx_ends (RSeq r s) p = concat (map (rx_ends s) (rx_ends r p))"
| "rx_ends (RAlt r s) p = rx_ends r p @ rx_ends s p"
| "rx_ends (RStar r) p = star_ends (rx_ends r) p"
| "rx_ends (RLazy r) p = lazy_ends (rx_ends r) p"
| "rx_ends RBol p = (if fst p = None then [p] else [])"
| "rx_ends REol p = (if snd p = [] then [p] else [])"
| "rx_ends RWordB p = (if word_before p \<noteq> word_after p then [p] else [])"
| "rx_ends (RNotPrev c) p = (if fst p \<noteq> Some c then [p] else [])"
| "rx_ends (RNotNext c) p = (if take 1 (snd p) \<noteq> [c] then [p] else [])"

lemma in_star_ends:
  "q \<in> set (star_ends f p) \<longleftrightarrow>
     q = p \<or> (\<exists>x \<in> set (f p). length (snd x) < length (snd p) \<and> q \<in> set (star_ends f x))"
  by (subst star_ends.simps) (auto split: if_splits)

lemma in_lazy_ends:
  "q \<in> set (lazy_ends f p) \<longleftrightarrow>
     q = p \<or> (\<exists>x \<in> set (f p). length (snd x) < length (snd p) \<and> q \<in> set (lazy_ends f x))"
  by (subst lazy_ends.simps) (auto split: if_splits)

lemma star_ends_sound:
  assumes "\<And>a b. b \<in> set (f a) \<Longrightarrow> rx_match r a b"
  shows "q \<in> set (star_ends f p) \<Longrightarrow> rx_match (RStar r) p q"
proof (induction "length (snd p)" arbitrary: p rule: less_induct)
  case less
  from less.prems consider "q = p"
    | x where "x \<in> set (f p)" "length (snd x) < length (snd p)" "q \<in> set (star_ends f x)"
    by (auto simp: in_star_ends [of q f p])
  then show ?case
    by cases (auto intro: rx_match.m_star_refl rx_match.m_star_step [OF assms less.hyps])
qed

lemma lazy_ends_sound:
  assumes "\<And>a b. b \<in> set (f a) \<Longrightarrow> rx_match r a b"
  shows "q \<in> set (lazy_ends f p) \<Longrightarrow> rx_match (RLazy r) p q"
proof (induction "length (snd p)" arbitrary: p rule: less_induct)
  case less
  from less.prems consider "q = p"
    | x where "x \<in> set (f p)" "length (snd x) < length (snd p)" "q \<in> set (lazy_ends f x)"
    by (auto simp: in_lazy_ends [of q f p])
  then show ?case
    by cases (auto intro: rx_match.m_lazy_refl rx_match.m_lazy_step [OF assms less.hyps])
qed

lemma rx_ends_sound: "q \<in> set (rx_ends r p) \<Longrightarrow> rx_match r p q"
proof (induction r arbitrary: p q)
  case (RStar r)
  have "rx_match (RStar r) p q" if "q \<in> set (star_ends (rx_ends r) p)"
    using RStar.IH that by (rule star_ends_sound)
  with RStar.prems show ?case by simp
next
  case (RLazy r)
  have "rx_match (RLazy r) p q" if "q \<in> set (lazy_ends (rx_ends r) p)"
    using RLazy.IH that by (rule lazy_ends_sound)
  with RLazy.prems show ?case by simp
next
  case (RCls P)
  then show ?case by (cases p) (auto split: list.splits if_splits intro: rx_match.m_cls)
next
  case (RSeq r s)
  then obtain m where "m \<in> set (rx_ends r p)" "q \<in> set (rx_ends s m)" by auto
  with RSeq.IH show ?case by (blast intro: rx_match.m_seq)
qed (auto split: if_splits intro: rx_match.intros)

lemma star_ends_self: "p \<in> set (star_ends f p)"
  by (simp add: in_star_ends [of p f p])

lemma lazy_ends_self: "p \<in> set (lazy_ends f p)"
  by (simp add: in_lazy_ends [of p f p])

text \<open>A round that consumed nothing left the position unchanged, so it can be dropped.\<close>

lemma rx_match_progress:
  assumes "rx_match r p q"
  shows "q = p \<or> length (snd q) < length (snd p)"
proof -
  have suf: "suffix (snd q) (snd p)" using assms by (rule rx_match_suffix)
  show ?thesis
  proof (cases "length (snd q) < length (snd p)")
    case False
    with suf have "snd q = snd p" by (auto intro: suffix_same_length)
    with assms have "q = p" by (auto dest: rx_match_prev intro: prod_eqI)
    then show ?thesis ..
  qed simp
qed

lemma rx_ends_complete: "rx_match r p q \<Longrightarrow> q \<in> set (rx_ends r p)"
proof (induction rule: rx_match.induct)
  case (m_star_step r p q t)
  show ?case
  proof (cases "q = p")
    case False
    with m_star_step.hyps(1) have "length (snd q) < length (snd p)"
      using rx_match_progress by blast
    with m_star_step.IH show ?thesis by (auto simp: in_star_ends [of t _ p])
  qed (use m_star_step.IH in simp)
next
  case (m_lazy_step r p q t)
  show ?case
  proof (cases "q = p")
    case False
    with m_lazy_step.hyps(1) have "length (snd q) < length (snd p)"
      using rx_match_progress by blast
    with m_lazy_step.IH show ?thesis by (auto simp: in_lazy_ends [of t _ p])
  qed (use m_lazy_step.IH in simp)
qed (auto simp: star_ends_self lazy_ends_self)

theorem rx_ends_iff: "q \<in> set (rx_ends r p) \<longleftrightarrow> rx_match r p q"
  using rx_ends_sound rx_ends_complete by blast

section \<open>Searching a subject\<close>

text \<open>\<open>r.test(s)\<close>: some position of the subject starts a match.\<close>

fun rx_search :: "rx \<Rightarrow> char option \<Rightarrow> string \<Rightarrow> bool" where
  "rx_search r b [] = (rx_ends r (b, []) \<noteq> [])"
| "rx_search r b (c # cs) = (rx_ends r (b, c # cs) \<noteq> [] \<or> rx_search r (Some c) cs)"

definition rx_test :: "rx \<Rightarrow> string \<Rightarrow> bool" where
  "rx_test r s = rx_search r None s"

text \<open>The code unit before the suffix that follows the prefix \<open>u\<close>.\<close>

definition prev_of :: "char option \<Rightarrow> string \<Rightarrow> char option" where
  "prev_of b u = (if u = [] then b else Some (last u))"

lemma prev_of_simps [simp]:
  "prev_of b [] = b" "prev_of b (u @ [c]) = Some c"
  by (simp_all add: prev_of_def)

lemma prev_of_append: "prev_of b (u @ v) = prev_of (prev_of b u) v"
  by (simp add: prev_of_def)

lemma prev_of_Cons: "prev_of b (c # u) = prev_of (Some c) u"
  by (simp add: prev_of_def)

lemma rx_ends_nonempty_iff: "rx_ends r p \<noteq> [] \<longleftrightarrow> (\<exists>q. rx_match r p q)"
  by (metis rx_ends_iff list.set_intros(1) neq_Nil_conv empty_iff list.set(1))

lemma rx_search_iff:
  "rx_search r b s \<longleftrightarrow> (\<exists>u v q. s = u @ v \<and> rx_match r (prev_of b u, v) q)"
proof (induction s arbitrary: b)
  case Nil
  then show ?case by (simp add: rx_ends_nonempty_iff)
next
  case (Cons c cs)
  have "(\<exists>u v q. c # cs = u @ v \<and> rx_match r (prev_of b u, v) q) \<longleftrightarrow>
        (\<exists>q. rx_match r (b, c # cs) q) \<or>
        (\<exists>u v q. cs = u @ v \<and> rx_match r (prev_of (Some c) u, v) q)" (is "?L \<longleftrightarrow> ?A \<or> ?B")
  proof
    assume ?L
    then show "?A \<or> ?B" by (auto simp: Cons_eq_append_conv prev_of_Cons)
  next
    assume "?A \<or> ?B"
    then show ?L
    proof
      assume ?A
      then show ?L by (metis append_Nil prev_of_simps(1))
    next
      assume ?B
      then show ?L by (metis append_Cons prev_of_Cons)
    qed
  qed
  then show ?case by (simp add: Cons.IH rx_ends_nonempty_iff)
qed

theorem rx_test_iff:
  "rx_test r s \<longleftrightarrow> (\<exists>u v q. s = u @ v \<and> rx_match r (prev_of None u, v) q)"
  by (simp add: rx_test_def rx_search_iff)

lemma rx_testI: "s = u @ v \<Longrightarrow> rx_match r (prev_of None u, v) q \<Longrightarrow> rx_test r s"
  unfolding rx_test_iff by blast

section \<open>Matching facts for the derived forms\<close>

lemma rx_match_RChr [simp]:
  "rx_match (RChr c) p q \<longleftrightarrow> (\<exists>cs. snd p = c # cs \<and> q = (Some c, cs))"
  by (cases p) (auto simp: RChr_def rx_match_simps)

lemma rx_match_RStr:
  "rx_match (RStr w) p q \<longleftrightarrow> (\<exists>v. snd p = w @ v \<and> q = (prev_of (fst p) w, v))"
proof (induction w arbitrary: p)
  case Nil
  then show ?case by (cases p) (auto simp: rx_match_simps)
next
  case (Cons c w)
  show ?case by (cases p) (auto simp: rx_match_simps Cons.IH prev_of_Cons)
qed

lemma rx_match_ROpt: "rx_match (ROpt r) p q \<longleftrightarrow> rx_match r p q \<or> q = p"
  by (auto simp: ROpt_def rx_match_simps)

lemma rx_match_star_cls:
  assumes "\<forall>c \<in> set w. P c"
  shows "rx_match (RStar (RCls P)) (b, w @ v) (prev_of b w, v)"
  using assms
proof (induction w arbitrary: b)
  case Nil
  then show ?case by (simp add: rx_match.m_star_refl)
next
  case (Cons c w)
  then have "rx_match (RStar (RCls P)) (Some c, w @ v) (prev_of (Some c) w, v)" by simp
  with Cons.prems show ?case
    by (auto simp: prev_of_Cons intro: rx_match.m_star_step rx_match.m_cls)
qed

lemma rx_match_star_cls_iff:
  "rx_match (RStar (RCls P)) p q \<longleftrightarrow>
     (\<exists>w v. snd p = w @ v \<and> (\<forall>c \<in> set w. P c) \<and> q = (prev_of (fst p) w, v))"
proof
  assume "rx_match (RStar (RCls P)) p q"
  then show "\<exists>w v. snd p = w @ v \<and> (\<forall>c \<in> set w. P c) \<and> q = (prev_of (fst p) w, v)"
  proof (induction "RStar (RCls P)" p q rule: rx_match.induct)
    case (m_star_refl p)
    then show ?case by (intro exI [of _ "[]"] exI [of _ "snd p"]) simp
  next
    case (m_star_step p q t)
    then obtain c cs w v where "snd p = c # cs" "P c" "q = (Some c, cs)"
      "cs = w @ v" "\<forall>c \<in> set w. P c" "t = (prev_of (Some c) w, v)"
      by (cases p) (auto simp: rx_match_simps)
    then show ?case by (intro exI [of _ "c # w"] exI [of _ v]) (simp add: prev_of_Cons)
  qed
next
  assume "\<exists>w v. snd p = w @ v \<and> (\<forall>c \<in> set w. P c) \<and> q = (prev_of (fst p) w, v)"
  then show "rx_match (RStar (RCls P)) p q"
    using rx_match_star_cls by (cases p) auto
qed

lemma rx_match_rep_cls:
  assumes "length w = n" and "\<forall>c \<in> set w. P c"
  shows "rx_match (RRep n (RCls P)) (b, w @ v) (prev_of b w, v)"
  using assms
proof (induction n arbitrary: w b)
  case (Suc n)
  then obtain c w' where w: "w = c # w'" by (cases w) auto
  with Suc.prems have "rx_match (RRep n (RCls P)) (Some c, w' @ v) (prev_of (Some c) w', v)"
    by (intro Suc.IH) auto
  then show ?case using Suc.prems w
    by (auto simp: prev_of_Cons intro: rx_match.m_seq rx_match.m_cls)
qed (simp add: rx_match.m_eps)

lemma rx_match_min_cls:
  assumes "n \<le> length w" and "\<forall>c \<in> set w. P c"
  shows "rx_match (RMin n (RCls P)) (b, w @ v) (prev_of b w, v)"
proof -
  let ?x = "take n w" and ?y = "drop n w"
  have "rx_match (RRep n (RCls P)) (b, ?x @ (?y @ v)) (prev_of b ?x, ?y @ v)"
    using assms by (intro rx_match_rep_cls) (auto dest: in_set_takeD)
  moreover have "rx_match (RStar (RCls P)) (prev_of b ?x, ?y @ v) (prev_of (prev_of b ?x) ?y, v)"
    using assms by (intro rx_match_star_cls) (auto dest: in_set_dropD)
  ultimately have "rx_match (RMin n (RCls P)) (b, ?x @ (?y @ v)) (prev_of b (?x @ ?y), v)"
    unfolding RMin_def prev_of_append by (rule rx_match.m_seq)
  then show ?thesis by (simp only: append_assoc [symmetric] append_take_drop_id)
qed

section \<open>Replacing the first match\<close>

text \<open>
  \<open>s.replace(r, t)\<close> without the global flag: the leftmost position that
  matches, with the end the engine finds first.
\<close>

fun rx_replace_at :: "rx \<Rightarrow> string \<Rightarrow> char option \<Rightarrow> string \<Rightarrow> string" where
  "rx_replace_at r t b s =
     (case rx_ends r (b, s) of
        q # _ \<Rightarrow> t @ snd q
      | [] \<Rightarrow> (case s of [] \<Rightarrow> [] | c # cs \<Rightarrow> c # rx_replace_at r t (Some c) cs))"

declare rx_replace_at.simps [simp del]

definition rx_replace_first :: "rx \<Rightarrow> string \<Rightarrow> string \<Rightarrow> string" where
  "rx_replace_first r t s = rx_replace_at r t None s"

lemma rx_replace_first_no_match: "\<not> rx_test r s \<Longrightarrow> rx_replace_first r t s = s"
proof -
  have "\<not> rx_search r b s \<Longrightarrow> rx_replace_at r t b s = s" for b
    by (induction s arbitrary: b) (auto simp: rx_replace_at.simps)
  then show "\<not> rx_test r s \<Longrightarrow> rx_replace_first r t s = s"
    by (simp add: rx_test_def rx_replace_first_def)
qed

end
