(* ===== verification/Vito_PolicyTypes.thy ===== *)
theory Vito_PolicyTypes
  imports Vito_Prelude
begin

text \<open>
  The data of the execution policy boundary, \<open>execution-policy.ts\<close>: profiles,
  actions, reason codes with their messages, the policy configuration with its
  two factory functions, the evaluation context and the decision.  At run time
  a profile or an action is a string that need not be an enum value, and the
  engine checks for that, so both types have a constructor for such a string.
  A \<open>Date\<close> is its time value in milliseconds.
\<close>

datatype ExecutionProfile =
    BUILDER | REVIEWER | ORCHESTRATOR | RELEASE_AUTHORITY | UnknownProfile string

datatype ExecutionAction =
    READ_FILE | WRITE_FILE | CREATE_FILE | DELETE_FILE | RUN_COMMAND | NETWORK_ACCESS
  | READ_SECRET | GIT_READ | GIT_COMMIT | GIT_PUSH | GIT_MERGE | GIT_REBASE
  | GIT_BRANCH_DELETE | REMOTE_REF_DELETE | UnknownAction string

definition known_profile :: "ExecutionProfile \<Rightarrow> bool" where
  "known_profile p = (p \<in> {BUILDER, REVIEWER, ORCHESTRATOR, RELEASE_AUTHORITY})"

definition known_action :: "ExecutionAction \<Rightarrow> bool" where
  "known_action a = (a \<in> {READ_FILE, WRITE_FILE, CREATE_FILE, DELETE_FILE, RUN_COMMAND,
     NETWORK_ACCESS, READ_SECRET, GIT_READ, GIT_COMMIT, GIT_PUSH, GIT_MERGE, GIT_REBASE,
     GIT_BRANCH_DELETE, REMOTE_REF_DELETE})"

datatype PolicyReasonCode =
    POLICY_ALLOWED | POLICY_MISSING | POLICY_INVALID | EXECUTION_PROFILE_UNKNOWN
  | ACTION_UNKNOWN | PATH_OUTSIDE_ALLOWED_ROOT | PATH_EXPLICITLY_DENIED
  | PATH_TRAVERSAL_REJECTED | HOME_ACCESS_DENIED | SECRET_ACCESS_DENIED
  | REVIEWER_WRITE_DENIED | COMMAND_NOT_ALLOWED | GIT_COMMIT_DENIED | GIT_PUSH_DENIED
  | GIT_MERGE_DENIED | GIT_REBASE_DENIED | GIT_BRANCH_DELETE_DENIED
  | REMOTE_REF_DELETE_DENIED | NETWORK_ACCESS_DENIED | RELEASE_GATE_NOT_APPROVED
  | EXECUTION_TIMEOUT | EXECUTION_BUDGET_EXCEEDED

fun POLICY_REASON_MESSAGES :: "PolicyReasonCode \<Rightarrow> string" where
  "POLICY_REASON_MESSAGES POLICY_ALLOWED = ''Action is permitted by policy.''"
| "POLICY_REASON_MESSAGES POLICY_MISSING = ''No execution policy is defined for this context.''"
| "POLICY_REASON_MESSAGES POLICY_INVALID = ''Policy definition is malformed or unresolvable.''"
| "POLICY_REASON_MESSAGES EXECUTION_PROFILE_UNKNOWN = ''Execution profile is not recognized.''"
| "POLICY_REASON_MESSAGES ACTION_UNKNOWN = ''Requested action is not recognized.''"
| "POLICY_REASON_MESSAGES PATH_OUTSIDE_ALLOWED_ROOT =
     ''Requested path is outside the allowed root.''"
| "POLICY_REASON_MESSAGES PATH_EXPLICITLY_DENIED =
     ''Requested path matches an explicitly denied path pattern.''"
| "POLICY_REASON_MESSAGES PATH_TRAVERSAL_REJECTED =
     ''Path traversal attempt detected and rejected.''"
| "POLICY_REASON_MESSAGES HOME_ACCESS_DENIED = ''Unrestricted HOME access is denied.''"
| "POLICY_REASON_MESSAGES SECRET_ACCESS_DENIED = ''Access to secrets is denied.''"
| "POLICY_REASON_MESSAGES REVIEWER_WRITE_DENIED =
     ''Reviewer profile may not write production/source files.''"
| "POLICY_REASON_MESSAGES COMMAND_NOT_ALLOWED = ''Command is not classified as allowed.''"
| "POLICY_REASON_MESSAGES GIT_COMMIT_DENIED =
     ''Git commit is denied before approved release gate.''"
| "POLICY_REASON_MESSAGES GIT_PUSH_DENIED = ''Git push is denied before approved release gate.''"
| "POLICY_REASON_MESSAGES GIT_MERGE_DENIED = ''Git merge is denied in EO-01 v0.1.''"
| "POLICY_REASON_MESSAGES GIT_REBASE_DENIED = ''Git rebase is denied in EO-01 v0.1.''"
| "POLICY_REASON_MESSAGES GIT_BRANCH_DELETE_DENIED = ''Git branch deletion is denied.''"
| "POLICY_REASON_MESSAGES REMOTE_REF_DELETE_DENIED = ''Remote ref deletion is denied.''"
| "POLICY_REASON_MESSAGES NETWORK_ACCESS_DENIED =
     ''Network access requires explicit policy grant.''"
| "POLICY_REASON_MESSAGES RELEASE_GATE_NOT_APPROVED = ''Release gate is not approved.''"
| "POLICY_REASON_MESSAGES EXECUTION_TIMEOUT = ''Execution exceeded maximum allowed duration.''"
| "POLICY_REASON_MESSAGES EXECUTION_BUDGET_EXCEEDED =
     ''Execution exceeded budget constraints.''"

datatype ReleaseGateStatus = NOT_REQUESTED | PENDING | APPROVED | REJECTED

datatype ExecutionOutcome =
    OUTCOME_POLICY_BLOCKED | OUTCOME_TIMED_OUT | OUTCOME_QUOTA_BLOCKED | OUTCOME_CANCELLED

record ExecutionPolicyConfig =
  policyVersion :: string
  allowedRoot :: string
  deniedPaths :: "string list"
  allowedCommands :: "string list"
  trustedCodingAgentAliases :: "string list option"
  trustedReviewerAgentAliases :: "string list option"
  allowNetwork :: bool
  allowSecrets :: bool
  allowGitCommit :: bool
  allowGitPush :: bool
  allowMerge :: bool
  allowRebase :: bool
  allowBranchDelete :: bool
  maxDurationMs :: "int option"
  maxTokens :: "int option"
  maxCostMinorUnits :: "int option"

record PolicyEvaluationContext =
  executionProfile :: ExecutionProfile
  requestedAction :: ExecutionAction
  requestedPath :: "string option"
  requestedCommand :: "string option"
  homeDir :: "string option"
  policy :: "ExecutionPolicyConfig option"
  releaseGateStatus :: "ReleaseGateStatus option"
  organizationId :: "string option"
  workflowRunId :: "string option"
  workflowStepRunId :: "string option"
  correlationId :: "string option"

text \<open>The decision without its verdict (\<open>base\<close> in the source), and with it.\<close>

record PolicyDecisionBase =
  d_executionProfile :: ExecutionProfile
  d_requestedAction :: ExecutionAction
  d_requestedPath :: "string option"
  d_normalizedPath :: "string option"
  d_requestedCommand :: "string option"
  d_policyVersion :: string
  d_evaluatedAt :: int
  d_organizationId :: "string option"
  d_workflowRunId :: "string option"
  d_workflowStepRunId :: "string option"
  d_correlationId :: "string option"

record PolicyDecision = PolicyDecisionBase +
  allowed :: bool
  reasonCode :: PolicyReasonCode
  reason :: string

definition allow :: "PolicyDecisionBase \<Rightarrow> string \<Rightarrow> PolicyDecision" where
  "allow b r = PolicyDecisionBase.extend b
     (PolicyDecision.fields True POLICY_ALLOWED r)"

definition deny :: "PolicyDecisionBase \<Rightarrow> PolicyReasonCode \<Rightarrow> string \<Rightarrow> PolicyDecision" where
  "deny b c r = PolicyDecisionBase.extend b (PolicyDecision.fields False c r)"

lemma allow_simps [simp]:
  "allowed (allow b r)" "reasonCode (allow b r) = POLICY_ALLOWED" "reason (allow b r) = r"
  "d_normalizedPath (allow b r) = d_normalizedPath b"
  "d_executionProfile (allow b r) = d_executionProfile b"
  "d_requestedAction (allow b r) = d_requestedAction b"
  by (simp_all add: allow_def PolicyDecision.defs PolicyDecisionBase.defs)

lemma deny_simps [simp]:
  "\<not> allowed (deny b c r)" "reasonCode (deny b c r) = c" "reason (deny b c r) = r"
  "d_normalizedPath (deny b c r) = d_normalizedPath b"
  "d_executionProfile (deny b c r) = d_executionProfile b"
  "d_requestedAction (deny b c r) = d_requestedAction b"
  by (simp_all add: deny_def PolicyDecision.defs PolicyDecisionBase.defs)

section \<open>The default policies\<close>

definition createBuilderPolicy :: "string \<Rightarrow> ExecutionPolicyConfig" where
  "createBuilderPolicy worktreeRoot = \<lparr>
     policyVersion = ''eo-01.4-v1'',
     allowedRoot = worktreeRoot,
     deniedPaths = [''.env'', ''.env.*'', ''.ssh/'', ''.gnupg/'', ''.aws/''],
     allowedCommands = [
       ''git status'', ''git diff'', ''git show'', ''git log'', ''git rev-parse'',
       ''git branch --show-current'',
       ''npm test'', ''npm run test'', ''npm run build'', ''npm run lint'',
       ''yarn test'', ''yarn run test'', ''yarn run build'', ''yarn run lint'',
       ''pnpm test'', ''pnpm run test'', ''pnpm run build'', ''pnpm run lint'',
       ''tsc'', ''eslint'', ''prettier'', ''jest'', ''vitest'',
       ''npx prisma generate'', ''prisma generate''],
     trustedCodingAgentAliases = None,
     trustedReviewerAgentAliases = None,
     allowNetwork = False, allowSecrets = False, allowGitCommit = False, allowGitPush = False,
     allowMerge = False, allowRebase = False, allowBranchDelete = False,
     maxDurationMs = None, maxTokens = None, maxCostMinorUnits = None\<rparr>"

definition createReviewerPolicy :: "string \<Rightarrow> ExecutionPolicyConfig" where
  "createReviewerPolicy worktreeRoot = \<lparr>
     policyVersion = ''eo-01.4-v1'',
     allowedRoot = worktreeRoot,
     deniedPaths = [''.env'', ''.env.*'', ''.ssh/'', ''.gnupg/'', ''.aws/''],
     allowedCommands = [
       ''git status'', ''git diff'', ''git show'', ''git log'', ''git rev-parse'',
       ''git branch --show-current'',
       ''npm test'', ''npm run test'', ''npm run lint'',
       ''yarn test'', ''yarn run test'', ''yarn run lint'',
       ''pnpm test'', ''pnpm run test'', ''pnpm run lint'',
       ''jest'', ''vitest''],
     trustedCodingAgentAliases = None,
     trustedReviewerAgentAliases = None,
     allowNetwork = False, allowSecrets = False, allowGitCommit = False, allowGitPush = False,
     allowMerge = False, allowRebase = False, allowBranchDelete = False,
     maxDurationMs = None, maxTokens = None, maxCostMinorUnits = None\<rparr>"

end
