(* ===== verification/Vito_CommandPolicy.thy ===== *)
theory Vito_CommandPolicy
  imports Vito_Regex Vito_PolicyTypes
begin

text \<open>
  The command classifier of \<open>execution-policy.ts\<close>: the shell-style tokenizer,
  the detection of dangerous shell patterns and shell wrappers, the splitting
  of a command line at its chain operators, and the classification of a
  single command, of a git command and of a whole command line.  A loop over
  the characters with mutable flags is a recursion that carries the flags.
\<close>

section \<open>The tokenizer\<close>

abbreviation ch_backslash :: char where "ch_backslash \<equiv> CHR 0x5C"
abbreviation ch_squote :: char where "ch_squote \<equiv> CHR 0x27"
abbreviation ch_dquote :: char where "ch_dquote \<equiv> CHR 0x22"
abbreviation ch_backtick :: char where "ch_backtick \<equiv> CHR 0x60"
abbreviation ch_newline :: char where "ch_newline \<equiv> CHR 0x0A"

text \<open>Arguments: inSingleQuote, inDoubleQuote, escaped, current, the rest of the command.\<close>

fun tokenize_loop :: "bool \<Rightarrow> bool \<Rightarrow> bool \<Rightarrow> string \<Rightarrow> string \<Rightarrow> string list" where
  "tokenize_loop sq dq esc current [] = (if current \<noteq> [] then [current] else [])"
| "tokenize_loop sq dq esc current (ch # rest) =
     (if esc then tokenize_loop sq dq False (current @ [ch]) rest
      else if ch = ch_backslash \<and> \<not> sq then tokenize_loop sq dq True current rest
      else if ch = ch_squote \<and> \<not> dq then tokenize_loop (\<not> sq) dq False current rest
      else if ch = ch_dquote \<and> \<not> sq then tokenize_loop sq (\<not> dq) False current rest
      else if js_ws ch \<and> \<not> sq \<and> \<not> dq
      then (if current \<noteq> [] then current # tokenize_loop sq dq False [] rest
            else tokenize_loop sq dq False [] rest)
      else tokenize_loop sq dq False (current @ [ch]) rest)"

definition tokenizeCommand :: "string \<Rightarrow> string list" where
  "tokenizeCommand command = tokenize_loop False False False [] command"

section \<open>Dangerous patterns\<close>

text \<open>The scan for an unquoted redirection; it does not know the backslash escape.\<close>

fun redirect_scan :: "bool \<Rightarrow> bool \<Rightarrow> string \<Rightarrow> bool" where
  "redirect_scan sq dq [] = False"
| "redirect_scan sq dq (ch # rest) =
     (if ch = ch_squote \<and> \<not> dq then redirect_scan (\<not> sq) dq rest
      else if ch = ch_dquote \<and> \<not> sq then redirect_scan sq (\<not> dq) rest
      else if sq \<or> dq then redirect_scan sq dq rest
      else if ch = CHR ''>'' \<or> ch = CHR ''<'' then True
      else redirect_scan sq dq rest)"

definition rx_dollar_paren :: rx where
  "rx_dollar_paren = RStr ''$(''"

definition rx_backticks :: rx where
  "rx_backticks = RSeqs [RChr ch_backtick, RMin 1 (RCls (\<lambda>c. c \<noteq> ch_backtick)), RChr ch_backtick]"

definition rx_process_subst :: rx where
  "rx_process_subst = RSeq (RCls (\<lambda>c. c = CHR ''<'' \<or> c = CHR ''>'')) (RChr (CHR ''(''))"

definition rx_newline :: rx where
  "rx_newline = RChr ch_newline"

definition rx_background :: rx where
  "rx_background = RSeqs [RNotPrev (CHR ''&''), RChr (CHR ''&''), RNotNext (CHR ''&'')]"

definition detectDangerousPatterns :: "string \<Rightarrow> bool" where
  "detectDangerousPatterns command =
     (redirect_scan False False command \<or>
      rx_test rx_dollar_paren command \<or> rx_test rx_backticks command \<or>
      rx_test rx_process_subst command \<or>
      rx_test rx_newline command \<or>
      rx_test rx_background command)"

definition rx_shell_wrapper :: rx where
  "rx_shell_wrapper = RSeqs [RBol,
     RAlts (map RStr [''sh'', ''bash'', ''zsh'', ''dash'', ''ksh'']),
     RMin 1 (RCls js_ws), RStr ''-c'', RMin 1 (RCls js_ws)]"

definition detectShellWrappers :: "string \<Rightarrow> bool" where
  "detectShellWrappers command = rx_test rx_shell_wrapper (js_trim command)"

section \<open>Splitting at the chain operators\<close>

definition push_trimmed :: "string \<Rightarrow> string list \<Rightarrow> string list" where
  "push_trimmed current commands =
     (if js_trim current \<noteq> [] then js_trim current # commands else commands)"

fun chain_loop :: "bool \<Rightarrow> bool \<Rightarrow> string \<Rightarrow> string \<Rightarrow> string list" where
  "chain_loop sq dq current [] = push_trimmed current []"
| "chain_loop sq dq current (ch # rest) =
     (if ch = ch_squote \<and> \<not> dq then chain_loop (\<not> sq) dq (current @ [ch]) rest
      else if ch = ch_dquote \<and> \<not> sq then chain_loop sq (\<not> dq) (current @ [ch]) rest
      else if sq \<or> dq then chain_loop sq dq (current @ [ch]) rest
      else if ch = CHR ''&'' \<and> take 1 rest = [CHR ''&'']
      then push_trimmed current (chain_loop sq dq [] (drop 1 rest))
      else if ch = CHR ''|'' \<and> take 1 rest = [CHR ''|'']
      then push_trimmed current (chain_loop sq dq [] (drop 1 rest))
      else if ch = CHR '';'' then push_trimmed current (chain_loop sq dq [] rest)
      else if ch = CHR ''|'' then push_trimmed current (chain_loop sq dq [] rest)
      else chain_loop sq dq (current @ [ch]) rest)"

definition splitShellChains :: "string \<Rightarrow> string list" where
  "splitShellChains command = chain_loop False False [] (js_trim command)"

section \<open>Classification\<close>

type_synonym verdict_pair = "bool \<times> PolicyReasonCode"

abbreviation ok_cmd :: verdict_pair where "ok_cmd \<equiv> (True, POLICY_ALLOWED)"
abbreviation bad_cmd :: verdict_pair where "bad_cmd \<equiv> (False, COMMAND_NOT_ALLOWED)"

text \<open>\<open>tokens[i]\<close>, which is \<open>undefined\<close> past the end.\<close>

definition tok_at :: "string list \<Rightarrow> nat \<Rightarrow> string option" where
  "tok_at tokens i = (if i < length tokens then Some (tokens ! i) else None)"

definition SAFE_GIT_SUBCOMMANDS :: "string list" where
  "SAFE_GIT_SUBCOMMANDS = [''status'', ''diff'', ''show'', ''log'', ''rev-parse'']"

definition GIT_BRANCH_DELETE_FLAGS :: "string list" where
  "GIT_BRANCH_DELETE_FLAGS = [''-D'', ''-d'']"

definition GIT_PUSH_DELETE_FLAGS :: "string list" where
  "GIT_PUSH_DELETE_FLAGS = [''--delete'']"

definition safe_scripts :: "string list" where
  "safe_scripts = [''test'', ''build'', ''lint'', ''typecheck'', ''check'', ''generate'']"

definition matchAgainstAllowed :: "string list \<Rightarrow> string list \<Rightarrow> bool" where
  "matchAgainstAllowed tokens allowedCmds =
     (if tokens = [] then False
      else
        (let firstToken = tokens ! 0; fullCommand = js_join '' '' tokens;
             yarnScript = (if tok_at tokens 1 = Some ''run'' then tok_at tokens 2 else tok_at tokens 1)
         in fullCommand \<in> set allowedCmds \<or>
            (\<exists>a \<in> set allowedCmds. fullCommand = a \<or> js_starts_with fullCommand (a @ '' '')) \<or>
            (firstToken = ''pnpm'' \<and> tok_at tokens 1 = Some ''run'' \<and> 3 \<le> length tokens \<and>
             tokens ! 2 \<in> set safe_scripts) \<or>
            (firstToken = ''npm'' \<and> tok_at tokens 1 = Some ''run'' \<and> 3 \<le> length tokens \<and>
             tokens ! 2 \<in> set safe_scripts) \<or>
            (firstToken = ''yarn'' \<and> (tok_at tokens 1 = Some ''run'' \<or> length tokens = 2) \<and>
             truthy yarnScript \<and> the yarnScript \<in> set safe_scripts)))"

definition buildEffectiveAllowedCommands :: "ExecutionPolicyConfig \<Rightarrow> string list" where
  "buildEffectiveAllowedCommands pol = allowedCommands pol"

definition classifyGitCommand ::
  "string list \<Rightarrow> ExecutionProfile \<Rightarrow> ExecutionPolicyConfig \<Rightarrow> verdict_pair" where
  "classifyGitCommand tokens profile pol =
     (if length tokens < 2 then bad_cmd
      else
        (let subcommand = tokens ! 1; args = drop 2 tokens in
         if subcommand \<in> set SAFE_GIT_SUBCOMMANDS then ok_cmd
         else if subcommand = ''branch'' \<and> ''--show-current'' \<in> set args then ok_cmd
         else if subcommand = ''branch'' then
           (if \<exists>f \<in> set GIT_BRANCH_DELETE_FLAGS. f \<in> set args
            then (False, GIT_BRANCH_DELETE_DENIED) else ok_cmd)
         else if subcommand = ''commit'' then (False, GIT_COMMIT_DENIED)
         else if subcommand = ''push'' then
           (if \<exists>f \<in> set GIT_PUSH_DELETE_FLAGS. f \<in> set args then (False, REMOTE_REF_DELETE_DENIED)
            else if \<exists>a \<in> set args. js_starts_with a '':'' then (False, REMOTE_REF_DELETE_DENIED)
            else (False, GIT_PUSH_DENIED))
         else if subcommand = ''merge'' then (False, GIT_MERGE_DENIED)
         else if subcommand = ''rebase'' then (False, GIT_REBASE_DENIED)
         else bad_cmd))"

definition classifySingleCommand ::
  "string \<Rightarrow> ExecutionProfile \<Rightarrow> ExecutionPolicyConfig \<Rightarrow> verdict_pair" where
  "classifySingleCommand command profile pol =
     (let trimmed = js_trim command in
      if trimmed = [] then bad_cmd
      else if detectShellWrappers trimmed then bad_cmd
      else if detectDangerousPatterns trimmed then bad_cmd
      else
        (let tokens = tokenizeCommand trimmed in
         if tokens = [] then bad_cmd
         else
           (let firstToken = tokens ! 0 in
            if firstToken = ''git'' then classifyGitCommand tokens profile pol
            else if firstToken = ''node'' \<and>
              ((\<exists>t \<in> set tokens. t \<in> {''-e'', ''--eval'', ''--input-type''}) \<or>
               \<not> (1 < length tokens \<and> tokens ! 1 = ''--version'')) then bad_cmd
            else if firstToken = ''npx'' then
              (if 3 \<le> length tokens \<and> tokens ! 1 = ''prisma'' \<and> tokens ! 2 = ''generate''
               then ok_cmd else bad_cmd)
            else if firstToken = ''npm'' \<and> tok_at tokens 1 = Some ''exec'' then bad_cmd
            else if firstToken = ''pnpm'' \<and> tok_at tokens 1 = Some ''exec'' then bad_cmd
            else if firstToken = ''yarn'' \<and> tok_at tokens 1 = Some ''dlx'' then bad_cmd
            else if matchAgainstAllowed tokens (buildEffectiveAllowedCommands pol) then ok_cmd
            else bad_cmd)))"

text \<open>The loop over the chained commands returns the first refusal.\<close>

fun classify_chain ::
  "ExecutionProfile \<Rightarrow> ExecutionPolicyConfig \<Rightarrow> string list \<Rightarrow> verdict_pair" where
  "classify_chain profile pol [] = ok_cmd"
| "classify_chain profile pol (cmd # cmds) =
     (if detectShellWrappers cmd then bad_cmd
      else if detectDangerousPatterns cmd then bad_cmd
      else (let result = classifySingleCommand cmd profile pol in
            if \<not> fst result then result else classify_chain profile pol cmds))"

definition alias_match :: "string list option \<Rightarrow> string \<Rightarrow> bool" where
  "alias_match aliases cmd = (case aliases of None \<Rightarrow> False | Some as \<Rightarrow> as \<noteq> [] \<and> cmd \<in> set as)"

definition classifyCommand ::
  "string \<Rightarrow> ExecutionProfile \<Rightarrow> ExecutionPolicyConfig \<Rightarrow> verdict_pair" where
  "classifyCommand command profile pol =
     (let trimmed = js_trim command in
      if detectShellWrappers trimmed then bad_cmd
      else if detectDangerousPatterns trimmed then bad_cmd
      else if profile = BUILDER \<and> alias_match (trustedCodingAgentAliases pol) trimmed then ok_cmd
      else if profile = REVIEWER \<and> alias_match (trustedReviewerAgentAliases pol) trimmed then ok_cmd
      else classify_chain profile pol (splitShellChains trimmed))"

section \<open>Text outside quotes\<close>

text \<open>
  Quoting as the chain splitter and the redirection scan see it: the flags
  after one more code unit, and whether a code unit stands outside quotes.
\<close>

definition quote_next :: "bool \<times> bool \<Rightarrow> char \<Rightarrow> bool \<times> bool" where
  "quote_next st ch =
     (if ch = ch_squote \<and> \<not> snd st then (\<not> fst st, snd st)
      else if ch = ch_dquote \<and> \<not> fst st then (fst st, \<not> snd st) else st)"

definition visible :: "bool \<times> bool \<Rightarrow> char \<Rightarrow> bool" where
  "visible st ch = (st = (False, False) \<and> ch \<noteq> ch_squote \<and> ch \<noteq> ch_dquote)"

fun unquoted :: "bool \<times> bool \<Rightarrow> string \<Rightarrow> string" where
  "unquoted st [] = []"
| "unquoted st (ch # rest) =
     (if visible st ch then ch # unquoted (quote_next st ch) rest
      else unquoted (quote_next st ch) rest)"

abbreviation outside_quotes :: "string \<Rightarrow> string" where
  "outside_quotes s \<equiv> unquoted (False, False) s"

text \<open>No unquoted separator and no unquoted \<open>&&\<close>.\<close>

definition chain_free :: "char \<Rightarrow> string \<Rightarrow> bool" where
  "chain_free ch rest =
     (ch \<notin> {CHR '';'', CHR ''|''} \<and> \<not> (ch = CHR ''&'' \<and> take 1 rest = [CHR ''&'']))"

fun unchained :: "bool \<times> bool \<Rightarrow> string \<Rightarrow> bool" where
  "unchained st [] = True"
| "unchained st (ch # rest) =
     ((visible st ch \<longrightarrow> chain_free ch rest) \<and> unchained (quote_next st ch) rest)"

lemma quote_next_visible [simp]: "visible st ch \<Longrightarrow> quote_next st ch = st"
  by (simp add: visible_def quote_next_def)

lemma visible_ampersand: "visible st (CHR ''&'') \<longleftrightarrow> st = (False, False)"
  by (simp add: visible_def)

lemma quote_next_ampersand [simp]: "quote_next st (CHR ''&'') = st"
  by (simp add: quote_next_def)

lemma chain_loop_hidden:
  assumes "\<not> visible (sq, dq) ch"
  shows "chain_loop sq dq cur (ch # rest) =
     (case quote_next (sq, dq) ch of (sq', dq') \<Rightarrow> chain_loop sq' dq' (cur @ [ch]) rest)"
  using assms by (cases sq; cases dq) (auto simp: visible_def quote_next_def)

lemma chain_loop_visible:
  assumes "visible (sq, dq) ch"
  shows "chain_loop sq dq cur (ch # rest) =
     (if chain_free ch rest then chain_loop sq dq (cur @ [ch]) rest
      else push_trimmed cur (chain_loop sq dq []
        (if take 1 rest = [ch] \<and> ch \<noteq> CHR '';'' then drop 1 rest else rest)))"
  using assms by (auto simp: visible_def chain_free_def)

lemma unchained_append1: "unchained st (s @ t) \<Longrightarrow> unchained st s"
proof (induction s arbitrary: st)
  case (Cons ch s)
  have "chain_free ch (s @ t) \<Longrightarrow> chain_free ch s" by (cases s) (auto simp: chain_free_def)
  with Cons.prems Cons.IH [of "quote_next st ch"] show ?case by auto
qed simp

lemma unchained_drop_ws:
  "unchained (False, False) s \<Longrightarrow> unchained (False, False) (dropWhile js_ws s)"
proof (induction s)
  case (Cons ch s)
  have "quote_next (False, False) ch = (False, False)" if "js_ws ch"
    using that by (auto simp: quote_next_def js_ws_def)
  with Cons show ?case by auto
qed simp

lemma unchained_trim: "unchained (False, False) s \<Longrightarrow> unchained (False, False) (js_trim s)"
proof -
  assume "unchained (False, False) s"
  then have u: "unchained (False, False) (dropWhile js_ws s)" by (rule unchained_drop_ws)
  have "suffix (dropWhile js_ws (rev (dropWhile js_ws s))) (rev (dropWhile js_ws s))"
    by (rule suffix_dropWhile)
  then have "prefix (js_trim s) (dropWhile js_ws s)"
    by (simp add: js_trim_def suffix_to_prefix)
  with u show ?thesis by (metis prefix_def unchained_append1)
qed

lemma unchained_snoc:
  "unchained st (s @ [c]) \<longleftrightarrow> unchained st s \<and>
     (visible (foldl quote_next st s) c \<longrightarrow>
        chain_free c [] \<and> \<not> (c = CHR ''&'' \<and> s \<noteq> [] \<and> last s = CHR ''&''))"
proof (induction s arbitrary: st)
  case (Cons ch s)
  show ?case
  proof (cases s)
    case Nil
    then show ?thesis by (auto simp: chain_free_def visible_ampersand)
  next
    case (Cons d s')
    then have "chain_free ch (s @ [c]) = chain_free ch s" "s \<noteq> []" by (simp_all add: chain_free_def)
    with Cons.IH [of "quote_next st ch"] show ?thesis by simp
  qed
qed (simp add: chain_free_def)

lemma chain_loop_unchained:
  "p \<in> set (chain_loop sq dq cur rest) \<Longrightarrow> unchained (False, False) cur \<Longrightarrow>
   foldl quote_next (False, False) cur = (sq, dq) \<Longrightarrow>
   \<not> ((sq, dq) = (False, False) \<and> cur \<noteq> [] \<and> last cur = CHR ''&'' \<and> take 1 rest = [CHR ''&'']) \<Longrightarrow>
   unchained (False, False) p \<and> js_trim p = p \<and> p \<noteq> []"
proof (induction "length rest" arbitrary: sq dq cur rest rule: less_induct)
  case less
  show ?case
  proof (cases rest)
    case Nil
    with less.prems show ?thesis by (auto simp: push_trimmed_def unchained_trim split: if_splits)
  next
    case (Cons ch rest')
    show ?thesis
    proof (cases "visible (sq, dq) ch")
      case False
      obtain sq' dq' where q: "quote_next (sq, dq) ch = (sq', dq')" by fastforce
      have "p \<in> set (chain_loop sq' dq' (cur @ [ch]) rest')"
        using less.prems(1) by (simp add: Cons chain_loop_hidden [OF False] q del: chain_loop.simps)
      moreover have "\<not> ((sq', dq') = (False, False) \<and> ch = CHR ''&'')"
        using False q by (auto simp: visible_ampersand)
      ultimately show ?thesis
        using less.prems(2,3) False q Cons
        by (intro less.hyps [of rest' sq' dq' "cur @ [ch]"]) (auto simp: unchained_snoc)
    next
      case vis: True
      show ?thesis
      proof (cases "chain_free ch rest'")
        case True
        with less.prems(1) have "p \<in> set (chain_loop sq dq (cur @ [ch]) rest')"
          by (simp add: Cons chain_loop_visible [OF vis] del: chain_loop.simps)
        moreover have "unchained (False, False) (cur @ [ch])"
          using less.prems(2-4) vis True Cons
          by (auto simp: unchained_snoc chain_free_def visible_ampersand)
        ultimately show ?thesis
          using less.prems(3) vis True Cons
          by (intro less.hyps [of rest' sq dq "cur @ [ch]"]) (auto simp: chain_free_def)
      next
        case False
        let ?r = "if take 1 rest' = [ch] \<and> ch \<noteq> CHR '';'' then drop 1 rest' else rest'"
        from False less.prems(1) have "p \<in> set (push_trimmed cur (chain_loop sq dq [] ?r))"
          by (simp add: Cons chain_loop_visible [OF vis] del: chain_loop.simps)
        then consider "p = js_trim cur" "p \<noteq> []" | "p \<in> set (chain_loop sq dq [] ?r)"
          by (auto simp: push_trimmed_def simp del: chain_loop.simps split: if_splits)
        then show ?thesis
        proof cases
          case 1
          with less.prems(2) show ?thesis by (simp add: unchained_trim)
        next
          case 2
          with vis Cons show ?thesis
            by (intro less.hyps [of ?r sq dq "[]"]) (auto simp: visible_def)
        qed
      qed
    qed
  qed
qed

lemma splitShellChains_unchained:
  "p \<in> set (splitShellChains command) \<Longrightarrow>
     unchained (False, False) p \<and> js_trim p = p \<and> p \<noteq> []"
  unfolding splitShellChains_def by (erule chain_loop_unchained) auto

lemma unchained_no_separator:
  "unchained st s \<Longrightarrow> CHR '';'' \<notin> set (unquoted st s) \<and> CHR ''|'' \<notin> set (unquoted st s)"
  by (induction s arbitrary: st) (auto simp: chain_free_def)

lemma redirect_scan_iff:
  "redirect_scan sq dq s \<longleftrightarrow>
     CHR ''<'' \<in> set (unquoted (sq, dq) s) \<or> CHR ''>'' \<in> set (unquoted (sq, dq) s)"
proof (induction s arbitrary: sq dq)
  case (Cons ch s)
  show ?case
    by (cases "visible (sq, dq) ch"; cases sq; cases dq)
       (auto simp: Cons.IH visible_def quote_next_def)
qed simp

lemma set_unquoted: "set (unquoted st s) \<subseteq> set s"
proof (induction s arbitrary: st)
  case (Cons ch s)
  show ?case using Cons.IH [of "quote_next st ch"] by auto
qed simp

lemma rx_test_newline: "rx_test rx_newline s \<longleftrightarrow> ch_newline \<in> set s"
  by (auto simp: rx_test_iff rx_newline_def in_set_conv_decomp)

lemma rx_test_dollar_paren: "rx_test rx_dollar_paren s \<longleftrightarrow> sublist ''$('' s"
  by (auto simp: rx_test_iff rx_dollar_paren_def rx_match_simps sublist_def)

lemma rx_test_backticks: "rx_test rx_backticks s \<Longrightarrow> ch_backtick \<in> set s"
  by (auto simp: rx_test_iff rx_backticks_def rx_match_simps)

lemma rx_test_process_subst: "rx_test rx_process_subst s \<Longrightarrow> CHR ''('' \<in> set s"
  by (auto simp: rx_test_iff rx_process_subst_def rx_match_simps)

lemma rx_test_background: "rx_test rx_background s \<Longrightarrow> CHR ''&'' \<in> set s"
  by (auto simp: rx_test_iff rx_background_def rx_match_simps)

lemma prev_of_None: "prev_of None u = None \<longleftrightarrow> u = []"
  by (simp add: prev_of_def)

lemma no_wrapper: "\<not> rx_test rx_shell_wrapper (CHR ''g'' # s)"
  by (auto simp: rx_test_iff rx_shell_wrapper_def rx_match_simps prev_of_None)

text \<open>An unquoted \<open>&\<close> of an unchained text stands alone, and the background pattern finds it.\<close>

lemma unchained_ampersand:
  "unchained st s \<Longrightarrow> CHR ''&'' \<in> set (unquoted st s) \<Longrightarrow>
   \<not> (b = Some (CHR ''&'') \<and> st = (False, False) \<and> take 1 s = [CHR ''&'']) \<Longrightarrow>
   rx_search rx_background b s"
proof (induction s arbitrary: st b)
  case (Cons ch s)
  show ?case
  proof (cases "visible st ch \<and> ch = CHR ''&''")
    case True
    with Cons.prems show ?thesis
      by (simp add: rx_background_def RChr_def visible_def chain_free_def)
  next
    case False
    with Cons.prems have "CHR ''&'' \<in> set (unquoted (quote_next st ch) s)" 
      "unchained (quote_next st ch) s" by (auto split: if_splits)
    moreover have "\<not> (Some ch = Some (CHR ''&'') \<and> quote_next st ch = (False, False))"
      using False by (auto simp: visible_ampersand)
    ultimately have "rx_search rx_background (Some ch) s" by (intro Cons.IH) auto
    then show ?thesis by simp
  qed
qed simp

lemma piece_operators:
  assumes "p \<in> set (splitShellChains command)" "\<not> detectDangerousPatterns p"
  shows "set (outside_quotes p) \<inter>
     {CHR '';'', CHR ''|'', CHR ''&'', CHR ''<'', CHR ''>'', ch_newline} = {}"
proof -
  have u: "unchained (False, False) p" using splitShellChains_unchained [OF assms(1)] by simp
  have "CHR ''&'' \<notin> set (outside_quotes p)"
    using unchained_ampersand [OF u, of None] assms(2)
    by (auto simp: detectDangerousPatterns_def rx_test_def)
  moreover have "\<not> redirect_scan False False p" "ch_newline \<notin> set p"
    using assms(2) by (auto simp: detectDangerousPatterns_def rx_test_newline)
  ultimately show ?thesis
    using unchained_no_separator [OF u] set_unquoted [of "(False, False)" p]
    by (auto simp: redirect_scan_iff)
qed

section \<open>What an accepted command is\<close>

text \<open>
  The commands the boundary means to admit, by their tokens: read-only git
  commands and \<open>git branch\<close>, \<open>node --version\<close>, \<open>npx prisma generate\<close>, and
  otherwise a command of the policy's list or a safe package script, never a
  package runner.
\<close>

definition admitted_tokens :: "ExecutionPolicyConfig \<Rightarrow> string list \<Rightarrow> bool" where
  "admitted_tokens pol tokens = (case tokens of [] \<Rightarrow> False | t # ts \<Rightarrow>
     if t = ''git'' then
       ts \<noteq> [] \<and> hd ts \<in> {''status'', ''diff'', ''show'', ''log'', ''rev-parse'', ''branch''}
     else if t = ''npx'' then take 2 ts = [''prisma'', ''generate'']
     else (t = ''node'' \<longrightarrow> take 1 ts = [''--version''] \<and> set ts \<inter> {''-e'', ''--eval''} = {}) \<and>
       \<not> (t \<in> {''npm'', ''pnpm''} \<and> take 1 ts = [''exec'']) \<and>
       \<not> (t = ''yarn'' \<and> take 1 ts = [''dlx'']) \<and>
       ((\<exists>a \<in> set (allowedCommands pol). js_join '' '' tokens = a \<or>
           prefix (a @ '' '') (js_join '' '' tokens)) \<or>
        (t \<in> {''npm'', ''pnpm'', ''yarn''} \<and> set (take 2 ts) \<inter> set safe_scripts \<noteq> {})))"

lemma tok_at_Cons_Suc0: "tok_at (t # ts) (Suc 0) = Some x \<longleftrightarrow> take 1 ts = [x]"
  by (cases ts) (auto simp: tok_at_def)

lemma matchAgainstAllowed_cases:
  assumes "matchAgainstAllowed (t # ts) cmds"
  shows "(\<exists>a \<in> set cmds. js_join '' '' (t # ts) = a \<or> prefix (a @ '' '') (js_join '' '' (t # ts))) \<or>
     (t \<in> {''npm'', ''pnpm'', ''yarn''} \<and> set (take 2 ts) \<inter> set safe_scripts \<noteq> {})"
proof (cases ts)
  case Nil
  with assms show ?thesis
    by (auto simp: matchAgainstAllowed_def tok_at_def js_starts_with_iff Let_def)
next
  case (Cons u us)
  show ?thesis
  proof (cases us)
    case Nil
    with Cons assms show ?thesis
      by (auto simp: matchAgainstAllowed_def tok_at_def js_starts_with_iff Let_def split: if_splits)
  next
    case (Cons v vs)
    with \<open>ts = u # us\<close> assms show ?thesis
      by (auto simp: matchAgainstAllowed_def tok_at_def js_starts_with_iff Let_def split: if_splits)
  qed
qed

lemma classifyGitCommand_allowed:
  "fst (classifyGitCommand tokens prof pol) \<Longrightarrow> 2 \<le> length tokens \<and>
     tokens ! 1 \<in> {''status'', ''diff'', ''show'', ''log'', ''rev-parse'', ''branch''}"
  by (auto simp: classifyGitCommand_def Let_def SAFE_GIT_SUBCOMMANDS_def split: if_splits)

lemma classifySingleCommand_allowed:
  assumes "fst (classifySingleCommand command prof pol)"
  shows "\<not> detectShellWrappers (js_trim command) \<and> \<not> detectDangerousPatterns (js_trim command) \<and>
     admitted_tokens pol (tokenizeCommand (js_trim command))"
proof -
  obtain t ts where tk: "tokenizeCommand (js_trim command) = t # ts"
    using assms by (cases "tokenizeCommand (js_trim command)")
      (auto simp: classifySingleCommand_def Let_def split: if_splits)
  show ?thesis
  proof (cases "t = ''git''")
    case True
    with assms tk have g: "fst (classifyGitCommand (t # ts) prof pol)"
      by (auto simp: classifySingleCommand_def Let_def split: if_splits)
    from classifyGitCommand_allowed [OF g] have "admitted_tokens pol (t # ts)"
      using True by (cases ts) (auto simp: admitted_tokens_def)
    with assms tk show ?thesis
      by (auto simp: classifySingleCommand_def Let_def split: if_splits)
  next
    case False
    show ?thesis
    proof (cases "t = ''npx''")
      case True
      with assms tk show ?thesis
        by (cases ts; cases "tl ts")
           (auto simp: classifySingleCommand_def admitted_tokens_def Let_def split: if_splits)
    next
      case npx: False
      with assms tk False have m: "matchAgainstAllowed (t # ts) (allowedCommands pol)"
        and node: "t = ''node'' \<Longrightarrow> take 1 ts = [''--version''] \<and> set ts \<inter> {''-e'', ''--eval''} = {}"
        and exec: "\<not> (t \<in> {''npm'', ''pnpm''} \<and> take 1 ts = [''exec''])"
        and dlx: "\<not> (t = ''yarn'' \<and> take 1 ts = [''dlx''])"
        by (auto simp: classifySingleCommand_def Let_def tok_at_Cons_Suc0
            buildEffectiveAllowedCommands_def neq_Nil_conv split: if_splits)
      have "admitted_tokens pol (t # ts)"
        using matchAgainstAllowed_cases [OF m] node exec dlx False npx
        by (simp add: admitted_tokens_def)
      with assms tk show ?thesis
        by (auto simp: classifySingleCommand_def Let_def split: if_splits)
    qed
  qed
qed

lemma classify_chain_allowed:
  "fst (classify_chain prof pol cmds) \<Longrightarrow> p \<in> set cmds \<Longrightarrow>
     fst (classifySingleCommand p prof pol)"
  by (induction cmds) (auto simp: Let_def split: if_splits)

lemma alias_match_iff: "alias_match aliases cmd \<longleftrightarrow> (\<exists>as. aliases = Some as \<and> cmd \<in> set as)"
  by (cases aliases) (auto simp: alias_match_def)

lemma classifyCommand_allowed_iff:
  "fst (classifyCommand command prof pol) \<longleftrightarrow>
     \<not> detectShellWrappers (js_trim command) \<and> \<not> detectDangerousPatterns (js_trim command) \<and>
     (prof = BUILDER \<and> alias_match (trustedCodingAgentAliases pol) (js_trim command) \<or>
      prof = REVIEWER \<and> alias_match (trustedReviewerAgentAliases pol) (js_trim command) \<or>
      fst (classify_chain prof pol (splitShellChains (js_trim command))))"
  unfolding classifyCommand_def Let_def
  by (cases "detectShellWrappers (js_trim command)"; cases "detectDangerousPatterns (js_trim command)";
      cases "prof = BUILDER \<and> alias_match (trustedCodingAgentAliases pol) (js_trim command)") auto

lemma accepted_piece:
  assumes "fst (classify_chain prof pol (splitShellChains s))" "p \<in> set (splitShellChains s)"
  shows "\<not> detectShellWrappers p \<and> \<not> sublist ''$('' p \<and>
     set (outside_quotes p) \<inter>
       {CHR '';'', CHR ''|'', CHR ''&'', CHR ''<'', CHR ''>'', ch_newline} = {} \<and>
     admitted_tokens pol (tokenizeCommand p)"
proof -
  have "js_trim p = p" using splitShellChains_unchained [OF assms(2)] by simp
  with classifySingleCommand_allowed [OF classify_chain_allowed [OF assms]]
  have p: "\<not> detectShellWrappers p" "\<not> detectDangerousPatterns p"
    "admitted_tokens pol (tokenizeCommand p)" by simp_all
  moreover from p(2) have "\<not> sublist ''$('' p"
    by (auto simp: detectDangerousPatterns_def rx_test_dollar_paren)
  ultimately show ?thesis using piece_operators [OF assms(2) p(2)] by simp
qed

section \<open>Escaping\<close>

text \<open>The shell rendering of a token: a backslash before every special code unit.\<close>

definition sh_special :: "char \<Rightarrow> bool" where
  "sh_special c = (js_ws c \<or> c \<in> {ch_backslash, ch_squote, ch_dquote})"

definition sh_escape :: "string \<Rightarrow> string" where
  "sh_escape t = concat (map (\<lambda>c. if sh_special c then [ch_backslash, c] else [c]) t)"

lemma tokenize_loop_escape:
  "tokenize_loop False False False cur (sh_escape t @ rest) =
   tokenize_loop False False False (cur @ t) rest"
proof (induction t arbitrary: cur)
  case (Cons c t)
  then show ?case by (auto simp: sh_escape_def sh_special_def)
qed (simp add: sh_escape_def)

lemma tokenize_loop_space:
  "cur \<noteq> [] \<Longrightarrow> tokenize_loop False False False cur ('' '' @ rest) =
     cur # tokenize_loop False False False [] rest"
  by (simp add: js_ws_def)

lemma tokenize_join_escape:
  "\<forall>t \<in> set ts. t \<noteq> [] \<Longrightarrow>
     tokenize_loop False False False [] (js_join '' '' (map sh_escape ts)) = ts"
proof (induction "'' ''" ts rule: js_join.induct)
  case (2 x)
  then show ?case using tokenize_loop_escape [of "[]" x "[]"] by simp
next
  case (3 x y ys)
  then show ?case
    by (simp only: list.map js_join.simps tokenize_loop_escape append_Nil) 
       (simp add: js_ws_def)
qed simp

section \<open>What the pieces cover\<close>

text \<open>Everything of a line but white space and the characters of the chain operators: all of it
  stands in the pieces that are checked.\<close>

definition separator_char :: "char \<Rightarrow> bool" where
  "separator_char c = (js_ws c \<or> c \<in> {CHR '';'', CHR ''|'', CHR ''&''})"

abbreviation checked_text :: "string \<Rightarrow> string" where
  "checked_text s \<equiv> filter (\<lambda>c. \<not> separator_char c) s"

lemma checked_text_dropWhile: "checked_text (dropWhile js_ws s) = checked_text s"
  by (induction s) (auto simp: separator_char_def)

lemma checked_text_trim [simp]: "checked_text (js_trim s) = checked_text s"
proof -
  have "checked_text (rev (dropWhile js_ws (rev (dropWhile js_ws s)))) = rev (checked_text (dropWhile js_ws (rev (dropWhile js_ws s))))"
    by (simp add: rev_filter)
  also have "\<dots> = checked_text s" unfolding checked_text_dropWhile by (simp add: rev_filter [symmetric] checked_text_dropWhile)
  finally show ?thesis by (simp add: js_trim_def)
qed

lemma checked_text_push: "checked_text (concat (push_trimmed cur ps)) = checked_text cur @ checked_text (concat ps)"
proof (cases "js_trim cur = []")
  case True
  then have "checked_text cur = []" using checked_text_trim [of cur] by simp
  with True show ?thesis by (simp add: push_trimmed_def)
qed (simp add: push_trimmed_def)

lemma checked_text_chain: "checked_text (concat (chain_loop sq dq cur rest)) = checked_text (cur @ rest)"
proof (induction "length rest" arbitrary: sq dq cur rest rule: less_induct)
  case less
  show ?case
  proof (cases rest)
    case (Cons ch rest')
    show ?thesis
    proof (cases "visible (sq, dq) ch")
      case False
      obtain sq' dq' where q: "quote_next (sq, dq) ch = (sq', dq')" by fastforce
      show ?thesis using less [of rest' sq' dq' "cur @ [ch]"] Cons
        by (simp add: chain_loop_hidden [OF False] q del: chain_loop.simps)
    next
      case vis: True
      show ?thesis
      proof (cases "chain_free ch rest'")
        case True
        then show ?thesis using less [of rest' sq dq "cur @ [ch]"] Cons
          by (simp add: chain_loop_visible [OF vis] del: chain_loop.simps)
      next
        case False
        then have s: "separator_char ch" by (auto simp: chain_free_def separator_char_def)
        let ?r = "if take 1 rest' = [ch] \<and> ch \<noteq> CHR '';'' then drop 1 rest' else rest'"
        have "checked_text ?r = checked_text rest'" using s by (cases rest') auto
        moreover have "length ?r < length rest" using Cons by auto
        ultimately have "checked_text (concat (chain_loop sq dq [] ?r)) = checked_text rest'" using less [of ?r sq dq "[]"] by simp
        then show ?thesis using False s by (simp only: Cons chain_loop_visible [OF vis] if_False checked_text_push) simp
      qed
    qed
  qed (simp add: checked_text_push)
qed

lemma split_covers: "checked_text (concat (splitShellChains command)) = checked_text command"
  unfolding splitShellChains_def checked_text_chain by simp

section \<open>Text outside quotes for the shell\<close>

text \<open>Unlike the splitter, the tokenizer and a shell honour the backslash: an escaped character is
  neither a quote nor an operator.  Without a backslash both readings agree.\<close>

fun shell_unquoted :: "bool \<Rightarrow> bool \<times> bool \<Rightarrow> string \<Rightarrow> string" where
  "shell_unquoted esc st [] = []"
| "shell_unquoted esc st (ch # rest) =
     (if esc then shell_unquoted False st rest
      else if ch = ch_backslash \<and> \<not> fst st then shell_unquoted True st rest
      else if visible st ch then ch # shell_unquoted False (quote_next st ch) rest
      else shell_unquoted False (quote_next st ch) rest)"

lemma shell_unquoted_plain: "ch_backslash \<notin> set s \<Longrightarrow> shell_unquoted False st s = unquoted st s"
  by (induction s arbitrary: st) auto

section \<open>Properties\<close>



text \<open>The tokenizer inverts shell escaping: whatever non-empty arguments a
  caller escapes with backslashes and joins with blanks, the tokenizer
  recovers exactly those arguments.\<close>

lemma tokenize_escape_roundtrip:
  assumes "\<forall>t \<in> set ts. t \<noteq> []"
  shows "tokenizeCommand (js_join '' '' (map sh_escape ts)) = ts"
  using assms by (simp add: tokenizeCommand_def tokenize_join_escape)

section \<open>Gaps of the command boundary\<close>

text \<open>The payload of a hidden command: anything without quotes, backslashes, newlines and the
  characters that the patterns for substitutions and background jobs look for.\<close>

definition payload_char :: "char \<Rightarrow> bool" where
  "payload_char c = (c \<notin> {ch_squote, ch_dquote, ch_backslash, ch_newline, ch_backtick, CHR ''$'', CHR ''&'', CHR ''(''})"

definition word_char :: "char \<Rightarrow> bool" where
  "word_char c = (payload_char c \<and> \<not> js_ws c \<and> c \<notin> {CHR '';'', CHR ''|'', CHR ''<'', CHR ''>''})"

lemma not_dangerous:
  assumes "\<not> redirect_scan False False s" and "set s \<inter> {ch_newline, ch_backtick, CHR ''$'', CHR ''&'', CHR ''(''} = {}"
  shows "\<not> detectDangerousPatterns s"
proof -
  have "\<not> sublist ''$('' s" using assms(2) set_mono_sublist [of "''$(''" s] by auto
  with assms show ?thesis
    unfolding detectDangerousPatterns_def rx_test_dollar_paren rx_test_newline
    using rx_test_backticks [of s] rx_test_process_subst [of s] rx_test_background [of s] by blast
qed

lemma trim_id: "s \<noteq> [] \<Longrightarrow> \<not> js_ws (hd s) \<Longrightarrow> \<not> js_ws (last s) \<Longrightarrow> js_trim s = s"
proof -
  assume s: "s \<noteq> []" "\<not> js_ws (hd s)" "\<not> js_ws (last s)"
  have "dropWhile js_ws s = s" using s(2) by (simp add: dropWhile_eq_self_iff)
  moreover have "dropWhile js_ws (rev s) = rev s" using s(3) by (simp add: dropWhile_eq_self_iff hd_rev)
  ultimately show ?thesis by (simp add: js_trim_def)
qed

text \<open>A line that begins with \<open>git\<close>, is one piece and has no dangerous pattern.\<close>

lemma git_line_accepted:
  assumes s: "s = ''git '' @ r" "\<not> js_ws (last s)" and split: "splitShellChains s = [s]"
    and safe: "\<not> detectDangerousPatterns s" and git: "\<exists>ts. tokenizeCommand s = ''git'' # ts \<and> fst (classifyGitCommand (''git'' # ts) prof pol)"
  shows "fst (classifyCommand s prof pol)"
proof -
  have t: "js_trim s = s" using s by (intro trim_id) (auto simp: js_ws_def)
  have w: "\<not> detectShellWrappers s" using t s(1) no_wrapper by (simp add: detectShellWrappers_def)
  have ne: "s \<noteq> []" using s(1) by simp
  obtain ts where ts: "tokenizeCommand s = ''git'' # ts" "fst (classifyGitCommand (''git'' # ts) prof pol)"
    using git by blast
  have "classifySingleCommand s prof pol = classifyGitCommand (''git'' # ts) prof pol"
    using ne by (simp only: classifySingleCommand_def Let_def t ts(1) if_False w safe nth_Cons_0 simp_thms list.distinct if_True)
  then have "fst (classify_chain prof pol [s])" using ts(2) w safe by (simp add: Let_def)
  then have "fst (classify_chain prof pol (splitShellChains (js_trim s)))" unfolding t split .
  with t w safe show ?thesis unfolding classifyCommand_allowed_iff by simp
qed

lemma chain_hidden: "list_all (\<lambda>c. c \<noteq> ch_squote) x \<Longrightarrow> chain_loop True False cur (x @ rest) = chain_loop True False (cur @ x) rest"
  by (induction x arbitrary: cur) auto

lemma scan_hidden: "list_all (\<lambda>c. c \<noteq> ch_squote) x \<Longrightarrow> redirect_scan True False (x @ rest) = redirect_scan True False rest"
  by (induction x) auto

lemma payload_not_squote: "list_all payload_char x \<Longrightarrow> list_all (\<lambda>c. c \<noteq> ch_squote) x"
  by (auto simp: list_all_iff payload_char_def)

lemma payload_visible: "list_all payload_char x \<Longrightarrow>
  shell_unquoted False (False, False) (x @ rest) = x @ shell_unquoted False (False, False) rest"
  by (induction x) (auto simp: payload_char_def visible_def quote_next_def)

abbreviation hiding_line :: "string \<Rightarrow> string" where
  "hiding_line x \<equiv> ''git log '' @ [ch_backslash, ch_squote] @ x @ [ch_squote]"

lemma hiding_line_split: "list_all payload_char x \<Longrightarrow> splitShellChains (hiding_line x) = [hiding_line x]"
proof -
  assume "list_all payload_char x"
  note h = chain_hidden [OF payload_not_squote [OF this]]
  have t: "js_trim (hiding_line x) = hiding_line x" by (rule trim_id) (auto simp: js_ws_def)
  show ?thesis unfolding splitShellChains_def t by (simp add: h push_trimmed_def t [simplified])
qed

lemma hiding_line_tokens: "\<exists>ts. tokenizeCommand (hiding_line x) = ''git'' # ''log'' # ts"
  by (simp add: tokenizeCommand_def js_ws_def)

lemma word_tokens: "list_all word_char t \<Longrightarrow>
   tokenize_loop False False False cur (t @ rest) = tokenize_loop False False False (cur @ t) rest"
  by (induction t arbitrary: cur) (auto simp: word_char_def payload_char_def)

lemma word_chain: "list_all word_char t \<Longrightarrow> chain_loop False False cur t = push_trimmed (cur @ t) []"
  by (induction t arbitrary: cur) (auto simp: word_char_def payload_char_def)

lemma word_scan: "list_all word_char t \<Longrightarrow> \<not> redirect_scan False False t"
  by (induction t) (auto simp: word_char_def payload_char_def)

lemma word_set: "list_all word_char t \<Longrightarrow> set t \<inter> {ch_newline, ch_backtick, CHR ''$'', CHR ''&'', CHR ''(''} = {}"
  by (auto simp: list_all_iff word_char_def payload_char_def)

lemma word_last: "list_all word_char t \<Longrightarrow> t \<noteq> [] \<Longrightarrow> \<not> js_ws (last t)"
  using last_in_set by (fastforce simp: list_all_iff word_char_def)

lemma git_log_allowed: "fst (classifyGitCommand (''git'' # ''log'' # ts) prof pol)"
  by (simp add: classifyGitCommand_def SAFE_GIT_SUBCOMMANDS_def)

lemma git_branch_current_allowed:
  "fst (classifyGitCommand [''git'', ''branch'', ''--show-current'', ''-D'', name] prof pol)"
  by (simp add: classifyGitCommand_def SAFE_GIT_SUBCOMMANDS_def)

lemma git_branch_delete_allowed:
  "\<not> (name = ''-d'' \<or> name = ''-D'') \<Longrightarrow> fst (classifyGitCommand [''git'', ''branch'', ''--delete'', name] prof pol)"
  by (simp add: classifyGitCommand_def SAFE_GIT_SUBCOMMANDS_def GIT_BRANCH_DELETE_FLAGS_def Let_def) blast

lemma wrapper_letter: "rx_test rx_shell_wrapper s \<Longrightarrow> CHR ''h'' \<in> set s"
  by (auto simp: rx_test_iff rx_shell_wrapper_def rx_match_simps)

lemma blank_chain: "list_all (\<lambda>c. c \<in> {CHR '' '', CHR '';''}) s \<Longrightarrow> list_all js_ws cur \<Longrightarrow> chain_loop False False cur s = []"
proof (induction s arbitrary: cur)
  case Nil
  then have "dropWhile js_ws cur = []" by (simp add: list_all_iff)
  then have "js_trim cur = []" by (simp only: js_trim_def rev.simps dropWhile.simps)
  then show ?case by (simp add: push_trimmed_def)
next
  case (Cons c s)
  then have "dropWhile js_ws cur = []" by (simp add: list_all_iff)
  then have "js_trim cur = []" by (simp only: js_trim_def rev.simps dropWhile.simps)
  with Cons show ?case by (auto simp: push_trimmed_def js_ws_def)
qed

lemma set_trim: "set (js_trim s) \<subseteq> set s"
  by (auto simp: js_trim_def dest!: set_dropWhileD)

lemma blank_line_accepted:
  assumes "list_all (\<lambda>c. c \<in> {CHR '' '', CHR '';''}) s"
  shows "fst (classifyCommand s prof pol)"
proof -
  have u: "set (js_trim s) \<subseteq> {CHR '' '', CHR '';''}"
    using assms set_trim [of s] by (auto simp: list_all_iff)
  then have b: "list_all (\<lambda>c. c \<in> {CHR '' '', CHR '';''}) (js_trim s)" unfolding list_all_iff by blast
  have scan: "list_all (\<lambda>c. c \<in> {CHR '' '', CHR '';''}) x \<Longrightarrow> \<not> redirect_scan False False x" for x
    by (induction x) auto
  have "set (js_trim s) \<inter> {ch_newline, ch_backtick, CHR ''$'', CHR ''&'', CHR ''(''} = {}"
    by (rule subset_antisym [OF _ empty_subsetI], rule order_trans [OF Int_mono [OF u order_refl]]) simp
  then have "\<not> detectDangerousPatterns (js_trim s)" by (rule not_dangerous [OF scan [OF b]])
  moreover have "CHR ''h'' \<notin> set (js_trim s)" using u by (rule contra_subsetD) simp
  then have "\<not> detectShellWrappers (js_trim s)"
    using wrapper_letter [of "js_trim s"] unfolding detectShellWrappers_def js_trim_idem by blast
  moreover have "splitShellChains (js_trim s) = []"
    unfolding splitShellChains_def js_trim_idem by (rule blank_chain [OF b]) simp
  ultimately show ?thesis unfolding classifyCommand_allowed_iff by simp
qed



end
