(* ===== verification/Vito_PathPolicy.thy ===== *)
theory Vito_PathPolicy
  imports Vito_Regex
begin

text \<open>
  The path utilities of \<open>execution-policy.ts\<close>: percent decoding, symlink-aware
  canonicalisation, normalisation against the allowed root, the secret path
  patterns and the denied path patterns.

  Of the run-time environment the code uses \<open>fs.existsSync\<close> and
  \<open>fs.realpathSync\<close>, which depend on the disk and are parameters
  (\<open>realpathSync\<close> is \<^const>\<open>None\<close> when it throws), the current directory, and
  the \<open>path\<close> module of a POSIX host, which is modelled: \<open>path.resolve\<close>
  prepends arguments from the right until the path is absolute and then
  removes empty, \<open>.\<close> and \<open>..\<close> segments.
\<close>

section \<open>The path module\<close>

abbreviation ch_slash :: char where "ch_slash \<equiv> CHR ''/''"
abbreviation sep :: string where "sep \<equiv> ''/''"

definition path_isAbsolute :: "string \<Rightarrow> bool" where
  "path_isAbsolute p = (take 1 p = sep)"

definition path_segs :: "string \<Rightarrow> string list" where
  "path_segs p = filter (\<lambda>s. s \<noteq> []) (js_split ch_slash p)"

text \<open>Normalising the segments of an absolute path; the stack holds the kept ones, last first.\<close>

fun norm_segs :: "string list \<Rightarrow> string list \<Rightarrow> string list" where
  "norm_segs stack [] = rev stack"
| "norm_segs stack (s # ss) =
     (if s = [] \<or> s = ''.'' then norm_segs stack ss
      else if s = ''..'' then norm_segs (drop 1 stack) ss
      else norm_segs (s # stack) ss)"

fun join_right :: "string \<Rightarrow> string list \<Rightarrow> string \<Rightarrow> string" where
  "join_right cwd [] resolved = cwd @ sep @ resolved"
| "join_right cwd (p # ps) resolved =
     (if p = [] then join_right cwd ps resolved
      else if path_isAbsolute p then p @ sep @ resolved
      else join_right cwd ps (p @ sep @ resolved))"

definition path_resolve :: "string \<Rightarrow> string list \<Rightarrow> string" where
  "path_resolve cwd args =
     ch_slash # js_join sep (norm_segs [] (js_split ch_slash (join_right cwd (rev args) [])))"

text \<open>\<open>path.relative\<close> on two absolute normalised paths.\<close>

fun strip_common :: "string list \<Rightarrow> string list \<Rightarrow> string list \<times> string list" where
  "strip_common (x # xs) (y # ys) = (if x = y then strip_common xs ys else (x # xs, y # ys))"
| "strip_common xs ys = (xs, ys)"

definition path_relative :: "string \<Rightarrow> string \<Rightarrow> string \<Rightarrow> string" where
  "path_relative cwd from to =
     (case strip_common (path_segs (path_resolve cwd [from])) (path_segs (path_resolve cwd [to]))
      of (up, down) \<Rightarrow> js_join sep (replicate (length up) ''..'' @ down))"

section \<open>Decoding and canonicalisation\<close>

record fs_env =
  existsSync :: "string \<Rightarrow> bool"
  realpathSync :: "string \<Rightarrow> string option"
  cwd :: string

definition hex_val :: "char \<Rightarrow> nat option" where
  "hex_val c =
     (if is_digit c then Some (of_char c - 48)
      else if between_chars (CHR ''A'') (CHR ''F'') c then Some (of_char c - 55)
      else if between_chars (CHR ''a'') (CHR ''f'') c then Some (of_char c - 87) else None)"

definition hex_byte :: "string \<Rightarrow> (char \<times> string) option" where
  "hex_byte s = (case s of a # b # rest \<Rightarrow>
       (case (hex_val a, hex_val b) of (Some x, Some y) \<Rightarrow> Some (char_of (16 * x + y), rest)
        | _ \<Rightarrow> None)
     | _ \<Rightarrow> None)"

lemma hex_byte_length: "hex_byte s = Some (c, rest) \<Longrightarrow> length rest < length s"
  by (auto simp: hex_byte_def split: list.splits option.splits)

function decodePercentEncoding :: "string \<Rightarrow> string" where
  "decodePercentEncoding [] = []"
| "decodePercentEncoding (c # cs) =
     (case (if c = CHR ''%'' then hex_byte cs else None) of
        Some (d, rest) \<Rightarrow> d # decodePercentEncoding rest
      | None \<Rightarrow> c # decodePercentEncoding cs)"
  by pat_completeness auto
termination
  by (relation "measure length") (auto dest: hex_byte_length split: if_splits)

text \<open>The loop over the segments of a path that does not exist; \<^const>\<open>None\<close> is a throw.\<close>

definition append_seg :: "string \<Rightarrow> string \<Rightarrow> string" where
  "append_seg canon seg = (if canon = sep then sep @ seg else canon @ sep @ seg)"

fun canon_loop :: "fs_env \<Rightarrow> string \<Rightarrow> string list \<Rightarrow> string option" where
  "canon_loop env canon [] = Some canon"
| "canon_loop env canon (seg # segs) =
     (let candidate = append_seg canon seg in
      if existsSync env candidate
      then (case realpathSync env candidate of
              None \<Rightarrow> None | Some canon' \<Rightarrow> canon_loop env canon' segs)
      else canon_loop env (append_seg canon seg) segs)"

definition canonicalizePath :: "fs_env \<Rightarrow> string \<Rightarrow> string option" where
  "canonicalizePath env p =
     (if existsSync env p then realpathSync env p
      else canon_loop env (if path_isAbsolute p then sep else []) (path_segs p))"

section \<open>Normalisation against the root\<close>

definition replace_backslashes :: "string \<Rightarrow> string" where
  "replace_backslashes s = map (\<lambda>c. if c = CHR 0x5C then ch_slash else c) s"

definition is_control :: "char \<Rightarrow> bool" where
  "is_control c = ((of_char c :: nat) \<le> 0x1F \<or> (of_char c :: nat) = 0x7F)"

fun seg_depth :: "int \<Rightarrow> string list \<Rightarrow> int" where
  "seg_depth d [] = d"
| "seg_depth d (s # ss) =
     (if s = ''..'' then seg_depth (d - 1) ss
      else if s \<noteq> ''.'' then seg_depth (d + 1) ss else seg_depth d ss)"

text \<open>The containment test used throughout: the root itself, or a path below it.\<close>

definition within :: "string \<Rightarrow> string \<Rightarrow> bool" where
  "within root p = (js_starts_with p (root @ sep) \<or> p = root)"

definition normalizePath :: "fs_env \<Rightarrow> string \<Rightarrow> string \<Rightarrow> string \<times> bool" where
  "normalizePath env requested root =
     (let decoded = decodePercentEncoding requested;
          normalizedSlashes = replace_backslashes decoded in
      if CHR 0x00 \<in> set normalizedSlashes \<or> js_includes requested ''%00'' \<or>
         js_includes requested ''%0''
      then (normalizedSlashes, False)
      else if \<exists>c \<in> set normalizedSlashes. is_control c then (normalizedSlashes, False)
      else if seg_depth 0 (path_segs normalizedSlashes) < 0 then (normalizedSlashes, False)
      else
        (let resolvedRoot = path_resolve (cwd env) [root];
             normalized = path_resolve (cwd env) [root, normalizedSlashes] in
         if \<not> within resolvedRoot normalized then (normalized, False)
         else
           (case canonicalizePath env normalized of
              None \<Rightarrow> (normalized, False)
            | Some canonical \<Rightarrow>
                (case canonicalizePath env resolvedRoot of
                   None \<Rightarrow> (normalized, False)
                 | Some canonicalRoot \<Rightarrow>
                     if \<not> within canonicalRoot canonical then (canonical, False)
                     else (canonical, True)))))"

section \<open>Secret paths\<close>

definition rx_seg_start :: rx where
  "rx_seg_start = RAlt RBol (RChr ch_slash)"

definition rx_ext_end :: rx where
  "rx_ext_end = RSeq (ROpt (RSeq (RChr (CHR ''.'')) (RStar (RCls is_dot)))) REol"

definition name_char :: "char \<Rightarrow> bool" where
  "name_char c = (is_word c \<or> c = CHR ''.'' \<or> c = CHR ''-'')"

definition rx_name :: rx where
  "rx_name = RStar (RCls name_char)"

definition rx_named_secret :: "string \<Rightarrow> rx" where
  "rx_named_secret w =
     RSeqs [rx_seg_start, rx_name, RStr w, ROpt (RChr (CHR ''s'')), rx_ext_end]"

definition SECRET_PATH_PATTERNS :: "rx list" where
  "SECRET_PATH_PATTERNS = map rx_icase [
     RSeqs [rx_seg_start, RStr ''.env'', rx_ext_end],
     RSeqs [rx_seg_start, RStr ''credential'', ROpt (RChr (CHR ''s'')), rx_ext_end],
     rx_named_secret ''key'',
     rx_named_secret ''secret'',
     rx_named_secret ''token'',
     RSeq rx_seg_start (RStr ''.ssh/''),
     RSeq rx_seg_start (RStr ''.gnupg/''),
     RSeq rx_seg_start (RStr ''.aws/''),
     RSeqs [rx_seg_start, RStr ''.config/'', RAlt (RStr ''gh'') (RStr ''hub''), RChr ch_slash],
     RSeq rx_seg_start (RStr ''id_rsa''),
     RSeq rx_seg_start (RStr ''id_ed25519'')]"

definition isSecretPath :: "string \<Rightarrow> bool" where
  "isSecretPath p = (\<exists>r \<in> set SECRET_PATH_PATTERNS. rx_test r p)"

section \<open>Denied path patterns\<close>

text \<open>
  \<open>normalizedDenied.replace(/\/?\*?$/, '')\<close> on a pattern that ends in \<open>/*\<close> or
  \<open>/\<close>: the leftmost match takes the whole ending.
\<close>

definition strip_glob_end :: "string \<Rightarrow> string" where
  "strip_glob_end s =
     rx_replace_first (RSeqs [ROpt (RChr ch_slash), ROpt (RChr (CHR ''*'')), REol]) [] s"

text \<open>The regular expression built from a pattern with \<open>*\<close>: a dot is literal.\<close>

fun glob_rx :: "string \<Rightarrow> rx" where
  "glob_rx [] = REol"
| "glob_rx (c # cs) =
     RSeq (if c = CHR ''*'' then RStar (RCls (\<lambda>d. d \<noteq> ch_slash)) else RChr c) (glob_rx cs)"

text \<open>
  The code escapes only the dot, so the other special characters of a pattern
  keep their meaning.  No pattern of the repository has one; for such a
  pattern the verdict of the engine is the parameter \<open>regexp\<close>.
\<close>

definition regexp_special :: "char \<Rightarrow> bool" where
  "regexp_special c = (c \<in> set ''^$+?()[]{}|'')"

definition matchesDenyPattern ::
  "(string \<Rightarrow> string \<Rightarrow> bool) \<Rightarrow> string \<Rightarrow> string \<Rightarrow> bool" where
  "matchesDenyPattern regexp relativePath deniedPattern =
     (let normalizedRelative = replace_backslashes relativePath;
          normalizedDenied = replace_backslashes deniedPattern in
      if js_ends_with normalizedDenied ''/*'' \<or> js_ends_with normalizedDenied ''/''
      then (let prefix = strip_glob_end normalizedDenied in
            normalizedRelative = prefix \<or> js_starts_with normalizedRelative (prefix @ sep))
      else if js_includes normalizedDenied ''*''
      then (if \<exists>c \<in> set normalizedDenied. regexp_special c
            then regexp normalizedDenied normalizedRelative
            else rx_test (RSeq RBol (glob_rx normalizedDenied)) normalizedRelative)
      else normalizedRelative = normalizedDenied \<or>
           js_starts_with normalizedRelative (normalizedDenied @ sep))"

section \<open>Normal paths\<close>

text \<open>An absolute path given by its segments, and the segments a normal path may have.\<close>

definition abs_path :: "string list \<Rightarrow> string" where
  "abs_path xs = ch_slash # js_join sep xs"

definition normal_segs :: "string list \<Rightarrow> bool" where
  "normal_segs xs = (\<forall>x \<in> set xs. x \<noteq> [] \<and> x \<noteq> ''.'' \<and> x \<noteq> ''..'' \<and> ch_slash \<notin> set x)"

lemma normal_segs_append [simp]: "normal_segs (xs @ ys) \<longleftrightarrow> normal_segs xs \<and> normal_segs ys"
  by (auto simp: normal_segs_def)

lemma normal_segs_Nil [simp]: "normal_segs []"
  by (simp add: normal_segs_def)

lemma normal_segs_Cons [simp]:
  "normal_segs (x # xs) \<longleftrightarrow>
     (x \<noteq> [] \<and> x \<noteq> ''.'' \<and> x \<noteq> ''..'' \<and> ch_slash \<notin> set x) \<and> normal_segs xs"
  by (simp add: normal_segs_def)

lemma normal_segs_rev [simp]: "normal_segs (rev xs) = normal_segs xs"
  by (simp add: normal_segs_def)

lemma normal_segs_tl: "normal_segs xs \<Longrightarrow> normal_segs (drop 1 xs)"
  by (cases xs) simp_all

lemma norm_segs_normal:
  "normal_segs stack \<Longrightarrow> \<forall>s \<in> set ss. ch_slash \<notin> set s \<Longrightarrow> normal_segs (norm_segs stack ss)"
proof (induction ss arbitrary: stack)
  case (Cons s ss)
  consider "s = [] \<or> s = ''.''" | "s = ''..''" | "s \<noteq> []" "s \<noteq> ''.''" "s \<noteq> ''..''" by blast
  then show ?case
    by cases (use Cons normal_segs_tl [OF Cons.prems(1)] in simp_all)
qed simp

lemma path_resolve_normal: "\<exists>xs. path_resolve c args = abs_path xs \<and> normal_segs xs"
  unfolding path_resolve_def abs_path_def
  using norm_segs_normal [of "[]" "js_split ch_slash (join_right c (rev args) [])"]
  by (blast dest: js_split_no_sep intro: normal_segs_Nil)

lemma js_split_join_normal:
  "normal_segs xs \<Longrightarrow> js_split ch_slash (js_join sep xs) = (if xs = [] then [[]] else xs)"
  by (auto simp: normal_segs_def intro!: js_split_join)

lemma path_segs_abs [simp]: "normal_segs xs \<Longrightarrow> path_segs (abs_path xs) = xs"
  by (auto simp: path_segs_def abs_path_def js_split_join_normal normal_segs_def filter_id_conv)

lemma abs_path_inject:
  "normal_segs xs \<Longrightarrow> normal_segs ys \<Longrightarrow> abs_path xs = abs_path ys \<longleftrightarrow> xs = ys"
  by (metis path_segs_abs)

lemma js_join_append:
  "xs \<noteq> [] \<Longrightarrow> ys \<noteq> [] \<Longrightarrow> js_join s (xs @ ys) = js_join s xs @ s @ js_join s ys"
proof (induction xs)
  case (Cons x xs)
  then show ?case by (cases xs; cases ys) auto
qed simp

text \<open>Textual containment of normal paths is containment of their segments.\<close>

lemma within_abs:
  assumes "normal_segs xs" "normal_segs ys"
  shows "within (abs_path xs) (abs_path ys) \<Longrightarrow> prefix xs ys"
    and "xs \<noteq> [] \<Longrightarrow> prefix xs ys \<Longrightarrow> within (abs_path xs) (abs_path ys)"
proof -
  assume w: "within (abs_path xs) (abs_path ys)"
  show "prefix xs ys"
  proof (cases "abs_path ys = abs_path xs")
    case True
    then show ?thesis using assms by (simp add: abs_path_inject)
  next
    case False
    with w obtain r where r: "js_join sep ys = js_join sep xs @ ch_slash # r"
      by (auto simp: within_def js_starts_with_iff abs_path_def prefix_def)
    then have "js_split ch_slash (js_join sep ys) =
        js_split ch_slash (js_join sep xs) @ js_split ch_slash r"
      by (simp add: js_split_append_sep)
    moreover have "ys \<noteq> []" using r by auto
    ultimately show ?thesis
      using assms by (auto simp: js_split_join_normal split: if_splits)
  qed
next
  assume "xs \<noteq> []" "prefix xs ys"
  then obtain zs where "ys = xs @ zs" by (auto simp: prefix_def)
  with \<open>xs \<noteq> []\<close> show "within (abs_path xs) (abs_path ys)"
    by (cases "zs = []")
       (auto simp: within_def js_starts_with_iff abs_path_def js_join_append prefix_def)
qed

lemma append_seg_abs:
  "normal_segs (xs @ [s]) \<Longrightarrow> append_seg (abs_path xs) s = abs_path (xs @ [s])"
proof -
  assume n: "normal_segs (xs @ [s])"
  have "abs_path xs = sep \<longleftrightarrow> xs = []"
    using abs_path_inject [of xs "[]"] n by (simp add: abs_path_def normal_segs_def)
  then show ?thesis by (auto simp: append_seg_def abs_path_def js_join_append)
qed

lemma canon_loop_plain:
  "\<forall>p. realpathSync env p = Some p \<Longrightarrow> normal_segs (xs @ ys) \<Longrightarrow>
     canon_loop env (abs_path xs) ys = Some (abs_path (xs @ ys))"
proof (induction ys arbitrary: xs)
  case (Cons y ys)
  then have "append_seg (abs_path xs) y = abs_path (xs @ [y])" by (intro append_seg_abs) simp
  with Cons.prems Cons.IH [of "xs @ [y]"] show ?case by (simp add: Let_def)
qed simp

lemma canonicalizePath_plain:
  assumes "\<forall>p. realpathSync env p = Some p" "normal_segs xs"
  shows "canonicalizePath env (abs_path xs) = Some (abs_path xs)"
proof -
  have "path_isAbsolute (abs_path xs)" by (simp add: path_isAbsolute_def abs_path_def)
  with canon_loop_plain [OF assms(1), of "[]" xs] assms show ?thesis
    by (simp add: canonicalizePath_def) (simp add: abs_path_def)
qed

lemma normalizePath_inside:
  assumes "normalizePath env requested root = (np, True)"
  shows "\<exists>croot. canonicalizePath env (path_resolve (cwd env) [root]) = Some croot \<and>
     canonicalizePath env
       (path_resolve (cwd env) [root, replace_backslashes (decodePercentEncoding requested)]) = Some np \<and>
     within (path_resolve (cwd env) [root])
       (path_resolve (cwd env) [root, replace_backslashes (decodePercentEncoding requested)]) \<and>
     within croot np"
  using assms by (auto simp: normalizePath_def Let_def split: if_splits option.splits)

definition hostile_text :: "string \<Rightarrow> bool" where
  "hostile_text requested =
     ((let t = replace_backslashes (decodePercentEncoding requested) in
       (\<exists>c \<in> set t. is_control c) \<or> seg_depth 0 (path_segs t) < 0) \<or> js_includes requested ''%0'')"

lemma percent_00: "js_includes requested ''%00'' \<Longrightarrow> js_includes requested ''%0''"
proof -
  assume "js_includes requested ''%00''"
  then have "sublist ''%00'' requested" by (simp add: js_includes_iff)
  then obtain u v where "requested = u @ ''%0'' @ (CHR ''0'' # v)" by (auto simp: sublist_def)
  then show ?thesis unfolding js_includes_iff by (blast intro: sublist_appendI)
qed

section \<open>Secret names\<close>

lemma rx_match_icase:
  "rx_match r p q \<Longrightarrow> rx_match (rx_icase r) p q"
  by (induction rule: rx_match.induct) (auto simp: icase_cls_def intro: rx_match.intros)

lemma rx_test_icase: "rx_test r s \<Longrightarrow> rx_test (rx_icase r) s"
  unfolding rx_test_iff by (blast intro: rx_match_icase)

lemma rx_match_ext_end:
  assumes "v = [] \<or> (\<exists>w. v = CHR ''.'' # w \<and> (\<forall>c \<in> set w. is_dot c))"
  shows "\<exists>q. rx_match rx_ext_end (b, v) q"
proof (cases "v = []")
  case True
  then show ?thesis by (auto simp: rx_ext_end_def rx_match_simps rx_match_ROpt)
next
  case False
  with assms obtain w where w: "v = CHR ''.'' # w" "\<forall>c \<in> set w. is_dot c" by auto
  have "rx_match (RStar (RCls is_dot)) (Some (CHR ''.''), w @ []) (prev_of (Some (CHR ''.'')) w, [])"
    using w(2) by (rule rx_match_star_cls)
  with w(1) show ?thesis
    unfolding rx_ext_end_def rx_match_simps rx_match_ROpt
    by (intro exI conjI disjI1) auto
qed

lemma rx_match_seg_start: "rx_match rx_seg_start (b, ch_slash # v) (Some ch_slash, v)"
  by (simp add: rx_seg_start_def rx_match_simps)

lemma secretI: "rx_icase r \<in> set SECRET_PATH_PATTERNS \<Longrightarrow> rx_test r p \<Longrightarrow> isSecretPath p"
  unfolding isSecretPath_def by (blast intro: rx_test_icase)

lemma rx_test_below_slash:
  assumes "rx_match r (Some ch_slash, v) q"
  shows "rx_test (RSeq rx_seg_start r) (dir @ ch_slash # v)"
  using assms by (intro rx_testI [OF refl] rx_match.m_seq [OF rx_match_seg_start])

lemma rx_test_named_secret:
  assumes "\<forall>c \<in> set name. name_char c"
    and "v = [] \<or> (\<exists>x. v = CHR ''.'' # x \<and> (\<forall>c \<in> set x. is_dot c))"
  shows "rx_test (rx_named_secret w) (dir @ ch_slash # name @ w @ v)"
proof -
  let ?b = "prev_of (Some ch_slash) name"
  have n: "rx_match rx_name (Some ch_slash, name @ w @ v) (?b, w @ v)"
    unfolding rx_name_def by (rule rx_match_star_cls [OF assms(1)])
  have w: "rx_match (RStr w) (?b, w @ v) (prev_of ?b w, v)" by (auto simp: rx_match_RStr)
  have s: "rx_match (ROpt (RChr (CHR ''s''))) (prev_of ?b w, v) (prev_of ?b w, v)"
    by (simp add: rx_match_ROpt)
  obtain q where e: "rx_match rx_ext_end (prev_of ?b w, v) q"
    using rx_match_ext_end [OF assms(2)] by blast
  have "rx_match (RSeqs [rx_name, RStr w, ROpt (RChr (CHR ''s'')), rx_ext_end])
      (Some ch_slash, name @ w @ v) q"
    using rx_match.m_seq [OF n rx_match.m_seq [OF w rx_match.m_seq [OF s e]]] by simp
  then show ?thesis
    using rx_test_below_slash [of _ "name @ w @ v"] by (simp add: rx_named_secret_def)
qed

lemma rx_test_str_below: "rx_test (RSeq rx_seg_start (RStr w)) (dir @ ch_slash # w @ rest)"
  by (rule rx_test_below_slash) (auto simp: rx_match_RStr)

lemma rx_test_env:
  assumes "v = [] \<or> (\<exists>x. v = CHR ''.'' # x \<and> (\<forall>c \<in> set x. is_dot c))"
  shows "rx_test (RSeqs [rx_seg_start, RStr w, rx_ext_end]) (dir @ ch_slash # w @ v)"
proof -
  have w: "rx_match (RStr w) (Some ch_slash, w @ v) (prev_of (Some ch_slash) w, v)"
    by (auto simp: rx_match_RStr)
  obtain q where "rx_match rx_ext_end (prev_of (Some ch_slash) w, v) q"
    using rx_match_ext_end [OF assms] by blast
  from rx_test_below_slash [OF rx_match.m_seq [OF w this]] show ?thesis by simp
qed

lemma secret_pattern_members:
  "rx_icase (RSeqs [rx_seg_start, RStr ''.env'', rx_ext_end]) \<in> set SECRET_PATH_PATTERNS"
  "w \<in> {''key'', ''secret'', ''token''} \<Longrightarrow> rx_icase (rx_named_secret w) \<in> set SECRET_PATH_PATTERNS"
  "w \<in> {''.ssh/'', ''.gnupg/'', ''.aws/'', ''id_rsa'', ''id_ed25519''} \<Longrightarrow>
     rx_icase (RSeq rx_seg_start (RStr w)) \<in> set SECRET_PATH_PATTERNS"
  unfolding SECRET_PATH_PATTERNS_def by (simp del: rx_icase.simps RStr.simps RSeqs.simps, blast?)+

section \<open>Properties\<close>

text \<open>Secret material is recognised in every directory: environment files with
  any extension, everything below the key directories, private key files, and
  every file whose name ends in key, secret or token, with or without an
  extension.\<close>

lemma secret_path_recognised:
  assumes "ext = [] \<or> (\<exists>x. ext = CHR ''.'' # x \<and> (\<forall>c \<in> set x. is_dot c))"
    and "\<forall>c \<in> set name. name_char c"
    and "w \<in> {''key'', ''secret'', ''token''}"
    and "d \<in> {''.ssh/'', ''.gnupg/'', ''.aws/'', ''id_rsa'', ''id_ed25519''}"
  shows "isSecretPath (dir @ ''/.env'' @ ext) \<and>
     isSecretPath (dir @ ''/'' @ name @ w @ ext) \<and>
     isSecretPath (dir @ ''/'' @ d @ rest)"
  using secretI [OF secret_pattern_members(1) rx_test_env [OF assms(1), of "''.env''" dir]]
    secretI [OF secret_pattern_members(2) [OF assms(3)]
      rx_test_named_secret [OF assms(2) assms(1), of w dir]]
    secretI [OF secret_pattern_members(3) [OF assms(4)] rx_test_str_below [of d dir rest]]
  by simp

text \<open>Lexical containment is exact.  On a disk without symbolic links, for a root
  other than the file system root, a request is inside the root exactly when
  its text is not hostile and the segments of the root are a prefix of the
  segments of the resolved path, which contains no dot segment; the path
  returned is that resolved path.\<close>

lemma normalizePath_exact:
  fixes env :: fs_env and root requested :: string
  defines "resolved \<equiv> path_resolve (cwd env)
      [root, replace_backslashes (decodePercentEncoding requested)]"
    and "rroot \<equiv> path_resolve (cwd env) [root]"
  assumes "\<forall>p. realpathSync env p = Some p" and "rroot \<noteq> ''/''"
  shows "(snd (normalizePath env requested root) \<longleftrightarrow>
      \<not> hostile_text requested \<and> prefix (path_segs rroot) (path_segs resolved)) \<and>
     (snd (normalizePath env requested root) \<longrightarrow> fst (normalizePath env requested root) = resolved) \<and>
     ''..'' \<notin> set (path_segs resolved) \<and> ''.'' \<notin> set (path_segs resolved)"
proof -
  obtain xs where xs: "rroot = abs_path xs" "normal_segs xs"
    unfolding rroot_def using path_resolve_normal by blast
  obtain ys where ys: "resolved = abs_path ys" "normal_segs ys"
    unfolding resolved_def using path_resolve_normal by blast
  have "xs \<noteq> []" using assms(4) xs by (auto simp: abs_path_def)
  with xs ys have w: "within rroot resolved \<longleftrightarrow> prefix (path_segs rroot) (path_segs resolved)"
    using within_abs [of xs ys] by auto
  have c: "canonicalizePath env rroot = Some rroot" "canonicalizePath env resolved = Some resolved"
    using assms(3) xs ys by (simp_all add: canonicalizePath_plain)
  have nul: "CHR 0x00 \<in> set t \<Longrightarrow> \<exists>c \<in> set t. is_control c" for t
    by (intro bexI [of _ "CHR 0x00"]) (simp_all add: is_control_def)
  let ?t = "replace_backslashes (decodePercentEncoding requested)"
  have "normalizePath env requested root =
      (if hostile_text requested then (?t, False)
       else if within rroot resolved then (resolved, True) else (resolved, False))"
    unfolding normalizePath_def hostile_text_def Let_def
    using nul [of ?t] percent_00 [of requested] c
    by (auto simp: resolved_def rroot_def)
  then show ?thesis using w ys by (auto simp: normal_segs_def)
qed

definition plain_disk :: fs_env where
  "plain_disk = \<lparr>existsSync = (\<lambda>_. False), realpathSync = Some, cwd = ''/w''\<rparr>"

end
