(* ===== verification/Vito_ExecutionPolicy.thy ===== *)
theory Vito_ExecutionPolicy
  imports Vito_CommandPolicy Vito_PathPolicy
begin

text \<open>
  The policy evaluation engine of \<open>execution-policy.ts\<close>: \<open>evaluatePolicy\<close> with
  its path and command branches, and the mapping of a decision to an outcome.
  The disk and the current directory are the parameter \<open>env\<close>, the verdict of
  an unusual deny pattern the parameter \<open>regexp\<close>, the clock the parameter
  \<open>now\<close>.
\<close>

section \<open>Path actions\<close>

definition with_path :: "PolicyDecisionBase \<Rightarrow> string \<Rightarrow> PolicyDecisionBase" where
  "with_path base np = base\<lparr>d_normalizedPath := Some np\<rparr>"

definition deny_default :: "PolicyDecisionBase \<Rightarrow> PolicyReasonCode \<Rightarrow> PolicyDecision" where
  "deny_default base c = deny base c (POLICY_REASON_MESSAGES c)"

definition evaluateBuilderPath ::
  "fs_env \<Rightarrow> ExecutionPolicyConfig \<Rightarrow> PolicyEvaluationContext \<Rightarrow> PolicyDecisionBase \<Rightarrow> string \<Rightarrow>
   PolicyDecision" where
  "evaluateBuilderPath env pol ctx base normalizedPath =
     (let worktreeRoot = path_resolve (cwd env) [allowedRoot pol] in
      if within worktreeRoot normalizedPath
      then allow (with_path base normalizedPath) ''Builder path within assigned worktree.''
      else deny (with_path base normalizedPath) PATH_OUTSIDE_ALLOWED_ROOT
        ''Builder may only access paths within assigned worktree.'')"

definition evaluateReviewerPath ::
  "fs_env \<Rightarrow> ExecutionPolicyConfig \<Rightarrow> PolicyEvaluationContext \<Rightarrow> PolicyDecisionBase \<Rightarrow> string \<Rightarrow>
   PolicyDecision" where
  "evaluateReviewerPath env pol ctx base normalizedPath =
     (let worktreeRoot = path_resolve (cwd env) [allowedRoot pol] in
      if requestedAction ctx = READ_FILE
      then (if within worktreeRoot normalizedPath
            then allow (with_path base normalizedPath) ''Reviewer read within assigned worktree.''
            else deny (with_path base normalizedPath) PATH_OUTSIDE_ALLOWED_ROOT
              ''Reviewer may only read within assigned worktree.'')
      else deny_default (with_path base normalizedPath) REVIEWER_WRITE_DENIED)"

definition evaluateOrchestratorPath ::
  "fs_env \<Rightarrow> ExecutionPolicyConfig \<Rightarrow> PolicyEvaluationContext \<Rightarrow> PolicyDecisionBase \<Rightarrow> string \<Rightarrow>
   PolicyDecision" where
  "evaluateOrchestratorPath env pol ctx base normalizedPath =
     (let worktreeRoot = path_resolve (cwd env) [allowedRoot pol] in
      if requestedAction ctx = READ_FILE
      then (if within worktreeRoot normalizedPath
            then allow (with_path base normalizedPath) ''Orchestrator read within worktree.''
            else deny (with_path base normalizedPath) PATH_OUTSIDE_ALLOWED_ROOT
              ''Orchestrator may only read within assigned worktree.'')
      else deny (with_path base normalizedPath) PATH_OUTSIDE_ALLOWED_ROOT
        ''Orchestrator may not directly write/create/delete files.'')"

definition evaluateReleaseAuthorityPath ::
  "fs_env \<Rightarrow> ExecutionPolicyConfig \<Rightarrow> PolicyEvaluationContext \<Rightarrow> PolicyDecisionBase \<Rightarrow> string \<Rightarrow>
   PolicyDecision" where
  "evaluateReleaseAuthorityPath env pol ctx base normalizedPath =
     (let worktreeRoot = path_resolve (cwd env) [allowedRoot pol] in
      if requestedAction ctx = READ_FILE
      then (if within worktreeRoot normalizedPath
            then allow (with_path base normalizedPath) ''Release authority read within worktree.''
            else deny (with_path base normalizedPath) PATH_OUTSIDE_ALLOWED_ROOT
              ''Release authority may only read within assigned worktree.'')
      else deny (with_path base normalizedPath) PATH_OUTSIDE_ALLOWED_ROOT
        ''Release authority does not have arbitrary filesystem write authority.'')"

definition homeSensitivePatterns :: "string list" where
  "homeSensitivePatterns = [''.ssh'', ''.gnupg'', ''.aws'', ''.config/gh'', ''.config/hub'']"

definition home_denied :: "fs_env \<Rightarrow> string option \<Rightarrow> string \<Rightarrow> bool" where
  "home_denied env home normalizedPath =
     (truthy home \<and>
      (let resolvedHome = path_resolve (cwd env) [the home] in
       js_starts_with normalizedPath resolvedHome \<and>
       (normalizedPath = resolvedHome \<or>
        (\<exists>p \<in> set homeSensitivePatterns. js_includes normalizedPath p))))"

text \<open>The first denied pattern that matches.\<close>

fun first_denied :: "(string \<Rightarrow> string \<Rightarrow> bool) \<Rightarrow> string \<Rightarrow> string list \<Rightarrow> string option" where
  "first_denied regexp relativePath [] = None"
| "first_denied regexp relativePath (d # ds) =
     (if matchesDenyPattern regexp relativePath d then Some d
      else first_denied regexp relativePath ds)"

definition evaluatePathAction ::
  "fs_env \<Rightarrow> (string \<Rightarrow> string \<Rightarrow> bool) \<Rightarrow> ExecutionPolicyConfig \<Rightarrow> PolicyEvaluationContext \<Rightarrow>
   PolicyDecisionBase \<Rightarrow> PolicyDecision" where
  "evaluatePathAction env regexp pol ctx base =
     (if \<not> truthy (requestedPath ctx)
      then deny base PATH_OUTSIDE_ALLOWED_ROOT ''Path action requested without a path.''
      else
        (let requested = the (requestedPath ctx);
             (normalizedPath, insideRoot) = normalizePath env requested (allowedRoot pol) in
         if \<not> insideRoot then
           (if js_includes requested ''..'' \<or> js_includes normalizedPath ''..''
            then deny_default (with_path base normalizedPath) PATH_TRAVERSAL_REJECTED
            else deny_default (with_path base normalizedPath) PATH_OUTSIDE_ALLOWED_ROOT)
         else if home_denied env (homeDir ctx) normalizedPath
         then deny_default (with_path base normalizedPath) HOME_ACCESS_DENIED
         else if isSecretPath normalizedPath
         then deny_default (with_path base normalizedPath) SECRET_ACCESS_DENIED
         else
           (let relativePath = path_relative (cwd env)
                  (path_resolve (cwd env) [allowedRoot pol]) normalizedPath in
            case first_denied regexp relativePath (deniedPaths pol) of
              Some denied \<Rightarrow> deny (with_path base normalizedPath) PATH_EXPLICITLY_DENIED
                (''Path '' @ [CHR 0x22] @ relativePath @ [CHR 0x22] @ '' matches denied pattern '' @
                 [CHR 0x22] @ denied @ [CHR 0x22] @ ''.'')
            | None \<Rightarrow>
                (case executionProfile ctx of
                   BUILDER \<Rightarrow> evaluateBuilderPath env pol ctx base normalizedPath
                 | REVIEWER \<Rightarrow> evaluateReviewerPath env pol ctx base normalizedPath
                 | ORCHESTRATOR \<Rightarrow> evaluateOrchestratorPath env pol ctx base normalizedPath
                 | RELEASE_AUTHORITY \<Rightarrow>
                     evaluateReleaseAuthorityPath env pol ctx base normalizedPath
                 | UnknownProfile _ \<Rightarrow>
                     deny_default (with_path base normalizedPath) EXECUTION_PROFILE_UNKNOWN))))"

section \<open>Command actions\<close>

definition evaluateCommandAction ::
  "ExecutionPolicyConfig \<Rightarrow> PolicyEvaluationContext \<Rightarrow> PolicyDecisionBase \<Rightarrow> PolicyDecision" where
  "evaluateCommandAction pol ctx base =
     (if \<not> truthy (requestedCommand ctx)
      then deny base COMMAND_NOT_ALLOWED ''Command action requested without a command.''
      else
        (let result = classifyCommand (the (requestedCommand ctx)) (executionProfile ctx) pol in
         if fst result then allow base ''Command is classified as allowed.''
         else deny_default base (snd result)))"

section \<open>The engine\<close>

definition POLICY_VERSION :: string where
  "POLICY_VERSION = ''eo-01.4-v1''"

definition decision_base :: "int \<Rightarrow> PolicyEvaluationContext \<Rightarrow> PolicyDecisionBase" where
  "decision_base now ctx = \<lparr>
     d_executionProfile = executionProfile ctx,
     d_requestedAction = requestedAction ctx,
     d_requestedPath = requestedPath ctx,
     d_normalizedPath = requestedPath ctx,
     d_requestedCommand = requestedCommand ctx,
     d_policyVersion = POLICY_VERSION,
     d_evaluatedAt = now,
     d_organizationId = organizationId ctx,
     d_workflowRunId = workflowRunId ctx,
     d_workflowStepRunId = workflowStepRunId ctx,
     d_correlationId = correlationId ctx\<rparr>"

definition evaluatePolicy ::
  "fs_env \<Rightarrow> (string \<Rightarrow> string \<Rightarrow> bool) \<Rightarrow> int \<Rightarrow> PolicyEvaluationContext \<Rightarrow> PolicyDecision" where
  "evaluatePolicy env regexp now ctx =
     (let base = decision_base now ctx in
      case policy ctx of
        None \<Rightarrow> deny_default base POLICY_MISSING
      | Some pol \<Rightarrow>
          if \<not> known_profile (executionProfile ctx)
          then deny_default base EXECUTION_PROFILE_UNKNOWN
          else if \<not> known_action (requestedAction ctx)
          then deny_default base ACTION_UNKNOWN
          else
            (case requestedAction ctx of
               READ_FILE \<Rightarrow> evaluatePathAction env regexp pol ctx base
             | WRITE_FILE \<Rightarrow> evaluatePathAction env regexp pol ctx base
             | CREATE_FILE \<Rightarrow> evaluatePathAction env regexp pol ctx base
             | DELETE_FILE \<Rightarrow> evaluatePathAction env regexp pol ctx base
             | RUN_COMMAND \<Rightarrow> evaluateCommandAction pol ctx base
             | READ_SECRET \<Rightarrow> deny_default base SECRET_ACCESS_DENIED
             | NETWORK_ACCESS \<Rightarrow>
                 (if \<not> allowNetwork pol then deny_default base NETWORK_ACCESS_DENIED
                  else allow base ''Network access is permitted by policy.'')
             | GIT_READ \<Rightarrow> allow base ''Git read operation is permitted.''
             | GIT_COMMIT \<Rightarrow>
                 (if executionProfile ctx \<noteq> RELEASE_AUTHORITY \<or> \<not> allowGitCommit pol \<or>
                     releaseGateStatus ctx \<noteq> Some APPROVED
                  then deny_default base GIT_COMMIT_DENIED
                  else allow base ''Git commit permitted by governed release authority.'')
             | GIT_PUSH \<Rightarrow>
                 (if executionProfile ctx \<noteq> RELEASE_AUTHORITY \<or> \<not> allowGitPush pol \<or>
                     releaseGateStatus ctx \<noteq> Some APPROVED
                  then deny_default base GIT_PUSH_DENIED
                  else allow base ''Git push permitted by governed release authority.'')
             | GIT_MERGE \<Rightarrow> deny_default base GIT_MERGE_DENIED
             | GIT_REBASE \<Rightarrow> deny_default base GIT_REBASE_DENIED
             | GIT_BRANCH_DELETE \<Rightarrow> deny_default base GIT_BRANCH_DELETE_DENIED
             | REMOTE_REF_DELETE \<Rightarrow> deny_default base REMOTE_REF_DELETE_DENIED
             | UnknownAction _ \<Rightarrow> deny_default base ACTION_UNKNOWN))"

definition policyDecisionToOutcome :: "PolicyDecision \<Rightarrow> ExecutionOutcome option" where
  "policyDecisionToOutcome decision =
     (if allowed decision then None
      else (case reasonCode decision of
              EXECUTION_TIMEOUT \<Rightarrow> Some OUTCOME_TIMED_OUT
            | EXECUTION_BUDGET_EXCEEDED \<Rightarrow> Some OUTCOME_QUOTA_BLOCKED
            | _ \<Rightarrow> Some OUTCOME_POLICY_BLOCKED))"

section \<open>Facts\<close>

lemma deny_default_simps [simp]:
  "\<not> allowed (deny_default b c)" "reasonCode (deny_default b c) = c"
  "d_normalizedPath (deny_default b c) = d_normalizedPath b"
  by (simp_all add: deny_default_def)

lemma with_path_simps [simp]: "d_normalizedPath (with_path b p) = Some p"
  by (simp add: with_path_def)

lemma first_denied_None_iff:
  "first_denied regexp rel ds = None \<longleftrightarrow> (\<forall>d \<in> set ds. \<not> matchesDenyPattern regexp rel d)"
  by (induction ds) auto

lemmas path_profile_defs = evaluateBuilderPath_def evaluateReviewerPath_def
  evaluateOrchestratorPath_def evaluateReleaseAuthorityPath_def

text \<open>The verdict of the profile branch, for the four profiles.\<close>

definition profile_path_ok :: "fs_env \<Rightarrow> ExecutionPolicyConfig \<Rightarrow> PolicyEvaluationContext \<Rightarrow> string \<Rightarrow> bool" where
  "profile_path_ok env pol ctx np =
     (known_profile (executionProfile ctx) \<and>
      (executionProfile ctx \<noteq> BUILDER \<longrightarrow> requestedAction ctx = READ_FILE) \<and>
      within (path_resolve (cwd env) [allowedRoot pol]) np)"

lemma evaluatePathAction_allowed:
  "allowed (evaluatePathAction env regexp pol ctx base) \<longleftrightarrow>
     (\<exists>p np. requestedPath ctx = Some p \<and> p \<noteq> [] \<and>
        normalizePath env p (allowedRoot pol) = (np, True) \<and>
        \<not> home_denied env (homeDir ctx) np \<and> \<not> isSecretPath np \<and>
        (\<forall>d \<in> set (deniedPaths pol). \<not> matchesDenyPattern regexp
           (path_relative (cwd env) (path_resolve (cwd env) [allowedRoot pol]) np) d) \<and>
        profile_path_ok env pol ctx np)"
proof (cases "requestedPath ctx")
  case None
  then show ?thesis by (simp add: evaluatePathAction_def)
next
  case (Some p)
  obtain np inside where n: "normalizePath env p (allowedRoot pol) = (np, inside)" by fastforce
  show ?thesis
    by (cases "executionProfile ctx")
       (auto simp: evaluatePathAction_def Some n Let_def path_profile_defs profile_path_ok_def
          known_profile_def first_denied_None_iff [symmetric] split: option.splits)
qed

lemma evaluatePathAction_normalized:
  "allowed (evaluatePathAction env regexp pol ctx base) \<Longrightarrow> requestedPath ctx = Some p \<Longrightarrow>
     d_normalizedPath (evaluatePathAction env regexp pol ctx base) =
       Some (fst (normalizePath env p (allowedRoot pol)))"
  by (cases "executionProfile ctx"; cases "normalizePath env p (allowedRoot pol)")
     (auto simp: evaluatePathAction_def Let_def path_profile_defs split: if_splits option.splits)

text \<open>The reason code of a classification says whether it accepts.\<close>

definition coherent :: "verdict_pair \<Rightarrow> bool" where
  "coherent v = ((fst v \<longleftrightarrow> snd v = POLICY_ALLOWED) \<and>
     snd v \<notin> {EXECUTION_TIMEOUT, EXECUTION_BUDGET_EXCEEDED})"

lemma coherent_simps [simp]: "coherent ok_cmd" "coherent bad_cmd"
  by (simp_all add: coherent_def)

lemma coherent_git: "coherent (classifyGitCommand tokens prof pol)"
  unfolding classifyGitCommand_def Let_def coherent_def by simp

lemma coherent_single: "coherent (classifySingleCommand command prof pol)"
  unfolding classifySingleCommand_def Let_def by (simp add: coherent_git)

lemma coherent_chain: "coherent (classify_chain prof pol cmds)"
  by (induction cmds) (simp_all add: Let_def coherent_single)

lemma coherent_classifyCommand: "coherent (classifyCommand command prof pol)"
  unfolding classifyCommand_def Let_def by (simp add: coherent_chain)

definition coherent_decision :: "PolicyDecision \<Rightarrow> bool" where
  "coherent_decision d = coherent (allowed d, reasonCode d)"

lemma coherent_decision_simps [simp]:
  "coherent_decision (allow b r)"
  "coherent_decision (deny b c r) \<longleftrightarrow>
     c \<notin> {POLICY_ALLOWED, EXECUTION_TIMEOUT, EXECUTION_BUDGET_EXCEEDED}"
  "coherent_decision (deny_default b c) \<longleftrightarrow>
     c \<notin> {POLICY_ALLOWED, EXECUTION_TIMEOUT, EXECUTION_BUDGET_EXCEEDED}"
  by (simp_all add: coherent_decision_def coherent_def)

lemma coherent_path: "coherent_decision (evaluatePathAction env regexp pol ctx base)"
  unfolding evaluatePathAction_def path_profile_defs Let_def
  by (simp split: prod.split option.split ExecutionProfile.split)

lemma coherent_command: "coherent_decision (evaluateCommandAction pol ctx base)"
  using coherent_classifyCommand [of "the (requestedCommand ctx)" "executionProfile ctx" pol]
  by (auto simp: evaluateCommandAction_def Let_def coherent_def)

lemma coherent_evaluatePolicy: "coherent_decision (evaluatePolicy env regexp now ctx)"
  unfolding evaluatePolicy_def Let_def
  by (simp add: coherent_path coherent_command split: option.split ExecutionAction.split)

definition path_action :: "ExecutionAction \<Rightarrow> bool" where
  "path_action a = (a \<in> {READ_FILE, WRITE_FILE, CREATE_FILE, DELETE_FILE})"

lemma evaluatePolicy_path:
  assumes "path_action (requestedAction ctx)"
    and "allowed (evaluatePolicy env regexp now ctx)"
  shows "\<exists>pol. policy ctx = Some pol \<and>
     evaluatePolicy env regexp now ctx = evaluatePathAction env regexp pol ctx (decision_base now ctx)"
proof -
  obtain pol where pol: "policy ctx = Some pol"
    using assms(2) by (cases "policy ctx") (simp_all add: evaluatePolicy_def Let_def)
  have "known_profile (executionProfile ctx)"
    using assms(2) by (cases "known_profile (executionProfile ctx)")
      (simp_all add: evaluatePolicy_def Let_def pol)
  moreover have "known_action (requestedAction ctx)"
    using assms(1) by (auto simp: path_action_def known_action_def)
  ultimately show ?thesis
    using assms(1) pol by (auto simp: evaluatePolicy_def path_action_def Let_def)
qed

section \<open>Properties\<close>

text \<open>C20. File access is contained.  An allowed file action names a path whose
  canonical form, the one reported in the decision, lies below the worktree
  root both textually and after resolving symbolic links, is no secret, matches
  no denied pattern and is not the home directory; and only the builder may do
  anything other than read.\<close>

theorem path_access_contained:
  assumes "path_action (requestedAction ctx)"
    and "allowed (evaluatePolicy env regexp now ctx)"
  shows "\<exists>pol p np croot. policy ctx = Some pol \<and> requestedPath ctx = Some p \<and>
     d_normalizedPath (evaluatePolicy env regexp now ctx) = Some np \<and>
     within (path_resolve (cwd env) [allowedRoot pol]) np \<and>
     canonicalizePath env (path_resolve (cwd env) [allowedRoot pol]) = Some croot \<and>
     within croot np \<and>
     \<not> isSecretPath np \<and>
     (\<forall>d \<in> set (deniedPaths pol). \<not> matchesDenyPattern regexp
        (path_relative (cwd env) (path_resolve (cwd env) [allowedRoot pol]) np) d) \<and>
     (\<forall>h. homeDir ctx = Some h \<and> h \<noteq> [] \<longrightarrow> np \<noteq> path_resolve (cwd env) [h]) \<and>
     (executionProfile ctx = BUILDER \<or>
      executionProfile ctx \<in> {REVIEWER, ORCHESTRATOR, RELEASE_AUTHORITY} \<and>
      requestedAction ctx = READ_FILE)"
proof -
  from evaluatePolicy_path [OF assms] obtain pol where pol: "policy ctx = Some pol"
    and eq: "evaluatePolicy env regexp now ctx =
      evaluatePathAction env regexp pol ctx (decision_base now ctx)" by blast
  from assms(2) obtain p np where p: "requestedPath ctx = Some p"
    and n: "normalizePath env p (allowedRoot pol) = (np, True)"
    and h: "\<not> home_denied env (homeDir ctx) np" and s: "\<not> isSecretPath np"
    and d: "\<forall>d \<in> set (deniedPaths pol). \<not> matchesDenyPattern regexp
        (path_relative (cwd env) (path_resolve (cwd env) [allowedRoot pol]) np) d"
    and ok: "profile_path_ok env pol ctx np"
    unfolding eq evaluatePathAction_allowed by blast
  from assms(2) have "allowed (evaluatePathAction env regexp pol ctx (decision_base now ctx))"
    by (simp add: eq)
  from evaluatePathAction_normalized [OF this p] n
  have dn: "d_normalizedPath (evaluatePolicy env regexp now ctx) = Some np" by (simp add: eq)
  have "np \<noteq> path_resolve (cwd env) [h']" if "homeDir ctx = Some h'" "h' \<noteq> []" for h'
    using h that by (auto simp: home_denied_def Let_def js_starts_with_iff)
  moreover obtain croot where
    "canonicalizePath env (path_resolve (cwd env) [allowedRoot pol]) = Some croot" "within croot np"
    using normalizePath_inside [OF n] by blast
  ultimately show ?thesis
    using pol p dn s d ok by (auto simp: profile_path_ok_def known_profile_def)
qed

definition sample_ctx :: "ExecutionAction \<Rightarrow> PolicyEvaluationContext" where
  "sample_ctx a = \<lparr>executionProfile = REVIEWER, requestedAction = a,
     requestedPath = Some ''src/a.ts'', requestedCommand = None, homeDir = Some ''/home/u'',
     policy = Some (createReviewerPolicy ''/w/r''), releaseGateStatus = None,
     organizationId = None, workflowRunId = None, workflowStepRunId = None, correlationId = None\<rparr>"

theorem path_access_contained_witness:
  "allowed (evaluatePolicy plain_disk (\<lambda>_ _. False) 0 (sample_ctx READ_FILE)) \<and>
   (\<exists>np. d_normalizedPath (evaluatePolicy plain_disk (\<lambda>_ _. False) 0 (sample_ctx READ_FILE)) = Some np \<and>
      within (path_resolve ''/w'' [''/w/r'']) np)"
proof -
  have a: "allowed (evaluatePolicy plain_disk (\<lambda>_ _. False) 0 (sample_ctx READ_FILE))"
    by code_simp
  have "path_action (requestedAction (sample_ctx READ_FILE))"
    by (simp add: path_action_def sample_ctx_def)
  from path_access_contained [OF this a] a show ?thesis
    by (auto simp: sample_ctx_def createReviewerPolicy_def plain_disk_def)
qed

text \<open>The engine fails closed.  It allows only with a policy, a known profile and a
  known action; the reason code is POLICY\_ALLOWED exactly when it allows; and a
  denial always maps to the outcome POLICY\_BLOCKED.\<close>

lemma policy_fails_closed:
  "(allowed (evaluatePolicy env regexp now ctx) \<longrightarrow>
      policy ctx \<noteq> None \<and> known_profile (executionProfile ctx) \<and>
      known_action (requestedAction ctx)) \<and>
   (allowed (evaluatePolicy env regexp now ctx) \<longleftrightarrow>
      reasonCode (evaluatePolicy env regexp now ctx) = POLICY_ALLOWED) \<and>
   policyDecisionToOutcome (evaluatePolicy env regexp now ctx) =
     (if allowed (evaluatePolicy env regexp now ctx) then None else Some OUTCOME_POLICY_BLOCKED)"
proof -
  have "allowed (evaluatePolicy env regexp now ctx) \<longrightarrow>
      policy ctx \<noteq> None \<and> known_profile (executionProfile ctx) \<and> known_action (requestedAction ctx)"
    by (auto simp: evaluatePolicy_def Let_def split: option.splits if_splits)
  with coherent_evaluatePolicy [of env regexp now ctx] show ?thesis
    by (simp add: coherent_decision_def coherent_def policyDecisionToOutcome_def
        split: PolicyReasonCode.split)
qed

text \<open>C21. Release authority.  A git commit or push is allowed exactly for the release
  authority, with the policy flag set and the human release gate approved.  Secret
  access, merge, rebase and the deletion of branches and remote refs are denied
  whatever the context, and network access needs the policy's grant.\<close>

theorem release_authority_matrix:
  "(requestedAction ctx = GIT_COMMIT \<longrightarrow>
      (allowed (evaluatePolicy env regexp now ctx) \<longleftrightarrow>
         executionProfile ctx = RELEASE_AUTHORITY \<and> releaseGateStatus ctx = Some APPROVED \<and>
         (\<exists>pol. policy ctx = Some pol \<and> allowGitCommit pol))) \<and>
   (requestedAction ctx = GIT_PUSH \<longrightarrow>
      (allowed (evaluatePolicy env regexp now ctx) \<longleftrightarrow>
         executionProfile ctx = RELEASE_AUTHORITY \<and> releaseGateStatus ctx = Some APPROVED \<and>
         (\<exists>pol. policy ctx = Some pol \<and> allowGitPush pol))) \<and>
   (requestedAction ctx = NETWORK_ACCESS \<longrightarrow>
      (allowed (evaluatePolicy env regexp now ctx) \<longleftrightarrow> known_profile (executionProfile ctx) \<and>
         (\<exists>pol. policy ctx = Some pol \<and> allowNetwork pol))) \<and>
   (requestedAction ctx \<in>
      {READ_SECRET, GIT_MERGE, GIT_REBASE, GIT_BRANCH_DELETE, REMOTE_REF_DELETE} \<longrightarrow>
      \<not> allowed (evaluatePolicy env regexp now ctx))"
  by (auto simp: evaluatePolicy_def Let_def known_profile_def known_action_def split: option.splits)

theorem release_authority_matrix_witness:
  "allowed (evaluatePolicy plain_disk (\<lambda>_ _. False) 0 ((sample_ctx GIT_PUSH)\<lparr>
      executionProfile := RELEASE_AUTHORITY, releaseGateStatus := Some APPROVED,
      policy := Some ((createBuilderPolicy ''/w'')\<lparr>allowGitPush := True\<rparr>)\<rparr>)) \<and>
   \<not> allowed (evaluatePolicy plain_disk (\<lambda>_ _. False) 0 (sample_ctx GIT_PUSH)) \<and>
   \<not> allowed (evaluatePolicy plain_disk (\<lambda>_ _. False) 0 (sample_ctx READ_SECRET))"
  using release_authority_matrix [of "(sample_ctx GIT_PUSH)\<lparr>
      executionProfile := RELEASE_AUTHORITY, releaseGateStatus := Some APPROVED,
      policy := Some ((createBuilderPolicy ''/w'')\<lparr>allowGitPush := True\<rparr>)\<rparr>"
      plain_disk "\<lambda>_ _. False" 0]
    release_authority_matrix [of "sample_ctx GIT_PUSH" plain_disk "\<lambda>_ _. False" 0]
    release_authority_matrix [of "sample_ctx READ_SECRET" plain_disk "\<lambda>_ _. False" 0]
  by (auto simp: sample_ctx_def createReviewerPolicy_def)

end
