(* ===== verification/Vito_StateMachine.thy ===== *)
theory Vito_StateMachine
  imports Vito_Prelude
begin

text \<open>
  The pure engineering workflow state machine of
  \<open>packages/contracts/src/engineering\<close>: the vocabulary of \<open>workflow.ts\<close>,
  \<open>review.ts\<close>, \<open>execution.ts\<close> and \<open>assurance.ts\<close>, the transition function of
  \<open>state-machine.ts\<close> with its AL4 enforcement, and the human decision of
  \<open>human-decision.ts\<close>.  An optional field is an \<^typ>\<open>'a option\<close>; the loop
  counters, plain JavaScript numbers, are integers.  A verdict reaches the
  machine as an unchecked string, so the type has a constructor for a string
  that is none of A, B, C, D.
\<close>

section \<open>Vocabulary\<close>

datatype WorkflowRunStatus =
    RUN_CREATED | RUN_RUNNING | RUN_WAITING_FOR_HUMAN | RUN_BLOCKED
  | RUN_COMPLETED | RUN_FAILED | RUN_CANCELLED

datatype WorkflowStepStatus =
    STEP_PENDING | STEP_READY | STEP_RUNNING | STEP_WAITING
  | STEP_SUCCEEDED | STEP_FAILED | STEP_SKIPPED | STEP_CANCELLED

datatype EngineeringStepType =
    PLAN | BUILD | TEST | PACKAGE | RED_TEAM | PARSE_VERDICT | CORRECTION | VERIFY
  | HUMAN_RELEASE_GATE | RELEASE_EXECUTION | REMOTE_VERIFY

fun step_name :: "EngineeringStepType \<Rightarrow> string" where
  "step_name PLAN = ''PLAN''"
| "step_name BUILD = ''BUILD''"
| "step_name TEST = ''TEST''"
| "step_name PACKAGE = ''PACKAGE''"
| "step_name RED_TEAM = ''RED_TEAM''"
| "step_name PARSE_VERDICT = ''PARSE_VERDICT''"
| "step_name CORRECTION = ''CORRECTION''"
| "step_name VERIFY = ''VERIFY''"
| "step_name HUMAN_RELEASE_GATE = ''HUMAN_RELEASE_GATE''"
| "step_name RELEASE_EXECUTION = ''RELEASE_EXECUTION''"
| "step_name REMOTE_VERIFY = ''REMOTE_VERIFY''"

datatype AgentExecutionStatus =
    AES_QUEUED | AES_STARTING | AES_RUNNING | AES_SUCCEEDED | AES_FAILED
  | AES_TIMED_OUT | AES_CANCELLED | AES_POLICY_BLOCKED | AES_QUOTA_BLOCKED

record RetryPolicy =
  maxCorrectionLoops :: int
  maxProviderRetriesPerStep :: int

definition DEFAULT_RETRY_POLICY :: RetryPolicy where
  "DEFAULT_RETRY_POLICY = \<lparr>maxCorrectionLoops = 3, maxProviderRetriesPerStep = 2\<rparr>"

record IndependenceContext =
  builderProviderId :: "string option"
  builderModelFamily :: "string option"
  previousReviewerProviderIds :: "string list"
  previousReviewerModelFamilies :: "string list"

datatype AssuranceUnsatisfiedReason =
    REVIEWER_INDEPENDENCE_UNSATISFIED
  | MODEL_FAMILY_REQUIREMENT_UNSATISFIED
  | MIN_REVIEWER_COUNT_UNSATISFIED
  | HUMAN_GATE_REQUIREMENT_UNSATISFIED
  | BUILDER_MODEL_FAMILY_UNKNOWN
  | REVIEW_EVIDENCE_INSUFFICIENT
  | REVIEWER_EXECUTION_NOT_DISTINCT
  | REVIEWER_PROVIDER_NOT_DISTINCT

datatype AssuranceLevel = AL1 | AL2 | AL3 | AL4

datatype ReviewVerdict = VerdictA | VerdictB | VerdictC | VerdictD | VerdictOther string

datatype ReviewFindingSeverity = SEV_INFO | SEV_LOW | SEV_MEDIUM | SEV_HIGH | SEV_CRITICAL

datatype ReviewFindingCategory =
    CORRECTNESS | SECURITY | ARCHITECTURE | TESTING | MAINTAINABILITY | GOVERNANCE | OTHER

record ReviewFinding =
  findingId :: string
  severity :: ReviewFindingSeverity
  category :: ReviewFindingCategory
  summary :: string
  evidenceRefs :: "string list"
  blocking :: bool

record ReviewResult =
  rr_verdict :: ReviewVerdict
  findings :: "ReviewFinding list"
  reviewerExecutionId :: string
  rr_assuranceLevel :: AssuranceLevel
  artifactRefs :: "string list"

datatype BlockReason =
    LOOP_EXHAUSTED int
  | REVIEW_DISAGREEMENT "ReviewVerdict list"
  | HUMAN_DECISION_REQUIRED ReviewVerdict
  | ASSURANCE_UNSATISFIED AssuranceUnsatisfiedReason
  | HUMAN_APPROVAL_MISSING
  | PROVIDER_BLOCKED AgentExecutionStatus

datatype TransitionOutcome =
    NEXT_STEP EngineeringStepType
  | BLOCKED BlockReason
  | COMPLETED
  | FAILED string

datatype StepResult = SUCCEEDED | STEP_RESULT_FAILED

record StateMachineInput =
  completedStep :: EngineeringStepType
  stepStatus :: StepResult
  verdict :: "ReviewVerdict option"
  reviewResults :: "ReviewResult list option"
  providerStatus :: "AgentExecutionStatus option"
  correctionLoopCount :: int
  retryPolicy :: RetryPolicy
  humanApproved :: "bool option"
  independenceContext :: "IndependenceContext option"
  assuranceLevel :: "AssuranceLevel option"

section \<open>Reviewer disagreement\<close>

datatype DisagreementResolution =
    Agreement ReviewVerdict
  | Disagreement "ReviewVerdict list"

fun resolveReviewerDisagreement :: "ReviewResult list \<Rightarrow> DisagreementResolution" where
  "resolveReviewerDisagreement [] = Disagreement []"
| "resolveReviewerDisagreement (r # rs) =
     (let verdicts = map rr_verdict (r # rs); first = rr_verdict r
      in if list_all (\<lambda>v. v = first) verdicts then Agreement first
         else Disagreement verdicts)"

lemma resolveReviewerDisagreement_Agreement_iff:
  "resolveReviewerDisagreement rs = Agreement v \<longleftrightarrow> rs \<noteq> [] \<and> (\<forall>r \<in> set rs. rr_verdict r = v)"
  by (cases rs) (auto simp: Let_def list_all_iff)

definition resolveVerdict :: "StateMachineInput \<Rightarrow> BlockReason + ReviewVerdict" where
  "resolveVerdict input =
     (case reviewResults input of
        Some (r # rs) \<Rightarrow>
          (case resolveReviewerDisagreement (r # rs) of
             Disagreement vs \<Rightarrow> Inl (REVIEW_DISAGREEMENT vs)
           | Agreement v \<Rightarrow> Inr v)
      | _ \<Rightarrow>
          (case verdict input of
             Some v \<Rightarrow> Inr v
           | None \<Rightarrow> Inl (REVIEW_DISAGREEMENT [])))"

section \<open>AL4 enforcement\<close>

definition blank :: "string option \<Rightarrow> bool" where
  "blank s = (\<not> truthy s \<or> js_trim (the s) = [])"

definition enforceAl4Requirements :: "StateMachineInput \<Rightarrow> BlockReason option" where
  "enforceAl4Requirements input =
     (if assuranceLevel input \<noteq> Some AL4 then None
      else case reviewResults input of
        None \<Rightarrow> Some (ASSURANCE_UNSATISFIED REVIEW_EVIDENCE_INSUFFICIENT)
      | Some results \<Rightarrow>
          if length results < 2 then Some (ASSURANCE_UNSATISFIED REVIEW_EVIDENCE_INSUFFICIENT)
          else
            (let executionIds = map reviewerExecutionId results in
             if set_size executionIds < length executionIds
             then Some (ASSURANCE_UNSATISFIED REVIEWER_EXECUTION_NOT_DISTINCT)
             else case independenceContext input of
               None \<Rightarrow> Some (ASSURANCE_UNSATISFIED MIN_REVIEWER_COUNT_UNSATISFIED)
             | Some ctx \<Rightarrow>
                 if set_size (previousReviewerProviderIds ctx) < 2
                 then Some (ASSURANCE_UNSATISFIED REVIEWER_PROVIDER_NOT_DISTINCT)
                 else if length (previousReviewerModelFamilies ctx) < 2
                 then Some (ASSURANCE_UNSATISFIED MODEL_FAMILY_REQUIREMENT_UNSATISFIED)
                 else if blank (builderModelFamily ctx)
                 then Some (ASSURANCE_UNSATISFIED BUILDER_MODEL_FAMILY_UNKNOWN)
                 else
                   (let reviewer1Family = previousReviewerModelFamilies ctx ! 0;
                        reviewer2Family = previousReviewerModelFamilies ctx ! 1 in
                    if Some reviewer1Family = builderModelFamily ctx
                    then Some (ASSURANCE_UNSATISFIED REVIEWER_INDEPENDENCE_UNSATISFIED)
                    else if reviewer1Family \<noteq> [] \<and> reviewer2Family \<noteq> [] \<and>
                            reviewer1Family = reviewer2Family
                    then Some (ASSURANCE_UNSATISFIED MODEL_FAMILY_REQUIREMENT_UNSATISFIED)
                    else None)))"

definition checkAl4Independence ::
  "IndependenceContext \<Rightarrow> int \<Rightarrow> AssuranceUnsatisfiedReason option" where
  "checkAl4Independence ctx reviewerCount =
     (if reviewerCount < 2 then Some MIN_REVIEWER_COUNT_UNSATISFIED
      else if length (previousReviewerModelFamilies ctx) < 2
      then Some MODEL_FAMILY_REQUIREMENT_UNSATISFIED
      else if blank (builderModelFamily ctx) then Some BUILDER_MODEL_FAMILY_UNKNOWN
      else
        (let reviewer1Family = previousReviewerModelFamilies ctx ! 0;
             reviewer2Family = previousReviewerModelFamilies ctx ! 1 in
         if Some reviewer1Family = builderModelFamily ctx
         then Some REVIEWER_INDEPENDENCE_UNSATISFIED
         else if reviewer1Family \<noteq> [] \<and> reviewer2Family \<noteq> [] \<and> reviewer1Family = reviewer2Family
         then Some MODEL_FAMILY_REQUIREMENT_UNSATISFIED
         else None))"

section \<open>The transition function\<close>

definition parse_verdict_outcome :: "StateMachineInput \<Rightarrow> TransitionOutcome" where
  "parse_verdict_outcome input =
     (if stepStatus input \<noteq> SUCCEEDED then FAILED ''PARSE_VERDICT requires succeeded status''
      else case resolveVerdict input of
        Inl b \<Rightarrow> BLOCKED b
      | Inr v \<Rightarrow>
          (case (if assuranceLevel input = Some AL4 then enforceAl4Requirements input else None) of
             Some b \<Rightarrow> BLOCKED b
           | None \<Rightarrow>
               (case v of
                  VerdictA \<Rightarrow> NEXT_STEP VERIFY
                | VerdictB \<Rightarrow> NEXT_STEP VERIFY
                | VerdictC \<Rightarrow>
                    if correctionLoopCount input \<ge> maxCorrectionLoops (retryPolicy input)
                    then BLOCKED (LOOP_EXHAUSTED (correctionLoopCount input))
                    else NEXT_STEP CORRECTION
                | VerdictD \<Rightarrow> BLOCKED (HUMAN_DECISION_REQUIRED VerdictD)
                | VerdictOther _ \<Rightarrow> FAILED (''Unknown step type: '' @ step_name PARSE_VERDICT))))"

definition provider_blocks :: "AgentExecutionStatus option \<Rightarrow> bool" where
  "provider_blocks s = (s = Some AES_QUOTA_BLOCKED \<or> s = Some AES_POLICY_BLOCKED)"

definition on_success :: "StateMachineInput \<Rightarrow> EngineeringStepType \<Rightarrow> string \<Rightarrow> TransitionOutcome" where
  "on_success input next reason =
     (if stepStatus input = SUCCEEDED then NEXT_STEP next else FAILED reason)"

definition nextEngineeringStep :: "StateMachineInput \<Rightarrow> TransitionOutcome" where
  "nextEngineeringStep input =
     (if provider_blocks (providerStatus input)
      then BLOCKED (PROVIDER_BLOCKED (the (providerStatus input)))
      else case completedStep input of
        PLAN \<Rightarrow> on_success input BUILD ''PLAN step failed''
      | BUILD \<Rightarrow> on_success input TEST ''BUILD step failed''
      | TEST \<Rightarrow>
          if stepStatus input = SUCCEEDED then NEXT_STEP PACKAGE
          else if correctionLoopCount input \<ge> maxCorrectionLoops (retryPolicy input)
          then BLOCKED (LOOP_EXHAUSTED (correctionLoopCount input))
          else NEXT_STEP CORRECTION
      | PACKAGE \<Rightarrow> on_success input RED_TEAM ''PACKAGE step failed''
      | RED_TEAM \<Rightarrow> on_success input PARSE_VERDICT ''RED_TEAM step failed''
      | PARSE_VERDICT \<Rightarrow> parse_verdict_outcome input
      | CORRECTION \<Rightarrow> on_success input TEST ''CORRECTION step failed''
      | VERIFY \<Rightarrow> on_success input HUMAN_RELEASE_GATE ''VERIFY step failed''
      | HUMAN_RELEASE_GATE \<Rightarrow>
          if humanApproved input = Some True then NEXT_STEP RELEASE_EXECUTION
          else BLOCKED HUMAN_APPROVAL_MISSING
      | RELEASE_EXECUTION \<Rightarrow> on_success input REMOTE_VERIFY ''RELEASE_EXECUTION step failed''
      | REMOTE_VERIFY \<Rightarrow>
          if stepStatus input = SUCCEEDED then COMPLETED
          else FAILED ''REMOTE_VERIFY step failed'')"

section \<open>The human decision after a block\<close>

record HumanDecisionInput =
  hd_blockReason :: BlockReason
  hd_correctionLoopCount :: int
  hd_retryPolicy :: RetryPolicy

definition nextEngineeringHumanDecision :: "HumanDecisionInput \<Rightarrow> TransitionOutcome" where
  "nextEngineeringHumanDecision input =
     (if hd_blockReason input \<noteq> HUMAN_DECISION_REQUIRED VerdictD
      then BLOCKED (hd_blockReason input)
      else if hd_correctionLoopCount input \<ge> maxCorrectionLoops (hd_retryPolicy input)
      then BLOCKED (LOOP_EXHAUSTED (hd_correctionLoopCount input))
      else NEXT_STEP CORRECTION)"

section \<open>Facts about single transitions\<close>

lemmas transition_defs = nextEngineeringStep_def parse_verdict_outcome_def on_success_def
  provider_blocks_def
lemmas transition_splits = EngineeringStepType.splits if_splits option.splits sum.splits
  ReviewVerdict.splits

lemma parse_verdict_outcome_next:
  "parse_verdict_outcome input = NEXT_STEP s \<Longrightarrow>
     stepStatus input = SUCCEEDED \<and>
     (s = VERIFY \<or>
      s = CORRECTION \<and> correctionLoopCount input < maxCorrectionLoops (retryPolicy input))"
  by (auto simp: parse_verdict_outcome_def split: transition_splits)

text \<open>The edges of the workflow graph.\<close>

fun step_edge :: "EngineeringStepType \<Rightarrow> EngineeringStepType \<Rightarrow> bool" where
  "step_edge PLAN s = (s = BUILD)"
| "step_edge BUILD s = (s = TEST)"
| "step_edge TEST s = (s \<in> {PACKAGE, CORRECTION})"
| "step_edge PACKAGE s = (s = RED_TEAM)"
| "step_edge RED_TEAM s = (s = PARSE_VERDICT)"
| "step_edge PARSE_VERDICT s = (s \<in> {VERIFY, CORRECTION})"
| "step_edge CORRECTION s = (s = TEST)"
| "step_edge VERIFY s = (s = HUMAN_RELEASE_GATE)"
| "step_edge HUMAN_RELEASE_GATE s = (s = RELEASE_EXECUTION)"
| "step_edge RELEASE_EXECUTION s = (s = REMOTE_VERIFY)"
| "step_edge REMOTE_VERIFY s = False"

lemma nextEngineeringStep_edge:
  "nextEngineeringStep input = NEXT_STEP s \<Longrightarrow> step_edge (completedStep input) s"
  by (cases "completedStep input")
     (auto simp: nextEngineeringStep_def on_success_def dest!: parse_verdict_outcome_next
           split: if_splits)

lemma nextEngineeringStep_correction:
  "nextEngineeringStep input = NEXT_STEP CORRECTION \<Longrightarrow>
     correctionLoopCount input < maxCorrectionLoops (retryPolicy input)"
  by (cases "completedStep input")
     (auto simp: nextEngineeringStep_def on_success_def dest!: parse_verdict_outcome_next
           split: if_splits)

lemma nextEngineeringStep_release:
  "nextEngineeringStep input = NEXT_STEP RELEASE_EXECUTION \<longleftrightarrow>
     completedStep input = HUMAN_RELEASE_GATE \<and> humanApproved input = Some True \<and>
     \<not> provider_blocks (providerStatus input)"
  by (cases "completedStep input")
     (auto simp: nextEngineeringStep_def on_success_def dest!: parse_verdict_outcome_next
           split: if_splits)

lemma nextEngineeringStep_completed:
  "nextEngineeringStep input = COMPLETED \<longleftrightarrow>
     completedStep input = REMOTE_VERIFY \<and> stepStatus input = SUCCEEDED \<and>
     \<not> provider_blocks (providerStatus input)"
  by (cases "completedStep input")
     (auto simp: nextEngineeringStep_def on_success_def parse_verdict_outcome_def
           split: if_splits option.splits sum.splits ReviewVerdict.splits)

lemma enforceAl4_None_iff:
  "enforceAl4Requirements input = None \<longleftrightarrow>
     assuranceLevel input \<noteq> Some AL4 \<or>
     (\<exists>results ctx. reviewResults input = Some results \<and> 2 \<le> length results \<and>
        distinct (map reviewerExecutionId results) \<and>
        independenceContext input = Some ctx \<and>
        2 \<le> card (set (previousReviewerProviderIds ctx)) \<and>
        checkAl4Independence ctx (int (length results)) = None)"
  by (cases "reviewResults input"; cases "independenceContext input")
     (auto simp: enforceAl4Requirements_def checkAl4Independence_def Let_def set_size_map_less_iff
        set_size_card [of "previousReviewerProviderIds _"] not_less not_le)

lemma enforceAl4_if [simp]:
  "(if assuranceLevel input = Some AL4 then enforceAl4Requirements input else None) =
     enforceAl4Requirements input"
  by (simp add: enforceAl4Requirements_def)

lemma parse_verdict_outcome_verify:
  "parse_verdict_outcome input = NEXT_STEP VERIFY \<longleftrightarrow>
     stepStatus input = SUCCEEDED \<and> enforceAl4Requirements input = None \<and>
     (resolveVerdict input = Inr VerdictA \<or> resolveVerdict input = Inr VerdictB)"
  unfolding parse_verdict_outcome_def enforceAl4_if
  by (auto split: option.splits sum.splits ReviewVerdict.splits)

lemma nextEngineeringStep_verify:
  "nextEngineeringStep input = NEXT_STEP VERIFY \<longleftrightarrow>
     completedStep input = PARSE_VERDICT \<and> stepStatus input = SUCCEEDED \<and>
     \<not> provider_blocks (providerStatus input) \<and> enforceAl4Requirements input = None \<and>
     (resolveVerdict input = Inr VerdictA \<or> resolveVerdict input = Inr VerdictB)"
  by (cases "completedStep input")
     (auto simp: nextEngineeringStep_def on_success_def parse_verdict_outcome_verify
           split: if_splits)

lemma nextEngineeringHumanDecision_correction:
  "nextEngineeringHumanDecision input = NEXT_STEP CORRECTION \<longleftrightarrow>
     hd_blockReason input = HUMAN_DECISION_REQUIRED VerdictD \<and>
     hd_correctionLoopCount input < maxCorrectionLoops (hd_retryPolicy input)"
  by (auto simp: nextEngineeringHumanDecision_def)

section \<open>Runs of the machine\<close>

text \<open>
  One advance of a run: the runtime stores the next step and increments the
  correction counter exactly when that step is CORRECTION.
\<close>

inductive sm_step :: "int \<Rightarrow> EngineeringStepType \<times> int \<Rightarrow> EngineeringStepType \<times> int \<Rightarrow> bool"
  for m :: int where
  advance: "nextEngineeringStep input = NEXT_STEP s' \<Longrightarrow>
     correctionLoopCount input = n \<Longrightarrow> maxCorrectionLoops (retryPolicy input) = m \<Longrightarrow>
     sm_step m (completedStep input, n) (s', if s' = CORRECTION then n + 1 else n)"

fun step_rank :: "EngineeringStepType \<Rightarrow> int" where
  "step_rank PLAN = 11"
| "step_rank BUILD = 10"
| "step_rank CORRECTION = 10"
| "step_rank TEST = 9"
| "step_rank PACKAGE = 8"
| "step_rank RED_TEAM = 7"
| "step_rank PARSE_VERDICT = 6"
| "step_rank VERIFY = 5"
| "step_rank HUMAN_RELEASE_GATE = 4"
| "step_rank RELEASE_EXECUTION = 3"
| "step_rank REMOTE_VERIFY = 2"

definition run_potential :: "int \<Rightarrow> EngineeringStepType \<times> int \<Rightarrow> int" where
  "run_potential m c = 5 * (m - snd c) + step_rank (fst c)"

lemma step_edge_rank:
  "step_edge s s' \<Longrightarrow> (s' = CORRECTION \<and> step_rank s' \<le> step_rank s + 4) \<or>
     (s' \<noteq> CORRECTION \<and> step_rank s' < step_rank s)"
  by (cases s) auto

lemma step_rank_ge: "2 \<le> step_rank s"
  by (cases s) auto

lemma sm_step_potential: "sm_step m c d \<Longrightarrow> run_potential m d < run_potential m c"
proof (induction rule: sm_step.induct)
  case (advance input s' n)
  from step_edge_rank [OF nextEngineeringStep_edge [OF advance(1)]]
  show ?case by (auto simp: run_potential_def)
qed

lemma sm_step_count:
  "sm_step m c d \<Longrightarrow> snd c \<le> m \<Longrightarrow> snd c \<le> snd d \<and> snd d \<le> m"
  by (induction rule: sm_step.induct) (auto dest: nextEngineeringStep_correction)

lemma sm_run_potential:
  "(sm_step m ^^ k) c d \<Longrightarrow> snd c \<le> m \<Longrightarrow>
     run_potential m d + int k \<le> run_potential m c \<and> snd c \<le> snd d \<and> snd d \<le> m"
proof (induction k arbitrary: d)
  case (Suc k)
  then obtain e where e: "(sm_step m ^^ k) c e" "sm_step m e d" by auto
  with Suc sm_step_potential [OF e(2)] sm_step_count [OF e(2)] show ?case by fastforce
qed simp

section \<open>Properties\<close>

text \<open>C22. The workflow cannot loop for ever: from PLAN with correction budget \<open>m\<close>,
  however the steps end and whatever the reviews say, at most \<open>5 * m + 9\<close>
  advances happen, and the correction counter never exceeds the budget.\<close>

theorem workflow_run_bounded:
  assumes "0 \<le> m" and "(sm_step m ^^ k) (PLAN, 0) (s, n)"
  shows "int k \<le> 5 * m + 9 \<and> 0 \<le> n \<and> n \<le> m"
proof -
  from sm_run_potential [OF assms(2)] assms(1)
  have "run_potential m (s, n) + int k \<le> 5 * m + 11" and "0 \<le> n" "n \<le> m"
    by (simp_all add: run_potential_def [of m "(PLAN, 0)"])
  moreover have "2 \<le> run_potential m (s, n)"
    using \<open>n \<le> m\<close> step_rank_ge [of s] by (simp add: run_potential_def)
  ultimately show ?thesis by simp
qed

definition sample_input :: "EngineeringStepType \<Rightarrow> StateMachineInput" where
  "sample_input s = \<lparr>completedStep = s, stepStatus = SUCCEEDED, verdict = None,
     reviewResults = None, providerStatus = None, correctionLoopCount = 0,
     retryPolicy = DEFAULT_RETRY_POLICY, humanApproved = None, independenceContext = None,
     assuranceLevel = None\<rparr>"

theorem workflow_run_bounded_witness:
  "(sm_step 3 ^^ 1) (PLAN, 0) (BUILD, 0) \<and> int 1 \<le> 5 * 3 + 9 \<and> (0::int) \<le> 0 \<and> (0::int) \<le> 3"
proof -
  have "sm_step 3 (completedStep (sample_input PLAN), 0)
      (BUILD, if BUILD = CORRECTION then 0 + 1 else 0)"
    by (rule sm_step.advance)
       (simp_all add: sample_input_def transition_defs DEFAULT_RETRY_POLICY_def)
  then have run: "(sm_step 3 ^^ 1) (PLAN, 0) (BUILD, 0)"
    by (simp add: sample_input_def relcompp_apply)
  show ?thesis using run workflow_run_bounded [OF _ run] by simp
qed

text \<open>At assurance level AL4 the machine reaches VERIFY only on real review
  evidence: at least two results that all carry the same accepting verdict, from
  distinct executions and at least two reviewer providers, with the builder's
  model family known and different from the first reviewer's.\<close>

lemma al4_verify_evidence:
  assumes "nextEngineeringStep input = NEXT_STEP VERIFY"
    and "assuranceLevel input = Some AL4"
  shows "\<exists>results v ctx family1 family2 rest.
     reviewResults input = Some results \<and> 2 \<le> length results \<and>
     distinct (map reviewerExecutionId results) \<and>
     (v = VerdictA \<or> v = VerdictB) \<and> (\<forall>r \<in> set results. rr_verdict r = v) \<and>
     independenceContext input = Some ctx \<and>
     2 \<le> card (set (previousReviewerProviderIds ctx)) \<and>
     previousReviewerModelFamilies ctx = family1 # family2 # rest \<and>
     (\<exists>b. builderModelFamily ctx = Some b \<and> js_trim b \<noteq> [] \<and> family1 \<noteq> b) \<and>
     (family1 = family2 \<longrightarrow> family1 = [])"
proof -
  from assms obtain results ctx where r: "reviewResults input = Some results"
    "2 \<le> length results" "distinct (map reviewerExecutionId results)"
    and c: "independenceContext input = Some ctx"
    "2 \<le> card (set (previousReviewerProviderIds ctx))"
    "checkAl4Independence ctx (int (length results)) = None"
    by (auto simp: nextEngineeringStep_verify enforceAl4_None_iff)
  from assms obtain v where v: "resolveVerdict input = Inr v" "v = VerdictA \<or> v = VerdictB"
    by (auto simp: nextEngineeringStep_verify)
  from r v have "resolveReviewerDisagreement results = Agreement v"
    by (cases results) (auto simp: resolveVerdict_def split: DisagreementResolution.splits)
  then have same: "\<forall>r \<in> set results. rr_verdict r = v"
    by (simp add: resolveReviewerDisagreement_Agreement_iff)
  from c(3) have "2 \<le> length (previousReviewerModelFamilies ctx)"
    by (simp add: checkAl4Independence_def split: if_splits)
  then obtain f1 f2 fs where fams: "previousReviewerModelFamilies ctx = f1 # f2 # fs"
    by (cases "previousReviewerModelFamilies ctx"; cases "tl (previousReviewerModelFamilies ctx)") auto
  from c(3) fams obtain b where "builderModelFamily ctx = Some b" "js_trim b \<noteq> []" "f1 \<noteq> b"
    "f1 = f2 \<longrightarrow> f1 = []"
    by (auto simp: checkAl4Independence_def blank_def truthy_iff split: if_splits)
  with r c(1,2) v(2) same fams show ?thesis by blast
qed

definition sample_review :: "string \<Rightarrow> ReviewResult" where
  "sample_review e = \<lparr>rr_verdict = VerdictA, findings = [], reviewerExecutionId = e,
     rr_assuranceLevel = AL4, artifactRefs = []\<rparr>"

definition sample_al4_input :: "string list \<Rightarrow> StateMachineInput" where
  "sample_al4_input families = (sample_input PARSE_VERDICT)\<lparr>assuranceLevel := Some AL4,
     reviewResults := Some [sample_review ''e1'', sample_review ''e2''],
     independenceContext := Some \<lparr>builderProviderId = Some ''p0'', builderModelFamily = Some ''gpt'',
       previousReviewerProviderIds = [''p1'', ''p2''], previousReviewerModelFamilies = families\<rparr>\<rparr>"

lemma sample_al4_verify:
  "families = f1 # f2 # fs \<Longrightarrow> f1 \<noteq> ''gpt'' \<Longrightarrow> f1 = f2 \<longrightarrow> f1 = [] \<Longrightarrow>
     nextEngineeringStep (sample_al4_input families) = NEXT_STEP VERIFY"
  by (auto simp: nextEngineeringStep_verify sample_al4_input_def sample_input_def
      sample_review_def provider_blocks_def enforceAl4Requirements_def set_size_def blank_def
      js_trim_def js_ws_def resolveVerdict_def)

text \<open>Two gaps in the AL4 check.  The second reviewer may belong to the builder's
  model family, and two reviewers whose family is the empty string pass as
  different families.\<close>

lemma al4_independence_gaps:
  "(\<exists>input ctx. nextEngineeringStep input = NEXT_STEP VERIFY \<and> assuranceLevel input = Some AL4 \<and>
      independenceContext input = Some ctx \<and>
      builderModelFamily ctx = Some (previousReviewerModelFamilies ctx ! 1)) \<and>
   (\<exists>input ctx. nextEngineeringStep input = NEXT_STEP VERIFY \<and> assuranceLevel input = Some AL4 \<and>
      independenceContext input = Some ctx \<and>
      previousReviewerModelFamilies ctx = [[], []])"
proof
  show "\<exists>input ctx. nextEngineeringStep input = NEXT_STEP VERIFY \<and>
      assuranceLevel input = Some AL4 \<and> independenceContext input = Some ctx \<and>
      builderModelFamily ctx = Some (previousReviewerModelFamilies ctx ! 1)"
    by (rule exI [of _ "sample_al4_input [''claude'', ''gpt'']"],
        rule exI [of _ "the (independenceContext (sample_al4_input [''claude'', ''gpt'']))"])
       (simp add: sample_al4_verify, simp add: sample_al4_input_def)
next
  show "\<exists>input ctx. nextEngineeringStep input = NEXT_STEP VERIFY \<and>
      assuranceLevel input = Some AL4 \<and> independenceContext input = Some ctx \<and>
      previousReviewerModelFamilies ctx = [[], []]"
    by (rule exI [of _ "sample_al4_input [[], []]"],
        rule exI [of _ "the (independenceContext (sample_al4_input [[], []]))"])
       (simp add: sample_al4_verify, simp add: sample_al4_input_def)
qed

end
