(* ===== verification/Vito_Invocation.thy ===== *)
theory Vito_Invocation
  imports Vito_StateMachine Vito_PolicyTypes Vito_Regex
begin

text \<open>
  The governed invocation contract, \<open>invocation.ts\<close>: failure reasons and their
  mapping to statuses and outcomes, the lifecycle table, the two canonical
  identities of an invocation (context fingerprint and logical operation key),
  the metadata sanitizer and the validation of a human approval binding.
\<close>

section \<open>Failure reasons and the lifecycle\<close>

datatype InvocationFailureReason =
    PROVIDER_UNAVAILABLE | ADAPTER_NOT_REGISTERED | CAPABILITY_NOT_SUPPORTED
  | PROVIDER_NOT_ELIGIBLE | INVOCATION_INVALID | EXECUTION_FAILED
  | CAPABILITY_PROVIDER_MISMATCH | ORGANIZATION_MISMATCH | UNKNOWN_ADAPTER_TYPE
  | UNKNOWN_PROVIDER_TYPE | MALFORMED_INVOCATION | HUMAN_GATE_NOT_BOUND | HUMAN_GATE_EXPIRED
  | HUMAN_GATE_CONTEXT_MISMATCH | INVOCATION_DUPLICATE | INVOCATION_IDEMPOTENCY_CONFLICT
  | EXECUTABLE_NOT_TRUSTED | ENVIRONMENT_NOT_ALLOWED | CREDENTIAL_INJECTION_FAILED
  | POLICY_BLOCKED | WORKING_DIRECTORY_NOT_GOVERNED | EXECUTION_PROFILE_NOT_GOVERNED

fun VALID_INVOCATION_TRANSITIONS :: "AgentExecutionStatus \<Rightarrow> AgentExecutionStatus list" where
  "VALID_INVOCATION_TRANSITIONS AES_QUEUED = [AES_STARTING, AES_CANCELLED, AES_POLICY_BLOCKED]"
| "VALID_INVOCATION_TRANSITIONS AES_STARTING =
     [AES_RUNNING, AES_FAILED, AES_CANCELLED, AES_POLICY_BLOCKED]"
| "VALID_INVOCATION_TRANSITIONS AES_RUNNING =
     [AES_SUCCEEDED, AES_FAILED, AES_TIMED_OUT, AES_CANCELLED, AES_QUOTA_BLOCKED]"
| "VALID_INVOCATION_TRANSITIONS AES_SUCCEEDED = []"
| "VALID_INVOCATION_TRANSITIONS AES_FAILED = []"
| "VALID_INVOCATION_TRANSITIONS AES_TIMED_OUT = []"
| "VALID_INVOCATION_TRANSITIONS AES_CANCELLED = []"
| "VALID_INVOCATION_TRANSITIONS AES_POLICY_BLOCKED = []"
| "VALID_INVOCATION_TRANSITIONS AES_QUOTA_BLOCKED = []"

definition isValidInvocationTransition :: "AgentExecutionStatus \<Rightarrow> AgentExecutionStatus \<Rightarrow> bool" where
  "isValidInvocationTransition from to = (to \<in> set (VALID_INVOCATION_TRANSITIONS from))"

fun invocationFailureToStatus :: "InvocationFailureReason \<Rightarrow> AgentExecutionStatus" where
  "invocationFailureToStatus HUMAN_GATE_NOT_BOUND = AES_POLICY_BLOCKED"
| "invocationFailureToStatus HUMAN_GATE_EXPIRED = AES_POLICY_BLOCKED"
| "invocationFailureToStatus HUMAN_GATE_CONTEXT_MISMATCH = AES_POLICY_BLOCKED"
| "invocationFailureToStatus INVOCATION_DUPLICATE = AES_POLICY_BLOCKED"
| "invocationFailureToStatus INVOCATION_IDEMPOTENCY_CONFLICT = AES_POLICY_BLOCKED"
| "invocationFailureToStatus EXECUTION_PROFILE_NOT_GOVERNED = AES_POLICY_BLOCKED"
| "invocationFailureToStatus POLICY_BLOCKED = AES_POLICY_BLOCKED"
| "invocationFailureToStatus _ = AES_FAILED"

fun invocationFailureToOutcome :: "InvocationFailureReason \<Rightarrow> ExecutionOutcome option" where
  "invocationFailureToOutcome HUMAN_GATE_NOT_BOUND = Some OUTCOME_POLICY_BLOCKED"
| "invocationFailureToOutcome HUMAN_GATE_EXPIRED = Some OUTCOME_POLICY_BLOCKED"
| "invocationFailureToOutcome HUMAN_GATE_CONTEXT_MISMATCH = Some OUTCOME_POLICY_BLOCKED"
| "invocationFailureToOutcome INVOCATION_DUPLICATE = Some OUTCOME_POLICY_BLOCKED"
| "invocationFailureToOutcome INVOCATION_IDEMPOTENCY_CONFLICT = Some OUTCOME_POLICY_BLOCKED"
| "invocationFailureToOutcome EXECUTION_PROFILE_NOT_GOVERNED = Some OUTCOME_POLICY_BLOCKED"
| "invocationFailureToOutcome POLICY_BLOCKED = Some OUTCOME_POLICY_BLOCKED"
| "invocationFailureToOutcome _ = None"

section \<open>Action and profile names\<close>

text \<open>The run-time value of the two string enums.\<close>

fun action_name :: "ExecutionAction \<Rightarrow> string" where
  "action_name READ_FILE = ''READ_FILE''"
| "action_name WRITE_FILE = ''WRITE_FILE''"
| "action_name CREATE_FILE = ''CREATE_FILE''"
| "action_name DELETE_FILE = ''DELETE_FILE''"
| "action_name RUN_COMMAND = ''RUN_COMMAND''"
| "action_name NETWORK_ACCESS = ''NETWORK_ACCESS''"
| "action_name READ_SECRET = ''READ_SECRET''"
| "action_name GIT_READ = ''GIT_READ''"
| "action_name GIT_COMMIT = ''GIT_COMMIT''"
| "action_name GIT_PUSH = ''GIT_PUSH''"
| "action_name GIT_MERGE = ''GIT_MERGE''"
| "action_name GIT_REBASE = ''GIT_REBASE''"
| "action_name GIT_BRANCH_DELETE = ''GIT_BRANCH_DELETE''"
| "action_name REMOTE_REF_DELETE = ''REMOTE_REF_DELETE''"
| "action_name (UnknownAction s) = s"

fun profile_name :: "ExecutionProfile \<Rightarrow> string" where
  "profile_name BUILDER = ''BUILDER''"
| "profile_name REVIEWER = ''REVIEWER''"
| "profile_name ORCHESTRATOR = ''ORCHESTRATOR''"
| "profile_name RELEASE_AUTHORITY = ''RELEASE_AUTHORITY''"
| "profile_name (UnknownProfile s) = s"

definition CONSEQUENTIAL_INVOCATION_ACTIONS :: "ExecutionAction list" where
  "CONSEQUENTIAL_INVOCATION_ACTIONS =
     [WRITE_FILE, CREATE_FILE, DELETE_FILE, RUN_COMMAND, NETWORK_ACCESS, GIT_COMMIT, GIT_PUSH]"

definition isConsequentialExecutionAction :: "ExecutionAction \<Rightarrow> bool" where
  "isConsequentialExecutionAction action = (action \<in> set CONSEQUENTIAL_INVOCATION_ACTIONS)"

definition FILE_MUTATION_INVOCATION_ACTIONS :: "ExecutionAction list" where
  "FILE_MUTATION_INVOCATION_ACTIONS = [WRITE_FILE, CREATE_FILE, DELETE_FILE]"

definition isFileMutationExecutionAction :: "ExecutionAction \<Rightarrow> bool" where
  "isFileMutationExecutionAction action = (action \<in> set FILE_MUTATION_INVOCATION_ACTIONS)"

section \<open>Canonical identities\<close>

text \<open>\<open>parts.push\<close> on a growing list: the new list is returned.\<close>

definition encode_field :: "string \<Rightarrow> string \<Rightarrow> string" where
  "encode_field label v = label @ '':'' @ dec (length v) @ '':'' @ v"

definition appendLengthPrefixed :: "string list \<Rightarrow> string \<Rightarrow> string option \<Rightarrow> string list" where
  "appendLengthPrefixed parts label v =
     (case v of None \<Rightarrow> parts | Some x \<Rightarrow> parts @ [encode_field label x])"

record GovernedContextIdentityFields =
  ci_organizationId :: string
  ci_workflowRunId :: string
  ci_workflowStepRunId :: string
  ci_capabilityCode :: string
  ci_providerId :: string
  ci_requestedAction :: ExecutionAction
  ci_executionProfile :: ExecutionProfile
  ci_assuranceLevel :: "string option"
  ci_inputReference :: "string option"

record GovernedOperationIdentityFields =
  oi_organizationId :: string
  oi_workflowRunId :: string
  oi_workflowStepRunId :: string
  oi_capabilityCode :: string
  oi_requestedAction :: ExecutionAction
  oi_requestedPath :: "string option"
  oi_requestedCommand :: "string option"
  oi_inputReference :: "string option"

definition buildGovernedInvocationFingerprint :: "GovernedContextIdentityFields \<Rightarrow> string" where
  "buildGovernedInvocationFingerprint f =
     (let parts = [''v1''];
          parts = appendLengthPrefixed parts ''org'' (Some (ci_organizationId f));
          parts = appendLengthPrefixed parts ''run'' (Some (ci_workflowRunId f));
          parts = appendLengthPrefixed parts ''step'' (Some (ci_workflowStepRunId f));
          parts = appendLengthPrefixed parts ''cap'' (Some (ci_capabilityCode f));
          parts = appendLengthPrefixed parts ''prov'' (Some (ci_providerId f));
          parts = appendLengthPrefixed parts ''action''
                    (Some (action_name (ci_requestedAction f)));
          parts = appendLengthPrefixed parts ''profile''
                    (Some (profile_name (ci_executionProfile f)));
          parts = (if ci_assuranceLevel f \<noteq> None
                   then appendLengthPrefixed parts ''al'' (ci_assuranceLevel f) else parts);
          parts = (if ci_inputReference f \<noteq> None
                   then appendLengthPrefixed parts ''in'' (ci_inputReference f) else parts)
      in js_join ''|'' parts)"

definition buildGovernedLogicalOperationKey :: "GovernedOperationIdentityFields \<Rightarrow> string" where
  "buildGovernedLogicalOperationKey f =
     (let parts = [''logop-v2''];
          parts = appendLengthPrefixed parts ''org'' (Some (oi_organizationId f));
          parts = appendLengthPrefixed parts ''run'' (Some (oi_workflowRunId f));
          parts = appendLengthPrefixed parts ''step'' (Some (oi_workflowStepRunId f));
          parts = appendLengthPrefixed parts ''cap'' (Some (oi_capabilityCode f));
          parts = appendLengthPrefixed parts ''action''
                    (Some (action_name (oi_requestedAction f)));
          parts = (if isFileMutationExecutionAction (oi_requestedAction f)
                   then appendLengthPrefixed parts ''path'' (oi_requestedPath f)
                   else if oi_requestedAction f = RUN_COMMAND
                   then appendLengthPrefixed parts ''cmd'' (oi_requestedCommand f)
                   else parts);
          parts = appendLengthPrefixed parts ''in'' (oi_inputReference f)
      in js_join ''|'' parts)"

text \<open>
  A field with its separator.  Equal texts that start with the same label
  carry the same value: the length is read back before the value.
\<close>

definition bar_field :: "string \<Rightarrow> string option \<Rightarrow> string" where
  "bar_field label v = (case v of None \<Rightarrow> [] | Some x \<Rightarrow> ''|'' @ encode_field label x)"

lemma split_at_first:
  assumes "xs @ c # ys = xs' @ c # ys'" "c \<notin> set xs" "c \<notin> set xs'"
  shows "xs = xs' \<and> ys = ys'"
  using assms
proof (induction xs arbitrary: xs')
  case (Cons x xs)
  then show ?case by (cases xs') auto
next
  case Nil
  then show ?case by (cases xs') auto
qed

lemma encode_field_inject:
  assumes "encode_field l v @ r = encode_field l v' @ r'"
  shows "v = v' \<and> r = r'"
proof -
  have "dec (length v) @ CHR '':'' # (v @ r) = dec (length v') @ CHR '':'' # (v' @ r')"
    using assms by (simp add: encode_field_def)
  from split_at_first [OF this colon_not_digit colon_not_digit]
  have "dec (length v) = dec (length v')" "v @ r = v' @ r'" by simp_all
  then show ?thesis using dec_inj by (auto dest: append_eq_append_conv [THEN iffD1, rotated])
qed

lemma bar_field_Some_inject:
  "bar_field l (Some v) @ r = bar_field l (Some v') @ r' \<longleftrightarrow> v = v' \<and> r = r'"
  by (auto simp: bar_field_def dest: encode_field_inject)

lemma js_join_snoc: "ps \<noteq> [] \<Longrightarrow> js_join s (ps @ [p]) = js_join s ps @ s @ p"
proof (induction ps)
  case (Cons x ps)
  then show ?case by (cases ps) auto
qed simp

lemma join_append_field:
  "ps \<noteq> [] \<Longrightarrow> js_join ''|'' (appendLengthPrefixed ps l v) = js_join ''|'' ps @ bar_field l v"
  by (cases v) (simp_all add: appendLengthPrefixed_def bar_field_def js_join_snoc)

lemma appendLengthPrefixed_not_Nil [simp]: "ps \<noteq> [] \<Longrightarrow> appendLengthPrefixed ps l v \<noteq> []"
  by (cases v) (simp_all add: appendLengthPrefixed_def)

text \<open>The authoritative target of an operation.\<close>

definition operation_target :: "GovernedOperationIdentityFields \<Rightarrow> string option" where
  "operation_target f =
     (if isFileMutationExecutionAction (oi_requestedAction f) then oi_requestedPath f
      else if oi_requestedAction f = RUN_COMMAND then oi_requestedCommand f else None)"

definition target_label :: "ExecutionAction \<Rightarrow> string" where
  "target_label a = (if isFileMutationExecutionAction a then ''path'' else ''cmd'')"

lemma logical_key_fields:
  "buildGovernedLogicalOperationKey f = ''logop-v2'' @
     bar_field ''org'' (Some (oi_organizationId f)) @ bar_field ''run'' (Some (oi_workflowRunId f)) @
     bar_field ''step'' (Some (oi_workflowStepRunId f)) @
     bar_field ''cap'' (Some (oi_capabilityCode f)) @
     bar_field ''action'' (Some (action_name (oi_requestedAction f))) @
     bar_field (target_label (oi_requestedAction f)) (operation_target f) @
     bar_field ''in'' (oi_inputReference f)"
  by (simp add: buildGovernedLogicalOperationKey_def Let_def join_append_field
      operation_target_def target_label_def bar_field_def [of _ None])

lemma fingerprint_fields:
  "buildGovernedInvocationFingerprint f = ''v1'' @
     bar_field ''org'' (Some (ci_organizationId f)) @ bar_field ''run'' (Some (ci_workflowRunId f)) @
     bar_field ''step'' (Some (ci_workflowStepRunId f)) @
     bar_field ''cap'' (Some (ci_capabilityCode f)) @ bar_field ''prov'' (Some (ci_providerId f)) @
     bar_field ''action'' (Some (action_name (ci_requestedAction f))) @
     bar_field ''profile'' (Some (profile_name (ci_executionProfile f))) @
     bar_field ''al'' (ci_assuranceLevel f) @ bar_field ''in'' (ci_inputReference f)"
  by (simp add: buildGovernedInvocationFingerprint_def Let_def join_append_field
      bar_field_def [of _ None])

text \<open>Two optional trailing fields with labels that start differently.\<close>

lemma optional_tail_inject:
  assumes "bar_field (a # as) u @ bar_field (b # bs) v =
      bar_field (a # as) u' @ bar_field (b # bs) v'" and "a \<noteq> b"
  shows "u = u' \<and> v = v'"
proof -
  have tail: "bar_field (b # bs) v = bar_field (b # bs) v' \<Longrightarrow> v = v'" for v v'
    using bar_field_Some_inject [of "b # bs" _ "[]" _ "[]"]
    by (cases v; cases v') (auto simp: bar_field_def)
  show ?thesis
  proof (cases u; cases u')
    fix x y assume "u = Some x" "u' = Some y"
    with assms tail show ?thesis by (auto simp: bar_field_Some_inject)
  next
    fix x assume "u = Some x" "u' = None"
    with assms show ?thesis by (cases v') (auto simp: bar_field_def encode_field_def)
  next
    fix y assume "u = None" "u' = Some y"
    with assms show ?thesis by (cases v) (auto simp: bar_field_def encode_field_def)
  qed (use assms tail in \<open>auto simp: bar_field_def\<close>)
qed

lemma known_action_name_inject:
  "known_action a \<Longrightarrow> known_action b \<Longrightarrow> action_name a = action_name b \<longleftrightarrow> a = b"
  by (cases a; cases b; simp add: known_action_def)

lemma known_profile_name_inject:
  "known_profile a \<Longrightarrow> known_profile b \<Longrightarrow> profile_name a = profile_name b \<longleftrightarrow> a = b"
  by (cases a; cases b; simp add: known_profile_def)

section \<open>The metadata sanitizer\<close>

text \<open>
  JSON-like values.  An object is the list of its own enumerable entries; a number
  that is no integer is given by its printed form.
\<close>

datatype json =
    JNull
  | JBool bool
  | JNum int
  | JFloat string
  | JStr string
  | JArr "json list"
  | JObj "(string \<times> json) list"

definition rx_sep_opt :: rx where
  "rx_sep_opt = ROpt (RCls (\<lambda>c. c = CHR ''_'' \<or> c = CHR ''-''))"

definition secretKeyPatterns :: "rx list" where
  "secretKeyPatterns = map rx_icase [
     RStr ''authorization'', RStr ''bearer'', RStr ''token'', RStr ''apikey'', RStr ''api_key'',
     RStr ''password'', RStr ''secret'',
     RSeqs [RStr ''private'', rx_sep_opt, RStr ''key''],
     RStr ''jwt'',
     RSeqs [RStr ''connection'', rx_sep_opt, RStr ''string''],
     RStr ''credential'',
     RSeqs [RStr ''access'', rx_sep_opt, RStr ''key''],
     RSeqs [RStr ''secret'', rx_sep_opt, RStr ''key'']]"

definition base64_char :: "char \<Rightarrow> bool" where
  "base64_char c = (is_alnum c \<or> c = CHR ''+'' \<or> c = CHR ''/'' \<or> c = CHR ''='')"

definition base64u_char :: "char \<Rightarrow> bool" where
  "base64u_char c = (base64_char c \<or> c = CHR ''_'')"

definition jwt_char :: "char \<Rightarrow> bool" where
  "jwt_char c = (is_alnum c \<or> c = CHR ''.'' \<or> c = CHR ''_'' \<or> c = CHR ''-'')"

definition alnum_dash :: "char \<Rightarrow> bool" where
  "alnum_dash c = (is_alnum c \<or> c = CHR ''-'')"

definition upper_digit :: "char \<Rightarrow> bool" where
  "upper_digit c = (is_upper c \<or> is_digit c)"

definition rx_key_prefix :: "string \<Rightarrow> rx" where
  "rx_key_prefix w = RSeqs [RBol, RStr w, RMin 20 (RCls is_alnum), REol]"

definition secretValuePatterns :: "rx list" where
  "secretValuePatterns = [
     RSeqs [RBol, RMin 40 (RCls base64u_char), REol],
     rx_icase (RSeqs [RBol, RStr ''Bearer'', RMin 1 (RCls js_ws), RMin 20 (RCls jwt_char), REol]),
     rx_icase (RSeqs [RBol, RStr ''Basic'', RMin 1 (RCls js_ws), RMin 20 (RCls base64_char), REol]),
     RSeqs [RBol, RStr ''eyJhbGciOi'', RMin 1 (RCls jwt_char), RStr ''.eyJ'', RMin 1 (RCls jwt_char)],
     rx_key_prefix ''sk_live_'', rx_key_prefix ''pk_live_'',
     rx_key_prefix ''ghp_'', rx_key_prefix ''gho_'',
     RSeqs [RBol, RStr ''xox'', RCls (\<lambda>c. c \<in> set ''bpsa''), RStr ''-'',
       RMin 10 (RCls alnum_dash), REol],
     RSeqs [RBol, RStr ''AKIA'', RRep 16 (RCls upper_digit), REol],
     RSeqs [RBol, RStr ''-----BEGIN'', RMin 1 (RCls js_ws),
       ROpt (RSeq (RStr ''RSA'') (RMin 1 (RCls js_ws))), RStr ''PRIVATE'', RMin 1 (RCls js_ws),
       RStr ''KEY-----''],
     RSeqs [RBol, RStr ''-----BEGIN'', RMin 1 (RCls js_ws), RStr ''CERTIFICATE-----'']]"

definition isSecretKey :: "string \<Rightarrow> bool" where
  "isSecretKey key = (\<exists>r \<in> set secretKeyPatterns. rx_test r key)"

definition isSecretValue :: "json \<Rightarrow> bool" where
  "isSecretValue v =
     (case v of JStr s \<Rightarrow> (\<exists>r \<in> set secretValuePatterns. rx_test r s) | _ \<Rightarrow> False)"

definition REDACTED :: json where
  "REDACTED = JStr ''[REDACTED]''"

lemma json_entry_size [termination_simp]:
  "(k, v) \<in> set es \<Longrightarrow> size v < Suc (size_list (size_prod (\<lambda>_. 0) size) es)"
  by (induction es) auto

fun sanitizeValue :: "string \<Rightarrow> json \<Rightarrow> json" where
  "sanitizeValue key v =
     (if isSecretKey key then REDACTED
      else if isSecretValue v then REDACTED
      else (case v of
              JObj es \<Rightarrow> JObj (map (\<lambda>(k, x). (k, sanitizeValue k x)) es)
            | JArr vs \<Rightarrow> JArr (map (sanitizeValue key) vs)
            | _ \<Rightarrow> v))"

declare sanitizeValue.simps [simp del]

text \<open>\<open>Object.entries\<close>: an array has its indices as keys.\<close>

fun index_entries :: "nat \<Rightarrow> json list \<Rightarrow> (string \<times> json) list" where
  "index_entries i [] = []"
| "index_entries i (v # vs) = (dec i, v) # index_entries (Suc i) vs"

definition object_entries :: "json \<Rightarrow> (string \<times> json) list" where
  "object_entries v = (case v of JObj es \<Rightarrow> es | JArr vs \<Rightarrow> index_entries 0 vs | _ \<Rightarrow> [])"

definition sanitizeProviderExecutionMetadata :: "json \<Rightarrow> json" where
  "sanitizeProviderExecutionMetadata metadata =
     JObj (map (\<lambda>(k, x). (k, sanitizeValue k x)) (object_entries metadata))"

definition sanitizeErrorProviderMetadata :: "json option \<Rightarrow> json option" where
  "sanitizeErrorProviderMetadata metadata =
     (case metadata of None \<Rightarrow> None | Some m \<Rightarrow> Some (sanitizeProviderExecutionMetadata m))"

text \<open>Nothing secret below a key: the value was redacted, or neither key nor value nor a part is secret.\<close>

fun clean_value :: "string \<Rightarrow> json \<Rightarrow> bool" where
  "clean_value key v =
     (v = REDACTED \<or>
      \<not> isSecretKey key \<and> \<not> isSecretValue v \<and>
      (case v of
         JObj es \<Rightarrow> (\<forall>(k, x) \<in> set es. clean_value k x)
       | JArr vs \<Rightarrow> (\<forall>x \<in> set vs. clean_value key x)
       | _ \<Rightarrow> True))"

declare clean_value.simps [simp del]

definition clean_metadata :: "json \<Rightarrow> bool" where
  "clean_metadata m = (case m of JObj es \<Rightarrow> (\<forall>(k, x) \<in> set es. clean_value k x) | _ \<Rightarrow> False)"

lemma isSecretValue_compound [simp]: "\<not> isSecretValue (JObj es)" "\<not> isSecretValue (JArr vs)"
  by (simp_all add: isSecretValue_def)

lemma sanitizeValue_secret: "isSecretKey key \<or> isSecretValue v \<Longrightarrow> sanitizeValue key v = REDACTED"
  by (auto simp: sanitizeValue.simps)

lemma sanitizeValue_open:
  assumes "\<not> isSecretKey key"
  shows "sanitizeValue key (JObj es) = JObj (map (\<lambda>(k, x). (k, sanitizeValue k x)) es)"
    and "sanitizeValue key (JArr vs) = JArr (map (sanitizeValue key) vs)"
    and "\<not> isSecretValue (JStr s) \<Longrightarrow> sanitizeValue key (JStr s) = JStr s"
    and "sanitizeValue key JNull = JNull" "sanitizeValue key (JBool b) = JBool b"
    and "sanitizeValue key (JNum n) = JNum n" "sanitizeValue key (JFloat x) = JFloat x"
  using assms by (subst sanitizeValue.simps, simp add: isSecretValue_def)+

lemma clean_value_open:
  assumes "\<not> isSecretKey key"
  shows "\<forall>(k, x) \<in> set es. clean_value k x \<Longrightarrow> clean_value key (JObj es)"
    and "\<forall>x \<in> set vs. clean_value key x \<Longrightarrow> clean_value key (JArr vs)"
    and "\<not> isSecretValue (JStr s) \<Longrightarrow> clean_value key (JStr s)"
    and "clean_value key JNull" "clean_value key (JBool b)" "clean_value key (JNum n)"
    and "clean_value key (JFloat x)"
  using assms by (subst clean_value.simps, simp add: isSecretValue_def)+

lemma clean_REDACTED [simp]: "clean_value key REDACTED"
  by (simp add: clean_value.simps)

lemma clean_sanitizeValue: "clean_value key (sanitizeValue key v)"
proof (induction key v rule: sanitizeValue.induct)
  case (1 key v)
  show ?case
  proof (cases "isSecretKey key \<or> isSecretValue v")
    case True
    then show ?thesis by (simp add: sanitizeValue_secret)
  next
    case False
    with 1 show ?thesis
      by (cases v) (auto simp: sanitizeValue_open intro!: clean_value_open)
  qed
qed

lemma sanitizeValue_REDACTED [simp]: "sanitizeValue key REDACTED = REDACTED"
  by (simp add: sanitizeValue.simps REDACTED_def)

lemma sanitizeValue_idem: "sanitizeValue key (sanitizeValue key v) = sanitizeValue key v"
proof (induction key v rule: sanitizeValue.induct)
  case (1 key v)
  show ?case
  proof (cases "isSecretKey key \<or> isSecretValue v")
    case True
    then show ?thesis by (simp add: sanitizeValue_secret)
  next
    case False
    with 1 show ?thesis by (cases v) (auto simp: sanitizeValue_open)
  qed
qed

section \<open>The human gate\<close>

record HumanGateBinding =
  hg_approvalId :: string
  hg_organizationId :: string
  hg_workflowRunId :: string
  hg_workflowStepRunId :: string
  hg_capabilityCode :: string
  hg_providerId :: "string option"
  hg_artifactReference :: "string option"
  hg_inputReference :: "string option"
  hg_requestedAction :: "ExecutionAction option"
  hg_approverIdentity :: string
  hg_approvedAt :: int
  hg_expiresAt :: "int option"

record GateContext =
  gc_organizationId :: string
  gc_workflowRunId :: string
  gc_workflowStepRunId :: string
  gc_capabilityCode :: string
  gc_providerId :: string
  gc_inputReference :: "string option"
  gc_requestedAction :: "ExecutionAction option"
  gc_artifactReference :: "string option"

definition RELEASE_CONSEQUENTIAL_ACTIONS :: "ExecutionAction list" where
  "RELEASE_CONSEQUENTIAL_ACTIONS = [GIT_COMMIT, GIT_PUSH]"

text \<open>An empty action name is falsy, as the code tests it.\<close>

definition truthy_action :: "ExecutionAction option \<Rightarrow> bool" where
  "truthy_action a = (case a of None \<Rightarrow> False | Some x \<Rightarrow> action_name x \<noteq> [])"

definition action_scope_ok :: "ExecutionAction option \<Rightarrow> ExecutionAction option \<Rightarrow> bool" where
  "action_scope_ok bound requested =
     (if truthy_action requested
      then (if \<not> truthy_action bound
            then the requested \<notin> set RELEASE_CONSEQUENTIAL_ACTIONS
            else bound = requested)
      else True)"

definition validateHumanGateBinding ::
  "int \<Rightarrow> HumanGateBinding option \<Rightarrow> GateContext \<Rightarrow> ReleaseGateStatus" where
  "validateHumanGateBinding now binding ctx =
     (case binding of None \<Rightarrow> NOT_REQUESTED
      | Some b \<Rightarrow>
          if hg_organizationId b \<noteq> gc_organizationId ctx then NOT_REQUESTED
          else if hg_workflowRunId b \<noteq> gc_workflowRunId ctx then NOT_REQUESTED
          else if hg_workflowStepRunId b \<noteq> gc_workflowStepRunId ctx then NOT_REQUESTED
          else if hg_capabilityCode b \<noteq> gc_capabilityCode ctx then NOT_REQUESTED
          else if truthy (hg_providerId b) \<and> hg_providerId b \<noteq> Some (gc_providerId ctx)
          then NOT_REQUESTED
          else if truthy (hg_inputReference b) \<and> hg_inputReference b \<noteq> gc_inputReference ctx
          then NOT_REQUESTED
          else if \<not> action_scope_ok (hg_requestedAction b) (gc_requestedAction ctx)
          then NOT_REQUESTED
          else if hg_artifactReference b \<noteq> None \<and>
                  hg_artifactReference b \<noteq> gc_artifactReference ctx then NOT_REQUESTED
          else if option_test (\<lambda>e. e < now) (hg_expiresAt b) then NOT_REQUESTED
          else APPROVED)"

section \<open>Properties\<close>

text \<open>The logical operation key identifies the operation: two requests with known
  actions get the same key exactly when organisation, run, step, capability,
  action, the action's authoritative target and the input reference agree.  No
  field value, whatever separators it contains, can imitate another.\<close>

lemma logical_key_identity:
  assumes "known_action (oi_requestedAction f)" and "known_action (oi_requestedAction g)"
  shows "buildGovernedLogicalOperationKey f = buildGovernedLogicalOperationKey g \<longleftrightarrow>
     oi_organizationId f = oi_organizationId g \<and> oi_workflowRunId f = oi_workflowRunId g \<and>
     oi_workflowStepRunId f = oi_workflowStepRunId g \<and>
     oi_capabilityCode f = oi_capabilityCode g \<and>
     oi_requestedAction f = oi_requestedAction g \<and>
     operation_target f = operation_target g \<and> oi_inputReference f = oi_inputReference g"
    (is "?l \<longleftrightarrow> ?r")
proof
  assume ?r
  then show ?l by (simp add: logical_key_fields)
next
  assume ?l
  then have "oi_organizationId f = oi_organizationId g" "oi_workflowRunId f = oi_workflowRunId g"
    "oi_workflowStepRunId f = oi_workflowStepRunId g" "oi_capabilityCode f = oi_capabilityCode g"
    and a: "oi_requestedAction f = oi_requestedAction g"
    and tl: "bar_field (target_label (oi_requestedAction f)) (operation_target f) @
        bar_field ''in'' (oi_inputReference f) =
      bar_field (target_label (oi_requestedAction g)) (operation_target g) @
        bar_field ''in'' (oi_inputReference g)"
    using assms by (auto simp: logical_key_fields bar_field_Some_inject known_action_name_inject)
  moreover have "operation_target f = operation_target g \<and> oi_inputReference f = oi_inputReference g"
    using tl unfolding a
    by (intro optional_tail_inject [of "hd (target_label (oi_requestedAction g))"
          "tl (target_label (oi_requestedAction g))" _ "CHR ''i''" "''n''"])
       (simp_all add: target_label_def)
  ultimately show ?r by simp
qed

definition sample_op :: "string \<Rightarrow> GovernedOperationIdentityFields" where
  "sample_op p = \<lparr>oi_organizationId = ''o'', oi_workflowRunId = ''r'', oi_workflowStepRunId = ''s'',
     oi_capabilityCode = ''c'', oi_requestedAction = WRITE_FILE, oi_requestedPath = Some p,
     oi_requestedCommand = None, oi_inputReference = None\<rparr>"

text \<open>The context fingerprint is injective: two governed contexts with known action and
  profile have the same fingerprint exactly when they are the same context.\<close>

lemma fingerprint_injective:
  assumes "known_action (ci_requestedAction f)" "known_action (ci_requestedAction g)"
    and "known_profile (ci_executionProfile f)" "known_profile (ci_executionProfile g)"
  shows "buildGovernedInvocationFingerprint f = buildGovernedInvocationFingerprint g \<longleftrightarrow> f = g"
proof
  assume "buildGovernedInvocationFingerprint f = buildGovernedInvocationFingerprint g"
  then have "ci_organizationId f = ci_organizationId g" "ci_workflowRunId f = ci_workflowRunId g"
    "ci_workflowStepRunId f = ci_workflowStepRunId g" "ci_capabilityCode f = ci_capabilityCode g"
    "ci_providerId f = ci_providerId g" "ci_requestedAction f = ci_requestedAction g"
    "ci_executionProfile f = ci_executionProfile g"
    and "bar_field ''al'' (ci_assuranceLevel f) @ bar_field ''in'' (ci_inputReference f) =
      bar_field ''al'' (ci_assuranceLevel g) @ bar_field ''in'' (ci_inputReference g)"
    using assms by (simp_all add: fingerprint_fields bar_field_Some_inject
        known_action_name_inject known_profile_name_inject)
  moreover from this(8) have "ci_assuranceLevel f = ci_assuranceLevel g \<and>
      ci_inputReference f = ci_inputReference g"
    by (rule optional_tail_inject) simp
  ultimately show "f = g" by simp
qed simp

text \<open>The sanitizer leaves nothing secret at any depth, keeps the keys of the object and
  does nothing on a second application.\<close>

lemma sanitizer_clean:
  "clean_metadata (sanitizeProviderExecutionMetadata m) \<and>
   sanitizeProviderExecutionMetadata (sanitizeProviderExecutionMetadata m) =
     sanitizeProviderExecutionMetadata m \<and>
   (\<exists>es. sanitizeProviderExecutionMetadata m = JObj es \<and> map fst es = map fst (object_entries m))"
  by (auto simp: sanitizeProviderExecutionMetadata_def clean_metadata_def object_entries_def
      clean_sanitizeValue sanitizeValue_idem)

text \<open>A human approval is honoured only for what it approves.  For a git commit or push
  the gate is approved exactly when a binding exists for the same organisation,
  run, step, capability and action, whose provider, input and artifact scope,
  where given, are those of the invocation, and which has not expired.\<close>

lemma gate_approval_scope:
  assumes "gc_requestedAction ctx = Some a" and "a \<in> {GIT_COMMIT, GIT_PUSH}"
  shows "validateHumanGateBinding now binding ctx = APPROVED \<longleftrightarrow>
     (\<exists>b. binding = Some b \<and> hg_organizationId b = gc_organizationId ctx \<and>
        hg_workflowRunId b = gc_workflowRunId ctx \<and>
        hg_workflowStepRunId b = gc_workflowStepRunId ctx \<and>
        hg_capabilityCode b = gc_capabilityCode ctx \<and>
        hg_providerId b \<in> {None, Some [], Some (gc_providerId ctx)} \<and>
        hg_inputReference b \<in> {None, Some [], gc_inputReference ctx} \<and>
        hg_requestedAction b = Some a \<and>
        hg_artifactReference b \<in> {None, gc_artifactReference ctx} \<and>
        (\<forall>e. hg_expiresAt b = Some e \<longrightarrow> now \<le> e))"
proof (cases binding)
  case None
  then show ?thesis by (simp add: validateHumanGateBinding_def)
next
  case (Some b)
  have scope: "action_scope_ok (hg_requestedAction b) (gc_requestedAction ctx) \<longleftrightarrow>
      hg_requestedAction b = Some a"
    using assms by (cases "hg_requestedAction b")
      (auto simp: action_scope_ok_def truthy_action_def RELEASE_CONSEQUENTIAL_ACTIONS_def)
  have t: "truthy x \<and> x \<noteq> y \<longleftrightarrow> x \<notin> {None, Some [], y}" for x y
    by (cases x) auto
  have u: "x \<noteq> None \<and> x \<noteq> y \<longleftrightarrow> x \<notin> {None, y}" for x y :: "string option" by auto
  have e: "(\<exists>e. hg_expiresAt b = Some e \<and> e < now) \<longleftrightarrow>
      \<not> (\<forall>e. hg_expiresAt b = Some e \<longrightarrow> now \<le> e)" by auto
  have c: "(if \<not> p then NOT_REQUESTED else r) = APPROVED \<longleftrightarrow> p \<and> r = APPROVED" for p r
    by simp
  show ?thesis
    unfolding validateHumanGateBinding_def Some option.case scope t u option_test_iff e c by simp
qed

definition sample_gate :: GateContext where
  "sample_gate = \<lparr>gc_organizationId = ''o'', gc_workflowRunId = ''r'', gc_workflowStepRunId = ''s'',
     gc_capabilityCode = ''c'', gc_providerId = ''p'', gc_inputReference = None,
     gc_requestedAction = Some GIT_PUSH, gc_artifactReference = None\<rparr>"

definition sample_binding :: "ExecutionAction option \<Rightarrow> HumanGateBinding" where
  "sample_binding a = \<lparr>hg_approvalId = ''h'', hg_organizationId = ''o'', hg_workflowRunId = ''r'',
     hg_workflowStepRunId = ''s'', hg_capabilityCode = ''c'', hg_providerId = None,
     hg_artifactReference = None, hg_inputReference = None, hg_requestedAction = a,
     hg_approverIdentity = ''u'', hg_approvedAt = 0, hg_expiresAt = Some 10\<rparr>"

text \<open>The lifecycle table admits no cycle: every execution makes at most three
  transitions, and a policy block can only happen before the execution runs.\<close>

lemma invocation_lifecycle_bounded:
  assumes "(isValidInvocationTransition ^^ k) a b"
  shows "k \<le> 3 \<and> (0 < k \<and> b = AES_POLICY_BLOCKED \<longrightarrow> a \<in> {AES_QUEUED, AES_STARTING} \<and> k \<le> 2)"
proof -
  define rank :: "AgentExecutionStatus \<Rightarrow> nat" where
    "rank s = (case s of AES_QUEUED \<Rightarrow> 3 | AES_STARTING \<Rightarrow> 2 | AES_RUNNING \<Rightarrow> 1 | _ \<Rightarrow> 0)" for s
  have step: "isValidInvocationTransition x y \<Longrightarrow> rank y < rank x \<and>
      (y = AES_POLICY_BLOCKED \<longrightarrow> x \<in> {AES_QUEUED, AES_STARTING})" for x y
    by (cases x) (auto simp: isValidInvocationTransition_def rank_def)
  have run: "(isValidInvocationTransition ^^ j) x y \<Longrightarrow> rank y + j \<le> rank x" for j x y
  proof (induction j arbitrary: y)
    case (Suc j)
    then obtain z where "(isValidInvocationTransition ^^ j) x z" "isValidInvocationTransition z y"
      by auto
    with Suc.IH step [of z y] show ?case by fastforce
  qed simp
  have le: "rank x \<le> 3" for x by (cases x) (simp_all add: rank_def)
  have 1: "k \<le> 3" using run [OF assms] le [of a] by simp
  have "a \<in> {AES_QUEUED, AES_STARTING} \<and> k \<le> 2" if "0 < k" "b = AES_POLICY_BLOCKED"
  proof -
    obtain j where k: "k = Suc j" using \<open>0 < k\<close> by (cases k) auto
    with assms obtain z where z: "(isValidInvocationTransition ^^ j) a z"
      "isValidInvocationTransition z b" by auto
    from step [OF z(2)] that have "2 \<le> rank z" by (auto simp: rank_def)
    with run [OF z(1)] le [of a] have "2 \<le> rank a" "j \<le> 1" by simp_all
    then show ?thesis using k by (cases a) (simp_all add: rank_def)
  qed
  with 1 show ?thesis by blast
qed

end
