(* ===== verification/Vito_Redaction.thy ===== *)
theory Vito_Redaction
  imports Vito_Invocation
begin

text \<open>
  The output and error leakage boundary of \<open>governed-invocation.service.ts\<close>:
  exact redaction of trusted secret values in texts and in nested metadata,
  redaction of known forms of secret material in free text, and the validation
  of governed references.

  The one code unit above 255 that this code writes, the ellipsis U+2026 after
  a truncated text, is represented by the code unit 0x85.
\<close>

section \<open>Replacing\<close>

text \<open>\<open>s.split(n)\<close> for a non-empty separator; the first list is the current piece.\<close>

function js_split_by :: "string \<Rightarrow> string \<Rightarrow> string \<Rightarrow> string list" where
  "js_split_by n cur s =
     (if n \<noteq> [] \<and> js_starts_with s n then cur # js_split_by n [] (drop (length n) s)
      else (case s of [] \<Rightarrow> [cur] | c # cs \<Rightarrow> js_split_by n (cur @ [c]) cs))"
  by pat_completeness auto
termination
  by (relation "measure (\<lambda>(n, cur, s). length s)")
     (auto simp: js_starts_with_iff prefix_def)

declare js_split_by.simps [simp del]

text \<open>\<open>s.replace(r, t)\<close> with the global flag: after an empty match one code unit is copied.\<close>

function rx_replace_all_at :: "rx \<Rightarrow> string \<Rightarrow> char option \<Rightarrow> string \<Rightarrow> string" where
  "rx_replace_all_at r t b s =
     (case rx_ends r (b, s) of
        q # _ \<Rightarrow>
          if length (snd q) < length s then t @ rx_replace_all_at r t (fst q) (snd q)
          else (case s of [] \<Rightarrow> t | c # cs \<Rightarrow> t @ c # rx_replace_all_at r t (Some c) cs)
      | [] \<Rightarrow> (case s of [] \<Rightarrow> [] | c # cs \<Rightarrow> c # rx_replace_all_at r t (Some c) cs))"
  by pat_completeness auto
termination
  by (relation "measure (\<lambda>(r, t, b, s). length s)") auto

declare rx_replace_all_at.simps [simp del]

definition rx_replace_all :: "rx \<Rightarrow> string \<Rightarrow> string \<Rightarrow> string" where
  "rx_replace_all r t s = rx_replace_all_at r t None s"

section \<open>The boundary\<close>

definition MAX_SAFE_TEXT_LENGTH :: nat where
  "MAX_SAFE_TEXT_LENGTH = 2000"

definition MAX_GOVERNED_REFERENCE_LENGTH :: nat where
  "MAX_GOVERNED_REFERENCE_LENGTH = 512"

definition REDACTED_TEXT :: string where
  "REDACTED_TEXT = ''[REDACTED]''"

abbreviation ellipsis :: char where "ellipsis \<equiv> CHR 0x85"

abbreviation rx_ws1 :: rx where "rx_ws1 \<equiv> RMin 1 (RCls js_ws)"

definition LEAK_SECRET_TEXT_PATTERNS :: "rx list" where
  "LEAK_SECRET_TEXT_PATTERNS = [
     RSeqs [RStr ''-----BEGIN'', rx_ws1, ROpt (RSeq (RStr ''RSA'') rx_ws1),
       ROpt (RSeq (RStr ''EC'') rx_ws1), RStr ''PRIVATE'', rx_ws1, RStr ''KEY-----'',
       RLazy (RCls (\<lambda>_. True)),
       RAlt (RSeqs [RStr ''-----END'', rx_ws1, ROpt (RSeq (RMin 1 (RCls upper_digit)) rx_ws1),
               RStr ''PRIVATE'', rx_ws1, RStr ''KEY-----'']) REol],
     RSeqs [RWordB, RStr ''Bearer'', rx_ws1, RMin 20 (RCls jwt_char), RWordB],
     RSeqs [RWordB, RStr ''Basic'', rx_ws1, RMin 20 (RCls base64_char), RWordB],
     RSeqs [RWordB, RStr ''eyJhbGciOi'', RMin 1 (RCls jwt_char), RStr ''.eyJ'', RMin 1 (RCls jwt_char)],
     RSeqs [RWordB, RAlt (RStr ''sk'') (RStr ''pk''), RStr ''_'', RAlt (RStr ''live'') (RStr ''test''),
       RStr ''_'', RMin 16 (RCls is_alnum), RWordB],
     RSeqs [RWordB, RStr ''gh'', RCls (\<lambda>c. c \<in> set ''posr''), RStr ''_'',
       RMin 20 (RCls is_alnum), RWordB],
     RSeqs [RWordB, RStr ''xox'', RCls (\<lambda>c. c \<in> set ''bpsa''), RStr ''-'',
       RMin 10 (RCls alnum_dash), RWordB],
     RSeqs [RWordB, RStr ''AKIA'', RRep 16 (RCls upper_digit), RWordB]]"

definition containsSecretMaterial :: "string \<Rightarrow> string list \<Rightarrow> bool" where
  "containsSecretMaterial v trustedSecretValues =
     ((\<exists>secret \<in> set trustedSecretValues. 0 < length secret \<and> js_includes v secret) \<or>
      (\<exists>r \<in> set LEAK_SECRET_TEXT_PATTERNS. rx_test r v))"

fun redactExactSecretValues :: "string \<Rightarrow> string list \<Rightarrow> string" where
  "redactExactSecretValues redacted [] = redacted"
| "redactExactSecretValues redacted (secret # secrets) =
     redactExactSecretValues
       (if 0 < length secret \<and> js_includes redacted secret
        then js_join REDACTED_TEXT (js_split_by secret [] redacted) else redacted) secrets"

text \<open>Entries whose key is already present are skipped: the first one wins.\<close>

fun first_wins :: "(string \<times> json) list \<Rightarrow> (string \<times> json) list \<Rightarrow> (string \<times> json) list" where
  "first_wins out [] = out"
| "first_wins out ((k, v) # es) =
     (if k \<in> fst ` set out then first_wins out es else first_wins (out @ [(k, v)]) es)"

fun redactTrustedSecretsDeep :: "string list \<Rightarrow> json \<Rightarrow> json" where
  "redactTrustedSecretsDeep secrets (JStr s) = JStr (redactExactSecretValues s secrets)"
| "redactTrustedSecretsDeep secrets (JArr vs) = JArr (map (redactTrustedSecretsDeep secrets) vs)"
| "redactTrustedSecretsDeep secrets (JObj es) =
     JObj (first_wins [] (map (\<lambda>(k, x).
       (redactExactSecretValues k secrets, redactTrustedSecretsDeep secrets x)) es))"
| "redactTrustedSecretsDeep secrets v = v"

fun replace_patterns :: "rx list \<Rightarrow> string \<Rightarrow> string" where
  "replace_patterns [] redacted = redacted"
| "replace_patterns (r # rs) redacted = replace_patterns rs (rx_replace_all r REDACTED_TEXT redacted)"

definition redactSecretMaterial :: "string \<Rightarrow> string list \<Rightarrow> string" where
  "redactSecretMaterial text trustedSecretValues =
     (let redacted = redactExactSecretValues text trustedSecretValues;
          redacted = replace_patterns LEAK_SECRET_TEXT_PATTERNS redacted in
      if MAX_SAFE_TEXT_LENGTH < length redacted
      then take MAX_SAFE_TEXT_LENGTH redacted @ [ellipsis] else redacted)"

definition reference_char :: "char \<Rightarrow> bool" where
  "reference_char c = (is_alnum c \<or> c \<in> set ''._~:/?#%-'')"

definition rx_governed_reference :: rx where
  "rx_governed_reference = RSeqs [RBol, RStr ''gov://'', RMin 1 (RCls reference_char), REol]"

definition sanitizeGovernedReference :: "string option \<Rightarrow> string list \<Rightarrow> string option" where
  "sanitizeGovernedReference v trustedSecretValues =
     (if \<not> truthy v then None
      else (let s = the v in
        if length s = 0 \<or> MAX_GOVERNED_REFERENCE_LENGTH < length s \<or>
           \<not> rx_test rx_governed_reference s then None
        else if containsSecretMaterial s trustedSecretValues then None
        else Some s))"

definition sanitizeGovernedReferenceList :: "string list option \<Rightarrow> string list \<Rightarrow> string list" where
  "sanitizeGovernedReferenceList vs trustedSecretValues =
     (case vs of None \<Rightarrow> []
      | Some xs \<Rightarrow> List.map_filter (\<lambda>x. sanitizeGovernedReference (Some x) trustedSecretValues) xs)"

definition sanitizeSideEffectTextList :: "string list option \<Rightarrow> string list \<Rightarrow> string list" where
  "sanitizeSideEffectTextList vs trustedSecretValues =
     (case vs of None \<Rightarrow> []
      | Some xs \<Rightarrow> map (\<lambda>x. redactSecretMaterial x trustedSecretValues) xs)"

section \<open>Redaction removes the secret\<close>

text \<open>A secret that the replacement text itself cannot spell.\<close>

definition redactable :: "string \<Rightarrow> bool" where
  "redactable n = (n \<noteq> [] \<and> CHR ''['' \<notin> set n \<and> CHR '']'' \<notin> set n \<and> ellipsis \<notin> set n \<and>
     \<not> sublist n ''REDACTED'')"

lemma prefix_stops: "prefix n (x @ b # y) \<Longrightarrow> b \<notin> set n \<Longrightarrow> prefix n x"
proof (induction x arbitrary: n)
  case Nil
  then show ?case by (cases n) auto
next
  case (Cons c x)
  then show ?case by (cases n) auto
qed

lemma sublist_around: "sublist n (x @ b # y) \<Longrightarrow> b \<notin> set n \<Longrightarrow> sublist n x \<or> sublist n y"
proof (induction x)
  case Nil
  then have "prefix n (b # y) \<or> sublist n y" by (simp add: sublist_Cons_right)
  with Nil.prems prefix_stops [of n "[]" b y] show ?case by auto
next
  case (Cons c x)
  then have "prefix n ((c # x) @ b # y) \<or> sublist n (x @ b # y)"
    by (simp add: sublist_Cons_right)
  then show ?case
  proof
    assume "prefix n ((c # x) @ b # y)"
    then have "prefix n (c # x)" using Cons.prems(2) by (rule prefix_stops)
    then show ?thesis by (simp add: sublist_Cons_right)
  next
    assume "sublist n (x @ b # y)"
    then show ?thesis using Cons by (auto simp: sublist_Cons_right)
  qed
qed

lemma marker_append: "REDACTED_TEXT @ t = CHR ''['' # (''REDACTED'' @ CHR '']'' # t)"
  by (simp add: REDACTED_TEXT_def)

lemma sublist_marker:
  assumes "redactable n" "sublist n (x @ REDACTED_TEXT @ t)"
  shows "sublist n x \<or> sublist n t"
proof -
  have n: "n \<noteq> []" "CHR ''['' \<notin> set n" "CHR '']'' \<notin> set n" "\<not> sublist n ''REDACTED''"
    using assms(1) unfolding redactable_def by blast+
  have "sublist n (x @ CHR ''['' # (''REDACTED'' @ CHR '']'' # t))"
    using assms(2) unfolding marker_append .
  from sublist_around [OF this n(2)] sublist_around [OF _ n(3), of "''REDACTED''" t] n(4)
  show ?thesis by blast
qed

lemma sublist_appendL: "sublist n s \<Longrightarrow> sublist n (w @ s)"
  by (metis append.assoc sublist_def)

text \<open>A text in which some parts were replaced by the redaction marker.\<close>

inductive redacts :: "string \<Rightarrow> string \<Rightarrow> bool" where
  r_nil: "redacts [] []"
| r_keep: "redacts s t \<Longrightarrow> redacts (c # s) (c # t)"
| r_cut: "redacts s t \<Longrightarrow> redacts (w @ s) (REDACTED_TEXT @ t)"

lemma redacts_prefix: "redacts s t \<Longrightarrow> prefix n t \<Longrightarrow> CHR ''['' \<notin> set n \<Longrightarrow> prefix n s"
proof (induction arbitrary: n rule: redacts.induct)
  case (r_keep s t c)
  then show ?case by (cases n) auto
next
  case (r_cut s t w)
  then have "n = []" unfolding marker_append by (cases n) simp_all
  then show ?case by simp
qed simp

lemma redacts_sublist: "redacts s t \<Longrightarrow> redactable n \<Longrightarrow> sublist n t \<Longrightarrow> sublist n s"
proof (induction rule: redacts.induct)
  case (r_keep s t c)
  then consider "prefix n (c # t)" | "sublist n t" by (auto simp: sublist_Cons_right)
  then show ?case
  proof cases
    case 1
    have "redacts (c # s) (c # t)" using r_keep.hyps by (rule redacts.r_keep)
    then have "prefix n (c # s)"
      using 1 r_keep.prems(1) redacts_prefix unfolding redactable_def by blast
    then show ?thesis by (simp add: sublist_Cons_right)
  next
    case 2
    with r_keep show ?thesis by (simp add: sublist_Cons_right)
  qed
next
  case (r_cut s t w)
  then have "sublist n s" using sublist_marker [of n "[]" t] by (auto simp: redactable_def)
  then show ?case by (rule sublist_appendL)
qed simp

lemma rx_replace_all_redacts: "redacts s (rx_replace_all_at r REDACTED_TEXT b s)"
proof (induction "length s" arbitrary: s b rule: less_induct)
  case less
  show ?case
  proof (cases "rx_ends r (b, s)")
    case Nil
    then show ?thesis
      using less by (subst rx_replace_all_at.simps) (auto split: list.splits intro: redacts.intros)
  next
    case (Cons q qs)
    then have "rx_match r (b, s) q" by (metis list.set_intros(1) rx_ends_iff)
    then have "suffix (snd q) s" using rx_match_suffix by fastforce
    then obtain w where w: "s = w @ snd q" by (auto simp: suffix_def)
    show ?thesis
    proof (cases "length (snd q) < length s")
      case True
      have "redacts (snd q) (rx_replace_all_at r REDACTED_TEXT (fst q) (snd q))"
        using True by (rule less)
      then have "redacts s (REDACTED_TEXT @ rx_replace_all_at r REDACTED_TEXT (fst q) (snd q))"
        by (subst w) (rule redacts.r_cut)
      then show ?thesis using True Cons by (simp add: rx_replace_all_at.simps [of r _ b s])
    next
      case False
      have "redacts s (case s of [] \<Rightarrow> [] | c # cs \<Rightarrow> c # rx_replace_all_at r REDACTED_TEXT (Some c) cs)"
        using less by (auto split: list.split intro: redacts.intros)
      from redacts.r_cut [OF this, of "[]"] False Cons show ?thesis
        by (simp add: rx_replace_all_at.simps [of r _ b s] split: list.splits)
    qed
  qed
qed

text \<open>The pieces of a split are parts of the text and do not contain the separator.\<close>

lemma split_by_unfold:
  assumes "n \<noteq> []"
  shows "js_split_by n cur (n @ r) = cur # js_split_by n [] r"
    and "js_split_by n cur [] = [cur]"
    and "\<not> prefix n (c # cs) \<Longrightarrow> js_split_by n cur (c # cs) = js_split_by n (cur @ [c]) cs"
  using assms by (simp_all add: js_split_by.simps [of n cur] js_starts_with_iff)

lemma split_by_cases:
  assumes "n \<noteq> []"
  obtains "s = []" | r where "s = n @ r" | c cs where "s = c # cs" "\<not> prefix n s"
  using assms by (cases "prefix n s"; cases s) (auto simp: prefix_def)

lemma split_by_parts:
  assumes "n \<noteq> []"
  shows "p \<in> set (js_split_by n cur s) \<Longrightarrow> sublist p (cur @ s)"
proof (induction "length s" arbitrary: cur s rule: less_induct)
  case less
  show ?case
  proof (rule split_by_cases [OF assms, of s])
    assume "s = []"
    with less.prems assms show ?thesis by (simp add: split_by_unfold)
  next
    fix r assume r: "s = n @ r"
    with less.prems assms have "p = cur \<or> p \<in> set (js_split_by n [] r)" by (simp add: split_by_unfold)
    then show ?thesis
    proof
      assume "p \<in> set (js_split_by n [] r)"
      then have "sublist p ([] @ r)" using r assms by (intro less.hyps) simp_all
      then show ?thesis using r sublist_appendL [of p r "cur @ n"] by simp
    qed simp
  next
    fix c cs assume c: "s = c # cs" "\<not> prefix n s"
    then have "sublist p ((cur @ [c]) @ cs)"
      using less.prems assms by (intro less.hyps) (simp_all add: split_by_unfold)
    then show ?thesis using c by simp
  qed
qed

lemma split_by_pieces:
  assumes "n \<noteq> []"
  shows "p \<in> set (js_split_by n cur s) \<Longrightarrow>
     (\<And>u v. cur = u @ v \<Longrightarrow> v \<noteq> [] \<Longrightarrow> \<not> prefix n (v @ s)) \<Longrightarrow> \<not> sublist n p"
proof (induction "length s" arbitrary: cur s rule: less_induct)
  case less
  have cur: "\<not> sublist n cur"
  proof
    assume "sublist n cur"
    then obtain u w where "cur = u @ n @ w" by (auto simp: sublist_def)
    with less.prems(2) [of u "n @ w"] assms show False by simp
  qed
  show ?case
  proof (rule split_by_cases [OF assms, of s])
    assume "s = []"
    with less.prems(1) assms cur show ?thesis by (simp add: split_by_unfold)
  next
    fix r assume r: "s = n @ r"
    with less.prems(1) assms have "p = cur \<or> p \<in> set (js_split_by n [] r)"
      by (simp add: split_by_unfold)
    with cur r assms less.hyps [of r "[]"] show ?thesis by auto
  next
    fix c cs assume c: "s = c # cs" "\<not> prefix n s"
    then have p: "p \<in> set (js_split_by n (cur @ [c]) cs)"
      using less.prems(1) assms by (simp add: split_by_unfold)
    have "\<not> prefix n (v @ cs)" if v: "cur @ [c] = u @ v" "v \<noteq> []" for u v
    proof -
      obtain v' where v': "v = v' @ [c]" "cur = u @ v'"
        using v by (cases v rule: rev_cases) auto
      show ?thesis
        using less.prems(2) [OF v'(2)] v'(1) c by (cases "v' = []") auto
    qed
    with p c show ?thesis by (intro less.hyps [of cs "cur @ [c]"]) auto
  qed
qed

lemma join_pieces_absent:
  assumes "redactable n"
  shows "\<forall>p \<in> set ps. \<not> sublist n p \<Longrightarrow> \<not> sublist n (js_join REDACTED_TEXT ps)"
proof (induction REDACTED_TEXT ps rule: js_join.induct)
  case 1
  then show ?case using assms by (simp add: redactable_def)
next
  case (3 x y ys)
  then show ?case
    using sublist_marker [OF assms, of x "js_join REDACTED_TEXT (y # ys)"] by auto
qed simp

lemma redact_step_keeps:
  assumes "redactable m" "n \<noteq> []" "\<not> sublist m s"
  shows "\<not> sublist m (js_join REDACTED_TEXT (js_split_by n [] s))"
proof (rule join_pieces_absent [OF assms(1)], intro ballI notI)
  fix p assume "p \<in> set (js_split_by n [] s)" "sublist m p"
  with split_by_parts [OF assms(2), of p "[]" s] assms(3) show False
    using sublist_order.order_trans by fastforce
qed

lemma redactExact_keeps:
  "redactable m \<Longrightarrow> \<not> sublist m s \<Longrightarrow> \<not> sublist m (redactExactSecretValues s secrets)"
  by (induction s secrets rule: redactExactSecretValues.induct) (auto simp: redact_step_keeps)

lemma redactExact_absent:
  "redactable m \<Longrightarrow> m \<in> set secrets \<Longrightarrow> \<not> sublist m (redactExactSecretValues s secrets)"
proof (induction secrets arbitrary: s)
  case (Cons n secrets)
  show ?case
  proof (cases "m = n")
    case True
    have ne: "n \<noteq> []" using Cons.prems(1) True by (simp add: redactable_def)
    have "\<not> sublist m (js_join REDACTED_TEXT (js_split_by n [] s))"
      using split_by_pieces [OF ne, of _ "[]" s] Cons.prems(1) True
      by (intro join_pieces_absent) auto
    with Cons.prems(1) True ne show ?thesis
      by (simp add: js_includes_iff redactExact_keeps)
  next
    case False
    with Cons show ?thesis by simp
  qed
qed simp

lemma replace_patterns_keeps:
  "redactable m \<Longrightarrow> \<not> sublist m s \<Longrightarrow> \<not> sublist m (replace_patterns rs s)"
proof (induction rs arbitrary: s)
  case (Cons r rs)
  have "redacts s (rx_replace_all r REDACTED_TEXT s)"
    by (simp add: rx_replace_all_def rx_replace_all_redacts)
  with Cons show ?case using redacts_sublist by auto
qed simp

text \<open>No key and no string of a value contains the text.\<close>

fun json_free :: "string \<Rightarrow> json \<Rightarrow> bool" where
  "json_free m (JStr s) = (\<not> sublist m s)"
| "json_free m (JArr vs) = (\<forall>v \<in> set vs. json_free m v)"
| "json_free m (JObj es) = (\<forall>(k, x) \<in> set es. \<not> sublist m k \<and> json_free m x)"
| "json_free m _ = True"

lemma set_first_wins: "set (first_wins out es) \<subseteq> set out \<union> set es"
  by (induction out es rule: first_wins.induct) auto

lemma first_wins_distinct: "distinct (map fst out) \<Longrightarrow> distinct (map fst (first_wins out es))"
  by (induction out es rule: first_wins.induct) auto

lemma redact_deep_free:
  "redactable m \<Longrightarrow> m \<in> set secrets \<Longrightarrow> json_free m (redactTrustedSecretsDeep secrets v)"
proof (induction secrets v rule: redactTrustedSecretsDeep.induct)
  case (3 secrets es)
  let ?es = "map (\<lambda>(k, x). (redactExactSecretValues k secrets, redactTrustedSecretsDeep secrets x)) es"
  have "\<not> sublist m k \<and> json_free m x" if "(k, x) \<in> set ?es" for k x
    using that 3 redactExact_absent by auto
  moreover have "set (first_wins [] ?es) \<subseteq> set ?es" using set_first_wins [of "[]" ?es] by simp
  ultimately have "\<forall>(k, x) \<in> set (first_wins [] ?es). \<not> sublist m k \<and> json_free m x" by blast
  then show ?case by simp
qed (simp_all add: redactExact_absent)

lemma redactSecretMaterial_absent:
  assumes "redactable m" "m \<in> set secrets"
  shows "\<not> sublist m (redactSecretMaterial text secrets)"
proof -
  let ?r = "replace_patterns LEAK_SECRET_TEXT_PATTERNS (redactExactSecretValues text secrets)"
  have r: "\<not> sublist m ?r"
    using assms by (intro replace_patterns_keeps redactExact_absent)
  have "\<not> sublist m (take MAX_SAFE_TEXT_LENGTH ?r @ [ellipsis])"
  proof
    assume "sublist m (take MAX_SAFE_TEXT_LENGTH ?r @ [ellipsis])"
    then have "sublist m (take MAX_SAFE_TEXT_LENGTH ?r) \<or> sublist m []"
      by (rule sublist_around) (use assms(1) in \<open>auto simp: redactable_def\<close>)
    then have "sublist m (take MAX_SAFE_TEXT_LENGTH ?r)"
      using assms(1) by (simp add: redactable_def)
    moreover have "sublist (take MAX_SAFE_TEXT_LENGTH ?r) ?r" by simp
    ultimately show False using r sublist_order.order_trans by blast
  qed
  with r show ?thesis by (simp add: redactSecretMaterial_def Let_def)
qed

lemma governed_reference_prefix:
  assumes "rx_test rx_governed_reference s"
  shows "prefix ''gov://'' s"
proof -
  from assms obtain u v q where s: "s = u @ v" and m: "rx_match rx_governed_reference (prev_of None u, v) q"
    by (auto simp: rx_test_iff)
  from m have "prev_of None u = None"
    by (auto simp: rx_governed_reference_def rx_match_simps)
  then have "u = []" by (auto simp: prev_of_def split: if_splits)
  moreover obtain p where "rx_match (RStr ''gov://'') (prev_of None u, v) p"
    using m by (auto simp: rx_governed_reference_def rx_match_simps simp del: RStr.simps)
  ultimately show ?thesis using s unfolding rx_match_RStr by (auto simp: prefix_def)
qed

section \<open>Properties\<close>

text \<open>A trusted secret does not pass the leakage boundary.  For a secret value that the
  redaction marker cannot spell, no key and no string of redacted metadata at
  any depth contains it, no redacted free text contains it, and no governed
  reference that is let through contains it; free texts are bounded by 2001
  code units, references are \<open>gov://\<close> references of at most 512, and object
  keys stay distinct.\<close>

lemma trusted_secret_never_leaks:
  assumes "redactable m" and "m \<in> set secrets"
  shows "json_free m (redactTrustedSecretsDeep secrets v) \<and>
     \<not> sublist m (redactSecretMaterial text secrets) \<and>
     length (redactSecretMaterial text secrets) \<le> 2001 \<and>
     (\<forall>x. sanitizeGovernedReference r secrets = Some x \<longrightarrow>
        r = Some x \<and> \<not> sublist m x \<and> prefix ''gov://'' x \<and> length x \<le> 512) \<and>
     (\<forall>es. redactTrustedSecretsDeep secrets v = JObj es \<longrightarrow> distinct (map fst es))"
proof (intro conjI allI impI)
  show "json_free m (redactTrustedSecretsDeep secrets v)" using assms by (rule redact_deep_free)
  show "\<not> sublist m (redactSecretMaterial text secrets)" using assms by (rule redactSecretMaterial_absent)
  show "length (redactSecretMaterial text secrets) \<le> 2001"
    by (simp add: redactSecretMaterial_def Let_def MAX_SAFE_TEXT_LENGTH_def)
next
  fix x assume x: "sanitizeGovernedReference r secrets = Some x"
  then show rx: "r = Some x"
    by (cases r) (auto simp: sanitizeGovernedReference_def Let_def split: if_splits)
  from x rx have "rx_test rx_governed_reference x" "\<not> containsSecretMaterial x secrets" "length x \<le> 512"
    by (auto simp: sanitizeGovernedReference_def Let_def MAX_GOVERNED_REFERENCE_LENGTH_def
        split: if_splits)
  then show "prefix ''gov://'' x" "length x \<le> 512" "\<not> sublist m x"
    using assms by (auto simp: governed_reference_prefix containsSecretMaterial_def js_includes_iff
        redactable_def)
next
  fix es assume "redactTrustedSecretsDeep secrets v = JObj es"
  then show "distinct (map fst es)"
    by (cases v) (auto intro: first_wins_distinct)
qed

end
