(* ===== verification/Vito_IdempotencyStore.thy ===== *)
theory Vito_IdempotencyStore
  imports Vito_Prelude
begin

text \<open>
  The claim store behind governed invocations,
  \<open>prisma-governed-idempotency.store.ts\<close>.  The table
  \<open>governed_invocation_claims\<close> has a unique column for the logical operation key
  and one for the invocation id; an insert that violates either fails and the
  store then reads the table to tell a duplicate from a conflict.

  The locale \<open>claim_store\<close> states what a client of the contract
  \<open>GovernedInvocationIdempotencyStore\<close> may rely on; the store is an
  interpretation of it.
\<close>

section \<open>The table\<close>

datatype GovernedInvocationClaimState =
    IN_PROGRESS | CLAIM_COMPLETED | TIMED_OUT_UNKNOWN | FAILED_UNKNOWN

record GovernedInvocationExecutionClaim =
  logicalOperationKey :: string
  claimInvocationId :: string
  contextFingerprint :: string
  claimState :: GovernedInvocationClaimState
  claimedAt :: int

type_synonym claim_db = "GovernedInvocationExecutionClaim list"

datatype GovernedInvocationClaimResult =
    CLAIMED GovernedInvocationExecutionClaim
  | DUPLICATE GovernedInvocationExecutionClaim
  | CONTEXT_CONFLICT string

datatype claim_error = UNIQUE_VIOLATION | CLAIM_COMPLETION_REJECTED string string

text \<open>\<open>create\<close>: the unique constraints decide; a new row starts IN\_PROGRESS.\<close>

definition unique_violation :: "claim_db \<Rightarrow> string \<Rightarrow> string \<Rightarrow> bool" where
  "unique_violation db key iv =
     (\<exists>r \<in> set db. logicalOperationKey r = key \<or> claimInvocationId r = iv)"

definition new_claim :: "int \<Rightarrow> string \<Rightarrow> string \<Rightarrow> string \<Rightarrow> GovernedInvocationExecutionClaim" where
  "new_claim now key iv fp = \<lparr>logicalOperationKey = key, claimInvocationId = iv,
     contextFingerprint = fp, claimState = IN_PROGRESS, claimedAt = now\<rparr>"

definition mapClaimRowToGovernedClaim ::
  "GovernedInvocationExecutionClaim \<Rightarrow> GovernedInvocationExecutionClaim" where
  "mapClaimRowToGovernedClaim row = \<lparr>logicalOperationKey = logicalOperationKey row,
     claimInvocationId = claimInvocationId row, contextFingerprint = contextFingerprint row,
     claimState = claimState row, claimedAt = claimedAt row\<rparr>"

definition find_key :: "claim_db \<Rightarrow> string \<Rightarrow> GovernedInvocationExecutionClaim option" where
  "find_key db key = find (\<lambda>r. logicalOperationKey r = key) db"

definition find_invocation :: "claim_db \<Rightarrow> string \<Rightarrow> GovernedInvocationExecutionClaim option" where
  "find_invocation db iv = find (\<lambda>r. claimInvocationId r = iv) db"

text \<open>The reads that follow a failed insert; \<^const>\<open>None\<close> stands for the rethrown error.\<close>

definition disambiguate :: "claim_db \<Rightarrow> string \<Rightarrow> string \<Rightarrow> GovernedInvocationClaimResult option" where
  "disambiguate db key iv =
     (let existingForKey = find_key db key; identityRow = find_invocation db iv in
      if option_test (\<lambda>r. claimInvocationId r = iv) existingForKey
      then Some (DUPLICATE (mapClaimRowToGovernedClaim (the existingForKey)))
      else if option_test (\<lambda>r. logicalOperationKey r \<noteq> key) identityRow
      then Some (CONTEXT_CONFLICT iv)
      else (case existingForKey of
              Some r \<Rightarrow> Some (DUPLICATE (mapClaimRowToGovernedClaim r))
            | None \<Rightarrow> None))"

definition store_claim ::
  "int \<Rightarrow> string \<Rightarrow> string \<Rightarrow> string \<Rightarrow> claim_db \<Rightarrow>
   claim_db \<times> (claim_error + GovernedInvocationClaimResult)" where
  "store_claim now key iv fp db =
     (if unique_violation db key iv
      then (db, case disambiguate db key iv of
                  Some res \<Rightarrow> Inr res | None \<Rightarrow> Inl UNIQUE_VIOLATION)
      else (db @ [new_claim now key iv fp],
            Inr (CLAIMED (mapClaimRowToGovernedClaim (new_claim now key iv fp)))))"

definition owns_in_progress :: "string \<Rightarrow> string \<Rightarrow> GovernedInvocationExecutionClaim \<Rightarrow> bool" where
  "owns_in_progress key iv r =
     (logicalOperationKey r = key \<and> claimInvocationId r = iv \<and> claimState r = IN_PROGRESS)"

definition markCompleted ::
  "string \<Rightarrow> string \<Rightarrow> GovernedInvocationClaimState \<Rightarrow> claim_db \<Rightarrow> claim_db \<times> (claim_error + unit)" where
  "markCompleted key iv st db =
     (let db' = map (\<lambda>r. if owns_in_progress key iv r then r\<lparr>claimState := st\<rparr> else r) db;
          count = length (filter (owns_in_progress key iv) db) in
      (db', if count \<noteq> 1 then Inl (CLAIM_COMPLETION_REJECTED key iv) else Inr ()))"

section \<open>The contract of a claim store\<close>

text \<open>
  \<open>owner\<close> is the attempt that holds a key.  A claim succeeds only on a free key
  and makes the caller its owner; whatever happens afterwards, an owner is
  never replaced or removed.
\<close>

datatype store_op = Claim int string string string | Complete string string GovernedInvocationClaimState

locale claim_store =
  fixes claim :: "int \<Rightarrow> string \<Rightarrow> string \<Rightarrow> string \<Rightarrow> 'db \<Rightarrow>
      'db \<times> (claim_error + GovernedInvocationClaimResult)"
    and complete :: "string \<Rightarrow> string \<Rightarrow> GovernedInvocationClaimState \<Rightarrow> 'db \<Rightarrow>
      'db \<times> (claim_error + unit)"
    and owner :: "'db \<Rightarrow> string \<Rightarrow> string option"
    and ok :: "'db \<Rightarrow> bool"
  assumes ok_claim: "ok db \<Longrightarrow> ok (fst (claim now key iv fp db))"
    and ok_complete: "ok db \<Longrightarrow> ok (fst (complete key iv st db))"
    and claimed_free: "ok db \<Longrightarrow> claim now key iv fp db = (db', Inr (CLAIMED c)) \<Longrightarrow>
        owner db key = None \<and> owner db' key = Some iv"
    and claim_keeps: "ok db \<Longrightarrow> owner db k = Some i \<Longrightarrow>
        owner (fst (claim now key iv fp db)) k = Some i"
    and complete_keeps: "ok db \<Longrightarrow> owner (fst (complete key iv st db)) k = owner db k"
begin

text \<open>Running a sequence of operations of any number of clients; the result lists the keys won.\<close>

fun exec_op :: "store_op \<Rightarrow> 'db \<Rightarrow> 'db \<times> string list" where
  "exec_op (Claim now key iv fp) db =
     (case claim now key iv fp db of
        (db', Inr (CLAIMED c)) \<Rightarrow> (db', [key])
      | (db', _) \<Rightarrow> (db', []))"
| "exec_op (Complete key iv st) db = (fst (complete key iv st db), [])"

fun exec_ops :: "store_op list \<Rightarrow> 'db \<Rightarrow> 'db \<times> string list" where
  "exec_ops [] db = (db, [])"
| "exec_ops (p # ps) db =
     (let (db', w) = exec_op p db; (db'', ws) = exec_ops ps db' in (db'', w @ ws))"

lemma exec_op_facts:
  assumes "ok db" "exec_op p db = (db', w)"
  shows "ok db'" "owner db k = Some i \<Longrightarrow> owner db' k = Some i"
    "k \<in> set w \<Longrightarrow> owner db k = None \<and> owner db' k \<noteq> None \<and> w = [k]"
proof -
  have "ok db' \<and> (owner db k = Some i \<longrightarrow> owner db' k = Some i) \<and>
      (k \<in> set w \<longrightarrow> owner db k = None \<and> owner db' k \<noteq> None \<and> w = [k])"
  proof (cases p)
    case (Claim now key iv fp)
    obtain d r where dr: "claim now key iv fp db = (d, r)" by fastforce
    have keep: "ok d" "owner db k = Some i \<longrightarrow> owner d k = Some i"
      using ok_claim [OF assms(1), of now key iv fp] claim_keeps [OF assms(1), of k i now key iv fp] dr
      by simp_all
    show ?thesis
    proof (cases "\<exists>c. r = Inr (CLAIMED c)")
      case True
      then obtain c where "r = Inr (CLAIMED c)" by blast
      with claimed_free [OF assms(1)] dr keep assms(2) Claim show ?thesis by auto
    next
      case False
      with dr assms(2) Claim have "db' = d \<and> w = []"
        by (auto split: sum.splits GovernedInvocationClaimResult.splits)
      with keep show ?thesis by simp
    qed
  next
    case (Complete key iv st)
    with assms ok_complete complete_keeps show ?thesis by auto
  qed
  then show "ok db'" "owner db k = Some i \<Longrightarrow> owner db' k = Some i"
    "k \<in> set w \<Longrightarrow> owner db k = None \<and> owner db' k \<noteq> None \<and> w = [k]" by blast+
qed

lemma exec_ops_snd:
  "snd (exec_ops (p # ps) db) = snd (exec_op p db) @ snd (exec_ops ps (fst (exec_op p db)))"
  by (simp add: Let_def split_beta)

lemma exec_ops_owned:
  "ok db \<Longrightarrow> owner db k \<noteq> None \<Longrightarrow> k \<notin> set (snd (exec_ops ps db))"
proof (induction ps arbitrary: db)
  case (Cons p ps)
  obtain db' w where e: "exec_op p db = (db', w)" by fastforce
  note f = exec_op_facts [OF Cons.prems(1) e]
  from Cons.prems(2) obtain i where "owner db k = Some i" by auto
  then have "owner db' k = Some i" "k \<notin> set w" using f(2) f(3) [of k] by auto
  with Cons.IH [OF f(1)] show ?case unfolding exec_ops_snd e by simp
qed simp

lemma won_once: "ok db \<Longrightarrow> distinct (snd (exec_ops ps db))"
proof (induction ps arbitrary: db)
  case (Cons p ps)
  obtain db' w where e: "exec_op p db = (db', w)" by fastforce
  note f = exec_op_facts [OF Cons.prems e]
  have "distinct w" using f(3) [of "hd w"] by (cases w) auto
  moreover have "set w \<inter> set (snd (exec_ops ps db')) = {}"
    using f(3) exec_ops_owned [OF f(1)] by blast
  ultimately show ?case using Cons.IH [OF f(1)] unfolding exec_ops_snd e by simp
qed simp

end

section \<open>The store implements the contract\<close>

definition claim_owner :: "claim_db \<Rightarrow> string \<Rightarrow> string option" where
  "claim_owner db key = map_option claimInvocationId (find_key db key)"

definition db_ok :: "claim_db \<Rightarrow> bool" where
  "db_ok db = (distinct (map logicalOperationKey db) \<and> distinct (map claimInvocationId db))"

lemma find_key_append:
  "find_key (db @ [c]) k =
     (case find_key db k of Some r \<Rightarrow> Some r
      | None \<Rightarrow> if logicalOperationKey c = k then Some c else None)"
  by (induction db) (auto simp: find_key_def)

lemma find_key_None_iff: "find_key db k = None \<longleftrightarrow> (\<forall>r \<in> set db. logicalOperationKey r \<noteq> k)"
  by (simp add: find_key_def find_None_iff) blast

lemma find_key_Some: "find_key db k = Some r \<Longrightarrow> r \<in> set db \<and> logicalOperationKey r = k"
  by (auto simp: find_key_def find_Some_iff)

lemma find_invocation_Some: "find_invocation db i = Some r \<Longrightarrow> r \<in> set db \<and> claimInvocationId r = i"
  by (auto simp: find_invocation_def find_Some_iff)

lemma find_invocation_None_iff:
  "find_invocation db i = None \<longleftrightarrow> (\<forall>r \<in> set db. claimInvocationId r \<noteq> i)"
  by (simp add: find_invocation_def find_None_iff) blast

lemma disambiguate_not_claimed: "disambiguate db key iv \<noteq> Some (CLAIMED c)"
  by (auto simp: disambiguate_def Let_def split: option.splits)

lemma claim_owner_update:
  "claim_owner (map (\<lambda>r. if P r then r\<lparr>claimState := st\<rparr> else r) db) k = claim_owner db k"
  by (induction db) (auto simp: claim_owner_def find_key_def)

lemma map_claimState_update:
  "map logicalOperationKey (map (\<lambda>r. if P r then r\<lparr>claimState := st\<rparr> else r) db) =
     map logicalOperationKey db"
  "map claimInvocationId (map (\<lambda>r. if P r then r\<lparr>claimState := st\<rparr> else r) db) =
     map claimInvocationId db"
  by simp_all

interpretation ps: claim_store store_claim markCompleted claim_owner db_ok
proof
  fix db key iv fp now k i st db' c
  assume ok: "db_ok db"
  show "db_ok (fst (store_claim now key iv fp db))"
    using ok by (auto simp: store_claim_def db_ok_def unique_violation_def new_claim_def)
  show "db_ok (fst (markCompleted key iv st db))"
    using ok unfolding markCompleted_def Let_def db_ok_def fst_conv map_claimState_update .
  show "claim_owner (fst (markCompleted key iv st db)) k = claim_owner db k"
    by (simp add: markCompleted_def Let_def claim_owner_update)
  show "claim_owner (fst (store_claim now key iv fp db)) k = Some i" if "claim_owner db k = Some i"
    using that by (auto simp: store_claim_def claim_owner_def find_key_append)
  show "claim_owner db key = None \<and> claim_owner db' key = Some iv"
    if "store_claim now key iv fp db = (db', Inr (CLAIMED c))"
  proof -
    have "\<not> unique_violation db key iv"
      using that disambiguate_not_claimed [of db key iv c]
      by (auto simp: store_claim_def split: if_splits option.splits)
    moreover from this that have "db' = db @ [new_claim now key iv fp]"
      by (auto simp: store_claim_def)
    moreover from \<open>\<not> unique_violation db key iv\<close> have "find_key db key = None"
      by (auto simp: find_key_None_iff unique_violation_def)
    ultimately show ?thesis
      by (simp add: claim_owner_def find_key_append new_claim_def)
  qed
qed

text \<open>
  The sequence of operations at the top level, for the statements below.
\<close>

definition run_store :: "store_op list \<Rightarrow> claim_db \<Rightarrow> claim_db \<times> string list" where
  "run_store = ps.exec_ops"

lemma run_store_code [code, simp]:
  "run_store [] db = (db, [])"
  "run_store (p # ops) db =
     (let (db', w) = ps.exec_op p db; (db'', ws) = run_store ops db' in (db'', w @ ws))"
  by (simp_all add: run_store_def)

lemma disambiguate_total:
  assumes "unique_violation db key iv"
  shows "\<exists>res. disambiguate db key iv = Some res"
proof (cases "find_key db key")
  case None
  then have "\<exists>r \<in> set db. claimInvocationId r = iv"
    using assms by (auto simp: unique_violation_def find_key_None_iff)
  then obtain r where r: "find_invocation db iv = Some r"
    using find_invocation_None_iff [of db iv] by (cases "find_invocation db iv") auto
  then have "logicalOperationKey r \<noteq> key"
    using None find_invocation_Some [OF r] by (auto simp: find_key_None_iff)
  with None r show ?thesis by (simp add: disambiguate_def)
next
  case (Some r)
  then show ?thesis by (simp add: disambiguate_def Let_def)
qed

section \<open>Properties\<close>

text \<open>At most one winner per logical operation: in every sequence of claims and
  completions by any number of attempts, no key is won twice, whatever the
  attempts' identities, and starting from a table in which a key is owned it is
  never won again.\<close>

lemma claim_won_at_most_once:
  assumes "db_ok db"
  shows "distinct (snd (run_store ops db)) \<and>
     (\<forall>k. claim_owner db k \<noteq> None \<longrightarrow> k \<notin> set (snd (run_store ops db)))"
  using ps.won_once [OF assms] ps.exec_ops_owned [OF assms] by (simp add: run_store_def)

text \<open>What a claim answers.  On a table that respects its constraints the store never
  rethrows a constraint violation: it claims exactly when key and attempt are
  both new, reports a conflict exactly when the attempt is already bound to a
  different key, and otherwise a duplicate of the row that holds the key.\<close>

lemma claim_outcome:
  assumes "db_ok db"
  shows "case snd (store_claim now key iv fp db) of
      Inl _ \<Rightarrow> False
    | Inr (CLAIMED c) \<Rightarrow> (\<forall>r \<in> set db. logicalOperationKey r \<noteq> key \<and> claimInvocationId r \<noteq> iv) \<and>
        c = new_claim now key iv fp
    | Inr (CONTEXT_CONFLICT i) \<Rightarrow> i = iv \<and>
        (\<exists>r \<in> set db. claimInvocationId r = iv \<and> logicalOperationKey r \<noteq> key)
    | Inr (DUPLICATE c) \<Rightarrow> c \<in> set db \<and> logicalOperationKey c = key \<and>
        (claimInvocationId c = iv \<or> (\<forall>r \<in> set db. claimInvocationId r \<noteq> iv))"
proof (cases "unique_violation db key iv")
  case False
  then show ?thesis
    by (auto simp: store_claim_def unique_violation_def mapClaimRowToGovernedClaim_def)
next
  case True
  from disambiguate_total [OF True] obtain res where res: "disambiguate db key iv = Some res" by blast
  have same: "mapClaimRowToGovernedClaim r = r" for r
    by (simp add: mapClaimRowToGovernedClaim_def)
  have inj: "claimInvocationId r = claimInvocationId s \<Longrightarrow> r \<in> set db \<Longrightarrow> s \<in> set db \<Longrightarrow> r = s" for r s
    using assms by (auto simp: db_ok_def distinct_map dest: inj_onD)
  have found: "r \<in> set db \<Longrightarrow> find_invocation db (claimInvocationId r) = Some r" for r
    using find_invocation_None_iff [of db "claimInvocationId r"]
    by (cases "find_invocation db (claimInvocationId r)") (auto dest: find_invocation_Some inj)
  have key_inj: "logicalOperationKey r = logicalOperationKey s \<Longrightarrow> r \<in> set db \<Longrightarrow> s \<in> set db \<Longrightarrow> r = s"
    for r s using assms by (auto simp: db_ok_def distinct_map dest: inj_onD)
  from res True show ?thesis
    by (auto simp: store_claim_def disambiguate_def Let_def same
        dest!: find_key_Some find_invocation_Some split: if_splits option.splits)
       (metis found key_inj)
qed

text \<open>A claim is settled once and only by its owner.  Completing changes nothing but the
  state of the one row that the caller holds in progress; it is rejected, with
  the table unchanged, exactly when there is no such row; and a settled row is
  never changed again.\<close>

lemma completion_by_owner_only:
  assumes "db_ok db"
  shows "(snd (markCompleted key iv st db) = Inr () \<longleftrightarrow>
       (\<exists>r \<in> set db. logicalOperationKey r = key \<and> claimInvocationId r = iv \<and>
          claimState r = IN_PROGRESS)) \<and>
     (snd (markCompleted key iv st db) \<noteq> Inr () \<longrightarrow> fst (markCompleted key iv st db) = db) \<and>
     (\<forall>r \<in> set db. claimState r \<noteq> IN_PROGRESS \<or> claimInvocationId r \<noteq> iv \<longrightarrow>
        r \<in> set (fst (markCompleted key iv st db))) \<and>
     length (fst (markCompleted key iv st db)) = length db"
proof -
  let ?P = "owns_in_progress key iv"
  have "distinct (map logicalOperationKey db)" using assms by (simp add: db_ok_def)
  then have le: "length (filter ?P db) \<le> 1"
  proof (induction db)
    case (Cons a db)
    have "filter ?P db = []" if "?P a"
      using that Cons.prems by (auto simp: owns_in_progress_def filter_empty_conv image_iff)
    with Cons show ?case by (cases "?P a") simp_all
  qed simp
  have none: "length (filter ?P db) \<noteq> 1 \<longleftrightarrow> (\<forall>r \<in> set db. \<not> ?P r)"
  proof -
    have "length (filter ?P db) = 0 \<longleftrightarrow> (\<forall>r \<in> set db. \<not> ?P r)" by (simp add: filter_empty_conv)
    with le show ?thesis by linarith
  qed
  have accepted: "snd (markCompleted key iv st db) = Inr () \<longleftrightarrow> (\<exists>r \<in> set db. ?P r)"
    using none by (simp add: markCompleted_def Let_def)
  have "fst (markCompleted key iv st db) = db" if "snd (markCompleted key iv st db) \<noteq> Inr ()"
    using that accepted by (simp add: markCompleted_def Let_def map_idI)
  moreover have "r \<in> set (fst (markCompleted key iv st db))"
    if "claimState r \<noteq> IN_PROGRESS \<or> claimInvocationId r \<noteq> iv" "r \<in> set db" for r
    using that by (auto simp: markCompleted_def owns_in_progress_def image_iff Let_def intro!: bexI [of _ r])
  moreover have "length (fst (markCompleted key iv st db)) = length db"
    by (simp add: markCompleted_def Let_def)
  ultimately show ?thesis using accepted unfolding owns_in_progress_def by blast
qed

end
