(* ===== verification/Vito_Provider.thy ===== *)
theory Vito_Provider
  imports Complex_Main Vito_Invocation
begin

text \<open>
  Providers: the declaration and the eligibility predicates of
  \<open>provider-registry.ts\<close>, the execution tier and the cloud profiles of
  \<open>execution-tier.ts\<close> and \<open>cloud-execution-profile.registry.ts\<close>, and the
  adapter registry.  The descriptive fields of a declaration that no operation
  reads (display name, model name and code, the deprecated list of
  capabilities, cost metadata, creation dates) are left out of the record; the
  registry keeps them in its own rows.  Scores are rationals: a finite double is one.
\<close>

section \<open>Declarations\<close>

datatype ProviderStatus = PS_ACTIVE | PS_DISABLED | PS_DEGRADED

datatype ProviderHealthStatus =
    PH_UNKNOWN | PH_HEALTHY | PH_DEGRADED | PH_QUOTA_LIMITED | PH_UNAVAILABLE | PH_DISABLED

datatype ProviderQuotaStatus = PQ_UNKNOWN | PQ_AVAILABLE | PQ_LIMITED | PQ_EXHAUSTED

datatype ProviderType = CLOUD_LLM | LOCAL_LLM | DETERMINISTIC_TOOL | LOCAL_TOOL

datatype ProviderCredentialRequirement = CR_REQUIRED | CR_NOT_REQUIRED | CR_UNKNOWN

record ProviderCapabilityAssignment =
  pa_capabilityCode :: string
  pa_isEnabled :: bool

record ProviderDeclaration =
  pd_id :: string
  pd_organizationId :: string
  pd_providerCode :: string
  pd_providerType :: ProviderType
  pd_status :: ProviderStatus
  pd_modelFamily :: "string option"
  pd_capabilityAssignments :: "ProviderCapabilityAssignment list"
  pd_estimatedCostMinorUnits :: "int option"
  pd_healthStatus :: ProviderHealthStatus
  pd_healthCheckedAt :: "int option"
  pd_quotaStatus :: ProviderQuotaStatus
  pd_quotaCheckedAt :: "int option"
  pd_qualityScore :: "rat option"
  pd_latencyScore :: "rat option"
  pd_costScore :: "rat option"
  pd_assuranceLevels :: "string list"
  pd_metadata :: "(string \<times> json) list"
  pd_credentialRequirement :: "ProviderCredentialRequirement option"

definition providerSupportsCapability :: "ProviderDeclaration \<Rightarrow> string \<Rightarrow> bool" where
  "providerSupportsCapability provider capability =
     (\<exists>a \<in> set (pd_capabilityAssignments provider).
        pa_capabilityCode a = capability \<and> pa_isEnabled a)"

definition providerSupportsAssuranceLevel :: "ProviderDeclaration \<Rightarrow> string \<Rightarrow> bool" where
  "providerSupportsAssuranceLevel provider level =
     (if pd_assuranceLevels provider = [] then True else level \<in> set (pd_assuranceLevels provider))"

definition isProviderRoutable :: "ProviderDeclaration \<Rightarrow> bool" where
  "isProviderRoutable provider =
     (if pd_status provider \<noteq> PS_ACTIVE then False
      else if pd_healthStatus provider \<noteq> PH_HEALTHY \<and> pd_healthStatus provider \<noteq> PH_DEGRADED
      then False else True)"

section \<open>Execution tiers\<close>

datatype ExecutionTier = LOCAL_ISOLATED | CLOUD_GOVERNED

record CloudExecutionProfile =
  cp_profileId :: string
  cp_providerCode :: string
  cp_credentialRef :: string
  cp_trustedLauncherAlias :: string
  cp_readinessProbeLauncherAlias :: "string option"
  cp_testExecutionLauncherAlias :: "string option"
  cp_expectedProviderId :: string
  cp_allowedModelIds :: "string list option"
  cp_maxDurationMs :: int
  cp_maxParallelism :: int
  cp_enabled :: bool

definition isCloudGovernedProviderType :: "ProviderType \<Rightarrow> bool" where
  "isCloudGovernedProviderType t = (t = CLOUD_LLM)"

definition resolveExecutionTier :: "ProviderType \<Rightarrow> CloudExecutionProfile option \<Rightarrow> ExecutionTier option" where
  "resolveExecutionTier t cloudProfile =
     (if t = LOCAL_TOOL then (if cloudProfile = None then Some LOCAL_ISOLATED else None)
      else if isCloudGovernedProviderType t
      then (case cloudProfile of Some p \<Rightarrow> if cp_enabled p then Some CLOUD_GOVERNED else None
            | None \<Rightarrow> None)
      else None)"

text \<open>Validation of a configured profile.  Every pattern is a class of characters with a
  bound on the length, the launcher alias with a narrower first character.\<close>

definition pattern_between :: "nat \<Rightarrow> nat \<Rightarrow> (char \<Rightarrow> bool) \<Rightarrow> string \<Rightarrow> bool" where
  "pattern_between lo hi ok s = (lo \<le> length s \<and> length s \<le> hi \<and> list_all ok s)"

definition lower_alnum :: "char \<Rightarrow> bool" where
  "lower_alnum c = (is_lower c \<or> is_digit c)"

definition PROFILE_ID_PATTERN :: "string \<Rightarrow> bool" where
  "PROFILE_ID_PATTERN = pattern_between 1 64 (\<lambda>c. is_alnum c \<or> c \<in> set ''._-'')"

definition CREDENTIAL_REF_PATTERN :: "string \<Rightarrow> bool" where
  "CREDENTIAL_REF_PATTERN = pattern_between 1 256 (\<lambda>c. is_alnum c \<or> c \<in> set ''._:-'')"

definition LAUNCHER_ALIAS_PATTERN :: "string \<Rightarrow> bool" where
  "LAUNCHER_ALIAS_PATTERN s =
     (pattern_between 1 64 (\<lambda>c. lower_alnum c \<or> c \<in> set ''._-'') s \<and> lower_alnum (hd s))"

definition PROVIDER_ID_PATTERN :: "string \<Rightarrow> bool" where
  "PROVIDER_ID_PATTERN = pattern_between 1 128 (\<lambda>c. is_alnum c \<or> c \<in> set ''._:-'')"

definition MODEL_ID_PATTERN :: "string \<Rightarrow> bool" where
  "MODEL_ID_PATTERN = pattern_between 1 128 (\<lambda>c. is_alnum c \<or> c \<in> set ''._:/-'')"

definition MAX_ALLOWED_MODEL_IDS :: nat where "MAX_ALLOWED_MODEL_IDS = 64"
definition CLOUD_EXECUTION_PROFILE_MIN_DURATION_MS :: int where "CLOUD_EXECUTION_PROFILE_MIN_DURATION_MS = 1000"
definition CLOUD_EXECUTION_PROFILE_MAX_DURATION_MS :: int where "CLOUD_EXECUTION_PROFILE_MAX_DURATION_MS = 86400000"
definition CLOUD_EXECUTION_PROFILE_MAX_PARALLELISM :: int where "CLOUD_EXECUTION_PROFILE_MAX_PARALLELISM = 3"

definition required_string :: "(string \<Rightarrow> bool) \<Rightarrow> json option \<Rightarrow> string option" where
  "required_string ok v = (case v of Some (JStr s) \<Rightarrow> if ok s then Some s else None | _ \<Rightarrow> None)"

definition optional_string :: "(string \<Rightarrow> bool) \<Rightarrow> json option \<Rightarrow> string option option" where
  "optional_string ok v = (case v of None \<Rightarrow> Some None | Some x \<Rightarrow> map_option Some (required_string ok (Some x)))"

definition model_ids :: "json option \<Rightarrow> string list option option" where
  "model_ids v = (case v of
       None \<Rightarrow> Some None
     | Some (JArr xs) \<Rightarrow>
         (if xs = [] \<or> MAX_ALLOWED_MODEL_IDS < length xs then None
          else Option.bind (those (map (\<lambda>x. required_string MODEL_ID_PATTERN (Some x)) xs)) (\<lambda>ids.
            if set_size ids \<noteq> length ids then None else Some (Some ids)))
     | Some _ \<Rightarrow> None)"

definition integer_between :: "int \<Rightarrow> int \<Rightarrow> json option \<Rightarrow> int option" where
  "integer_between lo hi v = (case v of Some (JNum n) \<Rightarrow> if n < lo \<or> hi < n then None else Some n | _ \<Rightarrow> None)"

definition boolean :: "json option \<Rightarrow> bool option" where
  "boolean v = (case v of Some (JBool b) \<Rightarrow> Some b | _ \<Rightarrow> None)"

definition toValidatedCloudExecutionProfile :: "json \<Rightarrow> CloudExecutionProfile option" where
  "toValidatedCloudExecutionProfile raw = (case raw of
       JObj fs \<Rightarrow>
         (let value = map_of fs in
          Option.bind (required_string PROFILE_ID_PATTERN (value ''profileId'')) (\<lambda>profileId.
          Option.bind (required_string PROFILE_ID_PATTERN (value ''providerCode'')) (\<lambda>providerCode.
          Option.bind (required_string CREDENTIAL_REF_PATTERN (value ''credentialRef'')) (\<lambda>credentialRef.
          Option.bind (required_string LAUNCHER_ALIAS_PATTERN (value ''trustedLauncherAlias'')) (\<lambda>launcher.
          Option.bind (optional_string LAUNCHER_ALIAS_PATTERN (value ''readinessProbeLauncherAlias'')) (\<lambda>probe.
          Option.bind (optional_string LAUNCHER_ALIAS_PATTERN (value ''testExecutionLauncherAlias'')) (\<lambda>test.
          Option.bind (required_string PROVIDER_ID_PATTERN (value ''expectedProviderId'')) (\<lambda>expected.
          Option.bind (model_ids (value ''allowedModelIds'')) (\<lambda>models.
          Option.bind (integer_between CLOUD_EXECUTION_PROFILE_MIN_DURATION_MS CLOUD_EXECUTION_PROFILE_MAX_DURATION_MS
            (value ''maxDurationMs'')) (\<lambda>duration.
          Option.bind (integer_between 1 CLOUD_EXECUTION_PROFILE_MAX_PARALLELISM (value ''maxParallelism'')) (\<lambda>parallelism.
          Option.bind (boolean (value ''enabled'')) (\<lambda>enabled.
          Some \<lparr>cp_profileId = profileId, cp_providerCode = providerCode, cp_credentialRef = credentialRef,
            cp_trustedLauncherAlias = launcher, cp_readinessProbeLauncherAlias = probe,
            cp_testExecutionLauncherAlias = test, cp_expectedProviderId = expected, cp_allowedModelIds = models,
            cp_maxDurationMs = duration, cp_maxParallelism = parallelism, cp_enabled = enabled\<rparr>))))))))))))
     | _ \<Rightarrow> None)"

text \<open>The profiles of the environment variable: blank is no profile, text that is not a
  JSON array is an error, an entry that does not validate is dropped.\<close>

definition parseCloudExecutionProfilesFromEnv ::
  "(string \<Rightarrow> json option) \<Rightarrow> string option \<Rightarrow> string + CloudExecutionProfile list" where
  "parseCloudExecutionProfilesFromEnv parse raw = (case raw of
       None \<Rightarrow> Inr []
     | Some s \<Rightarrow> if js_trim s = [] then Inr []
         else (case parse s of
             Some (JArr entries) \<Rightarrow> Inr (List.map_filter toValidatedCloudExecutionProfile entries)
           | _ \<Rightarrow> Inl ''CLOUD_PROFILE_CONFIG_INVALID''))"

text \<open>The registry of cloud profiles, keyed by provider code; duplicates are refused.\<close>

type_synonym cloud_registry = "(string \<times> CloudExecutionProfile) list"

fun makeCloudRegistry :: "cloud_registry \<Rightarrow> CloudExecutionProfile list \<Rightarrow> string + cloud_registry" where
  "makeCloudRegistry reg [] = Inr reg"
| "makeCloudRegistry reg (p # ps) =
     (if map_of reg (cp_providerCode p) \<noteq> None then Inl ''CLOUD_PROFILE_DUPLICATE_PROVIDER''
      else makeCloudRegistry (reg @ [(cp_providerCode p, p)]) ps)"

definition cloud_peek :: "cloud_registry \<Rightarrow> string \<Rightarrow> CloudExecutionProfile option" where
  "cloud_peek reg providerCode = map_of reg providerCode"

definition cloud_resolve :: "cloud_registry \<Rightarrow> string \<Rightarrow> CloudExecutionProfile option" where
  "cloud_resolve reg providerCode =
     (case cloud_peek reg providerCode of
        None \<Rightarrow> None | Some p \<Rightarrow> if cp_enabled p then Some p else None)"

lemma cloud_resolve_Some: "cloud_resolve reg c = Some p \<Longrightarrow> cp_enabled p \<and> cloud_peek reg c = Some p"
  by (auto simp: cloud_resolve_def split: option.splits if_splits)

section \<open>The adapter registry\<close>

definition register_adapter :: "ProviderType \<Rightarrow> 'a \<Rightarrow> (ProviderType \<Rightarrow> 'a option) \<Rightarrow> (ProviderType \<Rightarrow> 'a option)" where
  "register_adapter t adapter reg = reg(t \<mapsto> adapter)"

definition get_adapter :: "(ProviderType \<Rightarrow> 'a option) \<Rightarrow> ProviderType \<Rightarrow> 'a option" where
  "get_adapter reg t = reg t"

definition has_adapter :: "(ProviderType \<Rightarrow> 'a option) \<Rightarrow> ProviderType \<Rightarrow> bool" where
  "has_adapter reg t = (reg t \<noteq> None)"

section \<open>What validation guarantees\<close>

definition profile_wf :: "CloudExecutionProfile \<Rightarrow> bool" where
  "profile_wf p = (PROFILE_ID_PATTERN (cp_profileId p) \<and> PROFILE_ID_PATTERN (cp_providerCode p) \<and>
     CREDENTIAL_REF_PATTERN (cp_credentialRef p) \<and> LAUNCHER_ALIAS_PATTERN (cp_trustedLauncherAlias p) \<and>
     option_all LAUNCHER_ALIAS_PATTERN (cp_readinessProbeLauncherAlias p) \<and>
     option_all LAUNCHER_ALIAS_PATTERN (cp_testExecutionLauncherAlias p) \<and>
     PROVIDER_ID_PATTERN (cp_expectedProviderId p) \<and>
     option_all (\<lambda>ids. ids \<noteq> [] \<and> length ids \<le> MAX_ALLOWED_MODEL_IDS \<and> list_all MODEL_ID_PATTERN ids \<and> distinct ids)
       (cp_allowedModelIds p) \<and>
     CLOUD_EXECUTION_PROFILE_MIN_DURATION_MS \<le> cp_maxDurationMs p \<and>
     cp_maxDurationMs p \<le> CLOUD_EXECUTION_PROFILE_MAX_DURATION_MS \<and>
     1 \<le> cp_maxParallelism p \<and> cp_maxParallelism p \<le> CLOUD_EXECUTION_PROFILE_MAX_PARALLELISM)"

definition optional_entry :: "string \<Rightarrow> json option \<Rightarrow> (string \<times> json) list" where
  "optional_entry k v = (case v of None \<Rightarrow> [] | Some x \<Rightarrow> [(k, x)])"

text \<open>The object \<open>toValidatedCloudExecutionProfile\<close> returns, as JSON: an absent field is no entry.\<close>

definition profile_json :: "CloudExecutionProfile \<Rightarrow> json" where
  "profile_json p = JObj ([(''profileId'', JStr (cp_profileId p)), (''providerCode'', JStr (cp_providerCode p)),
     (''credentialRef'', JStr (cp_credentialRef p)), (''trustedLauncherAlias'', JStr (cp_trustedLauncherAlias p))] @
     optional_entry ''readinessProbeLauncherAlias'' (map_option JStr (cp_readinessProbeLauncherAlias p)) @
     optional_entry ''testExecutionLauncherAlias'' (map_option JStr (cp_testExecutionLauncherAlias p)) @
     [(''expectedProviderId'', JStr (cp_expectedProviderId p))] @
     optional_entry ''allowedModelIds'' (map_option (\<lambda>ids. JArr (map JStr ids)) (cp_allowedModelIds p)) @
     [(''maxDurationMs'', JNum (cp_maxDurationMs p)), (''maxParallelism'', JNum (cp_maxParallelism p)),
      (''enabled'', JBool (cp_enabled p))])"

lemma required_string_Some: "required_string ok v = Some s \<longleftrightarrow> v = Some (JStr s) \<and> ok s"
  by (auto simp: required_string_def split: option.splits json.splits if_splits)

lemma required_string_str: "required_string ok (Some (JStr s)) = (if ok s then Some s else None)"
  by (simp add: required_string_def)

lemma optional_string_Some:
  "optional_string ok v = Some r \<longleftrightarrow> v = map_option JStr r \<and> option_all ok r"
  by (cases v; cases r) (auto simp: optional_string_def required_string_Some)

lemma those_required:
  "those (map (\<lambda>x. required_string ok (Some x)) xs) = Some ids \<longleftrightarrow> xs = map JStr ids \<and> list_all ok ids"
proof (induction xs arbitrary: ids)
  case (Cons x xs)
  then show ?case
    by (cases ids) (auto simp: required_string_Some required_string_str split: option.splits)
qed auto

lemma set_size_full_iff: "set_size xs = length xs \<longleftrightarrow> distinct xs"
  using card_distinct distinct_card by (auto simp: set_size_card)

lemma model_ids_Some:
  "model_ids v = Some r \<longleftrightarrow> v = map_option (\<lambda>ids. JArr (map JStr ids)) r \<and>
     option_all (\<lambda>ids. ids \<noteq> [] \<and> length ids \<le> MAX_ALLOWED_MODEL_IDS \<and> list_all MODEL_ID_PATTERN ids \<and> distinct ids) r"
  by (cases v; cases r)
    (auto simp: model_ids_def bind_eq_Some_conv those_required set_size_full_iff split: json.splits)

lemma integer_between_Some: "integer_between lo hi v = Some n \<longleftrightarrow> v = Some (JNum n) \<and> lo \<le> n \<and> n \<le> hi"
  by (auto simp: integer_between_def split: option.splits json.splits)

lemma boolean_Some: "boolean v = Some b \<longleftrightarrow> v = Some (JBool b)"
  by (auto simp: boolean_def split: option.splits json.splits)

lemma Some_map_option: "Some y = map_option f x \<longleftrightarrow> (\<exists>z. x = Some z \<and> y = f z)"
  by (cases x) auto

lemmas profile_field_iffs = required_string_Some optional_string_Some model_ids_Some integer_between_Some boolean_Some

lemma set_map_filter: "set (List.map_filter f xs) = {y. \<exists>x \<in> set xs. f x = Some y}"
  by (force simp: map_filter_def image_iff)

lemma validated_wf:
  assumes "toValidatedCloudExecutionProfile raw = Some p"
  shows "profile_wf p"
proof -
  from assms obtain fs where "raw = JObj fs" by (cases raw) (auto simp: toValidatedCloudExecutionProfile_def)
  with assms show ?thesis
    by (auto simp: toValidatedCloudExecutionProfile_def Let_def bind_eq_Some_conv profile_field_iffs profile_wf_def)
qed

definition sample_profile :: CloudExecutionProfile where
  "sample_profile = \<lparr>cp_profileId = ''main'', cp_providerCode = ''cloud.main'', cp_credentialRef = ''vault:main'',
     cp_trustedLauncherAlias = ''agent'', cp_readinessProbeLauncherAlias = Some ''probe'',
     cp_testExecutionLauncherAlias = None, cp_expectedProviderId = ''vendor'', cp_allowedModelIds = Some [''m1'', ''m2''],
     cp_maxDurationMs = 60000, cp_maxParallelism = 2, cp_enabled = True\<rparr>"

text \<open>C37. A cloud profile the server accepts is well formed: its identifiers match their patterns, its
  model list is a non-empty list of at most 64 distinct identifiers, its duration lies between a
  second and a day and its parallelism between 1 and 3.\<close>

theorem validated_profile_well_formed:
  assumes "parseCloudExecutionProfilesFromEnv parse raw = Inr ps" and "p \<in> set ps"
  shows "profile_wf p"
  using assms validated_wf
  by (auto simp: parseCloudExecutionProfilesFromEnv_def set_map_filter split: option.splits if_splits json.splits)

theorem validated_profile_well_formed_witness:
  "profile_wf sample_profile"
proof -
  have "parseCloudExecutionProfilesFromEnv (\<lambda>_. Some (JArr [profile_json sample_profile, JNull])) (Some ''[]'') =
      Inr [sample_profile]"
    by code_simp
  from validated_profile_well_formed [OF this] show ?thesis by simp
qed

text \<open>C38. Validation accepts every well-formed profile and loses nothing of it: validating the JSON form
  of a well-formed profile gives that profile back.\<close>

theorem profile_roundtrip:
  assumes "profile_wf p"
  shows "toValidatedCloudExecutionProfile (profile_json p) = Some p"
  using assms
  by (cases "cp_readinessProbeLauncherAlias p"; cases "cp_testExecutionLauncherAlias p"; cases "cp_allowedModelIds p")
    (auto simp: profile_json_def optional_entry_def toValidatedCloudExecutionProfile_def Let_def bind_eq_Some_conv
      profile_field_iffs profile_wf_def Some_map_option)

theorem profile_roundtrip_witness:
  "toValidatedCloudExecutionProfile (profile_json sample_profile) = Some sample_profile"
proof (rule profile_roundtrip)
  show "profile_wf sample_profile" by code_simp
qed

end
