(* ===== verification/Vito_GovernedInvocation.thy ===== *)
theory Vito_GovernedInvocation
  imports Vito_ExecutionPolicy Vito_Redaction Vito_IdempotencyStore Vito_Provider
begin

text \<open>
  The governed invocation pipeline, \<open>governed-invocation.service.ts\<close>: request
  validation, provider revalidation, trusted profile and policy resolution, the
  policy decision, credentials and execution context, the idempotency claim,
  the one adapter call, and the normalised result.

  \<open>invoke\<close> is the composition of four phases over a world that holds the claim
  table, the audit log and the trace of adapter executions.  The injected
  resolvers and the adapters are parameters (a rejected promise is the left
  injection); the clock readings are a parameter; a thrown error is a value.
  Log messages are not modelled; the table of German message texts is the
  parameter \<open>d_messages\<close>.
\<close>

section \<open>Requests, contexts and results\<close>

record ExecutionBudget =
  b_maxDurationMs :: "int option"
  b_maxTokens :: "int option"
  b_maxCostMinorUnits :: "int option"

record InvocationRequest =
  rq_invocationId :: string
  rq_organizationId :: string
  rq_workflowRunId :: string
  rq_workflowStepRunId :: string
  rq_correlationId :: string
  rq_capabilityCode :: string
  rq_providerId :: string
  rq_executionProfile :: ExecutionProfile
  rq_assuranceLevel :: "string option"
  rq_inputReference :: "string option"
  rq_governedInputPayload :: "json option"
  rq_executionBudget :: "ExecutionBudget option"
  rq_requestedAction :: ExecutionAction
  rq_requestedPath :: "string option"
  rq_requestedCommand :: "string option"
  rq_humanApprovalReference :: "string option"
  rq_requestedAt :: "int option"

text \<open>The identifiers every trusted resolver is given.\<close>

record ResolutionContext =
  rc_organizationId :: string
  rc_workflowRunId :: string
  rc_workflowStepRunId :: string
  rc_capabilityCode :: string
  rc_providerId :: string

definition resolution_context :: "InvocationRequest \<Rightarrow> ResolutionContext" where
  "resolution_context rq = \<lparr>rc_organizationId = rq_organizationId rq,
     rc_workflowRunId = rq_workflowRunId rq, rc_workflowStepRunId = rq_workflowStepRunId rq,
     rc_capabilityCode = rq_capabilityCode rq, rc_providerId = rq_providerId rq\<rparr>"

text \<open>The executable resolver is not told the step run.\<close>

record ExecutableContext =
  xc_organizationId :: string
  xc_workflowRunId :: string
  xc_capabilityCode :: string
  xc_providerId :: string

definition executable_context :: "InvocationRequest \<Rightarrow> ExecutableContext" where
  "executable_context rq = \<lparr>xc_organizationId = rq_organizationId rq,
     xc_workflowRunId = rq_workflowRunId rq, xc_capabilityCode = rq_capabilityCode rq,
     xc_providerId = rq_providerId rq\<rparr>"

record TrustedExecutable =
  te_commandName :: string
  te_resolvedPath :: string
  te_integrityHash :: "string option"

record GovernedExecutionContext =
  ec_invocationId :: string
  ec_organizationId :: string
  ec_workflowRunId :: string
  ec_workflowStepRunId :: string
  ec_correlationId :: string
  ec_capabilityCode :: string
  ec_providerId :: string
  ec_providerType :: ProviderType
  ec_providerCode :: string
  ec_executionProfile :: ExecutionProfile
  ec_assuranceLevel :: "string option"
  ec_executionBudget :: ExecutionBudget
  ec_policyDecision :: PolicyDecision
  ec_environment :: "(string \<times> string) list"
  ec_workingDirectory :: string
  ec_trustedExecutable :: "TrustedExecutable option"
  ec_credentialReference :: "string option"
  ec_startedAt :: int
  ec_timeoutMs :: int

record AdapterError =
  ad_code :: string
  ad_message :: string
  ad_retryable :: bool
  ad_providerMetadata :: "json option"

record GovernedAdapterResult =
  ar_status :: AgentExecutionStatus
  ar_outputReference :: "string option"
  ar_artifactReferences :: "string list option"
  ar_evidenceReferences :: "string list option"
  ar_providerExecutionMetadata :: json
  ar_usageMetadata :: "json option"
  ar_error :: "AdapterError option"

text \<open>How the race between the adapter and the governed timeout ends.\<close>

datatype AdapterRun =
    AdapterReturned GovernedAdapterResult
  | AdapterThrew string
  | AdapterTimedOut

type_synonym adapter = "string option \<Rightarrow> json option \<Rightarrow> GovernedExecutionContext \<Rightarrow> AdapterRun"

text \<open>A policy decision reference; the date it embeds is kept as its time value.\<close>

datatype PolicyDecisionReference =
    DecisionRef string int
  | IDEMPOTENCY_BOUNDARY
  | INVOCATION_VALIDATION_FAILED

record InvocationError =
  ie_reason :: InvocationFailureReason
  ie_message :: string
  ie_executionOutcome :: "ExecutionOutcome option"
  ie_agentExecutionStatus :: "AgentExecutionStatus option"
  ie_retryable :: bool
  ie_providerMetadata :: "json option"

record SideEffectSummary =
  se_filesCreated :: "string list"
  se_filesModified :: "string list"
  se_filesDeleted :: "string list"
  se_commandsExecuted :: "string list"
  se_networkCalls :: "json list"
  se_artifactsCreated :: "string list"

record InvocationResult =
  ir_invocationId :: string
  ir_organizationId :: string
  ir_workflowRunId :: string
  ir_workflowStepRunId :: string
  ir_correlationId :: string
  ir_capabilityCode :: string
  ir_providerId :: string
  ir_status :: AgentExecutionStatus
  ir_startedAt :: int
  ir_completedAt :: int
  ir_durationMs :: int
  ir_outputReference :: "string option"
  ir_artifactReferences :: "string list option"
  ir_evidenceReferences :: "string list option"
  ir_providerExecutionMetadata :: json
  ir_normalizedError :: "InvocationError option"
  ir_policyDecisionReference :: PolicyDecisionReference
  ir_sideEffectSummary :: "SideEffectSummary option"
  ir_usageMetadata :: "json option"

text \<open>The errors \<open>invoke\<close> throws, by the code in front of the message.\<close>

datatype InvokeError =
    E_MALFORMED_INVOCATION
  | E_IDEMPOTENCY_STORE_MISSING
  | E_PROVIDER_UNAVAILABLE
  | E_ORGANIZATION_MISMATCH
  | E_CAPABILITY_NOT_SUPPORTED
  | E_PROVIDER_NOT_ELIGIBLE
  | E_ADAPTER_NOT_REGISTERED
  | E_WORKING_DIRECTORY_NOT_GOVERNED
  | E_POLICY_MISSING
  | E_CREDENTIAL_INJECTION_FAILED
  | E_EXECUTABLE_NOT_TRUSTED
  | E_GOVERNED_ENV_CONTRACT_DRIFT
  | E_DEPENDENCY_REJECTED string
  | E_AUDIT_FAILED
  | E_TYPE_ERROR

section \<open>Dependencies and the world\<close>

record CredentialBroker =
  getCredentialReference :: "string \<Rightarrow> string \<Rightarrow> string + string option"
  validateCredentialReference :: "string \<Rightarrow> string + bool"

text \<open>The two events the pipeline writes to the audit log.\<close>

record AuditPolicyDecision =
  ap_organizationId :: string
  ap_actionAllowed :: bool
  ap_entityId :: PolicyDecisionReference
  ap_correlationId :: string
  ap_invocationId :: string
  ap_capabilityCode :: string
  ap_providerId :: string
  ap_providerType :: ProviderType
  ap_executionProfile :: ExecutionProfile
  ap_requestedAction :: ExecutionAction
  ap_reasonCode :: PolicyReasonCode
  ap_reason :: string
  ap_allowed :: bool

record AuditInvocationComplete =
  ac_organizationId :: string
  ac_invocationId :: string
  ac_correlationId :: string
  ac_capabilityCode :: string
  ac_providerId :: string
  ac_providerType :: ProviderType
  ac_executionProfile :: ExecutionProfile
  ac_status :: AgentExecutionStatus
  ac_durationMs :: int
  ac_policyDecisionReference :: PolicyDecisionReference
  ac_error :: "(InvocationFailureReason \<times> string \<times> bool) option"
  ac_sideEffectSummary :: "SideEffectSummary option"

datatype AuditEvent =
    POLICY_DECISION AuditPolicyDecision
  | GOVERNED_INVOCATION_COMPLETE AuditInvocationComplete

text \<open>A store call may be refused, or take effect and lose its answer.\<close>

datatype StoreFault = NO_FAULT | CALL_REFUSED | ANSWER_LOST

record Dependencies =
  d_providerResolver :: "string \<Rightarrow> string \<Rightarrow> string + ProviderDeclaration option"
  d_adapterRegistry :: "ProviderType \<Rightarrow> adapter option"
  d_credentialBroker :: "CredentialBroker option"
  d_auditAccepts :: "AuditEvent \<Rightarrow> bool"
  d_executionProfileResolver :: "(ResolutionContext \<Rightarrow> string + ExecutionProfile option) option"
  d_trustedExecutableResolver :: "(string \<Rightarrow> ExecutableContext \<Rightarrow> string + TrustedExecutable option) option"
  d_workingDirectoryResolver :: "(ResolutionContext \<Rightarrow> string + string option) option"
  d_humanGateResolver :: "(string \<Rightarrow> ResolutionContext \<Rightarrow> string option \<Rightarrow> ExecutionAction \<Rightarrow>
     string + HumanGateBinding option) option"
  d_homeDirectoryResolver :: "(ResolutionContext \<Rightarrow> string + string option) option"
  d_idempotencyStore :: bool
  d_claimFault :: StoreFault
  d_completionFault :: StoreFault
  d_executionPolicyResolver :: "(ResolutionContext \<Rightarrow> ExecutionProfile \<Rightarrow> ExecutionAction \<Rightarrow>
     string + ExecutionPolicyConfig option) option"
  d_cloudRegistry :: "cloud_registry option"
  d_env :: fs_env
  d_regexp :: "string \<Rightarrow> string \<Rightarrow> bool"
  d_messages :: "InvocationFailureReason \<Rightarrow> string"

text \<open>
  \<open>d_idempotencyStore\<close> tells whether a store is injected, \<open>d_claimFault\<close> and
  \<open>d_completionFault\<close> what becomes of this invocation's two calls of it, and
  \<open>d_auditAccepts\<close> whether the database accepts an audit event.
\<close>

text \<open>The clock readings of one invocation, in the order they are taken.\<close>

record Clock =
  t_started :: int
  t_gate :: int
  t_policy :: int
  t_context :: int
  t_claimed :: int
  t_completed :: int

record ExecutionTrace =
  x_key :: "string option"
  x_request :: InvocationRequest
  x_context :: GovernedExecutionContext

record World =
  w_claims :: claim_db
  w_audit :: "AuditEvent list"
  w_executed :: "ExecutionTrace list"

section \<open>Admission\<close>

definition dep_call :: "string + 'a \<Rightarrow> InvokeError + 'a" where
  "dep_call r = (case r of Inl m \<Rightarrow> Inl (E_DEPENDENCY_REJECTED m) | Inr x \<Rightarrow> Inr x)"

definition validateRequest :: "InvocationRequest \<Rightarrow> InvokeError + unit" where
  "validateRequest rq =
     (if rq_invocationId rq = [] \<or> rq_organizationId rq = [] \<or> rq_workflowRunId rq = [] \<or>
         rq_workflowStepRunId rq = [] then Inl E_MALFORMED_INVOCATION
      else if rq_capabilityCode rq = [] \<or> rq_providerId rq = [] then Inl E_MALFORMED_INVOCATION
      else if \<not> known_profile (rq_executionProfile rq) then Inl E_MALFORMED_INVOCATION
      else if \<not> known_action (rq_requestedAction rq) then Inl E_MALFORMED_INVOCATION
      else if isFileMutationExecutionAction (rq_requestedAction rq) \<and> rq_requestedCommand rq \<noteq> None
      then Inl E_MALFORMED_INVOCATION
      else if rq_requestedAction rq = RUN_COMMAND \<and> rq_requestedPath rq \<noteq> None
      then Inl E_MALFORMED_INVOCATION
      else if rq_executionBudget rq = None then Inl E_MALFORMED_INVOCATION
      else if rq_requestedAt rq = None then Inl E_MALFORMED_INVOCATION
      else Inr ())"

definition rq_budget :: "InvocationRequest \<Rightarrow> ExecutionBudget" where
  "rq_budget rq = the (rq_executionBudget rq)"

definition validateProvider ::
  "InvocationRequest \<Rightarrow> ProviderDeclaration option \<Rightarrow> InvokeError + ProviderDeclaration" where
  "validateProvider rq found =
     (case found of None \<Rightarrow> Inl E_PROVIDER_UNAVAILABLE
      | Some provider \<Rightarrow>
          if pd_organizationId provider \<noteq> rq_organizationId rq then Inl E_ORGANIZATION_MISMATCH
          else if \<not> providerSupportsCapability provider (rq_capabilityCode rq)
          then Inl E_CAPABILITY_NOT_SUPPORTED
          else if \<not> isProviderRoutable provider then Inl E_PROVIDER_NOT_ELIGIBLE
          else if pd_quotaStatus provider = PQ_EXHAUSTED \<or> pd_quotaStatus provider = PQ_UNKNOWN
          then Inl E_PROVIDER_NOT_ELIGIBLE
          else if rq_assuranceLevel rq \<noteq> None \<and>
             \<not> providerSupportsAssuranceLevel provider (the (rq_assuranceLevel rq))
          then Inl E_PROVIDER_NOT_ELIGIBLE
          else (case b_maxCostMinorUnits (rq_budget rq) of
                  None \<Rightarrow> Inr provider
                | Some maxCost \<Rightarrow>
                    (case pd_estimatedCostMinorUnits provider of
                       None \<Rightarrow> Inl E_PROVIDER_NOT_ELIGIBLE
                     | Some cost \<Rightarrow>
                         if maxCost < cost then Inl E_PROVIDER_NOT_ELIGIBLE else Inr provider)))"

definition resolveAndValidateProvider ::
  "Dependencies \<Rightarrow> InvocationRequest \<Rightarrow> InvokeError + ProviderDeclaration" where
  "resolveAndValidateProvider deps rq =
     bindE (dep_call (d_providerResolver deps (rq_providerId rq) (rq_organizationId rq)))
       (validateProvider rq)"

definition resolveAdapter :: "Dependencies \<Rightarrow> ProviderDeclaration \<Rightarrow> InvokeError + adapter" where
  "resolveAdapter deps provider =
     (case get_adapter (d_adapterRegistry deps) (pd_providerType provider) of
        None \<Rightarrow> Inl E_ADAPTER_NOT_REGISTERED | Some a \<Rightarrow> Inr a)"

definition admit :: "Dependencies \<Rightarrow> InvocationRequest \<Rightarrow> InvokeError + (ProviderDeclaration \<times> adapter)" where
  "admit deps rq =
     bindE (validateRequest rq) (\<lambda>_.
     bindE (guardE (isConsequentialExecutionAction (rq_requestedAction rq) \<and> \<not> d_idempotencyStore deps)
              E_IDEMPOTENCY_STORE_MISSING) (\<lambda>_.
     bindE (resolveAndValidateProvider deps rq) (\<lambda>provider.
     bindE (resolveAdapter deps provider) (\<lambda>a. Inr (provider, a)))))"

definition resolveTrustedExecutionProfile ::
  "Dependencies \<Rightarrow> InvocationRequest \<Rightarrow> ExecutionProfile option" where
  "resolveTrustedExecutionProfile deps rq =
     (case d_executionProfileResolver deps of None \<Rightarrow> None
      | Some f \<Rightarrow> (case f (resolution_context rq) of Inl _ \<Rightarrow> None | Inr p \<Rightarrow> p))"

section \<open>The policy context\<close>

definition resolveTrustedExecutionPolicy ::
  "Dependencies \<Rightarrow> InvocationRequest \<Rightarrow> ExecutionProfile \<Rightarrow> InvokeError + ExecutionPolicyConfig" where
  "resolveTrustedExecutionPolicy deps rq profile =
     (case d_executionPolicyResolver deps of None \<Rightarrow> Inl E_POLICY_MISSING
      | Some f \<Rightarrow> bindE (dep_call (f (resolution_context rq) profile (rq_requestedAction rq)))
          (\<lambda>r. case r of None \<Rightarrow> Inl E_POLICY_MISSING | Some pol \<Rightarrow> Inr pol))"

definition isProviderAuthorizedForCodingAgent :: "Dependencies \<Rightarrow> ProviderDeclaration \<Rightarrow> bool" where
  "isProviderAuthorizedForCodingAgent deps provider =
     (if pd_providerType provider = LOCAL_TOOL then
        (case d_cloudRegistry deps of None \<Rightarrow> True
         | Some reg \<Rightarrow> cloud_peek reg (pd_providerCode provider) = None)
      else if isCloudGovernedProviderType (pd_providerType provider) then
        (case d_cloudRegistry deps of None \<Rightarrow> False
         | Some reg \<Rightarrow> (case cloud_resolve reg (pd_providerCode provider) of
                         None \<Rightarrow> False | Some p \<Rightarrow> cp_enabled p))
      else False)"

definition augmentBuilderPolicyWithTrustedCodingAgentAlias ::
  "Dependencies \<Rightarrow> InvocationRequest \<Rightarrow> ProviderDeclaration \<Rightarrow> ExecutionProfile \<Rightarrow>
   ExecutionPolicyConfig \<Rightarrow> ExecutionPolicyConfig" where
  "augmentBuilderPolicyWithTrustedCodingAgentAlias deps rq provider profile pol =
     (let capabilityAllowsTrustedAgent = (rq_capabilityCode rq = ''CODE_BUILD'' \<or>
            (rq_capabilityCode rq = ''CODE_PLAN'' \<and>
             isCloudGovernedProviderType (pd_providerType provider))) in
      if rq_requestedAction rq \<noteq> RUN_COMMAND \<or> \<not> capabilityAllowsTrustedAgent \<or>
         profile \<noteq> BUILDER \<or> \<not> isProviderAuthorizedForCodingAgent deps provider \<or>
         \<not> truthy (rq_requestedCommand rq)
      then pol
      else
        (let alias = js_trim (the (rq_requestedCommand rq)) in
         case d_trustedExecutableResolver deps of None \<Rightarrow> pol
         | Some f \<Rightarrow>
             (case f alias (executable_context rq) of
                Inr (Some _) \<Rightarrow> pol\<lparr>trustedCodingAgentAliases := Some [alias]\<rparr>
              | _ \<Rightarrow> pol)))"

definition gate_context :: "InvocationRequest \<Rightarrow> GateContext" where
  "gate_context rq = \<lparr>gc_organizationId = rq_organizationId rq, gc_workflowRunId = rq_workflowRunId rq,
     gc_workflowStepRunId = rq_workflowStepRunId rq, gc_capabilityCode = rq_capabilityCode rq,
     gc_providerId = rq_providerId rq, gc_inputReference = rq_inputReference rq,
     gc_requestedAction = Some (rq_requestedAction rq), gc_artifactReference = None\<rparr>"

definition effectiveReleaseGateStatus ::
  "Dependencies \<Rightarrow> Clock \<Rightarrow> InvocationRequest \<Rightarrow> InvokeError + ReleaseGateStatus" where
  "effectiveReleaseGateStatus deps clk rq =
     (if truthy (rq_humanApprovalReference rq) then
        (case d_humanGateResolver deps of None \<Rightarrow> Inr NOT_REQUESTED
         | Some f \<Rightarrow>
             bindE (dep_call (f (the (rq_humanApprovalReference rq)) (resolution_context rq)
                      (rq_inputReference rq) (rq_requestedAction rq)))
               (\<lambda>binding. Inr (validateHumanGateBinding (t_gate clk) binding (gate_context rq))))
      else Inr NOT_REQUESTED)"

definition resolveHomeDir :: "Dependencies \<Rightarrow> InvocationRequest \<Rightarrow> InvokeError + string option" where
  "resolveHomeDir deps rq =
     (if truthy (rq_requestedPath rq) then
        (case d_homeDirectoryResolver deps of None \<Rightarrow> Inl E_WORKING_DIRECTORY_NOT_GOVERNED
         | Some f \<Rightarrow> bindE (dep_call (f (resolution_context rq)))
             (\<lambda>h. if \<not> truthy h then Inl E_WORKING_DIRECTORY_NOT_GOVERNED else Inr h))
      else Inr None)"

definition createPolicyEvaluationContext ::
  "Dependencies \<Rightarrow> Clock \<Rightarrow> InvocationRequest \<Rightarrow> ProviderDeclaration \<Rightarrow> ExecutionProfile \<Rightarrow>
   InvokeError + PolicyEvaluationContext" where
  "createPolicyEvaluationContext deps clk rq provider profile =
     bindE (effectiveReleaseGateStatus deps clk rq) (\<lambda>gate.
     bindE (resolveHomeDir deps rq) (\<lambda>home.
     bindE (resolveTrustedExecutionPolicy deps rq profile) (\<lambda>resolvedPolicy.
       Inr \<lparr>executionProfile = profile, requestedAction = rq_requestedAction rq,
            requestedPath = rq_requestedPath rq, requestedCommand = rq_requestedCommand rq,
            homeDir = home,
            policy = Some (augmentBuilderPolicyWithTrustedCodingAgentAlias deps rq provider profile
                       resolvedPolicy),
            releaseGateStatus = Some gate, organizationId = Some (rq_organizationId rq),
            workflowRunId = Some (rq_workflowRunId rq),
            workflowStepRunId = Some (rq_workflowStepRunId rq),
            correlationId = Some (rq_correlationId rq)\<rparr>)))"

section \<open>Credentials, environment and execution context\<close>

definition resolveCredentials ::
  "Dependencies \<Rightarrow> ProviderDeclaration \<Rightarrow> string \<Rightarrow> InvokeError + string option" where
  "resolveCredentials deps provider org =
     (case (case pd_credentialRequirement provider of None \<Rightarrow> CR_UNKNOWN | Some c \<Rightarrow> c) of
        CR_NOT_REQUIRED \<Rightarrow> Inr None
      | CR_REQUIRED \<Rightarrow>
          (case d_credentialBroker deps of None \<Rightarrow> Inl E_CREDENTIAL_INJECTION_FAILED
           | Some broker \<Rightarrow>
               bindE (dep_call (getCredentialReference broker (pd_id provider) org)) (\<lambda>reference.
                 if \<not> truthy reference then Inl E_CREDENTIAL_INJECTION_FAILED
                 else bindE (dep_call (validateCredentialReference broker (the reference))) (\<lambda>valid.
                   if \<not> valid then Inl E_CREDENTIAL_INJECTION_FAILED else Inr reference)))
      | CR_UNKNOWN \<Rightarrow> Inl E_CREDENTIAL_INJECTION_FAILED)"

definition SANDBOX_PROCESS_COMPATIBILITY_ENV :: "string list" where
  "SANDBOX_PROCESS_COMPATIBILITY_ENV = [''PATH'', ''USER'', ''LANG'', ''LC_ALL'']"

definition SANDBOX_GOVERNED_EXECUTION_METADATA_ENV :: "string list" where
  "SANDBOX_GOVERNED_EXECUTION_METADATA_ENV = [''EXECUTION_TIMEOUT_MS'', ''EXECUTION_MAX_TOKENS'',
     ''EXECUTION_MAX_COST_MINOR_UNITS'', ''CAPABILITY_CODE'', ''PROVIDER_ID'', ''ORGANIZATION_ID'',
     ''WORKFLOW_RUN_ID'', ''WORKFLOW_STEP_RUN_ID'', ''CORRELATION_ID'', ''INVOCATION_ID'']"

definition SANDBOX_CALLER_PERMITTED_ENV :: "string list" where
  "SANDBOX_CALLER_PERMITTED_ENV =
     SANDBOX_PROCESS_COMPATIBILITY_ENV @ SANDBOX_GOVERNED_EXECUTION_METADATA_ENV"

text \<open>\<open>String(n)\<close> of an integer.\<close>

definition js_int :: "int \<Rightarrow> string" where
  "js_int n = (if n < 0 then ''-'' @ dec (nat (- n)) else dec (nat n))"

definition env_opt :: "string \<Rightarrow> int option \<Rightarrow> (string \<times> string) list" where
  "env_opt key v = (case v of None \<Rightarrow> [] | Some n \<Rightarrow> [(key, js_int n)])"

definition environment_allowlist ::
  "InvocationRequest \<Rightarrow> ProviderDeclaration \<Rightarrow> (string \<times> string) list" where
  "environment_allowlist rq provider =
     env_opt ''EXECUTION_TIMEOUT_MS'' (b_maxDurationMs (rq_budget rq)) @
     env_opt ''EXECUTION_MAX_TOKENS'' (b_maxTokens (rq_budget rq)) @
     env_opt ''EXECUTION_MAX_COST_MINOR_UNITS'' (b_maxCostMinorUnits (rq_budget rq)) @
     [(''CAPABILITY_CODE'', rq_capabilityCode rq), (''PROVIDER_ID'', pd_id provider),
      (''ORGANIZATION_ID'', rq_organizationId rq), (''WORKFLOW_RUN_ID'', rq_workflowRunId rq),
      (''WORKFLOW_STEP_RUN_ID'', rq_workflowStepRunId rq),
      (''CORRELATION_ID'', rq_correlationId rq), (''INVOCATION_ID'', rq_invocationId rq)]"

definition buildGovernedExecutionEnvironment ::
  "Dependencies \<Rightarrow> InvocationRequest \<Rightarrow> ProviderDeclaration \<Rightarrow>
   InvokeError + ((string \<times> string) list \<times> string)" where
  "buildGovernedExecutionEnvironment deps rq provider =
     (let allowlist = environment_allowlist rq provider in
      if \<exists>key \<in> fst ` set allowlist. key \<notin> set SANDBOX_GOVERNED_EXECUTION_METADATA_ENV \<or>
           key \<notin> set SANDBOX_CALLER_PERMITTED_ENV
      then Inl E_GOVERNED_ENV_CONTRACT_DRIFT
      else (case d_workingDirectoryResolver deps of None \<Rightarrow> Inl E_WORKING_DIRECTORY_NOT_GOVERNED
            | Some f \<Rightarrow> bindE (dep_call (f (resolution_context rq))) (\<lambda>dir.
                if \<not> truthy dir then Inl E_WORKING_DIRECTORY_NOT_GOVERNED
                else Inr (allowlist, the dir))))"

definition resolveTrustedExecutable ::
  "Dependencies \<Rightarrow> InvocationRequest \<Rightarrow> InvokeError + TrustedExecutable option" where
  "resolveTrustedExecutable deps rq =
     (if \<not> truthy (rq_requestedCommand rq) then Inr None
      else (case d_trustedExecutableResolver deps of None \<Rightarrow> Inl E_EXECUTABLE_NOT_TRUSTED
            | Some f \<Rightarrow> bindE (dep_call (f (the (rq_requestedCommand rq)) (executable_context rq)))
                (\<lambda>e. if e = None then Inl E_EXECUTABLE_NOT_TRUSTED else Inr e)))"

definition buildExecutionContext ::
  "Dependencies \<Rightarrow> Clock \<Rightarrow> InvocationRequest \<Rightarrow> ProviderDeclaration \<Rightarrow> ExecutionProfile \<Rightarrow>
   PolicyDecision \<Rightarrow> string option \<Rightarrow> InvokeError + GovernedExecutionContext" where
  "buildExecutionContext deps clk rq provider profile decision credential =
     bindE (buildGovernedExecutionEnvironment deps rq provider) (\<lambda>(allowlist, dir).
     bindE (resolveTrustedExecutable deps rq) (\<lambda>executable.
       Inr \<lparr>ec_invocationId = rq_invocationId rq, ec_organizationId = rq_organizationId rq,
            ec_workflowRunId = rq_workflowRunId rq, ec_workflowStepRunId = rq_workflowStepRunId rq,
            ec_correlationId = rq_correlationId rq, ec_capabilityCode = rq_capabilityCode rq,
            ec_providerId = pd_id provider, ec_providerType = pd_providerType provider,
            ec_providerCode = pd_providerCode provider, ec_executionProfile = profile,
            ec_assuranceLevel = rq_assuranceLevel rq, ec_executionBudget = rq_budget rq,
            ec_policyDecision = decision, ec_environment = allowlist, ec_workingDirectory = dir,
            ec_trustedExecutable = executable, ec_credentialReference = credential,
            ec_startedAt = t_context clk,
            ec_timeoutMs = (case b_maxDurationMs (rq_budget rq) of None \<Rightarrow> 300000 | Some n \<Rightarrow> n)\<rparr>))"

section \<open>Results\<close>

fun status_name :: "AgentExecutionStatus \<Rightarrow> string" where
  "status_name AES_QUEUED = ''QUEUED''"
| "status_name AES_STARTING = ''STARTING''"
| "status_name AES_RUNNING = ''RUNNING''"
| "status_name AES_SUCCEEDED = ''SUCCEEDED''"
| "status_name AES_FAILED = ''FAILED''"
| "status_name AES_TIMED_OUT = ''TIMED_OUT''"
| "status_name AES_CANCELLED = ''CANCELLED''"
| "status_name AES_POLICY_BLOCKED = ''POLICY_BLOCKED''"
| "status_name AES_QUOTA_BLOCKED = ''QUOTA_BLOCKED''"

definition decision_reference :: "PolicyDecision \<Rightarrow> PolicyDecisionReference" where
  "decision_reference d = DecisionRef (d_policyVersion d) (d_evaluatedAt d)"

text \<open>The identifying fields every result carries, with nothing else set.\<close>

definition base_result ::
  "Clock \<Rightarrow> InvocationRequest \<Rightarrow> string \<Rightarrow> AgentExecutionStatus \<Rightarrow> PolicyDecisionReference \<Rightarrow> InvocationResult" where
  "base_result clk rq providerId st ref = \<lparr>ir_invocationId = rq_invocationId rq,
     ir_organizationId = rq_organizationId rq, ir_workflowRunId = rq_workflowRunId rq,
     ir_workflowStepRunId = rq_workflowStepRunId rq, ir_correlationId = rq_correlationId rq,
     ir_capabilityCode = rq_capabilityCode rq, ir_providerId = providerId, ir_status = st,
     ir_startedAt = t_started clk, ir_completedAt = t_completed clk,
     ir_durationMs = t_completed clk - t_started clk, ir_outputReference = None,
     ir_artifactReferences = None, ir_evidenceReferences = None,
     ir_providerExecutionMetadata = JObj [], ir_normalizedError = None,
     ir_policyDecisionReference = ref, ir_sideEffectSummary = None, ir_usageMetadata = None\<rparr>"

definition reason_code_name :: "PolicyReasonCode \<Rightarrow> string" where
  "reason_code_name c = (case c of
     POLICY_ALLOWED \<Rightarrow> ''POLICY_ALLOWED'' | POLICY_MISSING \<Rightarrow> ''POLICY_MISSING''
   | POLICY_INVALID \<Rightarrow> ''POLICY_INVALID'' | EXECUTION_PROFILE_UNKNOWN \<Rightarrow> ''EXECUTION_PROFILE_UNKNOWN''
   | ACTION_UNKNOWN \<Rightarrow> ''ACTION_UNKNOWN'' | PATH_OUTSIDE_ALLOWED_ROOT \<Rightarrow> ''PATH_OUTSIDE_ALLOWED_ROOT''
   | PATH_EXPLICITLY_DENIED \<Rightarrow> ''PATH_EXPLICITLY_DENIED''
   | PATH_TRAVERSAL_REJECTED \<Rightarrow> ''PATH_TRAVERSAL_REJECTED''
   | HOME_ACCESS_DENIED \<Rightarrow> ''HOME_ACCESS_DENIED'' | SECRET_ACCESS_DENIED \<Rightarrow> ''SECRET_ACCESS_DENIED''
   | REVIEWER_WRITE_DENIED \<Rightarrow> ''REVIEWER_WRITE_DENIED'' | COMMAND_NOT_ALLOWED \<Rightarrow> ''COMMAND_NOT_ALLOWED''
   | GIT_COMMIT_DENIED \<Rightarrow> ''GIT_COMMIT_DENIED'' | GIT_PUSH_DENIED \<Rightarrow> ''GIT_PUSH_DENIED''
   | GIT_MERGE_DENIED \<Rightarrow> ''GIT_MERGE_DENIED'' | GIT_REBASE_DENIED \<Rightarrow> ''GIT_REBASE_DENIED''
   | GIT_BRANCH_DELETE_DENIED \<Rightarrow> ''GIT_BRANCH_DELETE_DENIED''
   | REMOTE_REF_DELETE_DENIED \<Rightarrow> ''REMOTE_REF_DELETE_DENIED''
   | NETWORK_ACCESS_DENIED \<Rightarrow> ''NETWORK_ACCESS_DENIED''
   | RELEASE_GATE_NOT_APPROVED \<Rightarrow> ''RELEASE_GATE_NOT_APPROVED''
   | EXECUTION_TIMEOUT \<Rightarrow> ''EXECUTION_TIMEOUT''
   | EXECUTION_BUDGET_EXCEEDED \<Rightarrow> ''EXECUTION_BUDGET_EXCEEDED'')"

definition createPolicyBlockedResult ::
  "Clock \<Rightarrow> InvocationRequest \<Rightarrow> ProviderDeclaration \<Rightarrow> PolicyDecision \<Rightarrow> InvocationResult" where
  "createPolicyBlockedResult clk rq provider decision =
     (base_result clk rq (pd_id provider) AES_POLICY_BLOCKED (decision_reference decision))
       \<lparr>ir_normalizedError := Some \<lparr>
          ie_reason = (if reasonCode decision = RELEASE_GATE_NOT_APPROVED then HUMAN_GATE_NOT_BOUND
                       else Vito_Invocation.POLICY_BLOCKED),
          ie_message = reason decision,
          ie_executionOutcome = Some OUTCOME_POLICY_BLOCKED,
          ie_agentExecutionStatus = Some AES_POLICY_BLOCKED, ie_retryable = False,
          ie_providerMetadata = Some (sanitizeProviderExecutionMetadata (JObj [
            (''policyReasonCode'', JStr (reason_code_name (reasonCode decision))),
            (''policyVersion'', JStr (d_policyVersion decision))]))\<rparr>\<rparr>"

definition idempotency_reason_name :: "InvocationFailureReason \<Rightarrow> string" where
  "idempotency_reason_name r = (if r = INVOCATION_DUPLICATE then ''INVOCATION_DUPLICATE''
     else ''INVOCATION_IDEMPOTENCY_CONFLICT'')"

definition createIdempotencyBlockedResult ::
  "Dependencies \<Rightarrow> Clock \<Rightarrow> InvocationRequest \<Rightarrow> ProviderDeclaration \<Rightarrow> InvocationFailureReason \<Rightarrow>
   string option \<Rightarrow> InvocationResult" where
  "createIdempotencyBlockedResult deps clk rq provider r duplicateOf =
     (base_result clk rq (pd_id provider) AES_POLICY_BLOCKED IDEMPOTENCY_BOUNDARY)
       \<lparr>ir_normalizedError := Some \<lparr>
          ie_reason = r, ie_message = d_messages deps r,
          ie_executionOutcome = Some OUTCOME_POLICY_BLOCKED,
          ie_agentExecutionStatus = Some AES_POLICY_BLOCKED, ie_retryable = False,
          ie_providerMetadata = Some (sanitizeProviderExecutionMetadata (JObj (
            (''idempotencyReason'', JStr (idempotency_reason_name r)) #
            (case duplicateOf of None \<Rightarrow> [] | Some i \<Rightarrow> [(''duplicateOfInvocationId'', JStr i)]))))\<rparr>\<rparr>"

definition createInvocationErrorResult ::
  "Dependencies \<Rightarrow> Clock \<Rightarrow> InvocationRequest \<Rightarrow> ProviderDeclaration option \<Rightarrow> InvocationFailureReason \<Rightarrow>
   string option \<Rightarrow> InvocationResult" where
  "createInvocationErrorResult deps clk rq provider r message =
     (base_result clk rq (case provider of None \<Rightarrow> ''unknown'' | Some p \<Rightarrow> pd_id p)
        (invocationFailureToStatus r) INVOCATION_VALIDATION_FAILED)
       \<lparr>ir_normalizedError := Some \<lparr>
          ie_reason = r, ie_message = (case message of None \<Rightarrow> d_messages deps r | Some m \<Rightarrow> m),
          ie_executionOutcome = invocationFailureToOutcome r,
          ie_agentExecutionStatus = Some (invocationFailureToStatus r), ie_retryable = False,
          ie_providerMetadata = None\<rparr>\<rparr>"

fun claimStateForResultStatus :: "AgentExecutionStatus \<Rightarrow> GovernedInvocationClaimState" where
  "claimStateForResultStatus AES_SUCCEEDED = CLAIM_COMPLETED"
| "claimStateForResultStatus AES_TIMED_OUT = TIMED_OUT_UNKNOWN"
| "claimStateForResultStatus _ = FAILED_UNKNOWN"

definition trusted_secrets :: "string option \<Rightarrow> string list" where
  "trusted_secrets credential = (if truthy credential then [the credential] else [])"

definition createRuntimeFailureResult ::
  "Clock \<Rightarrow> InvocationRequest \<Rightarrow> ProviderDeclaration \<Rightarrow> PolicyDecision \<Rightarrow> AgentExecutionStatus \<Rightarrow>
   string \<Rightarrow> json option \<Rightarrow> string option \<Rightarrow> InvocationResult" where
  "createRuntimeFailureResult clk rq provider decision st message metadata credential =
     (let secrets = trusted_secrets credential in
      (base_result clk rq (pd_id provider) st (decision_reference decision))
       \<lparr>ir_normalizedError := Some \<lparr>
          ie_reason = EXECUTION_FAILED, ie_message = redactSecretMaterial message secrets,
          ie_executionOutcome = (if st = AES_TIMED_OUT then Some OUTCOME_TIMED_OUT else None),
          ie_agentExecutionStatus = Some st, ie_retryable = False,
          ie_providerMetadata = map_option (redactTrustedSecretsDeep secrets)
            (sanitizeErrorProviderMetadata metadata)\<rparr>,
        ir_sideEffectSummary := Some \<lparr>se_filesCreated = [], se_filesModified = [],
          se_filesDeleted = [], se_commandsExecuted = [], se_networkCalls = [],
          se_artifactsCreated = []\<rparr>\<rparr>)"

definition safe_message :: "string \<Rightarrow> string" where
  "safe_message raw = (if 2000 < length raw then take 2000 raw @ [ellipsis] else raw)"

definition timeout_message :: "int \<Rightarrow> string" where
  "timeout_message ms = ''Adapter execution did not return within the governed time budget of '' @
     js_int ms @ ''ms''"

definition createIllegalLifecycleFailureResult ::
  "Clock \<Rightarrow> InvocationRequest \<Rightarrow> ProviderDeclaration \<Rightarrow> PolicyDecision \<Rightarrow> AgentExecutionStatus \<Rightarrow>
   string option \<Rightarrow> InvocationResult" where
  "createIllegalLifecycleFailureResult clk rq provider decision rejectedStatus credential =
     createRuntimeFailureResult clk rq provider decision AES_FAILED
       (''EXECUTION_FAILED: Adapter returned illegal non-terminal lifecycle status '' @ [CHR 0x22] @
        status_name rejectedStatus @ [CHR 0x22] @ '' as terminal result'')
       (Some (JObj [(''rejectedLifecycleStatus'', JStr (status_name rejectedStatus))])) credential"

section \<open>The side effect summary\<close>

text \<open>\<open>String(v)\<close>, property access and truthiness on a JSON value.\<close>

fun js_String :: "json \<Rightarrow> string" where
  "js_String JNull = ''null''"
| "js_String (JBool b) = (if b then ''true'' else ''false'')"
| "js_String (JNum n) = js_int n"
| "js_String (JFloat x) = x"
| "js_String (JStr s) = s"
| "js_String (JArr vs) = js_join '','' (map (\<lambda>v. if v = JNull then [] else js_String v) vs)"
| "js_String (JObj es) = ''[object Object]''"

definition json_prop :: "json option \<Rightarrow> string \<Rightarrow> json option" where
  "json_prop v k = (case v of Some (JObj es) \<Rightarrow> map_of es k | _ \<Rightarrow> None)"

definition json_truthy :: "json option \<Rightarrow> bool" where
  "json_truthy v = (case v of None \<Rightarrow> False | Some JNull \<Rightarrow> False | Some (JBool b) \<Rightarrow> b
     | Some (JNum n) \<Rightarrow> n \<noteq> 0 | Some (JStr s) \<Rightarrow> s \<noteq> [] | Some _ \<Rightarrow> True)"

text \<open>\<open>values.map(f)\<close> on an unchecked value: anything truthy that is no array throws.\<close>

definition unchecked_list :: "json option \<Rightarrow> InvokeError + json list option" where
  "unchecked_list v =
     (if \<not> json_truthy v then Inr None
      else (case v of Some (JArr vs) \<Rightarrow> Inr (Some vs) | _ \<Rightarrow> Inl E_TYPE_ERROR))"

definition text_list :: "json option \<Rightarrow> string list \<Rightarrow> InvokeError + string list" where
  "text_list v secrets =
     bindE (unchecked_list v) (\<lambda>vs.
       Inr (sanitizeSideEffectTextList (map_option (map js_String) vs) secrets))"

text \<open>\<open>{...call, destination: ...}\<close>; reading a property of \<open>null\<close> throws.\<close>

definition spread :: "json \<Rightarrow> (string \<times> json) list" where
  "spread v = (case v of JObj es \<Rightarrow> es | JArr vs \<Rightarrow> index_entries 0 vs
     | JStr s \<Rightarrow> index_entries 0 (map (\<lambda>c. JStr [c]) s) | _ \<Rightarrow> [])"

definition set_entry :: "string \<Rightarrow> json \<Rightarrow> (string \<times> json) list \<Rightarrow> (string \<times> json) list" where
  "set_entry k v es =
     (if k \<in> fst ` set es then map (\<lambda>(k', x). if k' = k then (k', v) else (k', x)) es
      else es @ [(k, v)])"

definition network_call :: "string list \<Rightarrow> json \<Rightarrow> InvokeError + json" where
  "network_call secrets call =
     (if call = JNull then Inl E_TYPE_ERROR
      else (let d = json_prop (Some call) ''destination'';
                text = (case d of None \<Rightarrow> [] | Some JNull \<Rightarrow> [] | Some x \<Rightarrow> js_String x) in
            Inr (JObj (set_entry ''destination'' (JStr (redactSecretMaterial text secrets)) (spread call)))))"

fun network_calls :: "string list \<Rightarrow> json list \<Rightarrow> InvokeError + json list" where
  "network_calls secrets [] = Inr []"
| "network_calls secrets (c # cs) =
     bindE (network_call secrets c) (\<lambda>x. bindE (network_calls secrets cs) (\<lambda>xs. Inr (x # xs)))"

definition sideEffectSummary ::
  "json option \<Rightarrow> string list option \<Rightarrow> string list \<Rightarrow> InvokeError + SideEffectSummary" where
  "sideEffectSummary se artifacts secrets =
     bindE (text_list (json_prop se ''filesCreated'') secrets) (\<lambda>created.
     bindE (text_list (json_prop se ''filesModified'') secrets) (\<lambda>modified.
     bindE (text_list (json_prop se ''filesDeleted'') secrets) (\<lambda>deleted.
     bindE (text_list (json_prop se ''commandsExecuted'') secrets) (\<lambda>commands.
     bindE (unchecked_list (json_prop se ''networkCalls'')) (\<lambda>calls.
     bindE (network_calls secrets (case calls of None \<Rightarrow> [] | Some cs \<Rightarrow> cs)) (\<lambda>network.
       Inr \<lparr>se_filesCreated = created, se_filesModified = modified, se_filesDeleted = deleted,
            se_commandsExecuted = commands, se_networkCalls = network,
            se_artifactsCreated = sanitizeGovernedReferenceList artifacts secrets\<rparr>))))))"

definition drop_key :: "string \<Rightarrow> json \<Rightarrow> json" where
  "drop_key k v = (case v of JObj es \<Rightarrow> JObj (filter (\<lambda>e. fst e \<noteq> k) es) | _ \<Rightarrow> v)"

definition normalizeAdapterResult ::
  "Clock \<Rightarrow> InvocationRequest \<Rightarrow> ProviderDeclaration \<Rightarrow> PolicyDecision \<Rightarrow> GovernedAdapterResult \<Rightarrow>
   string option \<Rightarrow> InvokeError + InvocationResult" where
  "normalizeAdapterResult clk rq provider decision res credential =
     (let secrets = trusted_secrets credential;
          metadata = redactTrustedSecretsDeep secrets
            (sanitizeProviderExecutionMetadata (ar_providerExecutionMetadata res));
          usage = (if json_truthy (ar_usageMetadata res)
            then map_option (\<lambda>u. redactTrustedSecretsDeep secrets (sanitizeProviderExecutionMetadata u))
                   (ar_usageMetadata res) else None);
          error = map_option (\<lambda>e. \<lparr>ie_reason = EXECUTION_FAILED,
              ie_message = redactSecretMaterial (ad_message e) secrets,
              ie_executionOutcome = None, ie_agentExecutionStatus = Some (ar_status res),
              ie_retryable = ad_retryable e,
              ie_providerMetadata = map_option (redactTrustedSecretsDeep secrets)
                (sanitizeErrorProviderMetadata (ad_providerMetadata e))\<rparr>) (ar_error res) in
      bindE (sideEffectSummary (json_prop (Some metadata) ''sideEffects'')
               (ar_artifactReferences res) secrets) (\<lambda>summary.
        Inr ((base_result clk rq (pd_id provider) (ar_status res) (decision_reference decision))
          \<lparr>ir_outputReference := sanitizeGovernedReference (ar_outputReference res) secrets,
           ir_artifactReferences := Some (sanitizeGovernedReferenceList (ar_artifactReferences res) secrets),
           ir_evidenceReferences := Some (sanitizeGovernedReferenceList (ar_evidenceReferences res) secrets),
           ir_providerExecutionMetadata := drop_key ''sideEffects'' metadata,
           ir_normalizedError := error,
           ir_sideEffectSummary := Some summary,
           ir_usageMetadata := usage\<rparr>)))"

definition normalizeAdapterRuntimeFailure ::
  "Clock \<Rightarrow> InvocationRequest \<Rightarrow> ProviderDeclaration \<Rightarrow> PolicyDecision \<Rightarrow> int \<Rightarrow> string option \<Rightarrow>
   string option \<Rightarrow> InvocationResult" where
  "normalizeAdapterRuntimeFailure clk rq provider decision timeoutMs thrown credential =
     (case thrown of
        None \<Rightarrow> createRuntimeFailureResult clk rq provider decision AES_TIMED_OUT
          (''EXECUTION_FAILED: '' @ timeout_message timeoutMs) None credential
      | Some rawMessage \<Rightarrow> createRuntimeFailureResult clk rq provider decision AES_FAILED
          (''EXECUTION_FAILED: Adapter execution failed: '' @ safe_message rawMessage) None credential)"

text \<open>\<open>thrown\<close> is the message of the error, or \<^const>\<open>None\<close> for the timeout of the
  boundary itself.\<close>

section \<open>Audit events\<close>

definition auditPolicyDecision ::
  "InvocationRequest \<Rightarrow> ProviderDeclaration \<Rightarrow> ExecutionProfile \<Rightarrow> PolicyDecision \<Rightarrow> bool \<Rightarrow> AuditEvent" where
  "auditPolicyDecision rq provider profile decision allowed_flag = POLICY_DECISION \<lparr>
     ap_organizationId = rq_organizationId rq, ap_actionAllowed = allowed_flag,
     ap_entityId = decision_reference decision, ap_correlationId = rq_correlationId rq,
     ap_invocationId = rq_invocationId rq, ap_capabilityCode = rq_capabilityCode rq,
     ap_providerId = pd_id provider, ap_providerType = pd_providerType provider,
     ap_executionProfile = profile, ap_requestedAction = rq_requestedAction rq,
     ap_reasonCode = reasonCode decision, ap_reason = reason decision,
     ap_allowed = allowed decision\<rparr>"

definition auditInvocationComplete ::
  "InvocationRequest \<Rightarrow> ProviderDeclaration \<Rightarrow> ExecutionProfile \<Rightarrow> InvocationResult \<Rightarrow> AuditEvent" where
  "auditInvocationComplete rq provider profile result = GOVERNED_INVOCATION_COMPLETE \<lparr>
     ac_organizationId = rq_organizationId rq, ac_invocationId = rq_invocationId rq,
     ac_correlationId = rq_correlationId rq, ac_capabilityCode = rq_capabilityCode rq,
     ac_providerId = pd_id provider, ac_providerType = pd_providerType provider,
     ac_executionProfile = profile, ac_status = ir_status result,
     ac_durationMs = ir_durationMs result,
     ac_policyDecisionReference = ir_policyDecisionReference result,
     ac_error = map_option (\<lambda>e. (ie_reason e, ie_message e, ie_retryable e)) (ir_normalizedError result),
     ac_sideEffectSummary = ir_sideEffectSummary result\<rparr>"

end
