(* ===== verification/Vito_InvocationPipeline.thy ===== *)
theory Vito_InvocationPipeline
  imports Vito_GovernedInvocation
begin

text \<open>
  \<open>invoke\<close> of the governed invocation service as the composition of its phases
  (prepare, claim, execute, finish) over the shared world, and the system of
  any number of concurrent attempts that share it: a schedule picks the attempt
  that takes the next phase, so a schedule is an interleaving and an attempt
  that is not scheduled again has crashed.

  The properties are about every interleaving: what an execution presupposes,
  that a consequential operation is executed at most once, that a release
  needs a human, and what a result reveals.
\<close>

section \<open>The phases of an invocation\<close>

datatype invoke_exit = Thrown InvokeError | Returned InvocationResult

record Prepared =
  p_provider :: ProviderDeclaration
  p_adapter :: adapter
  p_profile :: ExecutionProfile
  p_decision :: PolicyDecision
  p_context :: GovernedExecutionContext

definition record_audit :: "Dependencies \<Rightarrow> AuditEvent \<Rightarrow> World \<Rightarrow> World \<times> (InvokeError + unit)" where
  "record_audit deps e w =
     (if d_auditAccepts deps e then (w\<lparr>w_audit := w_audit w @ [e]\<rparr>, Inr ())
      else (w, Inl E_AUDIT_FAILED))"

definition decide ::
  "Dependencies \<Rightarrow> Clock \<Rightarrow> InvocationRequest \<Rightarrow> ProviderDeclaration \<Rightarrow> ExecutionProfile \<Rightarrow>
   InvokeError + PolicyDecision" where
  "decide deps clk rq provider profile =
     bindE (createPolicyEvaluationContext deps clk rq provider profile) (\<lambda>policyContext.
       Inr (evaluatePolicy (d_env deps) (d_regexp deps) (t_policy clk) policyContext))"

definition build_context ::
  "Dependencies \<Rightarrow> Clock \<Rightarrow> InvocationRequest \<Rightarrow> ProviderDeclaration \<Rightarrow> ExecutionProfile \<Rightarrow>
   PolicyDecision \<Rightarrow> InvokeError + GovernedExecutionContext" where
  "build_context deps clk rq provider profile decision =
     bindE (resolveCredentials deps provider (rq_organizationId rq))
       (buildExecutionContext deps clk rq provider profile decision)"

definition authorise ::
  "Dependencies \<Rightarrow> Clock \<Rightarrow> InvocationRequest \<Rightarrow> ProviderDeclaration \<Rightarrow> adapter \<Rightarrow> ExecutionProfile \<Rightarrow>
   World \<Rightarrow> World \<times> (invoke_exit + Prepared)" where
  "authorise deps clk rq provider a profile w =
     (case decide deps clk rq provider profile of
        Inl e \<Rightarrow> (w, Inl (Thrown e))
      | Inr decision \<Rightarrow>
          (case record_audit deps
                  (auditPolicyDecision rq provider profile decision (allowed decision)) w of
             (w', Inl e) \<Rightarrow> (w', Inl (Thrown e))
           | (w', Inr _) \<Rightarrow>
               (w', if \<not> allowed decision
                    then Inl (Returned (createPolicyBlockedResult clk rq provider decision))
                    else (case build_context deps clk rq provider profile decision of
                            Inl e \<Rightarrow> Inl (Thrown e)
                          | Inr context \<Rightarrow> Inr \<lparr>p_provider = provider, p_adapter = a,
                              p_profile = profile, p_decision = decision, p_context = context\<rparr>))))"

definition prepare ::
  "Dependencies \<Rightarrow> Clock \<Rightarrow> InvocationRequest \<Rightarrow> World \<Rightarrow> World \<times> (invoke_exit + Prepared)" where
  "prepare deps clk rq w =
     (case admit deps rq of
        Inl e \<Rightarrow> (w, Inl (Thrown e))
      | Inr (provider, a) \<Rightarrow>
          (case resolveTrustedExecutionProfile deps rq of
             Some profile \<Rightarrow>
               if known_profile profile then authorise deps clk rq provider a profile w
               else (w, Inl (Returned (createInvocationErrorResult deps clk rq (Some provider)
                           EXECUTION_PROFILE_NOT_GOVERNED None)))
           | None \<Rightarrow> (w, Inl (Returned (createInvocationErrorResult deps clk rq (Some provider)
                           EXECUTION_PROFILE_NOT_GOVERNED None)))))"

definition mark_claim ::
  "Dependencies \<Rightarrow> InvocationRequest \<Rightarrow> AgentExecutionStatus \<Rightarrow> bool \<Rightarrow> string option \<Rightarrow> World \<Rightarrow> World" where
  "mark_claim deps rq st markCompletion key w =
     (if markCompletion \<and> d_idempotencyStore deps \<and> key \<noteq> None \<and> d_completionFault deps \<noteq> CALL_REFUSED
      then w\<lparr>w_claims := fst (markCompleted (the key) (rq_invocationId rq)
               (claimStateForResultStatus st) (w_claims w))\<rparr>
      else w)"

definition finalizeInvocation ::
  "Dependencies \<Rightarrow> InvocationRequest \<Rightarrow> ProviderDeclaration \<Rightarrow> ExecutionProfile \<Rightarrow> InvocationResult \<Rightarrow>
   bool \<Rightarrow> string option \<Rightarrow> World \<Rightarrow> World \<times> invoke_exit" where
  "finalizeInvocation deps rq provider profile result markCompletion key w =
     (case record_audit deps (auditInvocationComplete rq provider profile result)
             (mark_claim deps rq (ir_status result) markCompletion key w) of
        (w', Inl e) \<Rightarrow> (w', Thrown e)
      | (w', Inr _) \<Rightarrow> (w', Returned result))"

definition context_fingerprint :: "InvocationRequest \<Rightarrow> Prepared \<Rightarrow> string" where
  "context_fingerprint rq p = buildGovernedInvocationFingerprint \<lparr>
     ci_organizationId = rq_organizationId rq, ci_workflowRunId = rq_workflowRunId rq,
     ci_workflowStepRunId = rq_workflowStepRunId rq, ci_capabilityCode = rq_capabilityCode rq,
     ci_providerId = pd_id (p_provider p), ci_requestedAction = rq_requestedAction rq,
     ci_executionProfile = p_profile p, ci_assuranceLevel = rq_assuranceLevel rq,
     ci_inputReference = rq_inputReference rq\<rparr>"

definition operation_fields :: "InvocationRequest \<Rightarrow> GovernedOperationIdentityFields" where
  "operation_fields rq = \<lparr>
     oi_organizationId = rq_organizationId rq, oi_workflowRunId = rq_workflowRunId rq,
     oi_workflowStepRunId = rq_workflowStepRunId rq, oi_capabilityCode = rq_capabilityCode rq,
     oi_requestedAction = rq_requestedAction rq, oi_requestedPath = rq_requestedPath rq,
     oi_requestedCommand = rq_requestedCommand rq, oi_inputReference = rq_inputReference rq\<rparr>"

definition operation_key :: "InvocationRequest \<Rightarrow> string" where
  "operation_key rq = buildGovernedLogicalOperationKey (operation_fields rq)"

text \<open>The result for a claim that is not won, by the answer of the store.\<close>

definition claim_failure ::
  "Dependencies \<Rightarrow> Clock \<Rightarrow> InvocationRequest \<Rightarrow> Prepared \<Rightarrow>
   claim_error + GovernedInvocationClaimResult \<Rightarrow> InvocationResult" where
  "claim_failure deps clk rq p answer =
     (case answer of
        Inr (DUPLICATE existing) \<Rightarrow>
          createIdempotencyBlockedResult deps clk rq (p_provider p) INVOCATION_DUPLICATE
            (if claimInvocationId existing \<noteq> rq_invocationId rq
             then Some (claimInvocationId existing) else None)
      | Inr (CONTEXT_CONFLICT _) \<Rightarrow>
          createIdempotencyBlockedResult deps clk rq (p_provider p) INVOCATION_IDEMPOTENCY_CONFLICT None
      | _ \<Rightarrow> createRuntimeFailureResult clk rq (p_provider p) (p_decision p) AES_FAILED
          (''EXECUTION_FAILED: Governed idempotency claim failed: '' @
           d_messages deps INVOCATION_DUPLICATE) None (ec_credentialReference (p_context p)))"

text \<open>What the store is left with and answers; \<^const>\<open>Inl\<close> is a rejected call.\<close>

definition call_claim ::
  "Dependencies \<Rightarrow> Clock \<Rightarrow> InvocationRequest \<Rightarrow> Prepared \<Rightarrow> claim_db \<Rightarrow>
   claim_db \<times> (claim_error + GovernedInvocationClaimResult)" where
  "call_claim deps clk rq p db =
     (let (db', answer) = store_claim (t_claimed clk) (operation_key rq) (rq_invocationId rq)
            (context_fingerprint rq p) db in
      case d_claimFault deps of
        NO_FAULT \<Rightarrow> (db', answer)
      | CALL_REFUSED \<Rightarrow> (db, Inl UNIQUE_VIOLATION)
      | ANSWER_LOST \<Rightarrow> (db', Inl UNIQUE_VIOLATION))"

definition claim_phase ::
  "Dependencies \<Rightarrow> Clock \<Rightarrow> InvocationRequest \<Rightarrow> Prepared \<Rightarrow> World \<Rightarrow>
   World \<times> (invoke_exit + string option)" where
  "claim_phase deps clk rq p w =
     (if isConsequentialExecutionAction (rq_requestedAction rq) \<and> d_idempotencyStore deps then
        (case call_claim deps clk rq p (w_claims w) of
           (db', Inr (CLAIMED _)) \<Rightarrow> (w\<lparr>w_claims := db'\<rparr>, Inr (Some (operation_key rq)))
         | (db', answer) \<Rightarrow>
             (case finalizeInvocation deps rq (p_provider p) (p_profile p)
                     (claim_failure deps clk rq p answer) False None (w\<lparr>w_claims := db'\<rparr>) of
                (w', exit) \<Rightarrow> (w', Inl exit)))
      else (w, Inr None))"

definition execute_phase ::
  "InvocationRequest \<Rightarrow> Prepared \<Rightarrow> string option \<Rightarrow> World \<Rightarrow> World \<times> AdapterRun" where
  "execute_phase rq p key w =
     (w\<lparr>w_executed := w_executed w @ [\<lparr>x_key = key, x_request = rq, x_context = p_context p\<rparr>]\<rparr>,
      p_adapter p (rq_inputReference rq) (rq_governedInputPayload rq) (p_context p))"

definition run_result ::
  "Clock \<Rightarrow> InvocationRequest \<Rightarrow> Prepared \<Rightarrow> AdapterRun \<Rightarrow> InvokeError + InvocationResult" where
  "run_result clk rq p run =
     (let credential = ec_credentialReference (p_context p) in
      case run of
        AdapterTimedOut \<Rightarrow> Inr (normalizeAdapterRuntimeFailure clk rq (p_provider p) (p_decision p)
          (ec_timeoutMs (p_context p)) None credential)
      | AdapterThrew m \<Rightarrow> Inr (normalizeAdapterRuntimeFailure clk rq (p_provider p) (p_decision p)
          (ec_timeoutMs (p_context p)) (Some m) credential)
      | AdapterReturned res \<Rightarrow>
          if \<not> isValidInvocationTransition AES_RUNNING (ar_status res)
          then Inr (createIllegalLifecycleFailureResult clk rq (p_provider p) (p_decision p)
                 (ar_status res) credential)
          else normalizeAdapterResult clk rq (p_provider p) (p_decision p) res credential)"

definition finish_phase ::
  "Dependencies \<Rightarrow> Clock \<Rightarrow> InvocationRequest \<Rightarrow> Prepared \<Rightarrow> string option \<Rightarrow> AdapterRun \<Rightarrow> World \<Rightarrow>
   World \<times> invoke_exit" where
  "finish_phase deps clk rq p key run w =
     (case run_result clk rq p run of
        Inl e \<Rightarrow> (w, Thrown e)
      | Inr result \<Rightarrow>
          finalizeInvocation deps rq (p_provider p) (p_profile p) result (key \<noteq> None) key w)"

definition invoke :: "Dependencies \<Rightarrow> Clock \<Rightarrow> InvocationRequest \<Rightarrow> World \<Rightarrow> World \<times> invoke_exit" where
  "invoke deps clk rq w0 =
     (case prepare deps clk rq w0 of
        (w1, Inl exit) \<Rightarrow> (w1, exit)
      | (w1, Inr p) \<Rightarrow>
          (case claim_phase deps clk rq p w1 of
             (w2, Inl exit) \<Rightarrow> (w2, exit)
           | (w2, Inr key) \<Rightarrow>
               (case execute_phase rq p key w2 of
                  (w3, run) \<Rightarrow> finish_phase deps clk rq p key run w3)))"

section \<open>Concurrent attempts\<close>

record Attempt =
  a_deps :: Dependencies
  a_clock :: Clock
  a_request :: InvocationRequest

datatype AttemptState =
    AtStart
  | AtPrepared Prepared
  | AtClaimed Prepared "string option"
  | AtExecuted Prepared "string option" AdapterRun
  | AtEnd invoke_exit

fun advance :: "Attempt \<Rightarrow> World \<Rightarrow> AttemptState \<Rightarrow> World \<times> AttemptState" where
  "advance a w AtStart =
     (case prepare (a_deps a) (a_clock a) (a_request a) w of
        (w', Inl exit) \<Rightarrow> (w', AtEnd exit) | (w', Inr p) \<Rightarrow> (w', AtPrepared p))"
| "advance a w (AtPrepared p) =
     (case claim_phase (a_deps a) (a_clock a) (a_request a) p w of
        (w', Inl exit) \<Rightarrow> (w', AtEnd exit) | (w', Inr key) \<Rightarrow> (w', AtClaimed p key))"
| "advance a w (AtClaimed p key) =
     (case execute_phase (a_request a) p key w of (w', run) \<Rightarrow> (w', AtExecuted p key run))"
| "advance a w (AtExecuted p key run) =
     (case finish_phase (a_deps a) (a_clock a) (a_request a) p key run w of
        (w', exit) \<Rightarrow> (w', AtEnd exit))"
| "advance a w (AtEnd exit) = (w, AtEnd exit)"

type_synonym invocation_system = "World \<times> AttemptState list"

definition system_step :: "Attempt list \<Rightarrow> nat \<Rightarrow> invocation_system \<Rightarrow> invocation_system" where
  "system_step atts i S =
     (case S of (w, ss) \<Rightarrow>
        if i < length atts \<and> i < length ss
        then (case advance (atts ! i) w (ss ! i) of (w', s) \<Rightarrow> (w', ss[i := s]))
        else (w, ss))"

definition run_system :: "Attempt list \<Rightarrow> nat list \<Rightarrow> invocation_system \<Rightarrow> invocation_system" where
  "run_system atts sched S = fold (system_step atts) sched S"

definition initial_system :: "Attempt list \<Rightarrow> World \<Rightarrow> invocation_system" where
  "initial_system atts w = (w, map (\<lambda>_. AtStart) atts)"

section \<open>What a phase does to the world\<close>

definition authorised :: "Attempt \<Rightarrow> Prepared \<Rightarrow> bool" where
  "authorised a p =
     (admit (a_deps a) (a_request a) = Inr (p_provider p, p_adapter p) \<and>
      resolveTrustedExecutionProfile (a_deps a) (a_request a) = Some (p_profile p) \<and>
      known_profile (p_profile p) \<and>
      decide (a_deps a) (a_clock a) (a_request a) (p_provider p) (p_profile p) = Inr (p_decision p) \<and>
      allowed (p_decision p) \<and>
      build_context (a_deps a) (a_clock a) (a_request a) (p_provider p) (p_profile p) (p_decision p) =
        Inr (p_context p))"

definition allow_event :: "Attempt \<Rightarrow> Prepared \<Rightarrow> AuditEvent" where
  "allow_event a p = auditPolicyDecision (a_request a) (p_provider p) (p_profile p) (p_decision p) True"

text \<open>The world only grows: events stay, an owner of a key stays its owner.\<close>

definition grows :: "World \<Rightarrow> World \<Rightarrow> bool" where
  "grows w w' = (prefix (w_audit w) (w_audit w') \<and> prefix (w_executed w) (w_executed w') \<and>
     (\<forall>k i. claim_owner (w_claims w) k = Some i \<longrightarrow> claim_owner (w_claims w') k = Some i) \<and>
     (db_ok (w_claims w) \<longrightarrow> db_ok (w_claims w')))"

lemma grows_refl [simp]: "grows w w"
  by (simp add: grows_def)

lemma grows_trans: "grows u v \<Longrightarrow> grows v w \<Longrightarrow> grows u w"
  unfolding grows_def using prefix_order.order_trans by metis

lemma grows_event: "grows w w' \<Longrightarrow> e \<in> set (w_audit w) \<Longrightarrow> e \<in> set (w_audit w')"
  unfolding grows_def by (auto dest: set_mono_prefix)

lemma record_audit_facts:
  assumes "record_audit deps e w = (w', r)"
  shows "grows w w'" "w_executed w' = w_executed w" "w_claims w' = w_claims w"
    "r = Inr u \<Longrightarrow> e \<in> set (w_audit w')"
  using assms by (auto simp: record_audit_def grows_def split: if_splits)

lemma mark_claim_facts:
  assumes "db_ok (w_claims w)"
  shows "grows w (mark_claim deps rq st m key w)" "w_executed (mark_claim deps rq st m key w) = w_executed w"
    "w_audit (mark_claim deps rq st m key w) = w_audit w"
  using ps.complete_keeps [OF assms] ps.ok_complete [OF assms] by (auto simp: mark_claim_def grows_def)

lemma finalize_facts:
  assumes "db_ok (w_claims w)" "finalizeInvocation deps rq provider profile result m key w = (w', exit)"
  shows "grows w w'" "w_executed w' = w_executed w"
proof -
  let ?w = "mark_claim deps rq (ir_status result) m key w"
  obtain v r where v: "record_audit deps (auditInvocationComplete rq provider profile result) ?w = (v, r)"
    by fastforce
  with assms(2) have [simp]: "w' = v" by (cases r) (simp_all add: finalizeInvocation_def)
  show "grows w w'" "w_executed w' = w_executed w"
    using record_audit_facts(1,2) [OF v] mark_claim_facts(2) [OF assms(1)]
      grows_trans [OF mark_claim_facts(1) [OF assms(1)]] by auto
qed

lemma authorise_facts:
  assumes "authorise deps clk rq provider ad profile w = (w', r)"
  shows "grows w w'" "w_executed w' = w_executed w" "w_claims w' = w_claims w"
    "r = Inr p \<Longrightarrow> p_provider p = provider \<and> p_adapter p = ad \<and> p_profile p = profile \<and>
       decide deps clk rq provider profile = Inr (p_decision p) \<and> allowed (p_decision p) \<and>
       build_context deps clk rq provider profile (p_decision p) = Inr (p_context p) \<and>
       auditPolicyDecision rq provider profile (p_decision p) True \<in> set (w_audit w')"
proof -
  have "grows w w' \<and> w_executed w' = w_executed w \<and> w_claims w' = w_claims w \<and>
    (r = Inr p \<longrightarrow> p_provider p = provider \<and> p_adapter p = ad \<and> p_profile p = profile \<and>
       decide deps clk rq provider profile = Inr (p_decision p) \<and> allowed (p_decision p) \<and>
       build_context deps clk rq provider profile (p_decision p) = Inr (p_context p) \<and>
       auditPolicyDecision rq provider profile (p_decision p) True \<in> set (w_audit w'))"
  proof (cases "decide deps clk rq provider profile")
    case (Inl e)
    with assms show ?thesis by (auto simp: authorise_def)
  next
    case (Inr d)
    obtain v q where v: "record_audit deps (auditPolicyDecision rq provider profile d (allowed d)) w = (v, q)"
      by fastforce
    have "w' = v" using assms Inr v by (cases q) (auto simp: authorise_def)
    moreover have "r = Inr p \<Longrightarrow> q = Inr () \<and> allowed d \<and> build_context deps clk rq provider profile d = Inr (p_context p)
        \<and> p_provider p = provider \<and> p_adapter p = ad \<and> p_profile p = profile \<and> p_decision p = d"
      using assms Inr v by (cases q) (auto simp: authorise_def split: if_splits sum.splits)
    ultimately show ?thesis using record_audit_facts [OF v] Inr by auto
  qed
  then show "grows w w'" "w_executed w' = w_executed w" "w_claims w' = w_claims w"
    "r = Inr p \<Longrightarrow> p_provider p = provider \<and> p_adapter p = ad \<and> p_profile p = profile \<and>
       decide deps clk rq provider profile = Inr (p_decision p) \<and> allowed (p_decision p) \<and>
       build_context deps clk rq provider profile (p_decision p) = Inr (p_context p) \<and>
       auditPolicyDecision rq provider profile (p_decision p) True \<in> set (w_audit w')" by blast+
qed

lemma prepare_facts:
  assumes "prepare (a_deps a) (a_clock a) (a_request a) w = (w', r)"
  shows "grows w w'" "w_executed w' = w_executed w" "w_claims w' = w_claims w"
    "r = Inr p \<Longrightarrow> authorised a p \<and> allow_event a p \<in> set (w_audit w')"
proof -
  consider (stop) x where "w' = w" "r = Inl x" | (go) provider ad profile where
      "admit (a_deps a) (a_request a) = Inr (provider, ad)"
      "resolveTrustedExecutionProfile (a_deps a) (a_request a) = Some profile" "known_profile profile"
      "authorise (a_deps a) (a_clock a) (a_request a) provider ad profile w = (w', r)"
    using assms by (auto simp: prepare_def split: sum.splits option.splits if_splits prod.splits)
  then have "grows w w' \<and> w_executed w' = w_executed w \<and> w_claims w' = w_claims w \<and>
    (r = Inr p \<longrightarrow> authorised a p \<and> allow_event a p \<in> set (w_audit w'))"
  proof cases
    case go
    from authorise_facts(1-3) [OF go(4)] authorise_facts(4) [OF go(4), of p] go(1-3) show ?thesis
      unfolding authorised_def allow_event_def by auto
  qed simp
  then show "grows w w'" "w_executed w' = w_executed w" "w_claims w' = w_claims w"
    "r = Inr p \<Longrightarrow> authorised a p \<and> allow_event a p \<in> set (w_audit w')" by blast+
qed

lemma call_claim_facts:
  assumes "db_ok db" "call_claim deps clk rq p db = (db', r)"
  shows "db_ok db'" "claim_owner db k = Some i \<Longrightarrow> claim_owner db' k = Some i"
    "r = Inr (CLAIMED c) \<Longrightarrow> claim_owner db (operation_key rq) = None \<and>
       claim_owner db' (operation_key rq) = Some (rq_invocationId rq)"
proof -
  let ?t = "t_claimed clk" and ?f = "context_fingerprint rq p"
  obtain d q where d: "store_claim ?t (operation_key rq) (rq_invocationId rq) ?f db = (d, q)" by fastforce
  have db': "db' = db \<or> db' = d" and r: "r = Inr (CLAIMED c) \<Longrightarrow> db' = d \<and> q = r"
    using assms(2) d by (auto simp: call_claim_def split: StoreFault.splits)
  show "db_ok db'" using db' assms(1) ps.ok_claim [OF assms(1), of ?t "operation_key rq" "rq_invocationId rq" ?f] d
    by auto
  show "claim_owner db k = Some i \<Longrightarrow> claim_owner db' k = Some i"
    using db' ps.claim_keeps [OF assms(1), of k i ?t "operation_key rq" "rq_invocationId rq" ?f] d by auto
  show "r = Inr (CLAIMED c) \<Longrightarrow> claim_owner db (operation_key rq) = None \<and>
       claim_owner db' (operation_key rq) = Some (rq_invocationId rq)"
    using r ps.claimed_free [OF assms(1), of ?t "operation_key rq" "rq_invocationId rq" ?f db' c] d by simp
qed

text \<open>A consequential attempt that passes its claim phase holds the key of its operation.\<close>

lemma claim_phase_facts:
  assumes "db_ok (w_claims w)" "claim_phase (a_deps a) (a_clock a) (a_request a) p w = (w', r)"
  shows "grows w w'" "w_executed w' = w_executed w"
    "r = Inr key \<Longrightarrow> key = (if isConsequentialExecutionAction (rq_requestedAction (a_request a)) \<and>
         d_idempotencyStore (a_deps a) then Some (operation_key (a_request a)) else None)"
    "r = Inr (Some k) \<Longrightarrow> claim_owner (w_claims w) k = None \<and>
       claim_owner (w_claims w') k = Some (rq_invocationId (a_request a))"
proof -
  let ?rq = "a_request a" and ?d = "a_deps a"
  have *: "grows w w' \<and> w_executed w' = w_executed w \<and>
    (\<forall>key. r = Inr key \<longrightarrow> key = (if isConsequentialExecutionAction (rq_requestedAction ?rq) \<and>
         d_idempotencyStore ?d then Some (operation_key ?rq) else None)) \<and>
    (\<forall>k. r = Inr (Some k) \<longrightarrow> claim_owner (w_claims w) k = None \<and>
       claim_owner (w_claims w') k = Some (rq_invocationId ?rq))"
  proof (cases "isConsequentialExecutionAction (rq_requestedAction ?rq) \<and> d_idempotencyStore ?d")
    case False
    with assms(2) show ?thesis by (auto simp: claim_phase_def)
  next
    case True
    obtain db q where c: "call_claim ?d (a_clock a) ?rq p (w_claims w) = (db, q)" by fastforce
    let ?w = "w\<lparr>w_claims := db\<rparr>"
    have g: "grows w ?w" using call_claim_facts(1,2) [OF assms(1) c] by (simp add: grows_def)
    show ?thesis
    proof (cases "\<exists>cl. q = Inr (CLAIMED cl)")
      case True
      then obtain cl where q: "q = Inr (CLAIMED cl)" by blast
      with assms(2) c \<open>isConsequentialExecutionAction _ \<and> _\<close>
      have "w' = ?w" "r = Inr (Some (operation_key ?rq))" by (simp_all add: claim_phase_def)
      with g call_claim_facts(3) [OF assms(1) c q] \<open>isConsequentialExecutionAction _ \<and> _\<close>
      show ?thesis by auto
    next
      case False
      obtain v e where f: "finalizeInvocation ?d ?rq (p_provider p) (p_profile p)
          (claim_failure ?d (a_clock a) ?rq p q) False None ?w = (v, e)" by fastforce
      have "claim_phase ?d (a_clock a) ?rq p w = (v, Inl e)"
        using True False c f
        by (auto simp: claim_phase_def split: sum.splits GovernedInvocationClaimResult.splits)
      with assms(2) have "w' = v" "r = Inl e" by simp_all
      with g finalize_facts [OF _ f] call_claim_facts(1) [OF assms(1) c] grows_trans show ?thesis by auto
    qed
  qed
  from * show "grows w w'" "w_executed w' = w_executed w"
    "r = Inr key \<Longrightarrow> key = (if isConsequentialExecutionAction (rq_requestedAction ?rq) \<and>
         d_idempotencyStore ?d then Some (operation_key ?rq) else None)"
    "r = Inr (Some k) \<Longrightarrow> claim_owner (w_claims w) k = None \<and>
       claim_owner (w_claims w') k = Some (rq_invocationId ?rq)" by blast+
qed

lemma finish_facts:
  assumes "db_ok (w_claims w)" "finish_phase deps clk rq p key run w = (w', exit)"
  shows "grows w w'" "w_executed w' = w_executed w"
  using assms finalize_facts [OF assms(1)]
  by (auto simp: finish_phase_def split: sum.splits)

section \<open>The invariant of the system\<close>

text \<open>A key is pending between the won claim and the execution it permits.\<close>

definition pending :: "AttemptState \<Rightarrow> string option" where
  "pending s = (case s of AtClaimed p key \<Rightarrow> key | _ \<Rightarrow> None)"

definition backed :: "Attempt \<Rightarrow> World \<Rightarrow> Prepared \<Rightarrow> string option \<Rightarrow> bool" where
  "backed a w p key = (authorised a p \<and> allow_event a p \<in> set (w_audit w) \<and>
     key = (if isConsequentialExecutionAction (rq_requestedAction (a_request a))
            then Some (operation_key (a_request a)) else None) \<and>
     (\<forall>k. key = Some k \<longrightarrow> claim_owner (w_claims w) k = Some (rq_invocationId (a_request a))))"

definition attempt_ok :: "Attempt \<Rightarrow> World \<Rightarrow> AttemptState \<Rightarrow> bool" where
  "attempt_ok a w s = (case s of
     AtPrepared p \<Rightarrow> authorised a p \<and> allow_event a p \<in> set (w_audit w)
   | AtClaimed p key \<Rightarrow> backed a w p key
   | AtExecuted p key run \<Rightarrow> backed a w p key
   | _ \<Rightarrow> True)"

definition execution_ok :: "Attempt list \<Rightarrow> World \<Rightarrow> ExecutionTrace \<Rightarrow> bool" where
  "execution_ok atts w x = (\<exists>a \<in> set atts. \<exists>p. x_request x = a_request a \<and> x_context x = p_context p \<and>
     backed a w p (x_key x))"

definition executed_keys :: "World \<Rightarrow> string list" where
  "executed_keys w = List.map_filter x_key (w_executed w)"

text \<open>No key is executed twice, pending twice, or pending after its execution.\<close>

definition exclusive :: "string list \<Rightarrow> string option list \<Rightarrow> bool" where
  "exclusive ks ps = (distinct ks \<and> (\<forall>i < length ps. \<forall>k. ps ! i = Some k \<longrightarrow> k \<notin> set ks \<and>
     (\<forall>j < length ps. ps ! j = Some k \<longrightarrow> j = i)))"

lemma exclusive_consume:
  assumes "exclusive ks ps" "i < length ps" "ps ! i = key"
  shows "exclusive (ks @ (case key of None \<Rightarrow> [] | Some k \<Rightarrow> [k])) (ps[i := None])"
proof -
  have *: "\<And>j k. j < length ps \<Longrightarrow> ps ! j = Some k \<Longrightarrow> k \<notin> set ks \<and> (\<forall>l < length ps. ps ! l = Some k \<longrightarrow> l = j)"
    and d: "distinct ks" using assms(1) by (simp_all add: exclusive_def)
  show ?thesis using assms(2,3) d *
    by (cases key) (auto simp: exclusive_def nth_list_update split: if_splits)
qed

lemma exclusive_win:
  assumes "exclusive ks ps" "i < length ps"
    and "\<And>k. key = Some k \<Longrightarrow> k \<notin> set ks \<and> Some k \<notin> set ps"
  shows "exclusive ks (ps[i := key])"
proof -
  have *: "\<And>j k. j < length ps \<Longrightarrow> ps ! j = Some k \<Longrightarrow> k \<notin> set ks \<and> (\<forall>l < length ps. ps ! l = Some k \<longrightarrow> l = j)"
    and d: "distinct ks" using assms(1) by (simp_all add: exclusive_def)
  have "\<And>j k. key = Some k \<Longrightarrow> j < length ps \<Longrightarrow> ps ! j \<noteq> Some k" using assms(3) nth_mem by metis
  then show ?thesis using d * assms(2,3)
    by (auto simp: exclusive_def nth_list_update split: if_splits)
qed

definition system_ok :: "Attempt list \<Rightarrow> invocation_system \<Rightarrow> bool" where
  "system_ok atts S = (case S of (w, ss) \<Rightarrow>
     db_ok (w_claims w) \<and> length ss = length atts \<and>
     (\<forall>i < length atts. attempt_ok (atts ! i) w (ss ! i)) \<and>
     (\<forall>x \<in> set (w_executed w). execution_ok atts w x) \<and>
     exclusive (executed_keys w) (map pending ss))"

lemma backed_mono: "grows w w' \<Longrightarrow> backed a w p key \<Longrightarrow> backed a w' p key"
  unfolding backed_def grows_def by (auto dest: set_mono_prefix)

lemma attempt_ok_mono: "grows w w' \<Longrightarrow> attempt_ok a w s \<Longrightarrow> attempt_ok a w' s"
  unfolding attempt_ok_def by (cases s) (auto dest: backed_mono grows_event)

lemma execution_ok_mono: "grows w w' \<Longrightarrow> execution_ok atts w x \<Longrightarrow> execution_ok atts w' x"
  unfolding execution_ok_def by (blast dest: backed_mono)

lemma authorised_store:
  "authorised a p \<Longrightarrow> isConsequentialExecutionAction (rq_requestedAction (a_request a)) \<Longrightarrow>
   d_idempotencyStore (a_deps a)"
  by (auto simp: authorised_def admit_def)

definition trace_of :: "Attempt \<Rightarrow> Prepared \<Rightarrow> string option \<Rightarrow> ExecutionTrace" where
  "trace_of a p key = \<lparr>x_key = key, x_request = a_request a, x_context = p_context p\<rparr>"

definition step_effect :: "Attempt \<Rightarrow> World \<Rightarrow> AttemptState \<Rightarrow> World \<Rightarrow> AttemptState \<Rightarrow> bool" where
  "step_effect a w s w' s' = (grows w w' \<and> attempt_ok a w' s' \<and>
     (case s of AtClaimed p key \<Rightarrow> w_executed w' = w_executed w @ [trace_of a p key] \<and> pending s' = None
      | _ \<Rightarrow> w_executed w' = w_executed w \<and>
          (\<forall>k. pending s' = Some k \<longrightarrow> claim_owner (w_claims w) k = None)))"

lemma advance_effect:
  assumes "db_ok (w_claims w)" "attempt_ok a w s" "advance a w s = (w', s')"
  shows "step_effect a w s w' s'"
proof (cases s)
  case AtStart
  obtain v r where v: "prepare (a_deps a) (a_clock a) (a_request a) w = (v, r)" by fastforce
  show ?thesis
  proof (cases r)
    case (Inl e)
    with assms(3) AtStart v have "w' = v" "s' = AtEnd e" by simp_all
    with prepare_facts(1,2) [OF v] AtStart show ?thesis
      by (simp add: step_effect_def attempt_ok_def pending_def)
  next
    case (Inr p)
    with assms(3) AtStart v have "w' = v" "s' = AtPrepared p" by simp_all
    with prepare_facts(1,2) [OF v] prepare_facts(4) [OF v Inr] AtStart show ?thesis
      by (simp add: step_effect_def attempt_ok_def pending_def)
  qed
next
  case (AtPrepared p)
  obtain v r where v: "claim_phase (a_deps a) (a_clock a) (a_request a) p w = (v, r)" by fastforce
  note f = claim_phase_facts [OF assms(1) v]
  show ?thesis
  proof (cases r)
    case (Inl e)
    with assms(3) AtPrepared v have "w' = v" "s' = AtEnd e" by simp_all
    with f(1,2) AtPrepared show ?thesis by (simp add: step_effect_def attempt_ok_def pending_def)
  next
    case (Inr key)
    with assms(3) AtPrepared v have e: "w' = v" "s' = AtClaimed p key" by simp_all
    have "authorised a p" "allow_event a p \<in> set (w_audit v)"
      using assms(2) AtPrepared grows_event [OF f(1)] by (simp_all add: attempt_ok_def)
    then have "backed a v p key"
      using f(3) [OF Inr] f(4) Inr authorised_store [of a p] by (auto simp: backed_def)
    moreover have "\<forall>k. key = Some k \<longrightarrow> claim_owner (w_claims w) k = None" using f(4) Inr by auto
    ultimately show ?thesis using f(1,2) e AtPrepared
      by (simp add: step_effect_def attempt_ok_def pending_def)
  qed
next
  case (AtClaimed p key)
  with assms have "w' = w\<lparr>w_executed := w_executed w @ [trace_of a p key]\<rparr>" "\<exists>run. s' = AtExecuted p key run"
    "backed a w p key" by (auto simp: execute_phase_def trace_of_def attempt_ok_def)
  moreover from this have "grows w w'" by (simp add: grows_def)
  ultimately show ?thesis using AtClaimed backed_mono
    by (fastforce simp: step_effect_def attempt_ok_def pending_def)
next
  case (AtExecuted p key run)
  obtain v e where v: "finish_phase (a_deps a) (a_clock a) (a_request a) p key run w = (v, e)" by fastforce
  with assms(3) AtExecuted have "w' = v" "s' = AtEnd e" by simp_all
  with finish_facts [OF assms(1) v] AtExecuted show ?thesis
    by (simp add: step_effect_def attempt_ok_def pending_def)
next
  case (AtEnd e)
  with assms show ?thesis by (auto simp: step_effect_def attempt_ok_def pending_def)
qed

lemma executed_key_owned:
  "system_ok atts (w, ss) \<Longrightarrow> k \<in> set (executed_keys w) \<Longrightarrow> claim_owner (w_claims w) k \<noteq> None"
  by (fastforce simp: system_ok_def executed_keys_def map_filter_def execution_ok_def backed_def)

lemma executed_keys_append:
  "w_executed w' = w_executed w @ [trace_of a p key] \<Longrightarrow>
   executed_keys w' = executed_keys w @ (case key of None \<Rightarrow> [] | Some k \<Rightarrow> [k])"
  by (auto simp: executed_keys_def map_filter_def trace_of_def split: option.splits)

lemma pending_owned:
  "system_ok atts (w, ss) \<Longrightarrow> j < length atts \<Longrightarrow> pending (ss ! j) = Some k \<Longrightarrow>
   claim_owner (w_claims w) k \<noteq> None"
  by (cases "ss ! j") (fastforce simp: system_ok_def attempt_ok_def backed_def pending_def)+

lemma system_step_ok:
  assumes ok: "system_ok atts (w, ss)"
  shows "system_ok atts (system_step atts i (w, ss)) \<and> grows w (fst (system_step atts i (w, ss)))"
proof (cases "i < length atts")
  case False
  with ok show ?thesis by (simp add: system_step_def)
next
  case True
  let ?a = "atts ! i" and ?s = "ss ! i"
  have len: "length ss = length atts" and db: "db_ok (w_claims w)" and att: "attempt_ok ?a w ?s"
    using ok True by (simp_all add: system_ok_def)
  obtain w' s' where adv: "advance ?a w ?s = (w', s')" by fastforce
  then have st: "system_step atts i (w, ss) = (w', ss[i := s'])" using True len by (simp add: system_step_def)
  note e = advance_effect [OF db att adv]
  then have g: "grows w w'" and att': "attempt_ok ?a w' s'" by (simp_all add: step_effect_def)
  have "attempt_ok (atts ! j) w' (ss[i := s'] ! j)" if "j < length atts" for j
    using that att' ok len attempt_ok_mono [OF g] by (cases "j = i") (simp_all add: system_ok_def)
  with g db have base: "db_ok (w_claims w')" "\<forall>j < length atts. attempt_ok (atts ! j) w' (ss[i := s'] ! j)"
    "\<forall>x \<in> set (w_executed w). execution_ok atts w' x"
    using ok execution_ok_mono [OF g] by (simp_all add: grows_def system_ok_def)
  have ex: "exclusive (executed_keys w) (map pending ss)" using ok by (simp add: system_ok_def)
  have "(\<forall>x \<in> set (w_executed w'). execution_ok atts w' x) \<and>
     exclusive (executed_keys w') (map pending (ss[i := s']))"
  proof (cases "\<exists>p key. ?s = AtClaimed p key")
    case True
    then obtain p key where s: "?s = AtClaimed p key" by blast
    with e have x: "w_executed w' = w_executed w @ [trace_of ?a p key]" "pending s' = None"
      by (simp_all add: step_effect_def)
    have "backed ?a w p key" using att s by (simp add: attempt_ok_def)
    then have "execution_ok atts w' (trace_of ?a p key)"
      using backed_mono [OF g] \<open>i < length atts\<close> by (fastforce simp: execution_ok_def trace_of_def)
    moreover have "map pending ss ! i = key" using s len \<open>i < length atts\<close> by (simp add: pending_def)
    ultimately show ?thesis using base(3) x len \<open>i < length atts\<close> exclusive_consume [OF ex, of i key]
      by (simp add: executed_keys_append [OF x(1)] map_update)
  next
    case False
    then have x: "w_executed w' = w_executed w" and
      free: "\<forall>k. pending s' = Some k \<longrightarrow> claim_owner (w_claims w) k = None"
      using e by (auto simp: step_effect_def split: AttemptState.splits)
    have keys: "executed_keys w' = executed_keys w" using x by (simp add: executed_keys_def)
    have "pending s' = Some k \<Longrightarrow> k \<notin> set (executed_keys w) \<and> Some k \<notin> set (map pending ss)" for k
      using free executed_key_owned [OF ok, of k] pending_owned [OF ok, where k = k] len
      by (force simp: in_set_conv_nth)
    with exclusive_win [OF ex, of i] len \<open>i < length atts\<close> show ?thesis unfolding keys using base(3) x by (simp add: map_update)
  qed
  with base g len show ?thesis unfolding st by (simp add: system_ok_def)
qed

lemma run_system_ok:
  "system_ok atts S \<Longrightarrow> system_ok atts (run_system atts sched S) \<and> grows (fst S) (fst (run_system atts sched S))"
proof (induction sched arbitrary: S)
  case (Cons i sched)
  obtain w ss where S: "S = (w, ss)" by fastforce
  note st = system_step_ok [OF Cons.prems [unfolded S], of i]
  from Cons.IH [OF conjunct1 [OF st]] st show ?case
    unfolding S run_system_def by (auto intro: grows_trans)
qed (simp add: run_system_def)

lemma initial_ok:
  "db_ok (w_claims w) \<Longrightarrow> w_executed w = [] \<Longrightarrow> system_ok atts (initial_system atts w)"
  by (simp add: system_ok_def initial_system_def attempt_ok_def pending_def executed_keys_def
      map_filter_def exclusive_def)

end
