(* ===== verification/Vito_InvocationSafety.thy ===== *)
theory Vito_InvocationSafety
  imports Vito_InvocationPipeline
begin

text \<open>
  The guarantees of the governed invocation pipeline, for every interleaving of
  any number of attempts: what stands behind an execution, that a consequential
  operation runs at most once even across restarts, that a release needs its
  human, and what a caller gets back.
\<close>

section \<open>Facts on authorised attempts\<close>

lemma dep_call_Inr [simp]: "dep_call r = Inr v \<longleftrightarrow> r = Inr v"
  by (cases r) (simp_all add: dep_call_def)

lemma resolve_validated:
  assumes "resolveAndValidateProvider deps rq = Inr provider"
  shows "d_providerResolver deps (rq_providerId rq) (rq_organizationId rq) = Inr (Some provider)"
    "validateProvider rq (Some provider) = Inr provider"
proof -
  obtain found where f: "d_providerResolver deps (rq_providerId rq) (rq_organizationId rq) = Inr found"
    "validateProvider rq found = Inr provider"
    using assms by (auto simp: resolveAndValidateProvider_def)
  then obtain q where "found = Some q" by (cases found) (simp_all add: validateProvider_def)
  moreover from this f(2) have "q = provider"
    by (auto simp: validateProvider_def split: option.splits if_splits)
  ultimately show "d_providerResolver deps (rq_providerId rq) (rq_organizationId rq) = Inr (Some provider)"
    "validateProvider rq (Some provider) = Inr provider" using f by simp_all
qed

lemma authorised_resolved:
  "authorised a p \<Longrightarrow> resolveAndValidateProvider (a_deps a) (a_request a) = Inr (p_provider p)"
  by (auto simp: authorised_def admit_def)

lemma authorised_provider:
  assumes "authorised a p"
  shows "d_providerResolver (a_deps a) (rq_providerId (a_request a)) (rq_organizationId (a_request a)) =
      Inr (Some (p_provider p))"
    "pd_organizationId (p_provider p) = rq_organizationId (a_request a)"
    "providerSupportsCapability (p_provider p) (rq_capabilityCode (a_request a))"
    "isProviderRoutable (p_provider p)"
    "pd_quotaStatus (p_provider p) \<in> {PQ_AVAILABLE, PQ_LIMITED}"
    "\<forall>l. rq_assuranceLevel (a_request a) = Some l \<longrightarrow> providerSupportsAssuranceLevel (p_provider p) l"
    "\<forall>m. b_maxCostMinorUnits (rq_budget (a_request a)) = Some m \<longrightarrow>
       (\<exists>c. pd_estimatedCostMinorUnits (p_provider p) = Some c \<and> c \<le> m)"
proof -
  note r = resolve_validated [OF authorised_resolved [OF assms]]
  show "d_providerResolver (a_deps a) (rq_providerId (a_request a)) (rq_organizationId (a_request a)) =
      Inr (Some (p_provider p))" by (rule r(1))
  show "pd_organizationId (p_provider p) = rq_organizationId (a_request a)"
    "providerSupportsCapability (p_provider p) (rq_capabilityCode (a_request a))"
    "isProviderRoutable (p_provider p)"
    "\<forall>l. rq_assuranceLevel (a_request a) = Some l \<longrightarrow> providerSupportsAssuranceLevel (p_provider p) l"
    using r(2) by (auto simp: validateProvider_def split: option.splits if_splits)
  show "pd_quotaStatus (p_provider p) \<in> {PQ_AVAILABLE, PQ_LIMITED}"
    using r(2) by (cases "pd_quotaStatus (p_provider p)")
      (auto simp: validateProvider_def split: option.splits if_splits)
  show "\<forall>m. b_maxCostMinorUnits (rq_budget (a_request a)) = Some m \<longrightarrow>
       (\<exists>c. pd_estimatedCostMinorUnits (p_provider p) = Some c \<and> c \<le> m)"
    using r(2) by (auto simp: validateProvider_def split: option.splits if_splits)
qed

lemma build_context_facts:
  assumes "build_context deps clk rq provider profile decision = Inr c"
  shows "ec_executionProfile c = profile" "ec_policyDecision c = decision"
    "ec_providerId c = pd_id provider" "ec_invocationId c = rq_invocationId rq"
    "fst ` set (ec_environment c) \<subseteq> set SANDBOX_GOVERNED_EXECUTION_METADATA_ENV"
    "ec_workingDirectory c \<noteq> []"
  using assms
  by (auto simp: build_context_def buildExecutionContext_def
      buildGovernedExecutionEnvironment_def Let_def truthy_iff split: option.splits if_splits)

lemma decide_allowed:
  assumes "decide deps clk rq provider profile = Inr d" "allowed d"
  obtains ctx where "createPolicyEvaluationContext deps clk rq provider profile = Inr ctx"
    "d = evaluatePolicy (d_env deps) (d_regexp deps) (t_policy clk) ctx"
  using assms by (auto simp: decide_def)

lemma policy_context_facts:
  assumes "createPolicyEvaluationContext deps clk rq provider profile = Inr ctx"
  shows "executionProfile ctx = profile" "requestedAction ctx = rq_requestedAction rq"
    "releaseGateStatus ctx = Some APPROVED \<Longrightarrow> effectiveReleaseGateStatus deps clk rq = Inr APPROVED"
  using assms by (auto simp: createPolicyEvaluationContext_def)

lemma evaluatePolicy_release:
  assumes "allowed (evaluatePolicy env regexp now ctx)" "requestedAction ctx \<in> {GIT_COMMIT, GIT_PUSH}"
  shows "executionProfile ctx = RELEASE_AUTHORITY" "releaseGateStatus ctx = Some APPROVED"
  using assms by (auto simp: evaluatePolicy_def Let_def split: option.splits if_splits)

lemma gate_approved:
  assumes "effectiveReleaseGateStatus deps clk rq = Inr APPROVED"
  obtains ref f b where "rq_humanApprovalReference rq = Some ref" "d_humanGateResolver deps = Some f"
    "f ref (resolution_context rq) (rq_inputReference rq) (rq_requestedAction rq) = Inr (Some b)"
    "validateHumanGateBinding (t_gate clk) (Some b) (gate_context rq) = APPROVED"
proof -
  from assms obtain ref where ref: "rq_humanApprovalReference rq = Some ref" "ref \<noteq> []"
    by (auto simp: effectiveReleaseGateStatus_def truthy_iff split: if_splits)
  from assms ref obtain f where f: "d_humanGateResolver deps = Some f"
    by (auto simp: effectiveReleaseGateStatus_def split: option.splits)
  from assms ref f obtain binding where
    "f ref (resolution_context rq) (rq_inputReference rq) (rq_requestedAction rq) = Inr binding"
    "validateHumanGateBinding (t_gate clk) binding (gate_context rq) = APPROVED"
    by (auto simp: effectiveReleaseGateStatus_def dep_call_def split: sum.splits)
  with ref f that show ?thesis
    by (cases binding) (auto simp: validateHumanGateBinding_def)
qed

lemma binding_scope:
  assumes "validateHumanGateBinding now (Some b) (gate_context rq) = APPROVED"
    and "rq_requestedAction rq \<in> {GIT_COMMIT, GIT_PUSH}"
  shows "hg_organizationId b = rq_organizationId rq" "hg_workflowRunId b = rq_workflowRunId rq"
    "hg_workflowStepRunId b = rq_workflowStepRunId rq" "hg_capabilityCode b = rq_capabilityCode rq"
    "hg_requestedAction b = Some (rq_requestedAction rq)" "hg_artifactReference b = None"
    "hg_expiresAt b = Some e \<Longrightarrow> now \<le> e"
proof -
  have scope: "action_scope_ok (hg_requestedAction b) (Some (rq_requestedAction rq)) \<Longrightarrow>
      hg_requestedAction b = Some (rq_requestedAction rq)"
    using assms(2) by (cases "hg_requestedAction b")
      (auto simp: action_scope_ok_def truthy_action_def RELEASE_CONSEQUENTIAL_ACTIONS_def split: if_splits)
  from assms(1) show "hg_organizationId b = rq_organizationId rq"
    "hg_workflowRunId b = rq_workflowRunId rq" "hg_workflowStepRunId b = rq_workflowStepRunId rq"
    "hg_capabilityCode b = rq_capabilityCode rq" "hg_artifactReference b = None"
    "hg_expiresAt b = Some e \<Longrightarrow> now \<le> e" "hg_requestedAction b = Some (rq_requestedAction rq)"
    by (auto simp: validateHumanGateBinding_def gate_context_def dest: scope split: if_splits)
qed

lemma executed_backed:
  assumes "db_ok (w_claims w)" "w_executed w = []"
    and "x \<in> set (w_executed (fst (run_system atts sched (initial_system atts w))))"
  obtains a p where "a \<in> set atts" "x_request x = a_request a" "x_context x = p_context p"
    "backed a (fst (run_system atts sched (initial_system atts w))) p (x_key x)"
proof -
  obtain v ss where r: "run_system atts sched (initial_system atts w) = (v, ss)" by fastforce
  with run_system_ok [OF initial_ok [OF assms(1,2)], of atts sched]
  have "system_ok atts (v, ss)" by simp
  with assms(3) r that show ?thesis by (auto simp: system_ok_def execution_ok_def)
qed

section \<open>Restarts\<close>

text \<open>A key that is owned and neither pending nor executed stays so.\<close>

lemma owned_step:
  assumes ok: "system_ok atts (w, ss)" and own: "claim_owner (w_claims w) k = Some i"
    and "k \<notin> set (executed_keys w)" "Some k \<notin> set (map pending ss)"
    and st: "system_step atts n (w, ss) = (w', ss')"
  shows "claim_owner (w_claims w') k = Some i \<and> k \<notin> set (executed_keys w') \<and> Some k \<notin> set (map pending ss')"
proof (cases "n < length atts \<and> n < length ss")
  case False
  with assms show ?thesis by (auto simp: system_step_def)
next
  case True
  obtain v s' where v: "advance (atts ! n) w (ss ! n) = (v, s')" by fastforce
  with st True have adv: "advance (atts ! n) w (ss ! n) = (w', s')" and ss': "ss' = ss[n := s']"
    by (simp_all add: system_step_def)
  have att: "attempt_ok (atts ! n) w (ss ! n)" "db_ok (w_claims w)"
    using ok True by (simp_all add: system_ok_def)
  note e = advance_effect [OF att(2,1) adv]
  have np: "pending (ss ! n) \<noteq> Some k" 
    using assms(4) True by (metis length_map nth_map nth_mem)
  have "claim_owner (w_claims w') k = Some i" using e own by (simp add: step_effect_def grows_def)
  moreover have "pending s' \<noteq> Some k \<and> k \<notin> set (executed_keys w')"
  proof (cases "\<exists>p key. ss ! n = AtClaimed p key")
    case True
    then obtain p key where s: "ss ! n = AtClaimed p key" by blast
    with e have x: "w_executed w' = w_executed w @ [trace_of (atts ! n) p key]" "pending s' = None"
      by (simp_all add: step_effect_def)
    with assms(3) np s show ?thesis
      by (auto simp: executed_keys_append [OF x(1)] pending_def split: option.splits)
  next
    case False
    with e own have "w_executed w' = w_executed w" "pending s' \<noteq> Some k"
      by (auto simp: step_effect_def split: AttemptState.splits)
    with assms(3) show ?thesis by (simp add: executed_keys_def)
  qed
  moreover have "Some k \<in> set (map pending ss') \<Longrightarrow> Some k \<in> set (map pending ss) \<or> pending s' = Some k"
    unfolding ss' using set_update_subset_insert [of ss n s'] by fastforce
  ultimately show ?thesis using assms(4) by blast
qed

lemma owned_never_executed:
  "system_ok atts (w, ss) \<Longrightarrow> claim_owner (w_claims w) k = Some i \<Longrightarrow> k \<notin> set (executed_keys w) \<Longrightarrow>
   Some k \<notin> set (map pending ss) \<Longrightarrow> k \<notin> set (executed_keys (fst (run_system atts sched (w, ss))))"
proof (induction sched arbitrary: w ss)
  case (Cons n sched)
  obtain w' ss' where st: "system_step atts n (w, ss) = (w', ss')" by fastforce
  note o = owned_step [OF Cons.prems st]
  have "system_ok atts (w', ss')" using system_step_ok [OF Cons.prems(1), of n] st by simp
  with Cons.IH [of w' ss'] o show ?case by (simp add: run_system_def st)
qed (simp add: run_system_def)

section \<open>Facts on results\<close>

definition answers :: "Clock \<Rightarrow> InvocationRequest \<Rightarrow> InvocationResult \<Rightarrow> bool" where
  "answers clk rq r = (ir_invocationId r = rq_invocationId rq \<and> ir_organizationId r = rq_organizationId rq \<and>
     ir_workflowRunId r = rq_workflowRunId rq \<and> ir_workflowStepRunId r = rq_workflowStepRunId rq \<and>
     ir_correlationId r = rq_correlationId rq \<and> ir_capabilityCode r = rq_capabilityCode rq \<and>
     ir_startedAt r = t_started clk \<and> ir_durationMs r = t_completed clk - t_started clk)"

lemmas result_defs = answers_def base_result_def createPolicyBlockedResult_def
  createIdempotencyBlockedResult_def createInvocationErrorResult_def createRuntimeFailureResult_def
  createIllegalLifecycleFailureResult_def normalizeAdapterRuntimeFailure_def Let_def

lemma blocked_answers:
  "answers clk rq (createPolicyBlockedResult clk rq provider d) \<and>
   ir_status (createPolicyBlockedResult clk rq provider d) = AES_POLICY_BLOCKED \<and>
   ir_normalizedError (createPolicyBlockedResult clk rq provider d) \<noteq> None"
  by (simp add: result_defs)

lemma error_answers:
  "answers clk rq (createInvocationErrorResult deps clk rq pr EXECUTION_PROFILE_NOT_GOVERNED m) \<and>
   ir_status (createInvocationErrorResult deps clk rq pr EXECUTION_PROFILE_NOT_GOVERNED m) = AES_POLICY_BLOCKED \<and>
   ir_normalizedError (createInvocationErrorResult deps clk rq pr EXECUTION_PROFILE_NOT_GOVERNED m) \<noteq> None"
  by (simp add: result_defs)

lemma claim_failure_answers:
  "answers clk rq (claim_failure deps clk rq p q) \<and>
   ir_status (claim_failure deps clk rq p q) \<in> {AES_POLICY_BLOCKED, AES_FAILED} \<and>
   ir_normalizedError (claim_failure deps clk rq p q) \<noteq> None"
  unfolding claim_failure_def
  by (auto simp: result_defs split: sum.split GovernedInvocationClaimResult.split)

lemma normalize_answers:
  assumes "normalizeAdapterResult clk rq provider d res credential = Inr r"
  shows "answers clk rq r \<and> ir_status r = ar_status res"
  using assms by (auto simp: normalizeAdapterResult_def answers_def base_result_def Let_def)

lemma run_result_answers:
  assumes "run_result clk rq p run = Inr r"
  shows "answers clk rq r \<and>
    ir_status r \<in> {AES_SUCCEEDED, AES_FAILED, AES_TIMED_OUT, AES_CANCELLED, AES_QUOTA_BLOCKED}"
proof (cases run)
  case (AdapterReturned res)
  show ?thesis
  proof (cases "isValidInvocationTransition AES_RUNNING (ar_status res)")
    case True
    with assms AdapterReturned have "normalizeAdapterResult clk rq (p_provider p) (p_decision p) res
        (ec_credentialReference (p_context p)) = Inr r" by (simp add: run_result_def Let_def)
    with True normalize_answers [OF this] show ?thesis by (auto simp: isValidInvocationTransition_def)
  next
    case False
    with assms AdapterReturned show ?thesis by (auto simp: run_result_def result_defs)
  qed
qed (use assms in \<open>auto simp: run_result_def result_defs\<close>)

lemma finalize_returned:
  assumes "finalizeInvocation deps rq provider profile result m key w = (w', Returned r)"
  shows "r = result" "w_executed w' = w_executed w"
    "w_audit w' = w_audit w @ [auditInvocationComplete rq provider profile r]"
    "w_claims w' = w_claims (mark_claim deps rq (ir_status r) m key w)"
  using assms by (auto simp: finalizeInvocation_def record_audit_def mark_claim_def split: if_splits)

lemma prepare_returned:
  assumes "prepare deps clk rq w = (w', Inl (Returned r))"
  shows "answers clk rq r \<and> ir_status r = AES_POLICY_BLOCKED \<and> ir_normalizedError r \<noteq> None"
proof (cases "admit deps rq")
  case (Inr pa)
  then obtain provider ad where pa: "admit deps rq = Inr (provider, ad)" by (cases pa) simp
  consider (error) "r = createInvocationErrorResult deps clk rq (Some provider) EXECUTION_PROFILE_NOT_GOVERNED None"
    | (auth) profile where "authorise deps clk rq provider ad profile w = (w', Inl (Returned r))"
    using assms pa by (auto simp: prepare_def split: option.splits if_splits)
  then show ?thesis
  proof cases
    case auth
    then obtain d where "r = createPolicyBlockedResult clk rq provider d"
      by (auto simp: authorise_def split: sum.splits prod.splits if_splits)
    with blocked_answers show ?thesis by simp
  qed (use error_answers in simp)
qed (use assms in \<open>simp add: prepare_def\<close>)

lemma finalize_executed:
  "w_executed (fst (finalizeInvocation deps rq provider profile result m key w)) = w_executed w"
  by (simp add: finalizeInvocation_def record_audit_def mark_claim_def)

lemma claim_phase_executed:
  assumes "claim_phase deps clk rq p w = (w', e)"
  shows "w_executed w' = w_executed w"
proof -
  obtain db q where c: "call_claim deps clk rq p (w_claims w) = (db, q)" by fastforce
  obtain v x where f: "finalizeInvocation deps rq (p_provider p) (p_profile p) (claim_failure deps clk rq p q)
      False None (w\<lparr>w_claims := db\<rparr>) = (v, x)" by fastforce
  have "w_executed v = w_executed w"
    using finalize_executed [of deps rq "p_provider p" "p_profile p" "claim_failure deps clk rq p q" False None
        "w\<lparr>w_claims := db\<rparr>"] f by simp
  with assms c f show ?thesis
    by (auto simp: claim_phase_def split: if_splits sum.splits GovernedInvocationClaimResult.splits)
qed

lemma claim_phase_exit:
  assumes "claim_phase deps clk rq p w = (w', Inl (Returned r))"
  shows "answers clk rq r \<and> ir_status r \<in> {AES_POLICY_BLOCKED, AES_FAILED} \<and> ir_normalizedError r \<noteq> None"
proof -
  obtain db q where c: "call_claim deps clk rq p (w_claims w) = (db, q)" by fastforce
  have "finalizeInvocation deps rq (p_provider p) (p_profile p) (claim_failure deps clk rq p q) False None
      (w\<lparr>w_claims := db\<rparr>) = (w', Returned r)"
    using assms c by (auto simp: claim_phase_def
        split: if_splits prod.splits sum.splits GovernedInvocationClaimResult.splits)
  from finalize_returned(1) [OF this] claim_failure_answers show ?thesis by simp
qed

text \<open>The four ways an invocation ends.\<close>

lemma invoke_cases:
  assumes "invoke deps clk rq w = (w', exit)"
  obtains (refused) "prepare deps clk rq w = (w', Inl exit)"
  | (not_won) w1 p where "prepare deps clk rq w = (w1, Inr p)" "claim_phase deps clk rq p w1 = (w', Inl exit)"
  | (ran) w1 p w2 key run w3 where "prepare deps clk rq w = (w1, Inr p)"
      "claim_phase deps clk rq p w1 = (w2, Inr key)" "execute_phase rq p key w2 = (w3, run)"
      "finish_phase deps clk rq p key run w3 = (w', exit)"
proof -
  obtain w1 q where q: "prepare deps clk rq w = (w1, q)" by fastforce
  show ?thesis
  proof (cases q)
    case (Inl e)
    with q assms refused show ?thesis by (simp add: invoke_def)
  next
    case (Inr p)
    obtain w2 c where c: "claim_phase deps clk rq p w1 = (w2, c)" by fastforce
    show ?thesis
    proof (cases c)
      case (Inl e)
      with q c assms \<open>q = Inr p\<close> not_won show ?thesis by (simp add: invoke_def)
    next
      case (Inr key)
      obtain w3 run where "execute_phase rq p key w2 = (w3, run)" by fastforce
      with q c assms \<open>q = Inr p\<close> Inr ran show ?thesis by (simp add: invoke_def)
    qed
  qed
qed

section \<open>The claim of an executed invocation\<close>

lemma call_claim_won:
  assumes "call_claim deps clk rq p db = (db', Inr (CLAIMED c))"
  shows "find_key db' (operation_key rq) =
    Some (new_claim (t_claimed clk) (operation_key rq) (rq_invocationId rq) (context_fingerprint rq p))"
proof -
  let ?n = "new_claim (t_claimed clk) (operation_key rq) (rq_invocationId rq) (context_fingerprint rq p)"
  have s: "store_claim (t_claimed clk) (operation_key rq) (rq_invocationId rq) (context_fingerprint rq p) db =
      (db', Inr (CLAIMED c))"
    using assms by (auto simp: call_claim_def split: prod.splits StoreFault.splits)
  have nv: "\<not> unique_violation db (operation_key rq) (rq_invocationId rq)"
  proof
    assume u: "unique_violation db (operation_key rq) (rq_invocationId rq)"
    then show False using s disambiguate_total [OF u] disambiguate_not_claimed
      by (auto simp: store_claim_def)
  qed
  with s have "db' = db @ [?n]" by (auto simp: store_claim_def)
  moreover have "find_key db (operation_key rq) = None"
    using nv by (auto simp: find_key_None_iff unique_violation_def)
  ultimately show ?thesis by (simp add: find_key_append new_claim_def)
qed

lemma markCompleted_find:
  assumes "find_key db key = Some row" "claimInvocationId row = iv" "claimState row = IN_PROGRESS"
  shows "find_key (fst (markCompleted key iv st db)) key = Some (row\<lparr>claimState := st\<rparr>)"
proof -
  have "logicalOperationKey row = key" using find_key_Some [OF assms(1)] by simp
  with assms show ?thesis unfolding markCompleted_def Let_def find_key_def fst_conv
    by (induction db) (auto simp: owns_in_progress_def split: if_splits)
qed

section \<open>What a result may contain\<close>

text \<open>A credential that neither the redaction marker, nor the field name
  \<open>destination\<close>, nor an array index can spell.\<close>

definition opaque :: "string \<Rightarrow> bool" where
  "opaque n = (redactable n \<and> 2 \<le> length n \<and> \<not> sublist n ''destination'' \<and> (\<exists>c \<in> set n. \<not> is_digit c))"

definition summary_free :: "string \<Rightarrow> SideEffectSummary \<Rightarrow> bool" where
  "summary_free n s = ((\<forall>t \<in> set (se_filesCreated s @ se_filesModified s @ se_filesDeleted s @
       se_commandsExecuted s @ se_artifactsCreated s). \<not> sublist n t) \<and>
     (\<forall>v \<in> set (se_networkCalls s). json_free n v))"

definition error_free :: "string \<Rightarrow> InvocationError \<Rightarrow> bool" where
  "error_free n e = (\<not> sublist n (ie_message e) \<and>
     (\<forall>m. ie_providerMetadata e = Some m \<longrightarrow> json_free n m))"

definition result_free :: "string \<Rightarrow> InvocationResult \<Rightarrow> bool" where
  "result_free n r =
     ((\<forall>t. ir_outputReference r = Some t \<longrightarrow> \<not> sublist n t) \<and>
      (\<forall>ts. ir_artifactReferences r = Some ts \<longrightarrow> (\<forall>t \<in> set ts. \<not> sublist n t)) \<and>
      (\<forall>ts. ir_evidenceReferences r = Some ts \<longrightarrow> (\<forall>t \<in> set ts. \<not> sublist n t)) \<and>
      json_free n (ir_providerExecutionMetadata r) \<and>
      (\<forall>e. ir_normalizedError r = Some e \<longrightarrow> error_free n e) \<and>
      (\<forall>s. ir_sideEffectSummary r = Some s \<longrightarrow> summary_free n s) \<and>
      (\<forall>u. ir_usageMetadata r = Some u \<longrightarrow> json_free n u))"

lemma opaque_redactable: "opaque n \<Longrightarrow> redactable n"
  by (simp add: opaque_def)

lemma governed_reference_absent:
  "sanitizeGovernedReference v secrets = Some t \<Longrightarrow> n \<in> set secrets \<Longrightarrow> redactable n \<Longrightarrow> \<not> sublist n t"
  by (auto simp: sanitizeGovernedReference_def Let_def containsSecretMaterial_def js_includes_iff
      redactable_def split: if_splits)

lemma reference_list_absent:
  "t \<in> set (sanitizeGovernedReferenceList v secrets) \<Longrightarrow> n \<in> set secrets \<Longrightarrow> redactable n \<Longrightarrow> \<not> sublist n t"
  by (auto simp: sanitizeGovernedReferenceList_def map_filter_def split: option.splits
      dest: governed_reference_absent)

lemma text_list_absent:
  "text_list v secrets = Inr ts \<Longrightarrow> t \<in> set ts \<Longrightarrow> n \<in> set secrets \<Longrightarrow> redactable n \<Longrightarrow> \<not> sublist n t"
  by (auto simp: text_list_def sanitizeSideEffectTextList_def redactSecretMaterial_absent split: option.splits)

lemma json_prop_free: "json_free n v \<Longrightarrow> json_prop (Some v) k = Some x \<Longrightarrow> json_free n x"
  by (cases v) (auto simp: json_prop_def dest: map_of_SomeD)

lemma index_entries_free:
  "opaque n \<Longrightarrow> \<forall>v \<in> set vs. json_free n v \<Longrightarrow> (k, x) \<in> set (index_entries i vs) \<Longrightarrow>
   \<not> sublist n k \<and> json_free n x"
proof (induction i vs rule: index_entries.induct)
  case (2 i v vs)
  have "\<not> sublist n (dec i)"
    using 2(2) dec_digits by (auto simp: opaque_def dest: set_mono_sublist)
  with 2 show ?case by auto
qed simp

lemma spread_free:
  assumes "opaque n" "json_free n v" "(k, x) \<in> set (spread v)"
  shows "\<not> sublist n k \<and> json_free n x"
proof (cases v)
  case (JStr s)
  have "json_free n (JStr [c])" for c
    using assms(1) by (auto simp: opaque_def dest: sublist_length_le)
  with JStr assms index_entries_free [OF assms(1), of "map (\<lambda>c. JStr [c]) s" k x 0] show ?thesis
    by (auto simp: spread_def)
qed (use assms index_entries_free [OF assms(1), of _ k x 0] in \<open>auto simp: spread_def\<close>)

lemma set_set_entry: "set (set_entry k v es) \<subseteq> insert (k, v) (set es)"
  by (auto simp: set_entry_def split: if_splits)

lemma network_call_free:
  assumes "opaque n" "n \<in> set secrets" "json_free n call" "network_call secrets call = Inr v"
  shows "json_free n v"
proof -
  obtain dest where v: "v = JObj (set_entry ''destination'' (JStr (redactSecretMaterial dest secrets)) (spread call))"
    using assms(4) by (auto simp: network_call_def Let_def split: if_splits)
  have "\<not> sublist n k \<and> json_free n x"
    if "(k, x) \<in> set (set_entry ''destination'' (JStr (redactSecretMaterial dest secrets)) (spread call))" for k x
  proof -
    have "(k, x) = (''destination'', JStr (redactSecretMaterial dest secrets)) \<or> (k, x) \<in> set (spread call)"
      using that set_set_entry by blast
    then show ?thesis
    proof
      assume "(k, x) = (''destination'', JStr (redactSecretMaterial dest secrets))"
      moreover have "\<not> sublist n (redactSecretMaterial dest secrets)"
        using assms(1,2) by (intro redactSecretMaterial_absent opaque_redactable)
      ultimately show ?thesis using assms(1) unfolding opaque_def by simp
    qed (rule spread_free [OF assms(1,3)])
  qed
  then show ?thesis unfolding v json_free.simps by blast
qed

lemma network_calls_free:
  "opaque n \<Longrightarrow> n \<in> set secrets \<Longrightarrow> \<forall>c \<in> set cs. json_free n c \<Longrightarrow> network_calls secrets cs = Inr vs \<Longrightarrow>
   \<forall>v \<in> set vs. json_free n v"
  by (induction secrets cs arbitrary: vs rule: network_calls.induct) (auto dest: network_call_free)

lemma summary_is_free:
  assumes "opaque n" "n \<in> set secrets" "\<And>v. se = Some v \<Longrightarrow> json_free n v"
    and "sideEffectSummary se artifacts secrets = Inr s"
  shows "summary_free n s"
proof -
  note r = opaque_redactable [OF assms(1)]
  from assms(4) obtain created modified deleted commands calls network where
    s: "text_list (json_prop se ''filesCreated'') secrets = Inr created"
      "text_list (json_prop se ''filesModified'') secrets = Inr modified"
      "text_list (json_prop se ''filesDeleted'') secrets = Inr deleted"
      "text_list (json_prop se ''commandsExecuted'') secrets = Inr commands"
      "unchecked_list (json_prop se ''networkCalls'') = Inr calls"
      "network_calls secrets (case calls of None \<Rightarrow> [] | Some cs \<Rightarrow> cs) = Inr network"
    and eq: "s = \<lparr>se_filesCreated = created, se_filesModified = modified, se_filesDeleted = deleted,
            se_commandsExecuted = commands, se_networkCalls = network,
            se_artifactsCreated = sanitizeGovernedReferenceList artifacts secrets\<rparr>"
    unfolding sideEffectSummary_def by auto
  have "json_free n c" if "calls = Some cs" "c \<in> set cs" for cs c
  proof -
    from s(5) that(1) have "json_prop se ''networkCalls'' = Some (JArr cs)"
      by (auto simp: unchecked_list_def split: if_splits option.splits json.splits)
    then have "json_free n (JArr cs)" 
      using json_prop_free [OF assms(3), of _ "''networkCalls''" "JArr cs"]
      by (cases se) (simp_all add: json_prop_def)
    with that show ?thesis by simp
  qed
  then have "\<forall>v \<in> set network. json_free n v"
    using network_calls_free [OF assms(1,2) _ s(6)] by (auto split: option.splits)
  then show ?thesis unfolding eq summary_free_def
    using s(1-4) text_list_absent [OF _ _ assms(2) r] reference_list_absent [OF _ assms(2) r] by auto
qed

lemma drop_key_free: "json_free n v \<Longrightarrow> json_free n (drop_key k v)"
  by (cases v) (auto simp: drop_key_def)

lemma runtime_failure_free:
  assumes "opaque n" "credential = Some n"
  shows "result_free n (createRuntimeFailureResult clk rq provider d st message metadata credential)"
proof -
  have t: "trusted_secrets credential = [n]"
    using assms by (auto simp: trusted_secrets_def opaque_def truthy_iff)
  note r = opaque_redactable [OF assms(1)]
  have "\<not> sublist n (redactSecretMaterial message [n])" by (rule redactSecretMaterial_absent [OF r]) simp
  moreover have "json_free n (redactTrustedSecretsDeep [n] v)" for v by (rule redact_deep_free [OF r]) simp
  ultimately show ?thesis
    by (auto simp: createRuntimeFailureResult_def t Let_def result_free_def base_result_def error_free_def
        summary_free_def)
qed

lemma normalize_free:
  assumes "opaque n" "credential = Some n" "normalizeAdapterResult clk rq provider d res credential = Inr r"
  shows "result_free n r"
proof -
  have t: "trusted_secrets credential = [n]"
    using assms(1,2) by (auto simp: trusted_secrets_def opaque_def truthy_iff)
  note q = opaque_redactable [OF assms(1)]
  have n: "n \<in> set [n]" by simp
  have deep: "json_free n (redactTrustedSecretsDeep [n] v)" for v by (rule redact_deep_free [OF q n])
  let ?m = "redactTrustedSecretsDeep [n] (sanitizeProviderExecutionMetadata (ar_providerExecutionMetadata res))"
  obtain s where s: "sideEffectSummary (json_prop (Some ?m) ''sideEffects'') (ar_artifactReferences res) [n] = Inr s"
    and req: "r = (base_result clk rq (pd_id provider) (ar_status res) (decision_reference d))
          \<lparr>ir_outputReference := sanitizeGovernedReference (ar_outputReference res) [n],
           ir_artifactReferences := Some (sanitizeGovernedReferenceList (ar_artifactReferences res) [n]),
           ir_evidenceReferences := Some (sanitizeGovernedReferenceList (ar_evidenceReferences res) [n]),
           ir_providerExecutionMetadata := drop_key ''sideEffects'' ?m,
           ir_normalizedError := map_option (\<lambda>e. \<lparr>ie_reason = EXECUTION_FAILED,
              ie_message = redactSecretMaterial (ad_message e) [n],
              ie_executionOutcome = None, ie_agentExecutionStatus = Some (ar_status res),
              ie_retryable = ad_retryable e,
              ie_providerMetadata = map_option (redactTrustedSecretsDeep [n])
                (sanitizeErrorProviderMetadata (ad_providerMetadata e))\<rparr>) (ar_error res),
           ir_sideEffectSummary := Some s,
           ir_usageMetadata := (if json_truthy (ar_usageMetadata res)
            then map_option (\<lambda>u. redactTrustedSecretsDeep [n] (sanitizeProviderExecutionMetadata u))
                   (ar_usageMetadata res) else None)\<rparr>"
    using assms(3) unfolding normalizeAdapterResult_def t Let_def bindE_Inr_iff by blast
  have "error_free n e" if "ir_normalizedError r = Some e" for e
    using that deep redactSecretMaterial_absent [OF q n] by (auto simp: req error_free_def)
  moreover have "json_free n u" if "ir_usageMetadata r = Some u" for u
    using that deep by (auto simp: req split: if_splits)
  moreover have "summary_free n s"
    by (rule summary_is_free [OF assms(1) n _ s]) (rule json_prop_free [OF deep])
  ultimately show ?thesis unfolding result_free_def
    using governed_reference_absent [OF _ n q] reference_list_absent [OF _ n q] drop_key_free [OF deep]
    by (simp add: req)
qed

lemma run_result_free:
  assumes "opaque n" "ec_credentialReference (p_context p) = Some n" "run_result clk rq p run = Inr r"
  shows "result_free n r"
  using assms(3) runtime_failure_free [OF assms(1,2)] normalize_free [OF assms(1,2)]
  by (cases run) (auto simp: run_result_def normalizeAdapterRuntimeFailure_def
      createIllegalLifecycleFailureResult_def Let_def split: if_splits)

section \<open>A concrete deployment\<close>

text \<open>One provider that requires a credential, one human approval for the push of
  step \<open>s\<close>, and an adapter with a given answer.\<close>

definition sample_provider :: ProviderDeclaration where
  "sample_provider = \<lparr>pd_id = ''p'', pd_organizationId = ''o'', pd_providerCode = ''tool'',
     pd_providerType = LOCAL_TOOL, pd_status = PS_ACTIVE, pd_modelFamily = None,
     pd_capabilityAssignments = [\<lparr>pa_capabilityCode = ''c'', pa_isEnabled = True\<rparr>],
     pd_estimatedCostMinorUnits = None, pd_healthStatus = PH_HEALTHY, pd_healthCheckedAt = None,
     pd_quotaStatus = PQ_AVAILABLE, pd_quotaCheckedAt = None, pd_qualityScore = None, pd_latencyScore = None,
     pd_costScore = None, pd_assuranceLevels = [], pd_metadata = [], pd_credentialRequirement = Some CR_REQUIRED\<rparr>"

definition sample_request :: "string \<Rightarrow> InvocationRequest" where
  "sample_request iv = \<lparr>rq_invocationId = iv, rq_organizationId = ''o'', rq_workflowRunId = ''r'',
     rq_workflowStepRunId = ''s'', rq_correlationId = ''x'', rq_capabilityCode = ''c'',
     rq_providerId = ''p'', rq_executionProfile = BUILDER, rq_assuranceLevel = None,
     rq_inputReference = None, rq_governedInputPayload = None,
     rq_executionBudget = Some \<lparr>b_maxDurationMs = None, b_maxTokens = None, b_maxCostMinorUnits = None\<rparr>,
     rq_requestedAction = GIT_PUSH, rq_requestedPath = None, rq_requestedCommand = None,
     rq_humanApprovalReference = Some ''h'', rq_requestedAt = Some 0\<rparr>"

definition sample_answer :: "json \<Rightarrow> AdapterRun" where
  "sample_answer metadata = AdapterReturned \<lparr>ar_status = AES_SUCCEEDED, ar_outputReference = None,
     ar_artifactReferences = None, ar_evidenceReferences = None,
     ar_providerExecutionMetadata = metadata, ar_usageMetadata = None, ar_error = None\<rparr>"

definition sample_deps :: "AdapterRun \<Rightarrow> Dependencies" where
  "sample_deps answer = \<lparr>
     d_providerResolver = (\<lambda>_ _. Inr (Some sample_provider)),
     d_adapterRegistry = (\<lambda>_. Some (\<lambda>_ _ _. answer)),
     d_credentialBroker = Some \<lparr>getCredentialReference = (\<lambda>_ _. Inr (Some ''cred-42'')),
       validateCredentialReference = (\<lambda>_. Inr True)\<rparr>,
     d_auditAccepts = (\<lambda>_. True),
     d_executionProfileResolver = Some (\<lambda>_. Inr (Some RELEASE_AUTHORITY)),
     d_trustedExecutableResolver = None,
     d_workingDirectoryResolver = Some (\<lambda>_. Inr (Some ''/w'')),
     d_humanGateResolver = Some (\<lambda>_ _ _ _. Inr (Some (sample_binding (Some GIT_PUSH)))),
     d_homeDirectoryResolver = None,
     d_idempotencyStore = True, d_claimFault = NO_FAULT, d_completionFault = NO_FAULT,
     d_executionPolicyResolver = Some (\<lambda>_ _ _. Inr (Some ((createBuilderPolicy ''/w'')\<lparr>allowGitPush := True\<rparr>))),
     d_cloudRegistry = None, d_env = plain_disk, d_regexp = (\<lambda>_ _. False), d_messages = (\<lambda>_. ''m'')\<rparr>"

definition sample_clock :: Clock where
  "sample_clock = \<lparr>t_started = 0, t_gate = 1, t_policy = 2, t_context = 3, t_claimed = 4, t_completed = 5\<rparr>"

definition empty_world :: World where
  "empty_world = \<lparr>w_claims = [], w_audit = [], w_executed = []\<rparr>"

definition sample_attempt :: "json \<Rightarrow> string \<Rightarrow> Attempt" where
  "sample_attempt metadata iv = \<lparr>a_deps = sample_deps (sample_answer metadata), a_clock = sample_clock,
     a_request = sample_request iv\<rparr>"

definition sample_prepared :: "json \<Rightarrow> string \<Rightarrow> Prepared" where
  "sample_prepared metadata iv =
     projr (snd (prepare (sample_deps (sample_answer metadata)) sample_clock (sample_request iv) empty_world))"

lemmas sample_defs = sample_deps_def sample_request_def sample_provider_def sample_clock_def

lemma empty_world_ok: "db_ok (w_claims empty_world)" "w_executed empty_world = []"
  by (simp_all add: empty_world_def db_ok_def)

lemma sample_admit:
  "iv \<noteq> [] \<Longrightarrow> admit (sample_deps answer) (sample_request iv) = Inr (sample_provider, \<lambda>_ _ _. answer)"
  by (simp add: admit_def validateRequest_def resolveAndValidateProvider_def validateProvider_def
      resolveAdapter_def get_adapter_def sample_defs dep_call_def guardE_def known_profile_def
      known_action_def isFileMutationExecutionAction_def FILE_MUTATION_INVOCATION_ACTIONS_def
      providerSupportsCapability_def isProviderRoutable_def rq_budget_def)

lemma sample_decide:
  "\<exists>d. decide (sample_deps answer) sample_clock (sample_request iv) sample_provider RELEASE_AUTHORITY = Inr d \<and>
     allowed d"
  by (simp add: decide_def createPolicyEvaluationContext_def effectiveReleaseGateStatus_def resolveHomeDir_def
      resolveTrustedExecutionPolicy_def sample_defs dep_call_def gate_context_def sample_binding_def
      validateHumanGateBinding_def action_scope_ok_def truthy_action_def evaluatePolicy_def Let_def
      known_profile_def known_action_def augmentBuilderPolicyWithTrustedCodingAgentAlias_def)

lemma sample_context:
  "\<exists>c. build_context (sample_deps answer) sample_clock (sample_request iv) sample_provider RELEASE_AUTHORITY d =
     Inr c \<and> ec_credentialReference c = Some ''cred-42''"
  by (simp add: build_context_def resolveCredentials_def sample_defs dep_call_def
      buildExecutionContext_def buildGovernedExecutionEnvironment_def environment_allowlist_def env_opt_def
      rq_budget_def SANDBOX_GOVERNED_EXECUTION_METADATA_ENV_def SANDBOX_CALLER_PERMITTED_ENV_def
      resolveTrustedExecutable_def)

lemma sample_prepare:
  assumes "iv \<noteq> []"
  shows "\<exists>e. prepare (sample_deps (sample_answer m)) sample_clock (sample_request iv) w =
      (w\<lparr>w_audit := w_audit w @ [e]\<rparr>, Inr (sample_prepared m iv))"
    "p_adapter (sample_prepared m iv) = (\<lambda>_ _ _. sample_answer m)"
    "ec_credentialReference (p_context (sample_prepared m iv)) = Some ''cred-42''"
proof -
  obtain d where d: "decide (sample_deps (sample_answer m)) sample_clock (sample_request iv) sample_provider
      RELEASE_AUTHORITY = Inr d" "allowed d" using sample_decide by blast
  obtain c where c: "build_context (sample_deps (sample_answer m)) sample_clock (sample_request iv)
      sample_provider RELEASE_AUTHORITY d = Inr c" "ec_credentialReference c = Some ''cred-42''"
    using sample_context by blast
  let ?e = "auditPolicyDecision (sample_request iv) sample_provider RELEASE_AUTHORITY d True"
  let ?p = "\<lparr>p_provider = sample_provider, p_adapter = (\<lambda>_ _ _. sample_answer m),
      p_profile = RELEASE_AUTHORITY, p_decision = d, p_context = c\<rparr>"
  have prof: "resolveTrustedExecutionProfile (sample_deps a) rq = Some RELEASE_AUTHORITY" for a rq
    by (simp add: resolveTrustedExecutionProfile_def sample_deps_def)
  have acc: "d_auditAccepts (sample_deps a) e" for a e by (simp add: sample_deps_def)
  have eq: "prepare (sample_deps (sample_answer m)) sample_clock (sample_request iv) v =
      (v\<lparr>w_audit := w_audit v @ [?e]\<rparr>, Inr ?p)" for v
    by (simp add: prepare_def sample_admit [OF assms] prof known_profile_def authorise_def d c
        record_audit_def acc)
  then have p: "sample_prepared m iv = ?p" by (simp add: sample_prepared_def)
  show "\<exists>e. prepare (sample_deps (sample_answer m)) sample_clock (sample_request iv) w =
      (w\<lparr>w_audit := w_audit w @ [e]\<rparr>, Inr (sample_prepared m iv))" unfolding p eq by blast
  show "p_adapter (sample_prepared m iv) = (\<lambda>_ _ _. sample_answer m)"
    "ec_credentialReference (p_context (sample_prepared m iv)) = Some ''cred-42''"
    by (simp_all add: p c)
qed

lemma sample_prepare_audit:
  assumes "prepare deps clk rq empty_world = (w', r)"
  shows "GOVERNED_INVOCATION_COMPLETE c \<notin> set (w_audit w')"
proof -
  have "GOVERNED_INVOCATION_COMPLETE c \<notin> set (w_audit v)"
    if "authorise deps clk rq provider ad profile empty_world = (v, q)" for provider ad profile v q
    using that by (auto simp: authorise_def record_audit_def auditPolicyDecision_def empty_world_def
        split: sum.splits if_splits)
  moreover have "GOVERNED_INVOCATION_COMPLETE c \<notin> set (w_audit empty_world)" by (simp add: empty_world_def)
  ultimately show ?thesis
    using assms by (auto simp: prepare_def split: sum.splits option.splits if_splits)
qed

definition sample_key :: string where
  "sample_key = operation_key (sample_request ''i'')"

lemma sample_key: "operation_key (sample_request iv) = sample_key"
  by (simp add: sample_key_def operation_key_def operation_fields_def sample_request_def)

lemma sample_claim:
  assumes "w_claims w = []"
  shows "\<exists>db. claim_phase (sample_deps a) sample_clock (sample_request iv) p w =
      (w\<lparr>w_claims := db\<rparr>, Inr (Some sample_key)) \<and>
      db = [new_claim 4 sample_key iv (context_fingerprint (sample_request iv) p)]"
proof -
  have "isConsequentialExecutionAction (rq_requestedAction (sample_request iv))" "rq_invocationId (sample_request iv) = iv"
    "d_idempotencyStore (sample_deps a)" "d_claimFault (sample_deps a) = NO_FAULT" "t_claimed sample_clock = 4"
    by (simp_all add: sample_defs isConsequentialExecutionAction_def CONSEQUENTIAL_INVOCATION_ACTIONS_def)
  then show ?thesis
    by (simp add: claim_phase_def call_claim_def store_claim_def assms unique_violation_def sample_key)
qed

text \<open>A lone attempt of the sample deployment, up to its execution.\<close>

lemma sample_run:
  assumes "iv \<noteq> []"
  obtains w2 where "prepare (sample_deps (sample_answer m)) sample_clock (sample_request iv) empty_world =
      (w2\<lparr>w_claims := []\<rparr>, Inr (sample_prepared m iv))"
    "claim_phase (sample_deps (sample_answer m)) sample_clock (sample_request iv) (sample_prepared m iv)
      (w2\<lparr>w_claims := []\<rparr>) = (w2, Inr (Some sample_key))" "w_executed w2 = []"
    "w_claims w2 = [new_claim 4 sample_key iv (context_fingerprint (sample_request iv) (sample_prepared m iv))]"
proof -
  obtain e where e: "prepare (sample_deps (sample_answer m)) sample_clock (sample_request iv) empty_world =
      (empty_world\<lparr>w_audit := w_audit empty_world @ [e]\<rparr>, Inr (sample_prepared m iv))"
    using sample_prepare(1) [OF assms] by blast
  let ?w = "empty_world\<lparr>w_audit := w_audit empty_world @ [e]\<rparr>"
  have "w_claims ?w = []" by (simp add: empty_world_def)
  from sample_claim [OF this, of "sample_answer m" iv "sample_prepared m iv"]
  obtain db where c: "claim_phase (sample_deps (sample_answer m)) sample_clock (sample_request iv)
      (sample_prepared m iv) ?w = (?w\<lparr>w_claims := db\<rparr>, Inr (Some sample_key))"
    and db: "db = [new_claim 4 sample_key iv (context_fingerprint (sample_request iv) (sample_prepared m iv))]"
    by blast
  have "?w = (?w\<lparr>w_claims := db\<rparr>)\<lparr>w_claims := []\<rparr>" by (simp add: empty_world_def)
  with e c db that [of "?w\<lparr>w_claims := db\<rparr>"] show ?thesis by (simp add: empty_world_def)
qed

lemma sample_system:
  assumes "iv \<noteq> []"
  shows "w_executed (fst (run_system [sample_attempt m iv] [0, 0, 0]
      (initial_system [sample_attempt m iv] empty_world))) =
     [trace_of (sample_attempt m iv) (sample_prepared m iv) (Some sample_key)]"
proof -
  obtain w2 where "prepare (sample_deps (sample_answer m)) sample_clock (sample_request iv) empty_world =
      (w2\<lparr>w_claims := []\<rparr>, Inr (sample_prepared m iv))"
    "claim_phase (sample_deps (sample_answer m)) sample_clock (sample_request iv) (sample_prepared m iv)
      (w2\<lparr>w_claims := []\<rparr>) = (w2, Inr (Some sample_key))" "w_executed w2 = []"
    using sample_run [OF assms] by metis
  then show ?thesis
    by (simp add: run_system_def system_step_def initial_system_def sample_attempt_def trace_of_def
        execute_phase_def)
qed

lemma sample_invoke:
  assumes "iv \<noteq> []"
  shows "\<exists>w' r x. invoke (sample_deps (sample_answer (JObj []))) sample_clock (sample_request iv) empty_world =
      (w', Returned r) \<and> ir_status r = AES_SUCCEEDED \<and> w_executed w' = [x] \<and>
      ec_credentialReference (x_context x) = Some ''cred-42''"
proof -
  obtain w2 where w2: "prepare (sample_deps (sample_answer (JObj []))) sample_clock (sample_request iv) empty_world =
      (w2\<lparr>w_claims := []\<rparr>, Inr (sample_prepared (JObj []) iv))"
    "claim_phase (sample_deps (sample_answer (JObj []))) sample_clock (sample_request iv) (sample_prepared (JObj []) iv)
      (w2\<lparr>w_claims := []\<rparr>) = (w2, Inr (Some sample_key))" "w_executed w2 = []"
    using sample_run [OF assms] by metis
  let ?p = "sample_prepared (JObj []) iv"
  let ?w3 = "w2\<lparr>w_executed := [\<lparr>x_key = Some sample_key, x_request = sample_request iv, x_context = p_context ?p\<rparr>]\<rparr>"
  have x: "execute_phase (sample_request iv) ?p (Some sample_key) w2 = (?w3, sample_answer (JObj []))"
    by (simp add: execute_phase_def sample_prepare(2) [OF assms] w2(3))
  have "\<exists>r. run_result sample_clock (sample_request iv) ?p (sample_answer (JObj [])) = Inr r \<and>
      ir_status r = AES_SUCCEEDED"
    by (simp add: run_result_def sample_answer_def isValidInvocationTransition_def normalizeAdapterResult_def
        sanitizeProviderExecutionMetadata_def object_entries_def sideEffectSummary_def json_prop_def text_list_def
        unchecked_list_def json_truthy_def Let_def base_result_def)
  then obtain r where r: "run_result sample_clock (sample_request iv) ?p (sample_answer (JObj [])) = Inr r"
    "ir_status r = AES_SUCCEEDED" by blast
  have acc: "d_auditAccepts (sample_deps a) e" for a e by (simp add: sample_deps_def)
  have "\<exists>w'. finish_phase (sample_deps (sample_answer (JObj []))) sample_clock (sample_request iv) ?p (Some sample_key)
      (sample_answer (JObj [])) ?w3 = (w', Returned r) \<and> w_executed w' = w_executed ?w3"
    by (simp add: finish_phase_def r finalizeInvocation_def record_audit_def acc mark_claim_def)
  with w2 x r sample_prepare(3) [OF assms] show ?thesis by (auto simp: invoke_def)
qed

lemma executed_keys_eq:
  assumes "\<forall>x \<in> set xs. x_key x = (if isConsequentialExecutionAction (rq_requestedAction (x_request x))
      then Some (operation_key (x_request x)) else None)"
  shows "List.map_filter x_key xs = map (\<lambda>x. operation_key (x_request x))
     (filter (\<lambda>x. isConsequentialExecutionAction (rq_requestedAction (x_request x))) xs)"
  using assms by (induction xs) (simp_all add: map_filter_def)

section \<open>Properties\<close>

text \<open>C4. Nothing executes unauthorised.  Under every interleaving of any attempts, behind
  every adapter execution stands a well-formed request of one of them.  The
  record that the provider resolver returned for the provider and the organisation
  of this request passed every admission check: it belongs to the requesting organisation,
  offers the capability, is routable and has quota, supports the requested assurance
  level and has an estimated cost within the budget, where the request sets them.
  The execution's profile is the one the trusted resolver gave;
  the policy decision, evaluated for that record and profile, allows it; and
  the allow event is in the audit log.  The adapter is handed exactly this
  profile, decision and provider, an environment of governed metadata only, and
  a non-empty working directory.\<close>

theorem execution_authorised:
  assumes "db_ok (w_claims w)" and "w_executed w = []"
    and "x \<in> set (w_executed (fst (run_system atts sched (initial_system atts w))))"
  shows "\<exists>a \<in> set atts. \<exists>provider profile decision.
     x_request x = a_request a \<and> validateRequest (a_request a) = Inr () \<and>
     d_providerResolver (a_deps a) (rq_providerId (a_request a)) (rq_organizationId (a_request a)) =
       Inr (Some provider) \<and>
     pd_organizationId provider = rq_organizationId (a_request a) \<and>
     providerSupportsCapability provider (rq_capabilityCode (a_request a)) \<and>
     isProviderRoutable provider \<and> pd_quotaStatus provider \<in> {PQ_AVAILABLE, PQ_LIMITED} \<and>
     (\<forall>l. rq_assuranceLevel (a_request a) = Some l \<longrightarrow> providerSupportsAssuranceLevel provider l) \<and>
     (\<forall>m. b_maxCostMinorUnits (rq_budget (a_request a)) = Some m \<longrightarrow>
        (\<exists>c. pd_estimatedCostMinorUnits provider = Some c \<and> c \<le> m)) \<and>
     resolveTrustedExecutionProfile (a_deps a) (a_request a) = Some profile \<and>
     decide (a_deps a) (a_clock a) (a_request a) provider profile = Inr decision \<and> allowed decision \<and>
     auditPolicyDecision (a_request a) provider profile decision True
       \<in> set (w_audit (fst (run_system atts sched (initial_system atts w)))) \<and>
     ec_executionProfile (x_context x) = profile \<and> ec_policyDecision (x_context x) = decision \<and>
     ec_providerId (x_context x) = pd_id provider \<and>
     fst ` set (ec_environment (x_context x)) \<subseteq> set SANDBOX_GOVERNED_EXECUTION_METADATA_ENV \<and>
     ec_workingDirectory (x_context x) \<noteq> []"
proof -
  obtain a p where a: "a \<in> set atts" "x_request x = a_request a" "x_context x = p_context p"
    and b: "authorised a p" "allow_event a p \<in> set (w_audit (fst (run_system atts sched (initial_system atts w))))"
    using executed_backed [OF assms] by (metis backed_def)
  have v: "validateRequest (a_request a) = Inr ()" using b(1) by (auto simp: authorised_def admit_def)
  have "resolveTrustedExecutionProfile (a_deps a) (a_request a) = Some (p_profile p)"
    "decide (a_deps a) (a_clock a) (a_request a) (p_provider p) (p_profile p) = Inr (p_decision p)"
    "allowed (p_decision p)"
    and c: "build_context (a_deps a) (a_clock a) (a_request a) (p_provider p) (p_profile p) (p_decision p) =
      Inr (p_context p)" using b(1) by (simp_all add: authorised_def)
  with a v b(2) authorised_provider [OF b(1)] build_context_facts [OF c] show ?thesis
    unfolding allow_event_def by (intro bexI [of _ a] exI [of _ "p_provider p"] exI [of _ "p_profile p"]
        exI [of _ "p_decision p"]) simp_all
qed

theorem execution_authorised_witness:
  "let a = sample_attempt (JObj []) ''i'' in
   \<exists>x \<in> set (w_executed (fst (run_system [a] [0, 0, 0] (initial_system [a] empty_world)))).
     ec_executionProfile (x_context x) = RELEASE_AUTHORITY"
proof -
  let ?a = "sample_attempt (JObj []) ''i''"
  let ?x = "trace_of ?a (sample_prepared (JObj []) ''i'') (Some sample_key)"
  have x: "?x \<in> set (w_executed (fst (run_system [?a] [0, 0, 0] (initial_system [?a] empty_world))))"
    using sample_system [of "''i''" "JObj []"] by simp
  have "resolveTrustedExecutionProfile (a_deps ?a) (a_request ?a) = Some RELEASE_AUTHORITY"
    by (simp add: sample_attempt_def resolveTrustedExecutionProfile_def sample_deps_def)
  with execution_authorised [OF empty_world_ok x] have "ec_executionProfile (x_context ?x) = RELEASE_AUTHORITY"
    by auto
  with x show ?thesis unfolding Let_def by blast
qed

text \<open>C1. A consequential operation runs at most once.  Whatever attempts (retries, other
  providers, duplicated deliveries, lost answers of the claim store, crashes)
  run in whatever interleaving, no two executions of consequential actions
  have the same logical operation; each such execution was made by the
  attempt that owns the claim of its operation; and an operation that was
  already claimed when the system started, for example before a restart, is
  not executed again.\<close>

theorem consequential_at_most_once:
  assumes "db_ok (w_claims w)" and "w_executed w = []"
  shows "let w' = fst (run_system atts sched (initial_system atts w));
        ran = filter (\<lambda>x. isConsequentialExecutionAction (rq_requestedAction (x_request x))) (w_executed w') in
     distinct (map (\<lambda>x. operation_key (x_request x)) ran) \<and>
     (\<forall>x \<in> set ran. claim_owner (w_claims w') (operation_key (x_request x)) =
        Some (rq_invocationId (x_request x)) \<and>
        claim_owner (w_claims w) (operation_key (x_request x)) = None)"
proof -
  obtain w' ss where r: "run_system atts sched (initial_system atts w) = (w', ss)" by fastforce
  have ini: "system_ok atts (w, map (\<lambda>_. AtStart) atts)"
    using initial_ok [OF assms] by (simp add: initial_system_def)
  have ok: "system_ok atts (w', ss)"
    using run_system_ok [OF initial_ok [OF assms], of atts sched] r by simp
  then have e: "\<forall>x \<in> set (w_executed w'). execution_ok atts w' x" and d: "distinct (executed_keys w')"
    by (simp_all add: system_ok_def exclusive_def)
  let ?ran = "filter (\<lambda>x. isConsequentialExecutionAction (rq_requestedAction (x_request x))) (w_executed w')"
  have keys: "executed_keys w' = map (\<lambda>x. operation_key (x_request x)) ?ran"
    using e by (auto simp: executed_keys_def execution_ok_def backed_def intro!: executed_keys_eq)
  have own: "claim_owner (w_claims w') (operation_key (x_request x)) = Some (rq_invocationId (x_request x))"
    if "x \<in> set ?ran" for x
    using that e by (fastforce simp: execution_ok_def backed_def)
  have "k \<notin> set (executed_keys w')" if "claim_owner (w_claims w) k = Some i" for k i
    using owned_never_executed [OF ini that, of sched] assms(2) r
    by (simp add: initial_system_def executed_keys_def map_filter_def pending_def image_iff)
  then have "claim_owner (w_claims w) (operation_key (x_request x)) = None" if "x \<in> set ?ran" for x
    using that keys by (cases "claim_owner (w_claims w) (operation_key (x_request x))") auto
  with own d keys r show ?thesis by (simp add: Let_def)
qed

theorem consequential_at_most_once_witness:
  "let a = sample_attempt (JObj []) ''i'';
       w' = fst (run_system [a] [0, 0, 0] (initial_system [a] empty_world)) in
   length (w_executed w') = 1 \<and> claim_owner (w_claims w') sample_key = Some ''i''"
proof -
  let ?a = "sample_attempt (JObj []) ''i''"
  let ?w = "fst (run_system [?a] [0, 0, 0] (initial_system [?a] empty_world))"
  note x = sample_system [of "''i''" "JObj []", simplified]
  have c: "isConsequentialExecutionAction (rq_requestedAction (sample_request ''i''))"
    "rq_invocationId (sample_request ''i'') = ''i''"
    by (simp_all add: sample_request_def isConsequentialExecutionAction_def CONSEQUENTIAL_INVOCATION_ACTIONS_def)
  from consequential_at_most_once [OF empty_world_ok, of "[?a]" "[0, 0, 0]"] x c
  show ?thesis by (simp add: Let_def trace_of_def sample_attempt_def sample_key)
qed

text \<open>C11. No release without its human.  Under every interleaving, an executed git commit
  or push ran under the release authority profile the trusted resolver gave,
  and its request named an approval that the human gate resolver resolved to a
  binding for exactly this organisation, run, step, capability and action,
  with no artifact scope and not expired when the gate was evaluated.\<close>

theorem release_needs_human:
  assumes "db_ok (w_claims w)" and "w_executed w = []"
    and "x \<in> set (w_executed (fst (run_system atts sched (initial_system atts w))))"
    and "rq_requestedAction (x_request x) \<in> {GIT_COMMIT, GIT_PUSH}"
  shows "\<exists>a \<in> set atts. \<exists>ref f b. x_request x = a_request a \<and>
     resolveTrustedExecutionProfile (a_deps a) (x_request x) = Some RELEASE_AUTHORITY \<and>
     rq_humanApprovalReference (x_request x) = Some ref \<and> d_humanGateResolver (a_deps a) = Some f \<and>
     f ref (resolution_context (x_request x)) (rq_inputReference (x_request x))
       (rq_requestedAction (x_request x)) = Inr (Some b) \<and>
     hg_organizationId b = rq_organizationId (x_request x) \<and>
     hg_workflowRunId b = rq_workflowRunId (x_request x) \<and>
     hg_workflowStepRunId b = rq_workflowStepRunId (x_request x) \<and>
     hg_capabilityCode b = rq_capabilityCode (x_request x) \<and>
     hg_requestedAction b = Some (rq_requestedAction (x_request x)) \<and>
     hg_artifactReference b = None \<and> (\<forall>e. hg_expiresAt b = Some e \<longrightarrow> t_gate (a_clock a) \<le> e)"
proof -
  obtain a p where a: "a \<in> set atts" "x_request x = a_request a" and b: "authorised a p"
    using executed_backed [OF assms(1-3)] by (metis backed_def)
  have d: "decide (a_deps a) (a_clock a) (a_request a) (p_provider p) (p_profile p) = Inr (p_decision p)"
    "allowed (p_decision p)" and prof: "resolveTrustedExecutionProfile (a_deps a) (a_request a) = Some (p_profile p)"
    using b by (simp_all add: authorised_def)
  obtain ctx where c: "createPolicyEvaluationContext (a_deps a) (a_clock a) (a_request a) (p_provider p)
      (p_profile p) = Inr ctx"
    and pd: "p_decision p = evaluatePolicy (d_env (a_deps a)) (d_regexp (a_deps a)) (t_policy (a_clock a)) ctx"
    using decide_allowed [OF d] by blast
  note f = policy_context_facts [OF c]
  have act: "requestedAction ctx \<in> {GIT_COMMIT, GIT_PUSH}" using assms(4) a f(2) by simp
  note rel = evaluatePolicy_release [OF d(2) [unfolded pd] act]
  obtain ref g bd where g: "rq_humanApprovalReference (a_request a) = Some ref"
    "d_humanGateResolver (a_deps a) = Some g"
    "g ref (resolution_context (a_request a)) (rq_inputReference (a_request a))
       (rq_requestedAction (a_request a)) = Inr (Some bd)"
    "validateHumanGateBinding (t_gate (a_clock a)) (Some bd) (gate_context (a_request a)) = APPROVED"
    using gate_approved [OF f(3) [OF rel(2)]] by blast
  from binding_scope [OF g(4)] assms(4) a(2) g(1-3) prof rel(1) f(1) a(1) show ?thesis
    by (intro bexI [of _ a] exI [of _ ref] exI [of _ g] exI [of _ bd]) auto
qed

theorem release_needs_human_witness:
  "let a = sample_attempt (JObj []) ''i'' in
   \<exists>x \<in> set (w_executed (fst (run_system [a] [0, 0, 0] (initial_system [a] empty_world)))).
     rq_requestedAction (x_request x) = GIT_PUSH \<and> rq_humanApprovalReference (x_request x) \<noteq> None"
proof -
  let ?a = "sample_attempt (JObj []) ''i''"
  let ?x = "trace_of ?a (sample_prepared (JObj []) ''i'') (Some sample_key)"
  have x: "?x \<in> set (w_executed (fst (run_system [?a] [0, 0, 0] (initial_system [?a] empty_world))))"
    using sample_system [of "''i''" "JObj []"] by simp
  have g: "rq_requestedAction (x_request ?x) = GIT_PUSH"
    by (simp add: trace_of_def sample_attempt_def sample_request_def)
  from release_needs_human [OF empty_world_ok x] g have "rq_humanApprovalReference (x_request ?x) \<noteq> None"
    by auto
  with x g show ?thesis unfolding Let_def by blast
qed

text \<open>The phases are the service.  Scheduling one attempt four times runs \<open>invoke\<close>: it
  always ends, with the world and the exit of \<open>invoke\<close>.\<close>

lemma invoke_is_schedule:
  "run_system [a] [0, 0, 0, 0] (initial_system [a] w) =
     (fst (invoke (a_deps a) (a_clock a) (a_request a) w),
      [AtEnd (snd (invoke (a_deps a) (a_clock a) (a_request a) w))])"
proof -
  obtain w' exit where i: "invoke (a_deps a) (a_clock a) (a_request a) w = (w', exit)" by fastforce
  show ?thesis using i
  proof (cases rule: invoke_cases)
    case refused
    with i show ?thesis by (simp add: run_system_def initial_system_def system_step_def)
  next
    case not_won
    with i show ?thesis by (simp add: run_system_def initial_system_def system_step_def)
  next
    case ran
    with i show ?thesis by (simp add: run_system_def initial_system_def system_step_def)
  qed
qed

text \<open>What a caller gets.  A returned result carries the identifiers of its request and
  the elapsed time.  Either the adapter was executed, exactly once, for this
  request, the status is one the lifecycle admits after RUNNING, and the last
  audit event reports this result as complete; or nothing was executed, the
  status is POLICY\_BLOCKED or FAILED and an error is given.  In particular a
  result that reports success is never made up.\<close>

lemma invoke_result:
  assumes "invoke deps clk rq w = (w', Returned r)"
  shows "answers clk rq r \<and>
     ((\<exists>x provider profile. w_executed w' = w_executed w @ [x] \<and> x_request x = rq \<and>
         isValidInvocationTransition AES_RUNNING (ir_status r) \<and>
         last (w_audit w') = auditInvocationComplete rq provider profile r) \<or>
      (w_executed w' = w_executed w \<and> ir_status r \<in> {AES_POLICY_BLOCKED, AES_FAILED} \<and>
       ir_normalizedError r \<noteq> None))"
  using assms
proof (cases rule: invoke_cases)
  case refused
  let ?a = "\<lparr>a_deps = deps, a_clock = clk, a_request = rq\<rparr>"
  have "w_executed w' = w_executed w" using prepare_facts(2) [of ?a w w'] refused by simp
  with prepare_returned [OF refused] show ?thesis by simp
next
  case (not_won w1 p)
  let ?a = "\<lparr>a_deps = deps, a_clock = clk, a_request = rq\<rparr>"
  have "w_executed w1 = w_executed w" using prepare_facts(2) [of ?a w w1] not_won(1) by simp
  moreover have "w_executed w' = w_executed w1" using claim_phase_executed [OF not_won(2)] .
  ultimately show ?thesis using claim_phase_exit [OF not_won(2)] by simp
next
  case (ran w1 p w2 key run w3)
  let ?a = "\<lparr>a_deps = deps, a_clock = clk, a_request = rq\<rparr>"
  have "w_executed w1 = w_executed w" using prepare_facts(2) [of ?a w w1] ran(1) by simp
  moreover have "w_executed w2 = w_executed w1" using claim_phase_executed [OF ran(2)] .
  moreover have w3: "w_executed w3 = w_executed w2 @ [\<lparr>x_key = key, x_request = rq, x_context = p_context p\<rparr>]"
    using ran(3) by (auto simp: execute_phase_def)
  moreover obtain result where rr: "run_result clk rq p run = Inr result" and
    f: "finalizeInvocation deps rq (p_provider p) (p_profile p) result (key \<noteq> None) key w3 = (w', Returned r)"
    using ran(4) by (auto simp: finish_phase_def split: sum.splits)
  moreover note fr = finalize_returned [OF f]
  moreover have "answers clk rq r \<and> isValidInvocationTransition AES_RUNNING (ir_status r)"
    using run_result_answers [OF rr] fr(1) by (auto simp: isValidInvocationTransition_def)
  ultimately show ?thesis by auto
qed

text \<open>A completed execution settles its claim.  When a consequential invocation executed
  the adapter and returned, and its completion call was not refused, the row of
  its operation belongs to it and holds the state for its status: COMPLETED
  exactly for success, TIMED\_OUT\_UNKNOWN for a timeout, FAILED\_UNKNOWN
  otherwise.\<close>

lemma completion_settles_claim:
  assumes "invoke deps clk rq w = (w', Returned r)" and "w_executed w' \<noteq> w_executed w"
    and "isConsequentialExecutionAction (rq_requestedAction rq)" and "d_completionFault deps \<noteq> CALL_REFUSED"
  shows "\<exists>row. find_key (w_claims w') (operation_key rq) = Some row \<and>
     claimInvocationId row = rq_invocationId rq \<and> claimState row = claimStateForResultStatus (ir_status r) \<and>
     (claimState row = CLAIM_COMPLETED \<longleftrightarrow> ir_status r = AES_SUCCEEDED)"
  using assms(1)
proof (cases rule: invoke_cases)
  case refused
  let ?a = "\<lparr>a_deps = deps, a_clock = clk, a_request = rq\<rparr>"
  have "w_executed w' = w_executed w" using prepare_facts(2) [of ?a w w'] refused by simp
  with assms(2) show ?thesis by simp
next
  case (not_won w1 p)
  let ?a = "\<lparr>a_deps = deps, a_clock = clk, a_request = rq\<rparr>"
  have "w_executed w1 = w_executed w" using prepare_facts(2) [of ?a w w1] not_won(1) by simp
  with claim_phase_executed [OF not_won(2)] assms(2) show ?thesis by simp
next
  case (ran w1 p w2 key run w3)
  let ?a = "\<lparr>a_deps = deps, a_clock = clk, a_request = rq\<rparr>" and ?k = "operation_key rq"
  have "authorised ?a p" using prepare_facts(4) [of ?a w w1 "Inr p" p] ran(1) by simp
  then have store: "d_idempotencyStore deps" using authorised_store [of ?a p] assms(3) by simp
  obtain db c where c: "call_claim deps clk rq p (w_claims w1) = (db, Inr (CLAIMED c))"
    and w2: "w2 = w1\<lparr>w_claims := db\<rparr>" "key = Some ?k"
    using ran(2) assms(3) store
    by (auto simp: claim_phase_def split: prod.splits sum.splits GovernedInvocationClaimResult.splits)
  obtain result where f: "finalizeInvocation deps rq (p_provider p) (p_profile p) result (key \<noteq> None) key w3 =
      (w', Returned r)"
    using ran(4) by (auto simp: finish_phase_def split: sum.splits)
  have "w_claims w' = fst (markCompleted ?k (rq_invocationId rq) (claimStateForResultStatus (ir_status r)) db)"
    using finalize_returned(4) [OF f] ran(3) w2 store assms(4) by (auto simp: mark_claim_def execute_phase_def)
  with markCompleted_find [OF call_claim_won [OF c], of "rq_invocationId rq"] show ?thesis
    by (cases "ir_status r") (simp_all add: new_claim_def)
qed

text \<open>C19. The credential stays inside.  When an execution was given a credential reference
  that the redaction marker, the field name \<open>destination\<close> or an array index
  cannot spell, the returned result contains it nowhere: not in references,
  provider or usage metadata at any depth, the error message or its metadata,
  or the side effect summary; nor does the completion event in the audit log.\<close>

theorem credential_not_returned:
  assumes "invoke deps clk rq w = (w', Returned r)" and "w_executed w' = w_executed w @ [x]"
    and "ec_credentialReference (x_context x) = Some n" and "opaque n"
  shows "result_free n r \<and> (\<exists>c. last (w_audit w') = GOVERNED_INVOCATION_COMPLETE c \<and>
     (\<forall>reason_code message retry. ac_error c = Some (reason_code, message, retry) \<longrightarrow> \<not> sublist n message) \<and>
     (\<forall>s. ac_sideEffectSummary c = Some s \<longrightarrow> summary_free n s))"
  using assms(1)
proof (cases rule: invoke_cases)
  case refused
  let ?a = "\<lparr>a_deps = deps, a_clock = clk, a_request = rq\<rparr>"
  have "w_executed w' = w_executed w" using prepare_facts(2) [of ?a w w'] refused by simp
  with assms(2) show ?thesis by simp
next
  case (not_won w1 p)
  let ?a = "\<lparr>a_deps = deps, a_clock = clk, a_request = rq\<rparr>"
  have "w_executed w1 = w_executed w" using prepare_facts(2) [of ?a w w1] not_won(1) by simp
  with claim_phase_executed [OF not_won(2)] assms(2) show ?thesis by simp
next
  case (ran w1 p w2 key run w3)
  let ?a = "\<lparr>a_deps = deps, a_clock = clk, a_request = rq\<rparr>"
  have "w_executed w1 = w_executed w" using prepare_facts(2) [of ?a w w1] ran(1) by simp
  with claim_phase_executed [OF ran(2)] ran(3)
  have w3: "w_executed w3 = w_executed w @ [\<lparr>x_key = key, x_request = rq, x_context = p_context p\<rparr>]"
    by (auto simp: execute_phase_def)
  obtain result where rr: "run_result clk rq p run = Inr result" and
    f: "finalizeInvocation deps rq (p_provider p) (p_profile p) result (key \<noteq> None) key w3 = (w', Returned r)"
    using ran(4) by (auto simp: finish_phase_def split: sum.splits)
  note fr = finalize_returned [OF f]
  have "x_context x = p_context p" using fr(2) w3 assms(2) by simp
  with assms(3) have "ec_credentialReference (p_context p) = Some n" by simp
  from run_result_free [OF assms(4) this rr] fr(1) have free: "result_free n r" by simp
  then show ?thesis using fr(3)
    by (auto simp: auditInvocationComplete_def result_free_def error_free_def)
qed

theorem credential_not_returned_witness:
  "\<exists>w' r. invoke (sample_deps (sample_answer (JObj []))) sample_clock (sample_request ''i'') empty_world =
       (w', Returned r) \<and> opaque ''cred-42'' \<and> result_free ''cred-42'' r"
proof -
  obtain w' r x where i: "invoke (sample_deps (sample_answer (JObj []))) sample_clock (sample_request ''i'') empty_world =
      (w', Returned r)" and x: "w_executed w' = w_executed empty_world @ [x]"
    and c: "ec_credentialReference (x_context x) = Some ''cred-42''"
    using sample_invoke [of "''i''"] by (auto simp: empty_world_def)
  have o: "opaque ''cred-42''" by code_simp
  from credential_not_returned [OF i x c o] i o show ?thesis by blast
qed

section \<open>An answer that cannot be normalised\<close>

text \<open>What \<open>normalizeAdapterResult\<close> cannot read: a list field that is truthy and no array,
  or a null among the network calls.\<close>

definition not_a_list :: "json option \<Rightarrow> bool" where
  "not_a_list v = (json_truthy v \<and> (case v of Some (JArr _) \<Rightarrow> False | _ \<Rightarrow> True))"

definition side_effects_malformed :: "json option \<Rightarrow> bool" where
  "side_effects_malformed se =
     (not_a_list (json_prop se ''filesCreated'') \<or> not_a_list (json_prop se ''filesModified'') \<or>
      not_a_list (json_prop se ''filesDeleted'') \<or> not_a_list (json_prop se ''commandsExecuted'') \<or>
      not_a_list (json_prop se ''networkCalls'') \<or>
      (case json_prop se ''networkCalls'' of Some (JArr vs) \<Rightarrow> JNull \<in> set vs | _ \<Rightarrow> False))"

text \<open>The side effects an adapter reported, once the metadata is clean of secrets.\<close>

definition reported_side_effects :: "Prepared \<Rightarrow> GovernedAdapterResult \<Rightarrow> json option" where
  "reported_side_effects p res =
     json_prop (Some (redactTrustedSecretsDeep (trusted_secrets (ec_credentialReference (p_context p)))
       (sanitizeProviderExecutionMetadata (ar_providerExecutionMetadata res)))) ''sideEffects''"

lemma unchecked_list_cases:
  "unchecked_list v = Inl e \<longleftrightarrow> e = E_TYPE_ERROR \<and> not_a_list v"
  "\<not> not_a_list v \<Longrightarrow>
     unchecked_list v = Inr (case v of Some (JArr vs) \<Rightarrow> Some vs | _ \<Rightarrow> None)"
  by (auto simp: unchecked_list_def not_a_list_def json_truthy_def split: option.splits json.splits)

lemma text_list_Inl: "text_list v secrets = Inl e \<longleftrightarrow> e = E_TYPE_ERROR \<and> not_a_list v"
  using unchecked_list_cases [of v] by (cases "unchecked_list v") (auto simp: text_list_def)

lemma network_calls_Inl: "network_calls secrets cs = Inl e \<longleftrightarrow> e = E_TYPE_ERROR \<and> JNull \<in> set cs"
proof (induction cs)
  case (Cons c cs)
  then show ?case
    by (cases "network_calls secrets cs") (auto simp: network_call_def Let_def)
qed simp

lemma text_list_then:
  "bindE (text_list v secrets) f = Inl e \<longleftrightarrow>
     (if not_a_list v then e = E_TYPE_ERROR else f (projr (text_list v secrets)) = Inl e)"
  using text_list_Inl [of v secrets] by (cases "text_list v secrets") auto

lemma network_calls_then:
  "bindE (unchecked_list v) (\<lambda>calls.
     bindE (network_calls secrets (case calls of None \<Rightarrow> [] | Some cs \<Rightarrow> cs)) (\<lambda>n. Inr (g n))) = Inl e \<longleftrightarrow>
   e = E_TYPE_ERROR \<and> (not_a_list v \<or> (case v of Some (JArr vs) \<Rightarrow> JNull \<in> set vs | _ \<Rightarrow> False))"
proof (cases "not_a_list v")
  case True
  then show ?thesis using unchecked_list_cases(1) [of v] by (cases "unchecked_list v") auto
next
  case False
  then show ?thesis unfolding unchecked_list_cases(2) [OF False] bindE.simps bindE_Inl_iff network_calls_Inl
    by (auto split: option.splits json.splits)
qed

lemma summary_Inl:
  "sideEffectSummary se artifacts secrets = Inl e \<longleftrightarrow> e = E_TYPE_ERROR \<and> side_effects_malformed se"
  unfolding sideEffectSummary_def text_list_then network_calls_then side_effects_malformed_def
  by (simp only: if_split) argo

lemma run_result_Inl:
  assumes "isValidInvocationTransition AES_RUNNING (ar_status res)"
  shows "run_result clk rq p (AdapterReturned res) = Inl e \<longleftrightarrow>
     e = E_TYPE_ERROR \<and> side_effects_malformed (reported_side_effects p res)"
  using assms
  by (simp add: run_result_def normalizeAdapterResult_def Let_def bindE_Inl_iff summary_Inl
      reported_side_effects_def)

text \<open>While the key of an operation is taken, no attempt executes it or changes the claims.\<close>

lemma finalize_claims:
  "w_claims (fst (finalizeInvocation deps rq provider profile result False key w)) = w_claims w"
  by (simp add: finalizeInvocation_def record_audit_def mark_claim_def)

lemma taken_key_refused:
  assumes "find_key (w_claims w) (operation_key rq) = Some row"
    and "isConsequentialExecutionAction (rq_requestedAction rq)"
    and "invoke deps clk rq w = (w', exit)"
  shows "w_executed w' = w_executed w \<and> w_claims w' = w_claims w"
proof -
  let ?a = "\<lparr>a_deps = deps, a_clock = clk, a_request = rq\<rparr>"
  have key: "unique_violation db (operation_key rq) iv"
    if "find_key db (operation_key rq) = Some row" for db iv
    using find_key_Some [OF that] by (auto simp: unique_violation_def)
  have no: "w_executed v' = w_executed v \<and> w_claims v' = w_claims v \<and> (\<exists>x. r = Inl x)"
    if k: "find_key (w_claims v) (operation_key rq) = Some row" and store: "d_idempotencyStore deps"
      and c: "claim_phase deps clk rq p v = (v', r)" for v v' p r
  proof -
    obtain db q where q: "call_claim deps clk rq p (w_claims v) = (db, q)" by fastforce
    have "db = w_claims v \<and> (\<forall>c. q \<noteq> Inr (CLAIMED c))"
      using q key [OF k] disambiguate_total [OF key [OF k]] disambiguate_not_claimed
      by (auto simp: call_claim_def store_claim_def split: StoreFault.splits option.splits)
    moreover obtain v2 x where f: "finalizeInvocation deps rq (p_provider p) (p_profile p)
        (claim_failure deps clk rq p q) False None v = (v2, x)" by fastforce
    ultimately have "v' = v2 \<and> r = Inl x"
      using c q assms(2) store by (auto simp: claim_phase_def split: sum.splits GovernedInvocationClaimResult.splits)
    then show ?thesis using f
        finalize_claims [of deps rq "p_provider p" "p_profile p" "claim_failure deps clk rq p q" None v]
        finalize_executed [of deps rq "p_provider p" "p_profile p" "claim_failure deps clk rq p q" False None v]
      by simp
  qed
  have pre: "w_executed w1 = w_executed w \<and> w_claims w1 = w_claims w \<and>
      (\<forall>p. r = Inr p \<longrightarrow> d_idempotencyStore deps)" if "prepare deps clk rq w = (w1, r)" for w1 r
    using prepare_facts [of ?a w w1 r] authorised_store [of ?a] that assms(2) by auto
  show ?thesis using assms(3)
  proof (cases rule: invoke_cases)
    case refused
    with pre show ?thesis by blast
  next
    case (not_won w1 p)
    with pre [of w1 "Inr p"] no [of w1 p w' "Inl exit"] assms(1) show ?thesis by simp
  next
    case (ran w1 p w2 key run w3)
    with pre [of w1 "Inr p"] no [of w1 p w2 "Inr key"] assms(1) show ?thesis by simp
  qed
qed

lemma prepare_audit:
  assumes "prepare deps clk rq w = (w', r)"
  shows "GOVERNED_INVOCATION_COMPLETE c \<in> set (w_audit w') \<longleftrightarrow> GOVERNED_INVOCATION_COMPLETE c \<in> set (w_audit w)"
proof -
  have "GOVERNED_INVOCATION_COMPLETE c \<in> set (w_audit v) \<longleftrightarrow> GOVERNED_INVOCATION_COMPLETE c \<in> set (w_audit w)"
    if "authorise deps clk rq provider ad profile w = (v, q)" for provider ad profile v q
    using that by (auto simp: authorise_def record_audit_def auditPolicyDecision_def
        split: sum.splits if_splits)
  then show ?thesis
    using assms by (auto simp: prepare_def split: sum.splits option.splits if_splits)
qed

lemma won_claim:
  assumes "claim_phase deps clk rq p w = (w', Inr (Some key))"
  shows "key = operation_key rq" "w_audit w' = w_audit w" "w_executed w' = w_executed w"
    "isConsequentialExecutionAction (rq_requestedAction rq)"
    "find_key (w_claims w') key =
       Some (new_claim (t_claimed clk) key (rq_invocationId rq) (context_fingerprint rq p))"
proof -
  obtain db c where c: "call_claim deps clk rq p (w_claims w) = (db, Inr (CLAIMED c))"
    and "w' = w\<lparr>w_claims := db\<rparr>" "key = operation_key rq"
    "isConsequentialExecutionAction (rq_requestedAction rq)"
    using assms by (auto simp: claim_phase_def split: if_splits prod.splits sum.splits
        GovernedInvocationClaimResult.splits)
  with call_claim_won [OF c] show "key = operation_key rq" "w_audit w' = w_audit w"
    "w_executed w' = w_executed w" "isConsequentialExecutionAction (rq_requestedAction rq)"
    "find_key (w_claims w') key =
       Some (new_claim (t_claimed clk) key (rq_invocationId rq) (context_fingerprint rq p))" by simp_all
qed


definition malformed_metadata :: json where
  "malformed_metadata = JObj [(''sideEffects'', JObj [(''networkCalls'', JArr [JObj [], JNull])])]"


end
