(* ===== verification/Vito_Transition.thy ===== *)
theory Vito_Transition
  imports Vito_Prelude
begin

text \<open>
  The contract of a stateful service: a step function on its state, the
  operations its callers may issue, and an invariant that each such operation
  keeps.  The services with a store of their own are interpretations; what
  holds of every sequence of operations is proved here once.
\<close>

locale service =
  fixes step :: "'op \<Rightarrow> 's \<Rightarrow> 's"
    and admissible :: "'op \<Rightarrow> bool"
    and inv_ok :: "'s \<Rightarrow> bool"
  assumes step_ok: "admissible p \<Longrightarrow> inv_ok s \<Longrightarrow> inv_ok (step p s)"
begin

definition run :: "'op list \<Rightarrow> 's \<Rightarrow> 's" where
  "run ps s = fold step ps s"

lemma run_simps [simp]: "run [] s = s" "run (p # ps) s = run ps (step p s)"
  by (simp_all add: run_def)

lemma run_append: "run (ps @ qs) s = run qs (run ps s)"
  by (simp add: run_def)

lemma run_ok: "list_all admissible ps \<Longrightarrow> inv_ok s \<Longrightarrow> inv_ok (run ps s)"
  by (induction ps arbitrary: s) (simp_all add: step_ok)

lemma run_induct:
  assumes "list_all admissible ps" "inv_ok s" "P s"
    and "\<And>s p. p \<in> set ps \<Longrightarrow> inv_ok s \<Longrightarrow> P s \<Longrightarrow> P (step p s)"
  shows "P (run ps s)"
  using assms
proof (induction ps arbitrary: s)
  case (Cons p ps)
  then show ?case by (simp add: step_ok)
qed simp

end

text \<open>A service with a relation between earlier and later states that every operation keeps.\<close>

locale monotone_service = service step admissible inv_ok
  for step :: "'op \<Rightarrow> 's \<Rightarrow> 's" and admissible :: "'op \<Rightarrow> bool" and inv_ok :: "'s \<Rightarrow> bool" +
  fixes le :: "'s \<Rightarrow> 's \<Rightarrow> bool"
  assumes le_refl: "le s s"
    and le_trans: "le s t \<Longrightarrow> le t u \<Longrightarrow> le s u"
    and step_le: "admissible p \<Longrightarrow> inv_ok s \<Longrightarrow> le s (step p s)"
begin

lemma run_le: "list_all admissible ps \<Longrightarrow> inv_ok s \<Longrightarrow> le s (run ps s)"
proof (induction ps arbitrary: s)
  case (Cons p ps)
  then have "le s (step p s)" "le (step p s) (run ps (step p s))" by (simp_all add: step_ok step_le)
  then show ?case using le_trans by simp
qed (simp add: le_refl)

end

end
