(* ===== verification/Vito_Cancellation.thy ===== *)
theory Vito_Cancellation
  imports Vito_Transition
begin

text \<open>
  The registry that carries a workflow cancellation to running executions,
  \<open>execution-cancellation.registry.ts\<close>.  Executions register a callback; a
  cancelled workflow leaves a tombstone for an hour, so that an execution that
  registers late is signalled at once; at most a thousand tombstones are kept.

  The two maps are association lists in insertion order.  A callback is an
  effect on the outside: the registry keeps the trace of the callbacks it has
  called, and whether a callback throws is part of the registration.
\<close>

section \<open>State\<close>

definition CANCELLATION_TOMBSTONE_TTL_MS :: int where
  "CANCELLATION_TOMBSTONE_TTL_MS = 60 * 60 * 1000"

definition MAX_CANCELLATION_TOMBSTONES :: nat where
  "MAX_CANCELLATION_TOMBSTONES = 1000"

definition MAX_REPORTED_EXECUTION_IDS :: nat where
  "MAX_REPORTED_EXECUTION_IDS = 100"

record ExecutionCancellationRegistration =
  cx_organizationId :: string
  cx_workflowRunId :: string
  cx_workflowStepRunId :: string
  cx_executionId :: string
  cx_cancelThrows :: bool

record ActiveExecution = ExecutionCancellationRegistration +
  cx_cancelRequested :: bool

record CancellationRegistry =
  cg_active :: "(string \<times> ActiveExecution) list"
  cg_cancelledWorkflows :: "(string \<times> int) list"
  cg_called :: "string list"

record WorkflowCancellationSignalResult =
  cs_organizationId :: string
  cs_workflowRunId :: string
  cs_matchedExecutionCount :: nat
  cs_signalAttemptCount :: nat
  cs_signalFailureCount :: nat
  cs_signalledExecutionIds :: "string list"

datatype CancellationError = INVALID_IDENTIFIER string | DUPLICATE_REGISTRATION

datatype SignalOutcome = SIGNALLED | ALREADY_SIGNALLED | SIGNAL_FAILED

section \<open>Operations\<close>

definition assertIdentifier :: "string \<Rightarrow> string \<Rightarrow> CancellationError + unit" where
  "assertIdentifier v name = guardE (length v = 0 \<or> 512 < length v) (INVALID_IDENTIFIER name)"

definition assertRegistration :: "ExecutionCancellationRegistration \<Rightarrow> CancellationError + unit" where
  "assertRegistration i =
     bindE (assertIdentifier (cx_organizationId i) ''ORGANIZATIONID'') (\<lambda>_.
     bindE (assertIdentifier (cx_workflowRunId i) ''WORKFLOWRUNID'') (\<lambda>_.
     bindE (assertIdentifier (cx_workflowStepRunId i) ''WORKFLOWSTEPRUNID'') (\<lambda>_.
       assertIdentifier (cx_executionId i) ''EXECUTIONID'')))"

definition workflowKey :: "string \<Rightarrow> string \<Rightarrow> string" where
  "workflowKey org rid = org @ '':'' @ rid"

definition executionKey :: "('a ExecutionCancellationRegistration_scheme) \<Rightarrow> string" where
  "executionKey i = workflowKey (cx_organizationId i) (cx_workflowRunId i) @ '':'' @
     cx_workflowStepRunId i @ '':'' @ cx_executionId i"

definition pruneExpiredTombstones :: "int \<Rightarrow> CancellationRegistry \<Rightarrow> CancellationRegistry" where
  "pruneExpiredTombstones now reg =
     reg\<lparr>cg_cancelledWorkflows := filter (\<lambda>e. \<not> snd e \<le> now) (cg_cancelledWorkflows reg)\<rparr>"

text \<open>The loop deletes the oldest entry until the bound holds; an empty key ends it.\<close>

fun drop_oldest :: "(string \<times> int) list \<Rightarrow> (string \<times> int) list" where
  "drop_oldest [] = []"
| "drop_oldest (e # es) =
     (if MAX_CANCELLATION_TOMBSTONES < length (e # es)
      then (if fst e = [] then e # es else drop_oldest es) else e # es)"

definition enforceTombstoneBound :: "CancellationRegistry \<Rightarrow> CancellationRegistry" where
  "enforceTombstoneBound reg =
     reg\<lparr>cg_cancelledWorkflows := drop_oldest (cg_cancelledWorkflows reg)\<rparr>"

definition isWorkflowCancelled ::
  "int \<Rightarrow> string \<Rightarrow> string \<Rightarrow> CancellationRegistry \<Rightarrow> CancellationRegistry \<times> bool" where
  "isWorkflowCancelled now org rid reg =
     (let reg' = pruneExpiredTombstones now reg in
      (reg', case map_of (cg_cancelledWorkflows reg') (workflowKey org rid) of
               None \<Rightarrow> False | Some expiresAt \<Rightarrow> now < expiresAt))"

definition set_requested :: "string \<Rightarrow> CancellationRegistry \<Rightarrow> CancellationRegistry" where
  "set_requested key reg = reg\<lparr>
     cg_active := map (\<lambda>(k, e). if k = key then (k, e\<lparr>cx_cancelRequested := True\<rparr>) else (k, e)) (cg_active reg),
     cg_called := cg_called reg @ [key]\<rparr>"

definition signal :: "string \<Rightarrow> ActiveExecution \<Rightarrow> CancellationRegistry \<Rightarrow> CancellationRegistry \<times> SignalOutcome" where
  "signal key entry reg =
     (if cx_cancelRequested entry then (reg, ALREADY_SIGNALLED)
      else (set_requested key reg, if cx_cancelThrows entry then SIGNAL_FAILED else SIGNALLED))"

definition new_entry :: "ExecutionCancellationRegistration \<Rightarrow> ActiveExecution" where
  "new_entry i = \<lparr>cx_organizationId = cx_organizationId i, cx_workflowRunId = cx_workflowRunId i,
     cx_workflowStepRunId = cx_workflowStepRunId i, cx_executionId = cx_executionId i,
     cx_cancelThrows = cx_cancelThrows i, cx_cancelRequested = False\<rparr>"

definition register_execution ::
  "int \<Rightarrow> ExecutionCancellationRegistration \<Rightarrow> CancellationRegistry \<Rightarrow>
   CancellationRegistry \<times> (CancellationError + string)" where
  "register_execution now i reg =
     (case assertRegistration i of
        Inl e \<Rightarrow> (reg, Inl e)
      | Inr _ \<Rightarrow>
          (let reg = pruneExpiredTombstones now reg; key = executionKey i in
           if map_of (cg_active reg) key \<noteq> None then (reg, Inl DUPLICATE_REGISTRATION)
           else
             (let reg = reg\<lparr>cg_active := cg_active reg @ [(key, new_entry i)]\<rparr>;
                  (reg, cancelled) = isWorkflowCancelled now (cx_organizationId i) (cx_workflowRunId i) reg in
              (if cancelled then fst (signal key (new_entry i) reg) else reg, Inr key))))"

text \<open>The function \<open>register\<close> returns; it is called for the entry of that registration.\<close>

definition unregister_execution :: "string \<Rightarrow> CancellationRegistry \<Rightarrow> CancellationRegistry" where
  "unregister_execution key reg = reg\<lparr>cg_active := filter (\<lambda>e. fst e \<noteq> key) (cg_active reg)\<rparr>"

fun signal_all ::
  "(string \<times> ActiveExecution) list \<Rightarrow> CancellationRegistry \<Rightarrow> WorkflowCancellationSignalResult \<Rightarrow>
   CancellationRegistry \<times> WorkflowCancellationSignalResult" where
  "signal_all [] reg res = (reg, res)"
| "signal_all ((key, entry) # ms) reg res =
     (case signal key entry reg of
        (reg', ALREADY_SIGNALLED) \<Rightarrow> signal_all ms reg' res
      | (reg', SIGNALLED) \<Rightarrow> signal_all ms reg' (res\<lparr>
          cs_signalAttemptCount := cs_signalAttemptCount res + 1,
          cs_signalledExecutionIds :=
            (if length (cs_signalledExecutionIds res) < MAX_REPORTED_EXECUTION_IDS
             then cs_signalledExecutionIds res @ [cx_executionId entry]
             else cs_signalledExecutionIds res)\<rparr>)
      | (reg', SIGNAL_FAILED) \<Rightarrow> signal_all ms reg' (res\<lparr>
          cs_signalAttemptCount := cs_signalAttemptCount res + 1,
          cs_signalFailureCount := cs_signalFailureCount res + 1\<rparr>))"

definition arm_tombstone :: "int \<Rightarrow> string \<Rightarrow> CancellationRegistry \<Rightarrow> CancellationRegistry" where
  "arm_tombstone now key reg = enforceTombstoneBound (reg\<lparr>cg_cancelledWorkflows :=
     filter (\<lambda>e. fst e \<noteq> key) (cg_cancelledWorkflows reg) @ [(key, now + CANCELLATION_TOMBSTONE_TTL_MS)]\<rparr>)"

definition cancelWorkflow ::
  "int \<Rightarrow> string \<Rightarrow> string \<Rightarrow> CancellationRegistry \<Rightarrow>
   CancellationRegistry \<times> (CancellationError + WorkflowCancellationSignalResult)" where
  "cancelWorkflow now org rid reg =
     (case bindE (assertIdentifier org ''ORGANIZATIONID'') (\<lambda>_. assertIdentifier rid ''WORKFLOWRUNID'') of
        Inl e \<Rightarrow> (reg, Inl e)
      | Inr _ \<Rightarrow>
          (let reg = arm_tombstone now (workflowKey org rid) (pruneExpiredTombstones now reg);
               matches = filter (\<lambda>(k, e). cx_organizationId e = org \<and> cx_workflowRunId e = rid) (cg_active reg);
               (reg, res) = signal_all matches reg \<lparr>cs_organizationId = org, cs_workflowRunId = rid,
                 cs_matchedExecutionCount = length matches, cs_signalAttemptCount = 0,
                 cs_signalFailureCount = 0, cs_signalledExecutionIds = []\<rparr> in
           (reg, Inr res)))"

section \<open>The registry as a service\<close>

datatype cancel_op =
    CRegister int ExecutionCancellationRegistration
  | CUnregister string
  | CCancel int string string
  | CQuery int string string

fun cancel_step :: "cancel_op \<Rightarrow> CancellationRegistry \<Rightarrow> CancellationRegistry" where
  "cancel_step (CRegister now i) reg = fst (register_execution now i reg)"
| "cancel_step (CUnregister key) reg = unregister_execution key reg"
| "cancel_step (CCancel now org rid) reg = fst (cancelWorkflow now org rid reg)"
| "cancel_step (CQuery now org rid) reg = fst (isWorkflowCancelled now org rid reg)"

definition registry_ok :: "CancellationRegistry \<Rightarrow> bool" where
  "registry_ok reg = (distinct (map fst (cg_active reg)) \<and>
     (\<forall>(k, e) \<in> set (cg_active reg). k = executionKey e \<and> (cx_cancelRequested e \<longrightarrow> k \<in> set (cg_called reg))) \<and>
     distinct (map fst (cg_cancelledWorkflows reg)) \<and> (\<forall>k \<in> fst ` set (cg_cancelledWorkflows reg). k \<noteq> []) \<and>
     length (cg_cancelledWorkflows reg) \<le> MAX_CANCELLATION_TOMBSTONES)"

definition empty_registry :: CancellationRegistry where
  "empty_registry = \<lparr>cg_active = [], cg_cancelledWorkflows = [], cg_called = []\<rparr>"

lemma executionKey_update [simp]: "executionKey (e\<lparr>cx_cancelRequested := b\<rparr>) = executionKey e"
  by (simp add: executionKey_def)

lemma executionKey_new [simp]: "executionKey (new_entry i) = executionKey i"
  by (simp add: executionKey_def new_entry_def)

lemma workflowKey_not_Nil [simp]: "workflowKey org rid \<noteq> []"
  by (simp add: workflowKey_def)

lemma registry_ok_prune: "registry_ok reg \<Longrightarrow> registry_ok (pruneExpiredTombstones now reg)"
  unfolding registry_ok_def pruneExpiredTombstones_def
  by (auto simp: distinct_map_filter intro: order_trans [OF length_filter_le])

lemma keys_requested:
  "map (fst \<circ> (\<lambda>(k, e). if k = key then (k, f e) else (k, e))) xs = map fst xs"
  by auto

lemma registry_ok_requested: "registry_ok reg \<Longrightarrow> registry_ok (set_requested key reg)"
  unfolding registry_ok_def set_requested_def by (auto simp: keys_requested split: if_splits)

lemma registry_ok_signal: "registry_ok reg \<Longrightarrow> registry_ok (fst (signal key e reg))"
  by (simp add: signal_def registry_ok_requested)

lemma registry_ok_signal_all: "registry_ok reg \<Longrightarrow> registry_ok (fst (signal_all ms reg res))"
proof (induction ms reg res rule: signal_all.induct)
  case (2 key e ms reg res)
  obtain reg' o' where s: "signal key e reg = (reg', o')" by fastforce
  with registry_ok_signal [OF 2(4), of key e] have "registry_ok reg'" by simp
  with 2 s show ?case by (cases o') auto
qed simp

lemma drop_oldest_le:
  "length es \<le> Suc MAX_CANCELLATION_TOMBSTONES \<Longrightarrow> \<forall>e \<in> set es. fst e \<noteq> [] \<Longrightarrow>
   drop_oldest es = (if length es = Suc MAX_CANCELLATION_TOMBSTONES then tl es else es)"
proof (cases es)
  case (Cons e fs)
  assume a: "length es \<le> Suc MAX_CANCELLATION_TOMBSTONES" "\<forall>e \<in> set es. fst e \<noteq> []"
  have "drop_oldest fs = fs" using a(1) Cons by (cases fs) auto
  with a Cons show ?thesis by auto
qed simp

lemma arm_tombstone_eq:
  assumes "registry_ok reg" "key \<noteq> []"
  shows "cg_cancelledWorkflows (arm_tombstone now key reg) =
    (let ts = filter (\<lambda>e. fst e \<noteq> key) (cg_cancelledWorkflows reg) in
     if length ts = MAX_CANCELLATION_TOMBSTONES then tl ts @ [(key, now + CANCELLATION_TOMBSTONE_TTL_MS)]
     else ts @ [(key, now + CANCELLATION_TOMBSTONE_TTL_MS)])"
proof -
  let ?ts = "filter (\<lambda>e. fst e \<noteq> key) (cg_cancelledWorkflows reg)"
  let ?us = "?ts @ [(key, now + CANCELLATION_TOMBSTONE_TTL_MS)]"
  have "length ?ts \<le> MAX_CANCELLATION_TOMBSTONES"
    using assms(1) length_filter_le [of _ "cg_cancelledWorkflows reg"] unfolding registry_ok_def
    by (meson order_trans)
  moreover have "\<forall>e \<in> set ?us. fst e \<noteq> []" using assms unfolding registry_ok_def by auto
  ultimately have "drop_oldest ?us = (if length ?us = Suc MAX_CANCELLATION_TOMBSTONES then tl ?us else ?us)"
    by (intro drop_oldest_le) auto
  moreover have "?ts \<noteq> []" if "length ?ts = MAX_CANCELLATION_TOMBSTONES"
    using that by (auto simp: MAX_CANCELLATION_TOMBSTONES_def)
  moreover have "0 < MAX_CANCELLATION_TOMBSTONES" by (simp add: MAX_CANCELLATION_TOMBSTONES_def)
  ultimately show ?thesis
    by (auto simp: arm_tombstone_def enforceTombstoneBound_def Let_def tl_append split: list.splits)
qed

lemma registry_ok_arm:
  assumes "registry_ok reg" "key \<noteq> []"
  shows "registry_ok (arm_tombstone now key reg)"
proof -
  let ?ts = "filter (\<lambda>e. fst e \<noteq> key) (cg_cancelledWorkflows reg)"
  have le: "length ?ts \<le> MAX_CANCELLATION_TOMBSTONES"
    using assms(1) length_filter_le [of _ "cg_cancelledWorkflows reg"] unfolding registry_ok_def
    by (meson order_trans)
  have d: "distinct (map fst ?ts)" using assms(1) by (simp add: registry_ok_def distinct_map_filter)
  have t: "set (tl ?ts) \<subseteq> set ?ts" "distinct (map fst (tl ?ts))" using d by (cases ?ts; auto)+
  have "cg_active (arm_tombstone now key reg) = cg_active reg" "cg_called (arm_tombstone now key reg) = cg_called reg"
    by (simp_all add: arm_tombstone_def enforceTombstoneBound_def)
  with assms le d t show ?thesis unfolding registry_ok_def arm_tombstone_eq [OF assms] Let_def
    by (auto simp: MAX_CANCELLATION_TOMBSTONES_def)
qed

lemma registry_ok_query: "registry_ok reg \<Longrightarrow> registry_ok (fst (isWorkflowCancelled now org rid reg))"
  by (simp add: isWorkflowCancelled_def Let_def registry_ok_prune)

lemma registry_ok_register:
  assumes "registry_ok reg"
  shows "registry_ok (fst (register_execution now i reg))"
proof (cases "assertRegistration i")
  case (Inr u)
  let ?r = "pruneExpiredTombstones now reg" and ?k = "executionKey i"
  have r: "registry_ok ?r" using assms by (rule registry_ok_prune)
  show ?thesis
  proof (cases "map_of (cg_active ?r) ?k")
    case None
    let ?q = "?r\<lparr>cg_active := cg_active ?r @ [(?k, new_entry i)]\<rparr>"
    have "registry_ok ?q" using r None unfolding registry_ok_def
      by (auto simp: map_of_eq_None_iff new_entry_def executionKey_def)
    then show ?thesis using Inr None registry_ok_query [of ?q now] registry_ok_signal
      by (simp add: register_execution_def Let_def split_beta)
  qed (use Inr r in \<open>simp add: register_execution_def Let_def\<close>)
qed (use assms in \<open>simp add: register_execution_def\<close>)

lemma registry_ok_unregister: "registry_ok reg \<Longrightarrow> registry_ok (unregister_execution key reg)"
  unfolding registry_ok_def unregister_execution_def by (auto simp: distinct_map_filter)

lemma registry_ok_cancel:
  assumes "registry_ok reg"
  shows "registry_ok (fst (cancelWorkflow now org rid reg))"
proof -
  have "registry_ok (arm_tombstone now (workflowKey org rid) (pruneExpiredTombstones now reg))"
    by (intro registry_ok_arm registry_ok_prune assms workflowKey_not_Nil)
  then show ?thesis using assms registry_ok_signal_all
    by (auto simp: cancelWorkflow_def Let_def split_beta split: sum.splits)
qed

interpretation cancellations: service cancel_step "\<lambda>_. True" registry_ok
proof
  show "registry_ok reg \<Longrightarrow> registry_ok (cancel_step p reg)" for reg p
    by (cases p) (simp_all add: registry_ok_register registry_ok_unregister registry_ok_cancel registry_ok_query)
qed

section \<open>Signalling\<close>

lemma cg_active_requested [simp]:
  "cg_active (set_requested key reg) =
     map (\<lambda>(k, e). if k = key then (k, e\<lparr>cx_cancelRequested := True\<rparr>) else (k, e)) (cg_active reg)"
  "set (cg_called (set_requested key reg)) = insert key (set (cg_called reg))"
  "cg_cancelledWorkflows (set_requested key reg) = cg_cancelledWorkflows reg"
  by (auto simp: set_requested_def)

lemma signal_tombstones [simp]: "cg_cancelledWorkflows (fst (signal k e reg)) = cg_cancelledWorkflows reg"
  by (simp add: signal_def)

lemma signal_all_tombstones: "cg_cancelledWorkflows (fst (signal_all ms reg res)) = cg_cancelledWorkflows reg"
proof (induction ms reg res rule: signal_all.induct)
  case (2 key e ms reg res)
  obtain reg' o' where s: "signal key e reg = (reg', o')" by fastforce
  with signal_tombstones [of key e reg] have "cg_cancelledWorkflows reg' = cg_cancelledWorkflows reg" by simp
  with 2 s show ?case by (cases o') auto
qed simp

definition due :: "(string \<times> ActiveExecution) list \<Rightarrow> string set" where
  "due ms = {k. \<exists>e. (k, e) \<in> set ms \<and> \<not> cx_cancelRequested e}"

definition request_all :: "string set \<Rightarrow> (string \<times> ActiveExecution) list \<Rightarrow> (string \<times> ActiveExecution) list" where
  "request_all ks xs = map (\<lambda>(k, e). if k \<in> ks then (k, e\<lparr>cx_cancelRequested := True\<rparr>) else (k, e)) xs"

lemma request_all_compose: "request_all ks (request_all ls xs) = request_all (ls \<union> ks) xs"
  by (auto simp: request_all_def)

lemma signal_all_active:
  "cg_active (fst (signal_all ms reg res)) = request_all (due ms) (cg_active reg) \<and>
   set (cg_called (fst (signal_all ms reg res))) = due ms \<union> set (cg_called reg)"
proof (induction ms reg res rule: signal_all.induct)
  case (1 reg res)
  have "request_all {} xs = xs" for xs by (auto simp: request_all_def map_idI)
  then show ?case by (simp add: due_def)
next
  case (2 key e ms reg res)
  obtain reg' o' where s: "signal key e reg = (reg', o')" by fastforce
  have due: "due ((key, e) # ms) = (if cx_cancelRequested e then {} else {key}) \<union> due ms"
    by (auto simp: due_def)
  have "cg_active reg' = request_all (if cx_cancelRequested e then {} else {key}) (cg_active reg)"
    "set (cg_called reg') = (if cx_cancelRequested e then {} else {key}) \<union> set (cg_called reg)"
    using s by (auto simp: signal_def request_all_def map_idI split: if_splits)
  with 2 s show ?case unfolding due by (cases o') (auto simp: request_all_compose)
qed

lemma signal_all_counts:
  "cs_matchedExecutionCount (snd (signal_all ms reg res)) = cs_matchedExecutionCount res \<and>
   cs_signalAttemptCount (snd (signal_all ms reg res)) \<le> cs_signalAttemptCount res + length ms \<and>
   (length (cs_signalledExecutionIds res) \<le> MAX_REPORTED_EXECUTION_IDS \<longrightarrow>
    length (cs_signalledExecutionIds (snd (signal_all ms reg res))) \<le> MAX_REPORTED_EXECUTION_IDS)"
proof (induction ms arbitrary: reg res)
  case (Cons m ms)
  obtain key e where m: "m = (key, e)" by fastforce
  obtain reg' o' where s: "signal key e reg = (reg', o')" by fastforce
  from m s obtain res' where
    "signal_all (m # ms) reg res = signal_all ms reg' res'"
    "cs_matchedExecutionCount res' = cs_matchedExecutionCount res"
    "cs_signalAttemptCount res' \<le> Suc (cs_signalAttemptCount res)"
    "length (cs_signalledExecutionIds res) \<le> MAX_REPORTED_EXECUTION_IDS \<longrightarrow>
     length (cs_signalledExecutionIds res') \<le> MAX_REPORTED_EXECUTION_IDS"
    by (cases o') (auto intro: that)
  with Cons.IH [of reg' res'] show ?case by auto
qed simp

section \<open>Tombstones\<close>

text \<open>A tombstone for the key that lasts to the deadline, with at most \<open>n\<close> younger ones.\<close>

definition guards :: "int \<Rightarrow> string \<Rightarrow> nat \<Rightarrow> (string \<times> int) list \<Rightarrow> bool" where
  "guards deadline key n ts = (\<exists>us x vs. ts = us @ (key, x) # vs \<and> deadline \<le> x \<and> length vs \<le> n)"

lemma guards_filter: "guards d k n ts \<Longrightarrow> (\<And>x. d \<le> x \<Longrightarrow> P (k, x)) \<Longrightarrow> guards d k n (filter P ts)"
proof -
  assume "guards d k n ts" and P: "\<And>x. d \<le> x \<Longrightarrow> P (k, x)"
  then obtain us x vs where t: "ts = us @ (k, x) # vs" "d \<le> x" "length vs \<le> n" by (auto simp: guards_def)
  then have "filter P ts = filter P us @ (k, x) # filter P vs" using P by simp
  moreover have "length (filter P vs) \<le> n" using t(3) length_filter_le [of P vs] by linarith
  ultimately show ?thesis using t(2) unfolding guards_def by blast
qed

lemma guards_prune:
  "guards d k n (cg_cancelledWorkflows reg) \<Longrightarrow> now < d \<Longrightarrow>
   guards d k n (cg_cancelledWorkflows (pruneExpiredTombstones now reg))"
  by (simp add: pruneExpiredTombstones_def guards_filter)

lemma guards_append: "guards d k n ts \<Longrightarrow> guards d k (Suc n) (ts @ [e])"
  unfolding guards_def by force

lemma guards_tl:
  assumes "guards d k n ts" "Suc n < length ts"
  shows "guards d k n (tl ts)"
proof -
  obtain us x vs where t: "ts = us @ (k, x) # vs" "d \<le> x" "length vs \<le> n" using assms(1) by (auto simp: guards_def)
  then obtain u us' where "us = u # us'" using assms(2) by (cases us) auto
  with t show ?thesis unfolding guards_def by auto
qed

lemma guards_arm:
  assumes ok: "registry_ok reg" and g: "guards d k n (cg_cancelledWorkflows reg)" and n: "Suc n < MAX_CANCELLATION_TOMBSTONES"
    and "key \<noteq> []" "d \<le> now + CANCELLATION_TOMBSTONE_TTL_MS"
  shows "guards d k (Suc n) (cg_cancelledWorkflows (arm_tombstone now key reg))"
proof (cases "key = k")
  case True
  with assms(5) have "guards d k (Suc n) (ts @ [(key, now + CANCELLATION_TOMBSTONE_TTL_MS)])" for ts
    unfolding guards_def by fastforce
  then show ?thesis unfolding arm_tombstone_eq [OF ok assms(4)] Let_def by auto
next
  case False
  let ?ts = "filter (\<lambda>e. fst e \<noteq> key) (cg_cancelledWorkflows reg)"
  have "guards d k n ?ts" using False g by (intro guards_filter) auto
  moreover have "guards d k n (tl ?ts)" if "length ?ts = MAX_CANCELLATION_TOMBSTONES"
    using that n guards_tl [OF calculation] by simp
  ultimately show ?thesis unfolding arm_tombstone_eq [OF ok assms(4)] Let_def
    by (auto intro: guards_append)
qed

fun op_time_ok :: "int \<Rightarrow> cancel_op \<Rightarrow> bool" where
  "op_time_ok t (CRegister now i) = (t \<le> now \<and> now < t + CANCELLATION_TOMBSTONE_TTL_MS)"
| "op_time_ok t (CUnregister key) = True"
| "op_time_ok t (CCancel now org rid) = (t \<le> now \<and> now < t + CANCELLATION_TOMBSTONE_TTL_MS)"
| "op_time_ok t (CQuery now org rid) = (t \<le> now \<and> now < t + CANCELLATION_TOMBSTONE_TTL_MS)"

fun is_cancel :: "cancel_op \<Rightarrow> bool" where
  "is_cancel (CCancel now org rid) = True"
| "is_cancel _ = False"

lemma cg_cancelled_active [simp]:
  "cg_cancelledWorkflows (reg\<lparr>cg_active := xs\<rparr>) = cg_cancelledWorkflows reg" by simp

lemma guards_step:
  assumes ok: "registry_ok reg" and g: "guards (t + CANCELLATION_TOMBSTONE_TTL_MS) k n (cg_cancelledWorkflows reg)"
    and n: "Suc n < MAX_CANCELLATION_TOMBSTONES" and p: "op_time_ok t p"
  shows "guards (t + CANCELLATION_TOMBSTONE_TTL_MS) k (if is_cancel p then Suc n else n)
     (cg_cancelledWorkflows (cancel_step p reg))"
proof (cases p)
  case (CRegister now i)
  with p have "now < t + CANCELLATION_TOMBSTONE_TTL_MS" by simp
  note pr = guards_prune [OF _ this]
  let ?r = "pruneExpiredTombstones now reg"
  have "guards (t + CANCELLATION_TOMBSTONE_TTL_MS) k n (cg_cancelledWorkflows (pruneExpiredTombstones now
      (?r\<lparr>cg_active := xs\<rparr>)))" for xs using pr [OF g] by (intro pr) simp
  with CRegister pr [OF g] g show ?thesis
    by (auto simp: register_execution_def Let_def isWorkflowCancelled_def split: sum.splits)
next
  case (CCancel now org rid)
  let ?r = "pruneExpiredTombstones now reg"
  have now: "now < t + CANCELLATION_TOMBSTONE_TTL_MS"
    "t + CANCELLATION_TOMBSTONE_TTL_MS \<le> now + CANCELLATION_TOMBSTONE_TTL_MS" using CCancel p by simp_all
  have "guards (t + CANCELLATION_TOMBSTONE_TTL_MS) k (Suc n)
      (cg_cancelledWorkflows (arm_tombstone now (workflowKey org rid) ?r))"
    by (intro guards_arm registry_ok_prune ok guards_prune g n now workflowKey_not_Nil)
  moreover have "guards (t + CANCELLATION_TOMBSTONE_TTL_MS) k (Suc n) (cg_cancelledWorkflows reg)"
    using g unfolding guards_def by (meson le_SucI)
  ultimately show ?thesis using CCancel
    by (auto simp: cancelWorkflow_def Let_def split_beta signal_all_tombstones split: sum.splits)
next
  case (CUnregister key)
  with g show ?thesis by (simp add: unregister_execution_def)
next
  case (CQuery now org rid)
  with p g show ?thesis by (simp add: isWorkflowCancelled_def Let_def guards_prune)
qed

lemma guards_run:
  "registry_ok reg \<Longrightarrow> guards (t + CANCELLATION_TOMBSTONE_TTL_MS) k n (cg_cancelledWorkflows reg) \<Longrightarrow>
   n + length (filter is_cancel ps) < MAX_CANCELLATION_TOMBSTONES - 1 \<Longrightarrow> list_all (op_time_ok t) ps \<Longrightarrow>
   guards (t + CANCELLATION_TOMBSTONE_TTL_MS) k (n + length (filter is_cancel ps))
     (cg_cancelledWorkflows (cancellations.run ps reg))"
proof (induction ps arbitrary: reg n)
  case (Cons p ps)
  let ?m = "if is_cancel p then Suc n else n"
  have "guards (t + CANCELLATION_TOMBSTONE_TTL_MS) k ?m (cg_cancelledWorkflows (cancel_step p reg))"
    using Cons.prems by (intro guards_step) auto
  with Cons.IH [of "cancel_step p reg" ?m] Cons.prems cancellations.step_ok show ?case
    by (simp split: if_splits)
qed simp

lemma signal_all_called:
  "cg_called (fst (signal_all ms reg res)) =
     cg_called reg @ map fst (filter (\<lambda>m. \<not> cx_cancelRequested (snd m)) ms)"
proof (induction ms arbitrary: reg res)
  case (Cons m ms)
  obtain key e where m: "m = (key, e)" by fastforce
  obtain reg' o' where s: "signal key e reg = (reg', o')" by fastforce
  have "cg_called reg' = cg_called reg @ (if cx_cancelRequested e then [] else [key])"
    using s by (auto simp: signal_def set_requested_def split: if_splits)
  with m s Cons.IH show ?case by (cases o') auto
qed simp

lemma arm_other_fields [simp]:
  "cg_active (arm_tombstone now key reg) = cg_active reg"
  "cg_called (arm_tombstone now key reg) = cg_called reg"
  "cg_active (pruneExpiredTombstones now reg) = cg_active reg"
  "cg_called (pruneExpiredTombstones now reg) = cg_called reg"
  by (simp_all add: arm_tombstone_def enforceTombstoneBound_def pruneExpiredTombstones_def)

definition runs_for :: "string \<Rightarrow> string \<Rightarrow> ActiveExecution \<Rightarrow> bool" where
  "runs_for org rid e = (cx_organizationId e = org \<and> cx_workflowRunId e = rid)"

lemma runs_for_filter:
  "filter (\<lambda>(k, e). cx_organizationId e = org \<and> cx_workflowRunId e = rid) xs = filter (\<lambda>x. runs_for org rid (snd x)) xs"
  by (rule filter_cong) (auto simp: runs_for_def)

lemma request_all_runs:
  assumes "distinct (map fst xs)"
  shows "request_all (due (filter (\<lambda>x. runs_for org rid (snd x)) xs)) xs =
    map (\<lambda>(k, e). (k, if runs_for org rid e then e\<lparr>cx_cancelRequested := True\<rparr> else e)) xs"
  unfolding request_all_def
proof (rule map_cong [OF refl])
  fix x assume x: "x \<in> set xs"
  obtain k e where ke: "x = (k, e)" by fastforce
  have "k \<in> due (filter (\<lambda>x. runs_for org rid (snd x)) xs) \<longleftrightarrow> runs_for org rid e \<and> \<not> cx_cancelRequested e"
    using x ke assms eq_key_imp_eq_value [OF assms] by (auto simp: due_def)
  moreover have "cx_cancelRequested e \<Longrightarrow> e\<lparr>cx_cancelRequested := True\<rparr> = e" by (cases e) simp
  ultimately show "(case x of (k, e) \<Rightarrow>
       if k \<in> due (filter (\<lambda>x. runs_for org rid (snd x)) xs) then (k, e\<lparr>cx_cancelRequested := True\<rparr>) else (k, e)) =
     (case x of (k, e) \<Rightarrow> (k, if runs_for org rid e then e\<lparr>cx_cancelRequested := True\<rparr> else e))"
    using ke by auto
qed

lemma guards_armed:
  assumes "registry_ok reg" "key \<noteq> []"
  shows "guards (now + CANCELLATION_TOMBSTONE_TTL_MS) key 0 (cg_cancelledWorkflows (arm_tombstone now key reg))"
  unfolding arm_tombstone_eq [OF assms] Let_def guards_def by auto

lemma guards_cancelled:
  assumes "registry_ok reg" "guards d (workflowKey org rid) n (cg_cancelledWorkflows reg)" "now < d"
  shows "snd (isWorkflowCancelled now org rid reg)"
proof -
  have g: "guards d (workflowKey org rid) n (cg_cancelledWorkflows (pruneExpiredTombstones now reg))"
    using assms by (intro guards_prune)
  then obtain x where x: "(workflowKey org rid, x) \<in> set (cg_cancelledWorkflows (pruneExpiredTombstones now reg))" "d \<le> x"
    unfolding guards_def by (metis in_set_conv_decomp)
  have "distinct (map fst (cg_cancelledWorkflows (pruneExpiredTombstones now reg)))"
    using registry_ok_prune [OF assms(1)] by (simp add: registry_ok_def)
  with x(1) have "map_of (cg_cancelledWorkflows (pruneExpiredTombstones now reg)) (workflowKey org rid) = Some x"
    by (rule map_of_is_SomeI [rotated])
  with x(2) assms(3) show ?thesis by (simp add: isWorkflowCancelled_def)
qed

lemma map_of_requested_None:
  "map_of xs key = None \<Longrightarrow> map_of (map (\<lambda>(k, e). if k = key then (k, f e) else (k, e)) xs) key = None"
  by (induction xs) (auto split: if_splits)

lemma registry_ok_empty: "registry_ok empty_registry"
  by (simp add: registry_ok_def empty_registry_def)

lemma registry_ok_run: "registry_ok reg \<Longrightarrow> registry_ok (fold cancel_step ps reg)"
  using cancellations.run_ok [of ps] by (simp add: cancellations.run_def list_all_iff)

lemma run_is_fold: "cancellations.run ps reg = fold cancel_step ps reg"
  by (simp add: cancellations.run_def)

section \<open>Properties\<close>

text \<open>The registry stays bounded and consistent under every sequence of
  registrations, unregistrations, cancellations and queries: never more than
  a thousand tombstones, one per workflow, one entry per execution, and an
  execution marked as cancelled has had its callback called.\<close>

lemma registry_bounded:
  assumes "reg = fold cancel_step ps empty_registry"
  shows "length (cg_cancelledWorkflows reg) \<le> 1000 \<and> distinct (map fst (cg_cancelledWorkflows reg)) \<and>
    distinct (map fst (cg_active reg)) \<and>
    (\<forall>(k, e) \<in> set (cg_active reg). k = executionKey e \<and> (cx_cancelRequested e \<longrightarrow> k \<in> set (cg_called reg)))"
  using registry_ok_run [OF registry_ok_empty, of ps] assms
  by (simp add: registry_ok_def MAX_CANCELLATION_TOMBSTONES_def)

definition sample_registration :: "string \<Rightarrow> ExecutionCancellationRegistration" where
  "sample_registration x = \<lparr>cx_organizationId = ''o'', cx_workflowRunId = ''r'',
     cx_workflowStepRunId = ''s'', cx_executionId = x, cx_cancelThrows = False\<rparr>"

definition sample_ops :: "cancel_op list" where
  "sample_ops = [CRegister 0 (sample_registration ''x''), CCancel 1 ''o'' ''r'']"

lemma sample_ops_result:
  "fold cancel_step sample_ops empty_registry = \<lparr>
     cg_active = [(''o:r:s:x'', (new_entry (sample_registration ''x''))\<lparr>cx_cancelRequested := True\<rparr>)],
     cg_cancelledWorkflows = [(''o:r'', 3600001)], cg_called = [''o:r:s:x'']\<rparr>"
  by code_simp

text \<open>Cancelling a workflow reaches every execution that runs for it and no
  other: each of its registered executions is marked, the callback of each one
  not marked before is called once, in registration order, and the executions
  of other runs and other organisations are left alone.\<close>

lemma cancel_signals_exactly_the_run:
  assumes ok: "registry_ok reg" and c: "cancelWorkflow now org rid reg = (reg', Inr res)"
  shows "cg_active reg' =
      map (\<lambda>(k, e). (k, if runs_for org rid e then e\<lparr>cx_cancelRequested := True\<rparr> else e)) (cg_active reg) \<and>
    cg_called reg' = cg_called reg @
      map fst (filter (\<lambda>x. runs_for org rid (snd x) \<and> \<not> cx_cancelRequested (snd x)) (cg_active reg)) \<and>
    cs_matchedExecutionCount res = length (filter (\<lambda>x. runs_for org rid (snd x)) (cg_active reg)) \<and>
    cs_signalAttemptCount res \<le> cs_matchedExecutionCount res \<and> length (cs_signalledExecutionIds res) \<le> 100"
proof -
  let ?a = "arm_tombstone now (workflowKey org rid) (pruneExpiredTombstones now reg)"
  let ?ms = "filter (\<lambda>x. runs_for org rid (snd x)) (cg_active reg)"
  obtain r0 where r: "signal_all ?ms ?a r0 = (reg', res)" "cs_matchedExecutionCount r0 = length ?ms"
    "cs_signalAttemptCount r0 = 0" "cs_signalledExecutionIds r0 = []"
    using c by (auto simp: cancelWorkflow_def Let_def runs_for_filter split: sum.splits prod.splits)
  have d: "distinct (map fst (cg_active reg))" using ok by (simp add: registry_ok_def)
  have "cg_active reg' =
      map (\<lambda>(k, e). (k, if runs_for org rid e then e\<lparr>cx_cancelRequested := True\<rparr> else e)) (cg_active reg)"
    using signal_all_active [of ?ms ?a r0] request_all_runs [OF d] r(1) by simp
  moreover have "cg_called reg' = cg_called reg @
      map fst (filter (\<lambda>x. runs_for org rid (snd x) \<and> \<not> cx_cancelRequested (snd x)) (cg_active reg))"
    using signal_all_called [of ?ms ?a r0] r(1) by (simp add: filter_filter conj_commute)
  ultimately show ?thesis using signal_all_counts [of ?ms ?a r0] r by (auto simp: MAX_REPORTED_EXECUTION_IDS_def)
qed

definition sample_registry :: CancellationRegistry where
  "sample_registry = fold cancel_step
     [CRegister 0 (sample_registration ''x''),
      CRegister 0 ((sample_registration ''y'')\<lparr>cx_workflowRunId := ''q''\<rparr>)] empty_registry"

text \<open>C25. No execution slips past a cancellation by starting late: one that
  registers within the hour after the workflow was cancelled has its callback
  called at once, whatever other operations came in between, unless 999 or more
  further cancellations did.\<close>

theorem late_registration_signalled:
  assumes ok: "registry_ok reg" and c: "cancelWorkflow t org rid reg = (reg1, Inr res)"
    and ps: "list_all (op_time_ok t) ps" "length (filter is_cancel ps) < 999"
    and i: "cx_organizationId i = org" "cx_workflowRunId i = rid"
    and now: "t \<le> now" "now < t + 3600000"
    and r: "register_execution now i (fold cancel_step ps reg1) = (reg2, Inr key)"
  shows "cg_called reg2 = cg_called (fold cancel_step ps reg1) @ [key] \<and>
    map_of (cg_active reg2) key = Some ((new_entry i)\<lparr>cx_cancelRequested := True\<rparr>)"
proof -
  let ?d = "t + CANCELLATION_TOMBSTONE_TTL_MS" and ?s = "fold cancel_step ps reg1"
  have pr: "registry_ok (pruneExpiredTombstones t reg)" using ok by (rule registry_ok_prune)
  have ok1: "registry_ok reg1" using registry_ok_cancel [OF ok, of t org rid] c by simp
  have "cg_cancelledWorkflows reg1 =
      cg_cancelledWorkflows (arm_tombstone t (workflowKey org rid) (pruneExpiredTombstones t reg))"
    using c by (auto simp: cancelWorkflow_def Let_def split_beta signal_all_tombstones split: sum.splits)
  then have "guards ?d (workflowKey org rid) 0 (cg_cancelledWorkflows reg1)"
    using guards_armed [OF pr workflowKey_not_Nil] by simp
  from guards_run [OF ok1 this] ps have g: "guards ?d (workflowKey org rid) (length (filter is_cancel ps))
      (cg_cancelledWorkflows ?s)" by (simp add: run_is_fold MAX_CANCELLATION_TOMBSTONES_def)
  have oks: "registry_ok ?s" using registry_ok_run [OF ok1] .
  let ?p = "pruneExpiredTombstones now ?s"
  let ?q = "?p\<lparr>cg_active := cg_active ?p @ [(executionKey i, new_entry i)]\<rparr>"
  have nd: "now < ?d" using now by (simp add: CANCELLATION_TOMBSTONE_TTL_MS_def)
  have new: "map_of (cg_active ?s) (executionKey i) = None" and k: "key = executionKey i"
    using r by (auto simp: register_execution_def Let_def split_beta split: sum.splits if_splits)
  have okq: "registry_ok ?q" using registry_ok_prune [OF oks, of now] new unfolding registry_ok_def
    by (auto simp: map_of_eq_None_iff new_entry_def executionKey_def)
  have "snd (isWorkflowCancelled now org rid ?q)"
    using guards_cancelled [OF okq, of ?d org rid] guards_prune [OF g nd] nd by simp
  then have "reg2 = set_requested key (fst (isWorkflowCancelled now org rid ?q))"
    using r i new k
    by (auto simp: register_execution_def Let_def split_beta signal_def new_entry_def split: sum.splits if_splits)
  moreover have "cg_called (fst (isWorkflowCancelled now org rid ?q)) = cg_called ?s"
    "cg_active (fst (isWorkflowCancelled now org rid ?q)) = cg_active ?s @ [(key, new_entry i)]"
    by (simp_all add: isWorkflowCancelled_def Let_def k)
  moreover have "map_of (map (\<lambda>(k, e). if k = key then (k, f e) else (k, e)) (cg_active ?s)) key = None" for f
    using new k by (simp add: map_of_requested_None)
  ultimately show ?thesis by (simp add: set_requested_def map_add_def)
qed

theorem late_registration_signalled_witness:
  "cg_called (fst (register_execution 3600000 (sample_registration ''z'') (fst (cancelWorkflow 1 ''o'' ''r'' sample_registry)))) =
     [''o:r:s:x'', ''o:r:s:z'']"
proof -
  let ?c = "cancelWorkflow 1 ''o'' ''r'' sample_registry"
  let ?r = "register_execution 3600000 (sample_registration ''z'') (fst ?c)"
  have ok: "registry_ok sample_registry"
    unfolding sample_registry_def by (intro registry_ok_run registry_ok_empty)
  have e: "\<not> isl (snd ?c)" "snd ?r = Inr ''o:r:s:z''" "cg_called (fst ?c) = [''o:r:s:x'']" by code_simp+
  then obtain res where c: "?c = (fst ?c, Inr res)" by (metis prod.collapse sum.collapse(2))
  have "register_execution 3600000 (sample_registration ''z'') (fold cancel_step [] (fst ?c)) = (fst ?r, Inr ''o:r:s:z'')"
    using e(2) by (simp add: prod_eq_iff)
  from late_registration_signalled [OF ok c _ _ _ _ _ _ this]
  have "cg_called (fst ?r) = cg_called (fst ?c) @ [''o:r:s:z'']"
    unfolding sample_registration_def by simp
  with e(3) show ?thesis by simp
qed

end
