(* ===== verification/Vito_WorkflowRuntime.thy ===== *)
theory Vito_WorkflowRuntime
  imports Vito_StateMachine Vito_GovernedInvocation Vito_Cancellation
begin

text \<open>
  The persisted workflow runtime, \<open>workflow-runtime.service.ts\<close>: the tables of
  runs and step runs, and the operations that create, start, advance, cancel
  and resume a run.

  A database transaction is one atomic step: it returns the new tables or, when
  it throws, leaves them as they were.  What an operation reads before it opens
  its transaction is a separate argument, so that a statement can place other
  operations between the read and the transaction.  New identifiers and the
  current time are parameters.
\<close>

section \<open>Tables\<close>

record WorkflowRun =
  wr_id :: string
  wr_organizationId :: string
  wr_taskId :: "string option"
  wr_workflowDefinitionCode :: string
  wr_workflowDefinitionVersion :: string
  wr_assuranceLevel :: string
  wr_status :: WorkflowRunStatus
  wr_currentStepType :: "EngineeringStepType option"
  wr_correctionLoopCount :: int
  wr_maxCorrectionLoops :: int
  wr_correlationId :: string
  wr_blockReasonCode :: "string option"
  wr_failureReasonCode :: "string option"
  wr_createdAt :: int
  wr_startedAt :: "int option"
  wr_completedAt :: "int option"

record WorkflowStepRun =
  sr_id :: string
  sr_organizationId :: string
  sr_workflowRunId :: string
  sr_stepType :: EngineeringStepType
  sr_status :: WorkflowStepStatus
  sr_attemptNumber :: int
  sr_causationId :: "string option"
  sr_metadata :: json
  sr_startedAt :: "int option"
  sr_finishedAt :: "int option"

text \<open>The rows of governed executions, which the runtime only reads.\<close>

record GovernedExecutionRecord =
  gx_id :: string
  gx_organizationId :: string
  gx_workflowRunId :: string
  gx_workflowStepRunId :: string
  gx_capabilityCode :: string
  gx_providerId :: string
  gx_status :: AgentExecutionStatus
  gx_outputReference :: "string option"
  gx_artifactReferences :: json

datatype ActorType = ACTOR_USER | ACTOR_DIGITAL_EMPLOYEE | ACTOR_SYSTEM

record AuditRow =
  au_organizationId :: string
  au_actorType :: ActorType
  au_actorId :: "string option"
  au_action :: string
  au_entityType :: string
  au_entityId :: string
  au_metadata :: json

record WorkflowDb =
  db_runs :: "WorkflowRun list"
  db_steps :: "WorkflowStepRun list"
  db_executions :: "GovernedExecutionRecord list"
  db_auditRows :: "AuditRow list"

datatype WorkflowError =
    WF_NOT_FOUND | WF_CONFLICT | WF_FORBIDDEN | WF_BAD_REQUEST | WF_UNIQUE_VIOLATION
  | WF_RECORD_MISSING | WF_REGISTRY CancellationError

section \<open>Queries and updates\<close>

definition find_run :: "WorkflowDb \<Rightarrow> string \<Rightarrow> string \<Rightarrow> WorkflowRun option" where
  "find_run db org rid = find (\<lambda>r. wr_id r = rid \<and> wr_organizationId r = org) (db_runs db)"

definition find_step :: "WorkflowDb \<Rightarrow> string \<Rightarrow> string \<Rightarrow> string \<Rightarrow> WorkflowStepRun option" where
  "find_step db org rid sid =
     find (\<lambda>s. sr_id s = sid \<and> sr_organizationId s = org \<and> sr_workflowRunId s = rid) (db_steps db)"

definition update_runs ::
  "(WorkflowRun \<Rightarrow> bool) \<Rightarrow> (WorkflowRun \<Rightarrow> WorkflowRun) \<Rightarrow> WorkflowDb \<Rightarrow> WorkflowDb" where
  "update_runs P f db = db\<lparr>db_runs := map (\<lambda>r. if P r then f r else r) (db_runs db)\<rparr>"

definition update_steps ::
  "(WorkflowStepRun \<Rightarrow> bool) \<Rightarrow> (WorkflowStepRun \<Rightarrow> WorkflowStepRun) \<Rightarrow> WorkflowDb \<Rightarrow> WorkflowDb" where
  "update_steps P f db = db\<lparr>db_steps := map (\<lambda>s. if P s then f s else s) (db_steps db)\<rparr>"

definition count_runs :: "(WorkflowRun \<Rightarrow> bool) \<Rightarrow> WorkflowDb \<Rightarrow> nat" where
  "count_runs P db = length (filter P (db_runs db))"

definition count_steps :: "(WorkflowStepRun \<Rightarrow> bool) \<Rightarrow> WorkflowDb \<Rightarrow> nat" where
  "count_steps P db = length (filter P (db_steps db))"

text \<open>Inserting a row whose primary key is taken makes the transaction throw.\<close>

definition create_run :: "WorkflowRun \<Rightarrow> WorkflowDb \<Rightarrow> WorkflowError + WorkflowDb" where
  "create_run r db =
     (if wr_id r \<in> wr_id ` set (db_runs db) then Inl WF_UNIQUE_VIOLATION
      else Inr (db\<lparr>db_runs := db_runs db @ [r]\<rparr>))"

definition create_step :: "WorkflowStepRun \<Rightarrow> WorkflowDb \<Rightarrow> WorkflowError + WorkflowDb" where
  "create_step s db =
     (if sr_id s \<in> sr_id ` set (db_steps db) then Inl WF_UNIQUE_VIOLATION
      else Inr (db\<lparr>db_steps := db_steps db @ [s]\<rparr>))"

text \<open>An update by primary key throws when there is no such row.\<close>

definition update_run_by_id ::
  "string \<Rightarrow> (WorkflowRun \<Rightarrow> WorkflowRun) \<Rightarrow> WorkflowDb \<Rightarrow> WorkflowError + (WorkflowRun \<times> WorkflowDb)" where
  "update_run_by_id rid f db =
     (case find (\<lambda>r. wr_id r = rid) (db_runs db) of
        None \<Rightarrow> Inl WF_RECORD_MISSING
      | Some r \<Rightarrow> Inr (f r, update_runs (\<lambda>r. wr_id r = rid) f db))"

definition record_row :: "AuditRow \<Rightarrow> WorkflowDb \<Rightarrow> WorkflowDb" where
  "record_row e db = db\<lparr>db_auditRows := db_auditRows db @ [e]\<rparr>"

definition system_row :: "string \<Rightarrow> string \<Rightarrow> string \<Rightarrow> string \<Rightarrow> (string \<times> json) list \<Rightarrow> AuditRow" where
  "system_row org action entityType entityId metadata = \<lparr>au_organizationId = org,
     au_actorType = ACTOR_SYSTEM, au_actorId = None, au_action = action,
     au_entityType = entityType, au_entityId = entityId, au_metadata = JObj metadata\<rparr>"

definition user_row ::
  "string \<Rightarrow> string \<Rightarrow> string \<Rightarrow> string \<Rightarrow> string \<Rightarrow> (string \<times> json) list \<Rightarrow> AuditRow" where
  "user_row org user action entityType entityId metadata = \<lparr>au_organizationId = org,
     au_actorType = ACTOR_USER, au_actorId = Some user, au_action = action,
     au_entityType = entityType, au_entityId = entityId, au_metadata = JObj metadata\<rparr>"

text \<open>The outcome of a transaction: a thrown error rolls the tables back.\<close>

definition transaction :: "(WorkflowDb \<Rightarrow> WorkflowError + ('a \<times> WorkflowDb)) \<Rightarrow> WorkflowDb \<Rightarrow>
    WorkflowDb \<times> (WorkflowError + 'a)" where
  "transaction body db =
     (case body db of Inl e \<Rightarrow> (db, Inl e) | Inr (x, db') \<Rightarrow> (db', Inr x))"

section \<open>Names stored in the tables\<close>

fun run_status_name :: "WorkflowRunStatus \<Rightarrow> string" where
  "run_status_name RUN_CREATED = ''CREATED''"
| "run_status_name RUN_RUNNING = ''RUNNING''"
| "run_status_name RUN_WAITING_FOR_HUMAN = ''WAITING_FOR_HUMAN''"
| "run_status_name RUN_BLOCKED = ''BLOCKED''"
| "run_status_name RUN_COMPLETED = ''COMPLETED''"
| "run_status_name RUN_FAILED = ''FAILED''"
| "run_status_name RUN_CANCELLED = ''CANCELLED''"

fun verdict_name :: "ReviewVerdict \<Rightarrow> string" where
  "verdict_name VerdictA = ''A''"
| "verdict_name VerdictB = ''B''"
| "verdict_name VerdictC = ''C''"
| "verdict_name VerdictD = ''D''"
| "verdict_name (VerdictOther s) = s"

definition verdict_of :: "string \<Rightarrow> ReviewVerdict" where
  "verdict_of s = (if s = ''A'' then VerdictA else if s = ''B'' then VerdictB
     else if s = ''C'' then VerdictC else if s = ''D'' then VerdictD else VerdictOther s)"

text \<open>An assurance level the machine does not know is treated like none.\<close>

definition assurance_of :: "string \<Rightarrow> AssuranceLevel option" where
  "assurance_of s = (if s = ''AL1'' then Some AL1 else if s = ''AL2'' then Some AL2
     else if s = ''AL3'' then Some AL3 else if s = ''AL4'' then Some AL4 else None)"

fun unsatisfied_name :: "AssuranceUnsatisfiedReason \<Rightarrow> string" where
  "unsatisfied_name REVIEWER_INDEPENDENCE_UNSATISFIED = ''REVIEWER_INDEPENDENCE_UNSATISFIED''"
| "unsatisfied_name MODEL_FAMILY_REQUIREMENT_UNSATISFIED = ''MODEL_FAMILY_REQUIREMENT_UNSATISFIED''"
| "unsatisfied_name MIN_REVIEWER_COUNT_UNSATISFIED = ''MIN_REVIEWER_COUNT_UNSATISFIED''"
| "unsatisfied_name HUMAN_GATE_REQUIREMENT_UNSATISFIED = ''HUMAN_GATE_REQUIREMENT_UNSATISFIED''"
| "unsatisfied_name BUILDER_MODEL_FAMILY_UNKNOWN = ''BUILDER_MODEL_FAMILY_UNKNOWN''"
| "unsatisfied_name REVIEW_EVIDENCE_INSUFFICIENT = ''REVIEW_EVIDENCE_INSUFFICIENT''"
| "unsatisfied_name REVIEWER_EXECUTION_NOT_DISTINCT = ''REVIEWER_EXECUTION_NOT_DISTINCT''"
| "unsatisfied_name REVIEWER_PROVIDER_NOT_DISTINCT = ''REVIEWER_PROVIDER_NOT_DISTINCT''"

fun block_type :: "BlockReason \<Rightarrow> string" where
  "block_type (LOOP_EXHAUSTED _) = ''LOOP_EXHAUSTED''"
| "block_type (REVIEW_DISAGREEMENT _) = ''REVIEW_DISAGREEMENT''"
| "block_type (HUMAN_DECISION_REQUIRED _) = ''HUMAN_DECISION_REQUIRED''"
| "block_type (ASSURANCE_UNSATISFIED _) = ''ASSURANCE_UNSATISFIED''"
| "block_type HUMAN_APPROVAL_MISSING = ''HUMAN_APPROVAL_MISSING''"
| "block_type (PROVIDER_BLOCKED _) = ''PROVIDER_BLOCKED''"

fun block_detail :: "BlockReason \<Rightarrow> (string \<times> json) list" where
  "block_detail (LOOP_EXHAUSTED n) = [(''correctionLoopCount'', JNum n)]"
| "block_detail (REVIEW_DISAGREEMENT vs) = [(''verdicts'', JArr (map (\<lambda>v. JStr (verdict_name v)) vs))]"
| "block_detail (HUMAN_DECISION_REQUIRED v) = [(''verdict'', JStr (verdict_name v))]"
| "block_detail (ASSURANCE_UNSATISFIED r) = [(''reason'', JStr (unsatisfied_name r))]"
| "block_detail HUMAN_APPROVAL_MISSING = []"
| "block_detail (PROVIDER_BLOCKED st) = [(''providerStatus'', JStr (status_name st))]"

definition block_json :: "BlockReason \<Rightarrow> json" where
  "block_json b = JObj ((''type'', JStr (block_type b)) # block_detail b)"

definition opt_json :: "string option \<Rightarrow> json" where
  "opt_json v = (case v of None \<Rightarrow> JNull | Some s \<Rightarrow> JStr s)"

definition step_json :: "EngineeringStepType option \<Rightarrow> json" where
  "step_json v = (case v of None \<Rightarrow> JNull | Some s \<Rightarrow> JStr (step_name s))"

definition terminal_run :: "WorkflowRunStatus \<Rightarrow> bool" where
  "terminal_run st = (st = RUN_COMPLETED \<or> st = RUN_FAILED \<or> st = RUN_CANCELLED)"

definition terminal_step :: "WorkflowStepStatus \<Rightarrow> bool" where
  "terminal_step st = (st = STEP_SUCCEEDED \<or> st = STEP_FAILED \<or> st = STEP_SKIPPED \<or> st = STEP_CANCELLED)"

definition NONTERMINAL_STEP_STATUSES :: "WorkflowStepStatus list" where
  "NONTERMINAL_STEP_STATUSES = [STEP_PENDING, STEP_READY, STEP_RUNNING, STEP_WAITING]"

section \<open>Creating and starting a run\<close>

record CreateWorkflowRunInput =
  cw_organizationId :: string
  cw_taskId :: "string option"
  cw_workflowDefinitionCode :: string
  cw_workflowDefinitionVersion :: string
  cw_assuranceLevel :: string
  cw_correlationId :: "string option"
  cw_maxCorrectionLoops :: "int option"

definition new_run :: "int \<Rightarrow> string \<Rightarrow> string \<Rightarrow> CreateWorkflowRunInput \<Rightarrow> WorkflowRun" where
  "new_run now newId randomUUID input =
     (let correlationId = (case cw_correlationId input of None \<Rightarrow> randomUUID | Some c \<Rightarrow> c);
          maxLoops = (case cw_maxCorrectionLoops input of
             None \<Rightarrow> maxCorrectionLoops DEFAULT_RETRY_POLICY | Some m \<Rightarrow> m) in
      \<lparr>wr_id = newId, wr_organizationId = cw_organizationId input, wr_taskId = cw_taskId input,
       wr_workflowDefinitionCode = cw_workflowDefinitionCode input,
       wr_workflowDefinitionVersion = cw_workflowDefinitionVersion input,
       wr_assuranceLevel = cw_assuranceLevel input, wr_status = RUN_CREATED,
       wr_currentStepType = None, wr_correctionLoopCount = 0, wr_maxCorrectionLoops = maxLoops,
       wr_correlationId = correlationId, wr_blockReasonCode = None, wr_failureReasonCode = None,
       wr_createdAt = now, wr_startedAt = None, wr_completedAt = None\<rparr>)"

definition created_row :: "WorkflowRun \<Rightarrow> AuditRow" where
  "created_row run = system_row (wr_organizationId run) ''WORKFLOW_RUN_CREATED'' ''WorkflowRun'' (wr_id run)
     ([(''workflowDefinitionCode'', JStr (wr_workflowDefinitionCode run)),
       (''workflowDefinitionVersion'', JStr (wr_workflowDefinitionVersion run)),
       (''assuranceLevel'', JStr (wr_assuranceLevel run)),
       (''correlationId'', JStr (wr_correlationId run))] @
      (if truthy (wr_taskId run) then [(''taskId'', opt_json (wr_taskId run))] else []))"

definition createRun ::
  "int \<Rightarrow> string \<Rightarrow> string \<Rightarrow> CreateWorkflowRunInput \<Rightarrow> WorkflowDb \<Rightarrow> WorkflowDb \<times> (WorkflowError + WorkflowRun)" where
  "createRun now newId randomUUID input =
     (let run = new_run now newId randomUUID input in
      transaction (\<lambda>db. bindE (create_run run db) (\<lambda>db. Inr (run, record_row (created_row run) db))))"

definition ready_step ::
  "string \<Rightarrow> string \<Rightarrow> string \<Rightarrow> EngineeringStepType \<Rightarrow> int \<Rightarrow> string option \<Rightarrow> json \<Rightarrow> int \<Rightarrow> WorkflowStepRun" where
  "ready_step newId org rid ty attempt causation metadata now = \<lparr>sr_id = newId, sr_organizationId = org,
     sr_workflowRunId = rid, sr_stepType = ty, sr_status = STEP_READY, sr_attemptNumber = attempt,
     sr_causationId = causation, sr_metadata = metadata, sr_startedAt = Some now, sr_finishedAt = None\<rparr>"

definition startRun ::
  "int \<Rightarrow> string \<Rightarrow> string \<Rightarrow> string \<Rightarrow> WorkflowDb \<Rightarrow> WorkflowDb \<times> (WorkflowError + WorkflowRun \<times> WorkflowStepRun)" where
  "startRun now newId org rid = transaction (\<lambda>db.
     case find_run db org rid of
       None \<Rightarrow> Inl WF_NOT_FOUND
     | Some run \<Rightarrow>
         bindE (guardE (wr_status run \<noteq> RUN_CREATED) WF_CONFLICT) (\<lambda>_.
         bindE (update_run_by_id rid (\<lambda>r. r\<lparr>wr_status := RUN_RUNNING,
           wr_currentStepType := Some PLAN, wr_startedAt := Some now\<rparr>) db) (\<lambda>(updated, db).
         let firstStep = ready_step newId org rid PLAN 1 None (JObj []) now in
         bindE (create_step firstStep db) (\<lambda>db.
         Inr ((updated, firstStep),
           record_row (system_row org ''WORKFLOW_STEP_ACTIVATED'' ''WorkflowStepRun'' newId
             [(''organizationId'', JStr org), (''workflowRunId'', JStr rid),
              (''workflowStepRunId'', JStr newId), (''stepType'', JStr ''PLAN''),
              (''correlationId'', JStr (wr_correlationId updated))])
          (record_row (system_row org ''WORKFLOW_RUN_STARTED'' ''WorkflowRun'' rid
             [(''firstStepType'', JStr ''PLAN''), (''firstStepRunId'', JStr newId)]) db))))))"

section \<open>Completing a step\<close>

record CompleteStepInput =
  ci_organizationId :: string
  ci_workflowRunId :: string
  ci_workflowStepRunId :: string
  ci_stepStatus :: StepResult
  ci_providerStatus :: "AgentExecutionStatus option"
  ci_verdict :: "string option"
  ci_reviewResults :: "ReviewResult list option"
  ci_independenceContext :: "IndependenceContext option"
  ci_humanApproved :: "bool option"
  ci_metadata :: "(string \<times> json) list option"

record CompleteStepResult =
  cr_run :: WorkflowRun
  cr_stepRun :: WorkflowStepRun
  cr_outcome :: "TransitionOutcome option"
  cr_newStep :: "WorkflowStepRun option"
  cr_idempotent :: bool

definition idempotent_result :: "WorkflowRun \<Rightarrow> WorkflowStepRun \<Rightarrow> CompleteStepResult" where
  "idempotent_result run st = \<lparr>cr_run = run, cr_stepRun = st, cr_outcome = None,
     cr_newStep = None, cr_idempotent = True\<rparr>"

text \<open>
  The checks before the transaction: they return the step the caller sees, an
  idempotent answer, or an error; a rejection is audited outside any transaction.
\<close>

definition complete_precheck ::
  "CompleteStepInput \<Rightarrow> WorkflowDb \<Rightarrow> WorkflowDb \<times> (WorkflowError + CompleteStepResult + WorkflowStepRun)" where
  "complete_precheck input db =
     (case find_run db (ci_organizationId input) (ci_workflowRunId input) of
        None \<Rightarrow> (db, Inl WF_NOT_FOUND)
      | Some run \<Rightarrow>
          if terminal_run (wr_status run) then
            (record_row (system_row (ci_organizationId input) ''WORKFLOW_STEP_TRANSITION_REJECTED'' ''WorkflowRun''
               (ci_workflowRunId input)
               [(''reason'', JStr ''TERMINAL_RUN''), (''currentStatus'', JStr (run_status_name (wr_status run))),
                (''workflowStepRunId'', JStr (ci_workflowStepRunId input)),
                (''correlationId'', JStr (wr_correlationId run))]) db, Inl WF_CONFLICT)
          else
            (case find_step db (ci_organizationId input) (ci_workflowRunId input) (ci_workflowStepRunId input) of
               None \<Rightarrow> (db, Inl WF_NOT_FOUND)
             | Some stepRun \<Rightarrow>
                 if terminal_step (sr_status stepRun) then (db, Inr (Inl (idempotent_result run stepRun)))
                 else if option_test (\<lambda>t. t \<noteq> sr_stepType stepRun) (wr_currentStepType run) then
                   (record_row (system_row (ci_organizationId input) ''WORKFLOW_STEP_TRANSITION_REJECTED'' ''WorkflowRun''
                      (ci_workflowRunId input)
                      [(''reason'', JStr ''STALE_STEP''), (''expectedStepType'', step_json (wr_currentStepType run)),
                       (''attemptedStepType'', JStr (step_name (sr_stepType stepRun))),
                       (''workflowStepRunId'', JStr (ci_workflowStepRunId input)),
                       (''correlationId'', JStr (wr_correlationId run))]) db, Inl WF_CONFLICT)
                 else (db, Inr (Inr stepRun))))"

definition target_status :: "CompleteStepInput \<Rightarrow> WorkflowStepStatus" where
  "target_status input =
     (if provider_blocks (ci_providerStatus input) then STEP_WAITING
      else if ci_stepStatus input = SUCCEEDED then STEP_SUCCEEDED else STEP_FAILED)"

definition claimed :: "int \<Rightarrow> CompleteStepInput \<Rightarrow> WorkflowStepRun \<Rightarrow> WorkflowStepRun" where
  "claimed now input s = s\<lparr>sr_status := target_status input,
     sr_finishedAt := (if provider_blocks (ci_providerStatus input) then None else Some now),
     sr_metadata := (case ci_metadata input of None \<Rightarrow> sr_metadata s | Some m \<Rightarrow> JObj m)\<rparr>"

definition machine_input :: "CompleteStepInput \<Rightarrow> WorkflowRun \<Rightarrow> WorkflowStepRun \<Rightarrow> StateMachineInput" where
  "machine_input input run st = \<lparr>completedStep = sr_stepType st, stepStatus = ci_stepStatus input,
     verdict = map_option verdict_of (ci_verdict input), reviewResults = ci_reviewResults input,
     providerStatus = ci_providerStatus input, correctionLoopCount = wr_correctionLoopCount run,
     retryPolicy = \<lparr>maxCorrectionLoops = wr_maxCorrectionLoops run,
       maxProviderRetriesPerStep = maxProviderRetriesPerStep DEFAULT_RETRY_POLICY\<rparr>,
     humanApproved = ci_humanApproved input, independenceContext = ci_independenceContext input,
     assuranceLevel = assurance_of (wr_assuranceLevel run)\<rparr>"

fun outcome_run :: "int \<Rightarrow> EngineeringStepType \<Rightarrow> TransitionOutcome \<Rightarrow> WorkflowRun \<Rightarrow> WorkflowRun" where
  "outcome_run now done (NEXT_STEP t) r = r\<lparr>wr_status := RUN_RUNNING, wr_currentStepType := Some t,
     wr_correctionLoopCount := wr_correctionLoopCount r + (if t = CORRECTION then 1 else 0)\<rparr>"
| "outcome_run now done (BLOCKED b) r = r\<lparr>wr_status := RUN_BLOCKED,
     wr_currentStepType := (if block_type b = ''PROVIDER_BLOCKED'' then Some done else None),
     wr_blockReasonCode := Some (block_type b)\<rparr>"
| "outcome_run now done (FAILED why) r = r\<lparr>wr_status := RUN_FAILED, wr_currentStepType := None,
     wr_failureReasonCode := Some why\<rparr>"
| "outcome_run now done COMPLETED r = r\<lparr>wr_status := RUN_COMPLETED, wr_currentStepType := None,
     wr_completedAt := Some now\<rparr>"

fun outcome_action :: "TransitionOutcome \<Rightarrow> string" where
  "outcome_action (NEXT_STEP t) = ''WORKFLOW_STEP_TRANSITION_PERSISTED''"
| "outcome_action (BLOCKED b) = ''WORKFLOW_RUN_BLOCKED''"
| "outcome_action (FAILED why) = ''WORKFLOW_RUN_FAILED''"
| "outcome_action COMPLETED = ''WORKFLOW_RUN_COMPLETED''"

fun outcome_metadata :: "WorkflowRun \<Rightarrow> EngineeringStepType \<Rightarrow> string \<Rightarrow> TransitionOutcome \<Rightarrow> (string \<times> json) list" where
  "outcome_metadata run done newId (NEXT_STEP t) =
     [(''fromStep'', JStr (step_name done)), (''toStep'', JStr (step_name t)), (''stepRunId'', JStr newId),
      (''correctionLoopCount'', JNum (wr_correctionLoopCount run + (if t = CORRECTION then 1 else 0)))]"
| "outcome_metadata run done newId (BLOCKED b) =
     [(''blockedAtStep'', JStr (step_name done)), (''blockReason'', JStr (block_type b)), (''blockDetail'', block_json b)]"
| "outcome_metadata run done newId (FAILED why) =
     [(''failedAtStep'', JStr (step_name done)), (''failureReason'', JStr why)]"
| "outcome_metadata run done newId COMPLETED = [(''completedAtStep'', JStr (step_name done))]"

text \<open>The step a transition creates, with the audit row of its activation.\<close>

definition activate_next ::
  "int \<Rightarrow> string \<Rightarrow> CompleteStepInput \<Rightarrow> WorkflowRun \<Rightarrow> WorkflowStepRun \<Rightarrow> TransitionOutcome \<Rightarrow> WorkflowDb \<Rightarrow>
   WorkflowError + (WorkflowStepRun option \<times> WorkflowDb)" where
  "activate_next now newId input freshRun freshStep outcome db =
     (case outcome of
        NEXT_STEP t \<Rightarrow>
          (let newStep = ready_step newId (ci_organizationId input) (ci_workflowRunId input) t 1
             (Some (sr_id freshStep)) (JObj []) now in
           bindE (create_step newStep db) (\<lambda>db.
           Inr (Some newStep, record_row (system_row (ci_organizationId input) ''WORKFLOW_STEP_ACTIVATED''
             ''WorkflowStepRun'' newId
             [(''organizationId'', JStr (ci_organizationId input)), (''workflowRunId'', JStr (ci_workflowRunId input)),
              (''workflowStepRunId'', JStr newId), (''stepType'', JStr (step_name t)),
              (''correlationId'', JStr (wr_correlationId freshRun))]) db)))
      | _ \<Rightarrow> Inr (None, db))"

definition complete_tx ::
  "int \<Rightarrow> string \<Rightarrow> CompleteStepInput \<Rightarrow> WorkflowStepRun \<Rightarrow> WorkflowDb \<Rightarrow> WorkflowDb \<times> (WorkflowError + CompleteStepResult)" where
  "complete_tx now newId input stepRun = transaction (\<lambda>db.
     case find_run db (ci_organizationId input) (ci_workflowRunId input) of
       None \<Rightarrow> Inl WF_NOT_FOUND
     | Some freshRun \<Rightarrow>
         if terminal_run (wr_status freshRun) then Inr (idempotent_result freshRun stepRun, db)
         else case find_step db (ci_organizationId input) (ci_workflowRunId input) (ci_workflowStepRunId input) of
           None \<Rightarrow> Inl WF_NOT_FOUND
         | Some freshStep \<Rightarrow>
             if terminal_step (sr_status freshStep) \<or>
                option_test (\<lambda>t. t \<noteq> sr_stepType freshStep) (wr_currentStepType freshRun) \<or>
                count_steps (\<lambda>s. sr_id s = sr_id freshStep \<and> sr_status s = STEP_READY) db = 0
             then Inr (idempotent_result freshRun freshStep, db)
             else
               (let db = update_steps (\<lambda>s. sr_id s = sr_id freshStep \<and> sr_status s = STEP_READY) (claimed now input) db;
                    done = sr_stepType freshStep;
                    outcome = nextEngineeringStep (machine_input input freshRun freshStep) in
                bindE (activate_next now newId input freshRun freshStep outcome db) (\<lambda>(newStep, db).
                bindE (update_run_by_id (ci_workflowRunId input) (outcome_run now done outcome) db) (\<lambda>(updatedRun, db).
                Inr (\<lparr>cr_run = updatedRun, cr_stepRun = freshStep, cr_outcome = Some outcome,
                      cr_newStep = newStep, cr_idempotent = False\<rparr>,
                  record_row (system_row (ci_organizationId input) (outcome_action outcome) ''WorkflowRun''
                    (ci_workflowRunId input)
                    (outcome_metadata freshRun done newId outcome @
                     [(''correlationId'', JStr (wr_correlationId freshRun)),
                      (''completedStepRunId'', JStr (sr_id freshStep))])) db)))))"

definition completeStep ::
  "int \<Rightarrow> string \<Rightarrow> CompleteStepInput \<Rightarrow> WorkflowDb \<Rightarrow> WorkflowDb \<times> (WorkflowError + CompleteStepResult)" where
  "completeStep now newId input db =
     (case complete_precheck input db of
        (db, Inl e) \<Rightarrow> (db, Inl e)
      | (db, Inr (Inl res)) \<Rightarrow> (db, Inr res)
      | (db, Inr (Inr stepRun)) \<Rightarrow> complete_tx now newId input stepRun db)"

section \<open>Cancelling a run\<close>

record CancelRunInput =
  ca_organizationId :: string
  ca_workflowRunId :: string
  ca_cancelledByUserId :: string
  ca_isMachineIdentity :: bool

record CancelRunResult =
  cl_run :: WorkflowRun
  cl_idempotent :: bool
  cl_executionCancellation :: WorkflowCancellationSignalResult

definition cancel_row :: "int \<Rightarrow> WorkflowRun \<Rightarrow> WorkflowRun" where
  "cancel_row now r = r\<lparr>wr_status := RUN_CANCELLED, wr_currentStepType := None, wr_completedAt := Some now\<rparr>"

definition cancel_step_row :: "int \<Rightarrow> WorkflowStepRun \<Rightarrow> WorkflowStepRun" where
  "cancel_step_row now s = s\<lparr>sr_status := STEP_CANCELLED, sr_finishedAt := Some now\<rparr>"

definition live_of :: "string \<Rightarrow> string \<Rightarrow> WorkflowStepRun \<Rightarrow> bool" where
  "live_of org rid s = (sr_organizationId s = org \<and> sr_workflowRunId s = rid \<and>
     sr_status s \<in> set NONTERMINAL_STEP_STATUSES)"

text \<open>The transaction; \<open>run\<close> is the row read before it, quoted in the audit row.\<close>

definition cancel_tx ::
  "int \<Rightarrow> CancelRunInput \<Rightarrow> WorkflowRun \<Rightarrow> WorkflowDb \<Rightarrow> WorkflowDb \<times> (WorkflowError + WorkflowRun \<times> bool)" where
  "cancel_tx now input run = transaction (\<lambda>db.
     (let org = ca_organizationId input; rid = ca_workflowRunId input;
          open_run = (\<lambda>r. wr_id r = rid \<and> wr_organizationId r = org \<and>
            wr_status r \<in> {RUN_CREATED, RUN_RUNNING, RUN_WAITING_FOR_HUMAN, RUN_BLOCKED}) in
      if count_runs open_run db = 0 then
        (case find_run db org rid of
           Some fresh \<Rightarrow> if wr_status fresh = RUN_CANCELLED then Inr ((fresh, True), db) else Inl WF_CONFLICT
         | None \<Rightarrow> Inl WF_CONFLICT)
      else
        (let db = update_steps (live_of org rid) (cancel_step_row now) (update_runs open_run (cancel_row now) db) in
         case find_run db org rid of
           None \<Rightarrow> Inl WF_NOT_FOUND
         | Some cancelled \<Rightarrow>
             Inr ((cancelled, False),
               record_row (user_row org (ca_cancelledByUserId input) ''WORKFLOW_RUN_CANCELLED'' ''WorkflowRun'' rid
                 [(''previousStatus'', JStr (run_status_name (wr_status run))),
                  (''previousStepType'', step_json (wr_currentStepType run)),
                  (''executionTriggered'', JBool False), (''authority'', JStr ''HUMAN_EXPLICIT'')]) db))))"

definition signal_metadata :: "WorkflowCancellationSignalResult \<Rightarrow> (string \<times> json) list" where
  "signal_metadata sig =
     [(''matchedExecutionCount'', JNum (int (cs_matchedExecutionCount sig))),
      (''signalAttemptCount'', JNum (int (cs_signalAttemptCount sig))),
      (''signalFailureCount'', JNum (int (cs_signalFailureCount sig))),
      (''deferredCancellationArmed'', JBool True),
      (''executionIds'', JArr (map JStr (cs_signalledExecutionIds sig)))]"

type_synonym RuntimeState = "WorkflowDb \<times> CancellationRegistry"

definition signal_executions ::
  "int \<Rightarrow> CancelRunInput \<Rightarrow> WorkflowRun \<Rightarrow> bool \<Rightarrow> RuntimeState \<Rightarrow> RuntimeState \<times> (WorkflowError + CancelRunResult)" where
  "signal_executions now input run idem = (\<lambda>(db, reg).
     case cancelWorkflow now (ca_organizationId input) (ca_workflowRunId input) reg of
       (reg, Inl e) \<Rightarrow> ((db, reg), Inl (WF_REGISTRY e))
     | (reg, Inr sig) \<Rightarrow>
         ((db, reg), Inr \<lparr>cl_run = run, cl_idempotent = idem, cl_executionCancellation = sig\<rparr>))"

definition cancelRun ::
  "int \<Rightarrow> CancelRunInput \<Rightarrow> RuntimeState \<Rightarrow> RuntimeState \<times> (WorkflowError + CancelRunResult)" where
  "cancelRun now input = (\<lambda>(db, reg).
     if ca_isMachineIdentity input then ((db, reg), Inl WF_FORBIDDEN)
     else case find_run db (ca_organizationId input) (ca_workflowRunId input) of
       None \<Rightarrow> ((db, reg), Inl WF_NOT_FOUND)
     | Some run \<Rightarrow>
         if wr_status run = RUN_CANCELLED then signal_executions now input run True (db, reg)
         else if wr_status run = RUN_COMPLETED \<or> wr_status run = RUN_FAILED then ((db, reg), Inl WF_CONFLICT)
         else case cancel_tx now input run db of
           (db, Inl e) \<Rightarrow> ((db, reg), Inl e)
         | (db, Inr (committed, idem)) \<Rightarrow>
             (case signal_executions now input committed idem (db, reg) of
                (st, Inl e) \<Rightarrow> (st, Inl e)
              | ((db, reg), Inr res) \<Rightarrow>
                  ((record_row (user_row (ca_organizationId input) (ca_cancelledByUserId input)
                      ''WORKFLOW_EXECUTION_CANCELLATION_REQUESTED'' ''WorkflowRun'' (ca_workflowRunId input)
                      (signal_metadata (cl_executionCancellation res))) db, reg), Inr res)))"

section \<open>Resuming a run\<close>

definition resumed_row :: "string \<Rightarrow> string \<Rightarrow> (string \<times> json) list \<Rightarrow> WorkflowRun \<Rightarrow> (string \<times> json) list \<Rightarrow> AuditRow" where
  "resumed_row org rid pre run post = system_row org ''WORKFLOW_RUN_RESUMED'' ''WorkflowRun'' rid
     (pre @ [(''currentStepType'', step_json (wr_currentStepType run)),
       (''correctionLoopCount'', JNum (wr_correctionLoopCount run))] @ post)"

definition release_waiting :: "string \<Rightarrow> string \<Rightarrow> EngineeringStepType \<Rightarrow> WorkflowDb \<Rightarrow> WorkflowDb" where
  "release_waiting org rid t = update_steps
     (\<lambda>s. sr_organizationId s = org \<and> sr_workflowRunId s = rid \<and> sr_stepType s = t \<and> sr_status s = STEP_WAITING)
     (\<lambda>s. s\<lparr>sr_status := STEP_READY, sr_finishedAt := None\<rparr>)"

text \<open>What follows the read; \<open>run\<close> is the row that was read.\<close>

definition resume_tx ::
  "string \<Rightarrow> string \<Rightarrow> WorkflowRun \<Rightarrow> WorkflowDb \<Rightarrow> WorkflowDb \<times> (WorkflowError + WorkflowRun)" where
  "resume_tx org rid run db =
     (if terminal_run (wr_status run) then (db, Inl WF_CONFLICT)
      else if wr_status run = RUN_RUNNING then
        (record_row (resumed_row org rid [] run [(''note'', JStr ''Already RUNNING, resume is no-op.'')]) db, Inr run)
      else if wr_status run = RUN_BLOCKED then
        (if wr_blockReasonCode run = Some ''HUMAN_DECISION_REQUIRED'' then (db, Inl WF_CONFLICT)
         else transaction (\<lambda>db.
           bindE (update_run_by_id rid (\<lambda>r. r\<lparr>wr_status := RUN_RUNNING, wr_blockReasonCode := None\<rparr>) db)
             (\<lambda>(updated, db).
           let db = (case wr_currentStepType run of
                 Some t \<Rightarrow> if wr_blockReasonCode run = Some ''PROVIDER_BLOCKED'' then release_waiting org rid t db else db
               | None \<Rightarrow> db) in
           Inr (updated, record_row (resumed_row org rid [(''previousStatus'', JStr ''BLOCKED'')] run []) db))) db)
      else if wr_status run = RUN_WAITING_FOR_HUMAN then
        transaction (\<lambda>db.
          bindE (update_run_by_id rid (\<lambda>r. r\<lparr>wr_status := RUN_RUNNING\<rparr>) db) (\<lambda>(updated, db).
          Inr (updated, record_row (resumed_row org rid [(''previousStatus'', JStr ''WAITING_FOR_HUMAN'')] run []) db))) db
      else (db, Inl WF_CONFLICT))"

definition resumeRun :: "string \<Rightarrow> string \<Rightarrow> WorkflowDb \<Rightarrow> WorkflowDb \<times> (WorkflowError + WorkflowRun)" where
  "resumeRun org rid db =
     (case find_run db org rid of
        None \<Rightarrow> (db, Inl WF_NOT_FOUND)
      | Some run \<Rightarrow> resume_tx org rid run db)"

section \<open>Queries\<close>

text \<open>Ascending start times, rows without one last; descending creation times.\<close>

definition by_start :: "(WorkflowStepRun \<Rightarrow> bool) \<Rightarrow> WorkflowDb \<Rightarrow> WorkflowStepRun list" where
  "by_start P db = sort_key (\<lambda>s. the (sr_startedAt s)) (filter (\<lambda>s. P s \<and> sr_startedAt s \<noteq> None) (db_steps db)) @
     filter (\<lambda>s. P s \<and> sr_startedAt s = None) (db_steps db)"

definition findStepRuns :: "string \<Rightarrow> string \<Rightarrow> WorkflowDb \<Rightarrow> WorkflowStepRun list" where
  "findStepRuns org rid = by_start (\<lambda>s. sr_organizationId s = org \<and> sr_workflowRunId s = rid)"

definition reloadRun :: "string \<Rightarrow> string \<Rightarrow> WorkflowDb \<Rightarrow> WorkflowError + WorkflowRun \<times> WorkflowStepRun list" where
  "reloadRun org rid db =
     (case find_run db org rid of
        None \<Rightarrow> Inl WF_NOT_FOUND
      | Some run \<Rightarrow> Inr (run, by_start (\<lambda>s. sr_workflowRunId s = rid) db))"

definition findRunById :: "string \<Rightarrow> string \<Rightarrow> WorkflowDb \<Rightarrow> WorkflowError + WorkflowRun" where
  "findRunById org rid db = (case find_run db org rid of None \<Rightarrow> Inl WF_NOT_FOUND | Some run \<Rightarrow> Inr run)"

definition findAllRuns :: "string \<Rightarrow> WorkflowDb \<Rightarrow> WorkflowRun list" where
  "findAllRuns org db = sort_key (\<lambda>r. - wr_createdAt r) (filter (\<lambda>r. wr_organizationId r = org) (db_runs db))"

end
