(* ===== verification/Vito_HumanGates.thy ===== *)
theory Vito_HumanGates
  imports Vito_WorkflowRuntime
begin

text \<open>
  The four operations a human performs on a workflow run:
  \<open>human-decision-correction.service.ts\<close>, \<open>human-release-approval.service.ts\<close>,
  \<open>loop-exhausted-test-recovery.service.ts\<close> and
  \<open>release-verification-recovery.service.ts\<close>.  Each refuses a machine identity
  first, then works in one transaction on the tables of the runtime.
\<close>

section \<open>Queries\<close>

text \<open>
  The first row in descending order of a nullable column: a row without a value
  comes first, and of equal values the model takes the row inserted last.
\<close>

definition not_older :: "int option \<Rightarrow> int option \<Rightarrow> bool" where
  "not_older a b = (case a of None \<Rightarrow> True | Some x \<Rightarrow> (case b of None \<Rightarrow> False | Some y \<Rightarrow> y \<le> x))"

definition latest_by :: "(WorkflowStepRun \<Rightarrow> int option) \<Rightarrow> WorkflowStepRun list \<Rightarrow> WorkflowStepRun option" where
  "latest_by k xs = fold (\<lambda>s acc. case acc of None \<Rightarrow> Some s
     | Some m \<Rightarrow> if not_older (k s) (k m) then Some s else acc) xs None"

definition steps_where ::
  "string \<Rightarrow> string \<Rightarrow> EngineeringStepType \<Rightarrow> WorkflowStepStatus \<Rightarrow> WorkflowDb \<Rightarrow> WorkflowStepRun list" where
  "steps_where org rid t st db = filter (\<lambda>s. sr_organizationId s = org \<and> sr_workflowRunId s = rid \<and>
     sr_stepType s = t \<and> sr_status s = st) (db_steps db)"

definition objectValue :: "json option \<Rightarrow> (string \<times> json) list option" where
  "objectValue v = (case v of Some (JObj fs) \<Rightarrow> Some fs | _ \<Rightarrow> None)"

definition field_of :: "(string \<times> json) list option \<Rightarrow> string \<Rightarrow> json option" where
  "field_of obj k = Option.bind obj (\<lambda>fs. map_of fs k)"

definition stringValue :: "json option \<Rightarrow> string option" where
  "stringValue v = (case v of Some (JStr s) \<Rightarrow> if s \<noteq> [] then Some s else None | _ \<Rightarrow> None)"

definition boundedString :: "json option \<Rightarrow> nat \<Rightarrow> string option" where
  "boundedString v n = (case v of Some (JStr s) \<Rightarrow> if s \<noteq> [] \<and> length s \<le> n then Some s else None | _ \<Rightarrow> None)"

text \<open>The claim every operation makes on the run row it has read.\<close>

definition claim_runs ::
  "(WorkflowRun \<Rightarrow> bool) \<Rightarrow> (WorkflowRun \<Rightarrow> WorkflowRun) \<Rightarrow> WorkflowDb \<Rightarrow> WorkflowError + WorkflowDb" where
  "claim_runs P f db = (if count_runs P db \<noteq> 1 then Inl WF_CONFLICT else Inr (update_runs P f db))"

section \<open>A human asks for a correction\<close>

definition ALLOWED_PARSE_SOURCES :: "string list" where
  "ALLOWED_PARSE_SOURCES = [''WORKFLOW_REVIEW_VERDICT_RUNTIME'', ''WORKFLOW_AL4_REVIEW_VERDICT_RUNTIME'']"

record HumanDecisionRequest =
  hq_organizationId :: string
  hq_workflowRunId :: string
  hq_userId :: string
  hq_isMachineIdentity :: bool

definition parse_evidence_ok :: "WorkflowStepRun \<Rightarrow> bool" where
  "parse_evidence_ok s =
     (let m = objectValue (Some (sr_metadata s)) in
      option_test (\<lambda>src. src \<in> set ALLOWED_PARSE_SOURCES) (stringValue (field_of m ''source'')) \<and>
      (field_of m ''verdict'' = None \<or> field_of m ''verdict'' = Some (JStr ''D'')))"

definition correction_metadata :: "string \<Rightarrow> WorkflowStepRun \<Rightarrow> json" where
  "correction_metadata user parseStep = JObj [(''source'', JStr ''HUMAN_DECISION_CORRECTION''),
     (''decidedByUserId'', JStr user), (''parseVerdictStepRunId'', JStr (sr_id parseStep))]"

text \<open>Everything the operation checks before it writes: the run and the verdict step that blocked it.\<close>

definition correction_evidence ::
  "string \<Rightarrow> string \<Rightarrow> WorkflowDb \<Rightarrow> WorkflowError + (WorkflowRun \<times> WorkflowStepRun)" where
  "correction_evidence org rid db =
     (case find_run db org rid of
        None \<Rightarrow> Inl WF_NOT_FOUND
      | Some run \<Rightarrow>
          bindE (guardE (wr_status run \<noteq> RUN_BLOCKED \<or>
            wr_blockReasonCode run \<noteq> Some ''HUMAN_DECISION_REQUIRED'' \<or>
            wr_currentStepType run \<noteq> None) WF_CONFLICT) (\<lambda>_.
          case latest_by sr_finishedAt (steps_where org rid PARSE_VERDICT STEP_SUCCEEDED db) of
            None \<Rightarrow> Inl WF_CONFLICT
          | Some parseStep \<Rightarrow>
              bindE (guardE (\<not> parse_evidence_ok parseStep) WF_CONFLICT) (\<lambda>_.
              bindE (guardE (nextEngineeringHumanDecision
                  \<lparr>hd_blockReason = HUMAN_DECISION_REQUIRED VerdictD,
                   hd_correctionLoopCount = wr_correctionLoopCount run,
                   hd_retryPolicy = \<lparr>maxCorrectionLoops = wr_maxCorrectionLoops run,
                     maxProviderRetriesPerStep = maxProviderRetriesPerStep DEFAULT_RETRY_POLICY\<rparr>\<rparr>
                  \<noteq> NEXT_STEP CORRECTION) WF_CONFLICT) (\<lambda>_.
              Inr (run, parseStep)))))"

text \<open>The row the claim of a blocked run selects.\<close>

definition blocked_with :: "string \<Rightarrow> string \<Rightarrow> string \<Rightarrow> int \<Rightarrow> WorkflowRun \<Rightarrow> bool" where
  "blocked_with org rid code n r = (wr_id r = rid \<and> wr_organizationId r = org \<and> wr_status r = RUN_BLOCKED \<and>
     wr_currentStepType r = None \<and> wr_blockReasonCode r = Some code \<and> wr_correctionLoopCount r = n)"

definition to_correction :: "WorkflowRun \<Rightarrow> WorkflowRun" where
  "to_correction r = r\<lparr>wr_status := RUN_RUNNING, wr_currentStepType := Some CORRECTION,
     wr_blockReasonCode := None, wr_correctionLoopCount := wr_correctionLoopCount r + 1\<rparr>"

definition correction_rows ::
  "string \<Rightarrow> HumanDecisionRequest \<Rightarrow> WorkflowRun \<Rightarrow> WorkflowStepRun \<Rightarrow> WorkflowDb \<Rightarrow> WorkflowDb" where
  "correction_rows newId input run parseStep db =
     (let org = hq_organizationId input; rid = hq_workflowRunId input in
      record_row (system_row org ''WORKFLOW_STEP_ACTIVATED'' ''WorkflowStepRun'' newId
        [(''workflowRunId'', JStr rid), (''workflowStepRunId'', JStr newId),
         (''stepType'', JStr ''CORRECTION''), (''causationId'', JStr (sr_id parseStep)),
         (''correlationId'', JStr (wr_correlationId run))])
     (record_row (user_row org (hq_userId input) ''HUMAN_DECISION_CORRECTION_REQUESTED'' ''WorkflowRun'' rid
        [(''previousBlockReason'', JStr ''HUMAN_DECISION_REQUIRED''),
         (''parseVerdictStepRunId'', JStr (sr_id parseStep)), (''correctionStepRunId'', JStr newId),
         (''correctionLoopCount'', JNum (wr_correctionLoopCount run + 1)),
         (''correlationId'', JStr (wr_correlationId run)),
         (''executionTriggered'', JBool False), (''authority'', JStr ''HUMAN_EXPLICIT'')]) db))"

definition requestCorrection ::
  "int \<Rightarrow> string \<Rightarrow> HumanDecisionRequest \<Rightarrow> WorkflowDb \<Rightarrow> WorkflowDb \<times> (WorkflowError + WorkflowStepRun)" where
  "requestCorrection now newId input db =
     (if hq_isMachineIdentity input then (db, Inl WF_FORBIDDEN)
      else
        (let org = hq_organizationId input; rid = hq_workflowRunId input in
         transaction (\<lambda>db.
           bindE (correction_evidence org rid db) (\<lambda>(run, parseStep).
           bindE (claim_runs (blocked_with org rid ''HUMAN_DECISION_REQUIRED'' (wr_correctionLoopCount run))
             to_correction db) (\<lambda>db.
           let correctionStep = ready_step newId org rid CORRECTION 1 (Some (sr_id parseStep))
                 (correction_metadata (hq_userId input) parseStep) now in
           bindE (create_step correctionStep db) (\<lambda>db.
           Inr (correctionStep, correction_rows newId input run parseStep db))))) db))"

section \<open>A human approves a release\<close>

definition approval_metadata :: "string \<Rightarrow> (string \<times> json) list" where
  "approval_metadata user = [(''source'', JStr ''HUMAN_RELEASE_APPROVAL''), (''approvedByUserId'', JStr user)]"

definition approval_input :: "HumanDecisionRequest \<Rightarrow> WorkflowStepRun \<Rightarrow> CompleteStepInput" where
  "approval_input input st = \<lparr>ci_organizationId = hq_organizationId input, ci_workflowRunId = hq_workflowRunId input,
     ci_workflowStepRunId = sr_id st, ci_stepStatus = SUCCEEDED, ci_providerStatus = None, ci_verdict = None,
     ci_reviewResults = None, ci_independenceContext = None, ci_humanApproved = Some True,
     ci_metadata = Some (approval_metadata (hq_userId input))\<rparr>"

definition approve ::
  "int \<Rightarrow> string \<Rightarrow> HumanDecisionRequest \<Rightarrow> WorkflowDb \<Rightarrow> WorkflowDb \<times> (WorkflowError + CompleteStepResult)" where
  "approve now newId input db =
     (if hq_isMachineIdentity input then (db, Inl WF_FORBIDDEN)
      else
        (let org = hq_organizationId input; rid = hq_workflowRunId input in
         case find_run db org rid of
           None \<Rightarrow> (db, Inl WF_NOT_FOUND)
         | Some run \<Rightarrow>
             if wr_status run \<noteq> RUN_RUNNING \<or> wr_currentStepType run \<noteq> Some HUMAN_RELEASE_GATE
             then (db, Inl WF_CONFLICT)
             else case latest_by sr_startedAt (steps_where org rid HUMAN_RELEASE_GATE STEP_READY db) of
               None \<Rightarrow> (db, Inl WF_CONFLICT)
             | Some st \<Rightarrow>
                 (case completeStep now newId (approval_input input st) db of
                    (db, Inl e) \<Rightarrow> (db, Inl e)
                  | (db, Inr transition) \<Rightarrow>
                      if cr_idempotent transition \<or> cr_outcome transition \<noteq> Some (NEXT_STEP RELEASE_EXECUTION)
                      then (db, Inl WF_CONFLICT)
                      else (record_row (user_row org (hq_userId input) ''HUMAN_RELEASE_APPROVED'' ''WorkflowRun'' rid
                        [(''workflowStepRunId'', JStr (sr_id st)), (''correlationId'', JStr (wr_correlationId run)),
                         (''nextStep'', JStr ''RELEASE_EXECUTION'')]) db, Inr transition))))"

section \<open>Recovery after an exhausted correction loop\<close>

record RecoveryRequest = HumanDecisionRequest +
  hq_approvalRef :: "string option"

definition approval_ref :: "RecoveryRequest \<Rightarrow> WorkflowError + string" where
  "approval_ref input =
     (case hq_approvalRef input of
        None \<Rightarrow> Inl WF_BAD_REQUEST
      | Some a \<Rightarrow> if js_trim a = [] \<or> 512 < length (js_trim a) then Inl WF_BAD_REQUEST else Inr (js_trim a))"

definition loop_recovery_metadata :: "string \<Rightarrow> WorkflowRun \<Rightarrow> json" where
  "loop_recovery_metadata ref run = JObj [(''source'', JStr ''LOOP_EXHAUSTED_HUMAN_RECOVERY''),
     (''approvalRef'', JStr ref), (''preservedCorrectionLoopCount'', JNum (wr_correctionLoopCount run)),
     (''executionLimit'', JNum 1), (''authorizedExecutionStep'', JStr ''TEST''),
     (''forbiddenExecutionSteps'', JArr (map JStr [''PACKAGE'', ''CORRECTION'', ''RED_TEAM'', ''PARSE_VERDICT'']))]"

definition loop_evidence :: "string \<Rightarrow> string \<Rightarrow> WorkflowDb \<Rightarrow> WorkflowError + (WorkflowRun \<times> WorkflowStepRun)" where
  "loop_evidence org rid db =
     (case find_run db org rid of
        None \<Rightarrow> Inl WF_NOT_FOUND
      | Some run \<Rightarrow>
          bindE (guardE (wr_status run \<noteq> RUN_BLOCKED \<or> wr_blockReasonCode run \<noteq> Some ''LOOP_EXHAUSTED'' \<or>
            wr_currentStepType run \<noteq> None \<or> wr_correctionLoopCount run \<noteq> wr_maxCorrectionLoops run)
            WF_CONFLICT) (\<lambda>_.
          case latest_by sr_finishedAt (steps_where org rid CORRECTION STEP_SUCCEEDED db) of
            None \<Rightarrow> Inl WF_CONFLICT
          | Some correctionStep \<Rightarrow> Inr (run, correctionStep)))"

definition to_test :: "WorkflowRun \<Rightarrow> WorkflowRun" where
  "to_test r = r\<lparr>wr_status := RUN_RUNNING, wr_currentStepType := Some TEST,
     wr_blockReasonCode := None, wr_failureReasonCode := None\<rparr>"

text \<open>Cancelling the steps that were read as nonterminal; all of them must still be.\<close>

definition cancel_stale :: "int \<Rightarrow> string \<Rightarrow> string \<Rightarrow> WorkflowStepRun list \<Rightarrow> WorkflowDb \<Rightarrow> WorkflowError + WorkflowDb" where
  "cancel_stale now org rid staleSteps db =
     (let stale = (\<lambda>s. live_of org rid s \<and> sr_id s \<in> sr_id ` set staleSteps) in
      if staleSteps = [] then Inr db
      else if count_steps stale db \<noteq> length staleSteps then Inl WF_CONFLICT
      else Inr (update_steps stale (cancel_step_row now) db))"

definition loop_rows ::
  "string \<Rightarrow> RecoveryRequest \<Rightarrow> string \<Rightarrow> WorkflowRun \<Rightarrow> WorkflowStepRun \<Rightarrow> string list \<Rightarrow> WorkflowDb \<Rightarrow> WorkflowDb" where
  "loop_rows newId input ref run correctionStep staleIds db =
     (let org = hq_organizationId input; rid = hq_workflowRunId input in
      record_row (system_row org ''WORKFLOW_STEP_ACTIVATED'' ''WorkflowStepRun'' newId
        [(''workflowRunId'', JStr rid), (''workflowStepRunId'', JStr newId),
         (''stepType'', JStr ''TEST''), (''causationId'', JStr (sr_id correctionStep)),
         (''correlationId'', JStr (wr_correlationId run)),
         (''recovery'', JStr ''LOOP_EXHAUSTED_HUMAN_RECOVERY'')])
     (record_row (user_row org (hq_userId input) ''LOOP_EXHAUSTED_TEST_RECOVERY_REQUESTED'' ''WorkflowRun'' rid
        [(''approvalRef'', JStr ref), (''previousBlockReason'', JStr ''LOOP_EXHAUSTED''),
         (''correctionStepRunId'', JStr (sr_id correctionStep)), (''testStepRunId'', JStr newId),
         (''cancelledStaleStepIds'', JArr (map JStr staleIds)),
         (''correctionLoopCount'', JNum (wr_correctionLoopCount run)),
         (''maxCorrectionLoops'', JNum (wr_maxCorrectionLoops run)), (''executionLimit'', JNum 1),
         (''executionTriggered'', JBool False), (''authority'', JStr ''HUMAN_EXPLICIT'')]) db))"

definition loop_exhausted_recover ::
  "int \<Rightarrow> string \<Rightarrow> RecoveryRequest \<Rightarrow> WorkflowDb \<Rightarrow> WorkflowDb \<times> (WorkflowError + WorkflowStepRun \<times> string list)" where
  "loop_exhausted_recover now newId input db =
     (if hq_isMachineIdentity input then (db, Inl WF_FORBIDDEN)
      else case approval_ref input of
        Inl e \<Rightarrow> (db, Inl e)
      | Inr ref \<Rightarrow>
        (let org = hq_organizationId input; rid = hq_workflowRunId input in
         transaction (\<lambda>db.
           bindE (loop_evidence org rid db) (\<lambda>(run, correctionStep).
           let staleSteps = by_start (live_of org rid) db in
           bindE (claim_runs (blocked_with org rid ''LOOP_EXHAUSTED'' (wr_correctionLoopCount run)) to_test db) (\<lambda>db.
           bindE (cancel_stale now org rid staleSteps db) (\<lambda>db.
           let testStep = ready_step newId org rid TEST 1 (Some (sr_id correctionStep))
                 (loop_recovery_metadata ref run) now in
           bindE (create_step testStep db) (\<lambda>db.
           Inr ((testStep, map sr_id staleSteps),
             loop_rows newId input ref run correctionStep (map sr_id staleSteps) db)))))) db))"

section \<open>Recovery from a release verification that was no pass\<close>

definition MAX_INVOCATION_ID_CHARS :: nat where
  "MAX_INVOCATION_ID_CHARS = 256"

definition find_verify_step :: "WorkflowDb \<Rightarrow> string \<Rightarrow> string \<Rightarrow> string \<Rightarrow> WorkflowStepRun option" where
  "find_verify_step db org rid sid = find (\<lambda>s. sr_id s = sid \<and> sr_organizationId s = org \<and>
     sr_workflowRunId s = rid \<and> sr_stepType s = VERIFY \<and> sr_status s = STEP_SUCCEEDED) (db_steps db)"

text \<open>The governed execution a succeeded VERIFY step is bound to, when it carried no structured pass.\<close>

definition verify_binding :: "WorkflowStepRun \<Rightarrow> WorkflowError + string" where
  "verify_binding st =
     (let metadata = objectValue (Some (sr_metadata st));
          str = (\<lambda>k. stringValue (field_of metadata k)) in
      bindE (guardE (str ''executionStatus'' \<noteq> Some ''SUCCEEDED'' \<or>
        str ''capabilityCode'' \<noteq> Some ''RELEASE_VERIFICATION'') WF_CONFLICT) (\<lambda>_.
      bindE (guardE (str ''verificationResultProjectionStatus'' = Some ''VALID'' \<and>
        str ''verificationResultStatus'' = Some ''PASS'') WF_CONFLICT) (\<lambda>_.
      case boundedString (field_of (objectValue (field_of metadata ''executionEvidence'')) ''invocationId'')
             MAX_INVOCATION_ID_CHARS of
        None \<Rightarrow> Inl WF_CONFLICT
      | Some i \<Rightarrow> Inr i)))"

definition find_execution :: "WorkflowDb \<Rightarrow> string \<Rightarrow> string \<Rightarrow> string \<Rightarrow> string \<Rightarrow> GovernedExecutionRecord option" where
  "find_execution db org rid sid i = find (\<lambda>x. gx_id x = i \<and> gx_organizationId x = org \<and>
     gx_workflowRunId x = rid \<and> gx_workflowStepRunId x = sid \<and>
     gx_capabilityCode x = ''RELEASE_VERIFICATION'' \<and> gx_status x = AES_SUCCEEDED) (db_executions db)"

definition verify_recovery_metadata ::
  "string \<Rightarrow> WorkflowRun \<Rightarrow> WorkflowStepRun \<Rightarrow> WorkflowStepRun \<Rightarrow> GovernedExecutionRecord \<Rightarrow> json" where
  "verify_recovery_metadata ref run verifyStep gate execution = JObj
     [(''source'', JStr ''HUMAN_RELEASE_FALSE_POSITIVE_RECOVERY''), (''approvalRef'', JStr ref),
      (''supersededVerifyStepRunId'', JStr (sr_id verifyStep)),
      (''supersededHumanReleaseGateStepRunId'', JStr (sr_id gate)),
      (''governedExecutionRecordId'', JStr (gx_id execution)),
      (''preservedCorrectionLoopCount'', JNum (wr_correctionLoopCount run)),
      (''maxCorrectionLoops'', JNum (wr_maxCorrectionLoops run)), (''executionLimit'', JNum 1),
      (''executionTriggered'', JBool False), (''authorizedExecutionStep'', JStr ''VERIFY''),
      (''forbiddenExecutionSteps'', JArr (map JStr [''REMOTE_VERIFY'', ''HUMAN_RELEASE_GATE'', ''RELEASE_EXECUTION''])),
      (''recoveryReason'', JStr ''LEGACY_RELEASE_VERIFICATION_WITHOUT_STRUCTURED_PASS'')]"

fun only_gate_live :: "WorkflowStepRun \<Rightarrow> WorkflowStepRun list \<Rightarrow> bool" where
  "only_gate_live gate [s] = (sr_id s = sr_id gate \<and> sr_stepType s = HUMAN_RELEASE_GATE \<and> sr_status s = STEP_READY)"
| "only_gate_live gate _ = False"

text \<open>Everything the operation checks before it writes: the gate, the step it supersedes and the execution.\<close>

definition verify_recovery_evidence ::
  "string \<Rightarrow> string \<Rightarrow> WorkflowDb \<Rightarrow>
   WorkflowError + (WorkflowRun \<times> WorkflowStepRun \<times> WorkflowStepRun \<times> string \<times> GovernedExecutionRecord)" where
  "verify_recovery_evidence org rid db =
     (case find_run db org rid of
        None \<Rightarrow> Inl WF_NOT_FOUND
      | Some run \<Rightarrow>
          bindE (guardE (wr_status run \<noteq> RUN_RUNNING \<or> wr_currentStepType run \<noteq> Some HUMAN_RELEASE_GATE) WF_CONFLICT) (\<lambda>_.
          case latest_by sr_startedAt (steps_where org rid HUMAN_RELEASE_GATE STEP_READY db) of
            None \<Rightarrow> Inl WF_CONFLICT
          | Some gate \<Rightarrow>
          bindE (guardE (\<not> truthy (sr_causationId gate)) WF_CONFLICT) (\<lambda>_.
          case find_verify_step db org rid (the (sr_causationId gate)) of
            None \<Rightarrow> Inl WF_CONFLICT
          | Some verifyStep \<Rightarrow>
          bindE (guardE (\<not> truthy (sr_causationId verifyStep)) WF_CONFLICT) (\<lambda>_.
          bindE (verify_binding verifyStep) (\<lambda>i.
          case find_execution db org rid (sr_id verifyStep) i of
            None \<Rightarrow> Inl WF_CONFLICT
          | Some execution \<Rightarrow>
              bindE (guardE (\<not> only_gate_live gate (by_start (live_of org rid) db)) WF_CONFLICT) (\<lambda>_.
              Inr (run, gate, verifyStep, the (sr_causationId verifyStep), execution)))))))"

definition at_release_gate :: "string \<Rightarrow> string \<Rightarrow> int \<Rightarrow> WorkflowRun \<Rightarrow> bool" where
  "at_release_gate org rid n r = (wr_id r = rid \<and> wr_organizationId r = org \<and> wr_status r = RUN_RUNNING \<and>
     wr_currentStepType r = Some HUMAN_RELEASE_GATE \<and> wr_correctionLoopCount r = n)"

definition to_verify :: "WorkflowRun \<Rightarrow> WorkflowRun" where
  "to_verify r = r\<lparr>wr_currentStepType := Some VERIFY, wr_blockReasonCode := None, wr_failureReasonCode := None\<rparr>"

definition stale_gate :: "string \<Rightarrow> string \<Rightarrow> WorkflowStepRun \<Rightarrow> WorkflowStepRun \<Rightarrow> bool" where
  "stale_gate org rid gate s = (sr_id s = sr_id gate \<and> sr_organizationId s = org \<and> sr_workflowRunId s = rid \<and>
     sr_stepType s = HUMAN_RELEASE_GATE \<and> sr_status s = STEP_READY)"

definition verify_rows ::
  "string \<Rightarrow> RecoveryRequest \<Rightarrow> string \<Rightarrow> WorkflowRun \<Rightarrow> WorkflowStepRun \<Rightarrow> WorkflowStepRun \<Rightarrow> string \<Rightarrow>
   GovernedExecutionRecord \<Rightarrow> WorkflowDb \<Rightarrow> WorkflowDb" where
  "verify_rows newId input ref run gate verifyStep causation execution db =
     (let org = hq_organizationId input; rid = hq_workflowRunId input in
      record_row (system_row org ''WORKFLOW_STEP_ACTIVATED'' ''WorkflowStepRun'' newId
        [(''workflowRunId'', JStr rid), (''workflowStepRunId'', JStr newId), (''stepType'', JStr ''VERIFY''),
         (''causationId'', JStr causation), (''correlationId'', JStr (wr_correlationId run)),
         (''recovery'', JStr ''HUMAN_RELEASE_FALSE_POSITIVE_RECOVERY'')])
     (record_row (user_row org (hq_userId input) ''HUMAN_RELEASE_FALSE_POSITIVE_VERIFY_RECOVERY_REQUESTED''
        ''WorkflowRun'' rid
        [(''approvalRef'', JStr ref), (''supersededVerifyStepRunId'', JStr (sr_id verifyStep)),
         (''supersededHumanReleaseGateStepRunId'', JStr (sr_id gate)),
         (''governedExecutionRecordId'', JStr (gx_id execution)), (''verifyRecoveryStepRunId'', JStr newId),
         (''correctionLoopCount'', JNum (wr_correctionLoopCount run)),
         (''maxCorrectionLoops'', JNum (wr_maxCorrectionLoops run)), (''executionLimit'', JNum 1),
         (''executionTriggered'', JBool False), (''authority'', JStr ''HUMAN_EXPLICIT'')]) db))"

definition release_verification_recover ::
  "int \<Rightarrow> string \<Rightarrow> RecoveryRequest \<Rightarrow> WorkflowDb \<Rightarrow> WorkflowDb \<times> (WorkflowError + WorkflowStepRun)" where
  "release_verification_recover now newId input db =
     (if hq_isMachineIdentity input then (db, Inl WF_FORBIDDEN)
      else case approval_ref input of
        Inl e \<Rightarrow> (db, Inl e)
      | Inr ref \<Rightarrow>
        (let org = hq_organizationId input; rid = hq_workflowRunId input in
         transaction (\<lambda>db.
           bindE (verify_recovery_evidence org rid db) (\<lambda>(run, gate, verifyStep, causation, execution).
           bindE (claim_runs (at_release_gate org rid (wr_correctionLoopCount run)) to_verify db) (\<lambda>db.
           bindE (guardE (count_steps (stale_gate org rid gate) db \<noteq> 1) WF_CONFLICT) (\<lambda>_.
           let verifyRecoveryStep = ready_step newId org rid VERIFY (sr_attemptNumber verifyStep + 1)
                 (Some causation) (verify_recovery_metadata ref run verifyStep gate execution) now in
           bindE (create_step verifyRecoveryStep (update_steps (stale_gate org rid gate) (cancel_step_row now) db)) (\<lambda>db.
           Inr (verifyRecoveryStep, verify_rows newId input ref run gate verifyStep causation execution db)))))) db))"

end
