(* ===== verification/Vito_WorkflowInvariant.thy ===== *)
theory Vito_WorkflowInvariant
  imports Vito_HumanGates
begin

text \<open>
  The invariant of the workflow tables and the abstract life cycle of a run.
  The invariant speaks of one run and its steps at a time; every operation
  rewrites the rows of one run and adds at most one step, so one lemma about
  such changes carries the proof for all of them.
\<close>

section \<open>The abstract run\<close>

type_synonym run_state = "WorkflowRunStatus \<times> EngineeringStepType option \<times> int"

definition abs_run :: "WorkflowRun \<Rightarrow> run_state" where
  "abs_run r = (wr_status r, wr_currentStepType r, wr_correctionLoopCount r)"

inductive run_trans :: "int \<Rightarrow> run_state \<Rightarrow> run_state \<Rightarrow> bool" for m :: int where
  start: "run_trans m (RUN_CREATED, None, n) (RUN_RUNNING, Some PLAN, n)"
| advance: "sm_step m (s, n) (t, n') \<Longrightarrow> run_trans m (RUN_RUNNING, Some s, n) (RUN_RUNNING, Some t, n')"
| block: "run_trans m (RUN_RUNNING, Some s, n) (RUN_BLOCKED, None, n)"
| wait: "run_trans m (RUN_RUNNING, Some s, n) (RUN_BLOCKED, Some s, n)"
| fail: "run_trans m (RUN_RUNNING, Some s, n) (RUN_FAILED, None, n)"
| complete: "run_trans m (RUN_RUNNING, Some REMOTE_VERIFY, n) (RUN_COMPLETED, None, n)"
| cancel: "\<not> terminal_run st \<Longrightarrow> run_trans m (st, c, n) (RUN_CANCELLED, None, n)"
| resume: "run_trans m (RUN_BLOCKED, c, n) (RUN_RUNNING, c, n)"
| correct: "n < m \<Longrightarrow> run_trans m (RUN_BLOCKED, None, n) (RUN_RUNNING, Some CORRECTION, n + 1)"
| retest: "n = m \<Longrightarrow> run_trans m (RUN_BLOCKED, None, n) (RUN_RUNNING, Some TEST, n)"
| reverify: "run_trans m (RUN_RUNNING, Some HUMAN_RELEASE_GATE, n) (RUN_RUNNING, Some VERIFY, n)"

inductive_cases run_transE: "run_trans m (st, c, n) (st', c', n')"

lemma run_trans_not_terminal: "run_trans m x y \<Longrightarrow> \<not> terminal_run (fst x)"
  by (induction rule: run_trans.induct) (auto simp: terminal_run_def)

lemma run_trans_count: "run_trans m x y \<Longrightarrow> snd (snd x) \<le> snd (snd y)"
proof (induction rule: run_trans.induct)
  case (advance s n t n')
  then show ?case by (auto elim: sm_step.cases)
qed auto

section \<open>The invariant\<close>

definition steps_of :: "string \<Rightarrow> WorkflowDb \<Rightarrow> WorkflowStepRun list" where
  "steps_of rid db = filter (\<lambda>s. sr_workflowRunId s = rid) (db_steps db)"

definition live :: "WorkflowStepRun \<Rightarrow> bool" where
  "live s = (\<not> terminal_step (sr_status s))"

fun run_shape :: "WorkflowRun \<Rightarrow> WorkflowStepRun list \<Rightarrow> bool" where
  "run_shape r steps =
     (case wr_status r of
        RUN_CREATED \<Rightarrow> wr_currentStepType r = None \<and> steps = []
      | RUN_RUNNING \<Rightarrow>
          (case wr_currentStepType r of
             None \<Rightarrow> filter live steps = []
           | Some t \<Rightarrow> (\<exists>s. filter live steps = [s] \<and> sr_stepType s = t \<and> sr_status s = STEP_READY))
      | RUN_WAITING_FOR_HUMAN \<Rightarrow> False
      | RUN_BLOCKED \<Rightarrow>
          (case wr_currentStepType r of
             None \<Rightarrow> filter live steps = [] \<and> wr_blockReasonCode r \<noteq> Some ''PROVIDER_BLOCKED''
           | Some t \<Rightarrow> wr_blockReasonCode r = Some ''PROVIDER_BLOCKED'' \<and>
               (\<exists>s. filter live steps = [s] \<and> sr_stepType s = t \<and> sr_status s = STEP_WAITING))
      | _ \<Rightarrow> wr_currentStepType r = None \<and> filter live steps = [])"

declare run_shape.simps [simp del]

lemmas run_shape_cases = run_shape.simps

text \<open>A step was caused by an ended step one edge before it; the first step is PLAN.\<close>

definition lineage_ok :: "WorkflowStepRun list \<Rightarrow> WorkflowStepRun \<Rightarrow> bool" where
  "lineage_ok steps s =
     (case sr_causationId s of
        None \<Rightarrow> sr_stepType s = PLAN
      | Some c \<Rightarrow> (\<exists>p \<in> set steps. sr_id p = c \<and> step_edge (sr_stepType p) (sr_stepType s) \<and>
          sr_status p \<in> {STEP_SUCCEEDED, STEP_FAILED}))"

text \<open>A release step was caused by a gate that carries the approval of a user.\<close>

type_synonym approvals = "string \<Rightarrow> string \<Rightarrow> string \<Rightarrow> bool"

definition release_ok :: "approvals \<Rightarrow> WorkflowRun \<Rightarrow> WorkflowStepRun list \<Rightarrow> WorkflowStepRun \<Rightarrow> bool" where
  "release_ok A r steps s = (sr_stepType s = RELEASE_EXECUTION \<longrightarrow>
     (\<exists>g \<in> set steps. \<exists>u. sr_causationId s = Some (sr_id g) \<and> sr_stepType g = HUMAN_RELEASE_GATE \<and>
        sr_status g = STEP_SUCCEEDED \<and> sr_metadata g = JObj (approval_metadata u) \<and>
        A (wr_organizationId r) (wr_id r) u))"

definition corrections :: "WorkflowStepRun list \<Rightarrow> int" where
  "corrections steps = int (length (filter (\<lambda>s. sr_stepType s = CORRECTION) steps))"

definition run_wf :: "approvals \<Rightarrow> WorkflowRun \<Rightarrow> WorkflowStepRun list \<Rightarrow> bool" where
  "run_wf A r steps = (run_shape r steps \<and>
     (\<forall>s \<in> set steps. sr_organizationId s = wr_organizationId r \<and> lineage_ok steps s \<and> release_ok A r steps s) \<and>
     wr_correctionLoopCount r = corrections steps \<and> corrections steps \<le> max 0 (wr_maxCorrectionLoops r))"

definition wf_ok :: "approvals \<Rightarrow> WorkflowDb \<Rightarrow> bool" where
  "wf_ok A db = (distinct (map wr_id (db_runs db)) \<and> distinct (map sr_id (db_steps db)) \<and>
     (\<forall>s \<in> set (db_steps db). sr_workflowRunId s \<in> wr_id ` set (db_runs db)) \<and>
     (\<forall>r \<in> set (db_runs db). run_wf A r (steps_of (wr_id r) db)))"

lemma corrections_append [simp]: "corrections (xs @ ys) = corrections xs + corrections ys"
  by (simp add: corrections_def)

lemma corrections_Nil [simp]: "corrections [] = 0"
  by (simp add: corrections_def)

lemma corrections_single [simp]: "corrections [s] = (if sr_stepType s = CORRECTION then 1 else 0)"
  by (simp add: corrections_def)

section \<open>Changing the rows of one run\<close>

definition keeps_keys :: "(WorkflowStepRun \<Rightarrow> WorkflowStepRun) \<Rightarrow> bool" where
  "keeps_keys G = (\<forall>s. sr_id (G s) = sr_id s \<and> sr_organizationId (G s) = sr_organizationId s \<and>
     sr_workflowRunId (G s) = sr_workflowRunId s \<and> sr_stepType (G s) = sr_stepType s \<and>
     sr_causationId (G s) = sr_causationId s)"

definition local_change ::
  "approvals \<Rightarrow> WorkflowRun \<Rightarrow> WorkflowRun \<Rightarrow> (WorkflowStepRun \<Rightarrow> WorkflowStepRun) \<Rightarrow> WorkflowStepRun list \<Rightarrow>
   WorkflowStepRun list \<Rightarrow> bool" where
  "local_change A r r' G new steps = (
     wr_id r' = wr_id r \<and> wr_organizationId r' = wr_organizationId r \<and>
     wr_maxCorrectionLoops r' = wr_maxCorrectionLoops r \<and>
     run_trans (wr_maxCorrectionLoops r) (abs_run r) (abs_run r') \<and>
     (\<forall>s \<in> set steps. \<not> live s \<longrightarrow> G s = s) \<and>
     (\<forall>s \<in> set new. sr_workflowRunId s = wr_id r \<and> sr_organizationId s = wr_organizationId r \<and>
        lineage_ok (map G steps) s \<and> release_ok A r (map G steps) s) \<and>
     run_shape r' (map G steps @ new) \<and>
     wr_correctionLoopCount r' = wr_correctionLoopCount r + corrections new \<and>
     (corrections new \<noteq> 0 \<longrightarrow> wr_correctionLoopCount r' \<le> wr_maxCorrectionLoops r))"

lemma lineage_mono: "lineage_ok xs s \<Longrightarrow> set xs \<subseteq> set ys \<Longrightarrow> lineage_ok ys s"
  by (auto simp: lineage_ok_def split: option.splits)

lemma release_mono: "release_ok A r xs s \<Longrightarrow> set xs \<subseteq> set ys \<Longrightarrow> release_ok A r ys s"
  unfolding release_ok_def by blast

lemma ended_not_live: "sr_status p \<in> {STEP_SUCCEEDED, STEP_FAILED} \<Longrightarrow> \<not> live p"
  by (auto simp: live_def terminal_step_def)

lemma lineage_map:
  assumes "keeps_keys G" "\<forall>s \<in> set steps. \<not> live s \<longrightarrow> G s = s" "lineage_ok steps s"
  shows "lineage_ok (map G steps) (G s)"
proof (cases "sr_causationId s")
  case None
  with assms show ?thesis by (simp add: lineage_ok_def keeps_keys_def)
next
  case (Some c)
  with assms(3) obtain p where p: "p \<in> set steps" "sr_id p = c" "step_edge (sr_stepType p) (sr_stepType s)"
    "sr_status p \<in> {STEP_SUCCEEDED, STEP_FAILED}" by (auto simp: lineage_ok_def)
  with assms(2) ended_not_live have "G p = p" by blast
  with p(1) have "p \<in> set (map G steps)" by force
  with p Some assms(1) show ?thesis by (auto simp: lineage_ok_def keeps_keys_def)
qed

lemma release_map:
  assumes "keeps_keys G" "\<forall>s \<in> set steps. \<not> live s \<longrightarrow> G s = s" "release_ok A r steps s"
  shows "release_ok A r (map G steps) (G s)"
  unfolding release_ok_def
proof
  assume t: "sr_stepType (G s) = RELEASE_EXECUTION"
  with assms(1,3) obtain g u where g: "g \<in> set steps" "sr_causationId s = Some (sr_id g)"
    "sr_stepType g = HUMAN_RELEASE_GATE" "sr_status g = STEP_SUCCEEDED"
    "sr_metadata g = JObj (approval_metadata u)" "A (wr_organizationId r) (wr_id r) u"
    unfolding release_ok_def keeps_keys_def by metis
  with assms(2) ended_not_live have "G g = g" by blast
  with g(1) have "g \<in> set (map G steps)" by force
  with g assms(1) show "\<exists>g \<in> set (map G steps). \<exists>u. sr_causationId (G s) = Some (sr_id g) \<and>
      sr_stepType g = HUMAN_RELEASE_GATE \<and> sr_status g = STEP_SUCCEEDED \<and>
      sr_metadata g = JObj (approval_metadata u) \<and> A (wr_organizationId r) (wr_id r) u"
    unfolding keeps_keys_def by metis
qed

lemma corrections_map: "keeps_keys G \<Longrightarrow> corrections (map G steps) = corrections steps"
  by (induction steps) (auto simp: corrections_def keeps_keys_def)

lemma run_wf_change:
  assumes wf: "run_wf A r steps" and G: "keeps_keys G" and c: "local_change A r r' G new steps"
  shows "run_wf A r' (map G steps @ new)"
proof -
  have keep: "\<forall>s \<in> set steps. \<not> live s \<longrightarrow> G s = s" using c by (simp add: local_change_def)
  have rel: "release_ok A r' xs s = release_ok A r xs s" for xs s using c by (simp add: local_change_def release_ok_def)
  have "sr_organizationId s = wr_organizationId r' \<and> lineage_ok (map G steps @ new) s \<and> release_ok A r' (map G steps @ new) s"
    if "s \<in> set (map G steps @ new)" for s
  proof (cases "s \<in> set new")
    case True
    with c have "sr_organizationId s = wr_organizationId r'" "lineage_ok (map G steps) s" "release_ok A r (map G steps) s"
      by (auto simp: local_change_def)
    then show ?thesis unfolding rel by (auto elim: lineage_mono release_mono)
  next
    case False
    with that obtain s0 where s0: "s0 \<in> set steps" "s = G s0" by auto
    with wf have o: "sr_organizationId s0 = wr_organizationId r" "lineage_ok steps s0" "release_ok A r steps s0"
      by (auto simp: run_wf_def)
    from lineage_map [OF G keep o(2)] release_map [OF G keep o(3)] s0 o(1) G c show ?thesis
      unfolding rel by (auto simp: keeps_keys_def local_change_def elim: lineage_mono release_mono)
  qed
  moreover have "wr_correctionLoopCount r' = corrections (map G steps @ new)"
    "corrections (map G steps @ new) \<le> max 0 (wr_maxCorrectionLoops r')"
    using wf c corrections_map [OF G] by (auto simp: run_wf_def local_change_def)
  ultimately show ?thesis using c by (auto simp: run_wf_def local_change_def)
qed

text \<open>The change of the tables: the rows of one run and one or no new step.\<close>

definition db_change ::
  "approvals \<Rightarrow> WorkflowDb \<Rightarrow> WorkflowDb \<Rightarrow> string \<Rightarrow> bool" where
  "db_change A db db' rid = (\<exists>r F G new. r \<in> set (db_runs db) \<and> wr_id r = rid \<and>
     db_runs db' = map F (db_runs db) \<and> (\<forall>x. wr_id x \<noteq> rid \<longrightarrow> F x = x) \<and>
     db_steps db' = map G (db_steps db) @ new \<and> (\<forall>s. sr_workflowRunId s \<noteq> rid \<longrightarrow> G s = s) \<and> keeps_keys G \<and>
     distinct (map sr_id new) \<and> (\<forall>s \<in> set new. sr_id s \<notin> sr_id ` set (db_steps db)) \<and>
     local_change A r (F r) G new (steps_of rid db))"

lemma steps_of_change:
  assumes "db_steps db' = map G (db_steps db) @ new" "keeps_keys G" "\<forall>s \<in> set new. sr_workflowRunId s = rid"
  shows "steps_of x db' = map G (steps_of x db) @ (if x = rid then new else [])"
  using assms by (auto simp: steps_of_def filter_map o_def keeps_keys_def filter_empty_conv filter_id_conv)

lemma fresh_disjoint:
  assumes "\<forall>s \<in> set new. f s \<notin> f ` X"
  shows "f ` X \<inter> f ` set new = {}"
proof -
  have "i \<notin> f ` X" if "i \<in> f ` set new" for i using that assms by (elim imageE) simp
  then show ?thesis by (simp only: disjoint_iff) metis
qed

lemma db_change_ok:
  assumes ok: "wf_ok A db" and c: "db_change A db db' rid"
  shows "wf_ok A db'"
proof -
  obtain r F G new where r: "r \<in> set (db_runs db)" "wr_id r = rid" and F: "db_runs db' = map F (db_runs db)"
    "\<And>x. wr_id x \<noteq> rid \<Longrightarrow> F x = x" and G: "db_steps db' = map G (db_steps db) @ new"
    "\<And>s. sr_workflowRunId s \<noteq> rid \<Longrightarrow> G s = s" and k: "keeps_keys G" and d: "distinct (map sr_id new)"
    "\<forall>s \<in> set new. sr_id s \<notin> sr_id ` set (db_steps db)" and l: "local_change A r (F r) G new (steps_of rid db)"
    using c unfolding db_change_def by blast
  have uniq: "x = r" if "x \<in> set (db_runs db)" "wr_id x = rid" for x
    using that r ok unfolding wf_ok_def by (metis inj_on_def distinct_map)
  have new: "\<forall>s \<in> set new. sr_workflowRunId s = rid" using l r(2) by (simp add: local_change_def)
  note st = steps_of_change [OF G(1) k new]
  have idF: "wr_id (F x) = wr_id x" if "x \<in> set (db_runs db)" for x
  proof (cases "wr_id x = rid")
    case True
    with uniq [OF that] l show ?thesis by (simp add: local_change_def)
  qed (simp add: F(2))
  have ids: "map wr_id (db_runs db') = map wr_id (db_runs db)" using idF F(1) by simp
  then have idset: "wr_id ` set (db_runs db') = wr_id ` set (db_runs db)" by (metis set_map)
  have sids: "map sr_id (db_steps db') = map sr_id (db_steps db) @ map sr_id new"
    using G(1) k by (simp add: keeps_keys_def)
  have "run_wf A x' (steps_of (wr_id x') db')" if "x' \<in> set (db_runs db')" for x'
  proof -
    from that F(1) obtain x where x: "x \<in> set (db_runs db)" "x' = F x" by auto
    show ?thesis
    proof (cases "wr_id x = rid")
      case True
      with uniq x have xr: "x = r" by blast
      from run_wf_change [OF _ k l] ok r xr x(2) idF [OF r(1)] show ?thesis by (auto simp: st wf_ok_def)
    next
      case False
      then have "F x = x" by (rule F(2))
      moreover have "map G (steps_of (wr_id x) db) = steps_of (wr_id x) db"
        using False by (intro map_idI G(2)) (simp add: steps_of_def)
      ultimately show ?thesis using False x ok by (simp add: st wf_ok_def)
    qed
  qed
  moreover have "\<forall>s \<in> set (db_steps db'). sr_workflowRunId s \<in> wr_id ` set (db_runs db')"
    using ok k G(1) new r unfolding wf_ok_def keeps_keys_def idset by auto
  moreover have "set (map sr_id (db_steps db)) \<inter> set (map sr_id new) = {}" using fresh_disjoint [OF d(2)] by simp
  then have "distinct (map sr_id (db_steps db'))" using ok d(1) by (simp add: sids wf_ok_def)
  ultimately show ?thesis using ok ids by (simp add: wf_ok_def)
qed

section \<open>Recognising a change\<close>

definition same_tables :: "WorkflowDb \<Rightarrow> WorkflowDb \<Rightarrow> bool" where
  "same_tables db db' = (db_runs db' = db_runs db \<and> db_steps db' = db_steps db)"

lemma same_tables_refl [simp]: "same_tables db db"
  by (simp add: same_tables_def)

lemma same_tables_record [simp]: "same_tables db (record_row e db') = same_tables db db'"
  by (simp add: same_tables_def record_row_def)

lemma steps_of_same: "same_tables db db' \<Longrightarrow> steps_of rid db' = steps_of rid db"
  by (simp add: same_tables_def steps_of_def)

lemma wf_ok_same: "same_tables db db' \<Longrightarrow> wf_ok A db' = wf_ok A db"
  by (simp add: same_tables_def wf_ok_def steps_of_def)

lemma tables_record [simp]:
  "db_runs (record_row e db) = db_runs db" "db_steps (record_row e db) = db_steps db"
  by (simp_all add: record_row_def)

lemma tables_update [simp]:
  "db_runs (update_runs P f db) = map (\<lambda>r. if P r then f r else r) (db_runs db)"
  "db_steps (update_runs P f db) = db_steps db"
  "db_runs (update_steps Q g db) = db_runs db"
  "db_steps (update_steps Q g db) = map (\<lambda>s. if Q s then g s else s) (db_steps db)"
  by (simp_all add: update_runs_def update_steps_def)

lemma create_step_Inr [simp]:
  "create_step s db = Inr db' \<longleftrightarrow> sr_id s \<notin> sr_id ` set (db_steps db) \<and> db' = db\<lparr>db_steps := db_steps db @ [s]\<rparr>"
  by (auto simp: create_step_def)

lemma update_run_by_id_Inr:
  "update_run_by_id rid f db = Inr (u, db') \<Longrightarrow> db' = update_runs (\<lambda>r. wr_id r = rid) f db"
  by (auto simp: update_run_by_id_def split: option.splits)

lemma transaction_cases:
  "transaction body db = (db', res) \<Longrightarrow> db' = db \<or> (\<exists>x. body db = Inr (x, db') \<and> res = Inr x)"
  by (auto simp: transaction_def split: sum.splits)

lemma find_run_SomeD:
  "find_run db org rid = Some r \<Longrightarrow> r \<in> set (db_runs db) \<and> wr_id r = rid \<and> wr_organizationId r = org"
  by (auto simp: find_run_def find_Some_iff)

lemma find_step_SomeD:
  "find_step db org rid sid = Some s \<Longrightarrow>
     s \<in> set (steps_of rid db) \<and> sr_id s = sid \<and> sr_organizationId s = org"
  by (auto simp: find_step_def find_Some_iff steps_of_def)

lemma run_wf_of: "wf_ok A db \<Longrightarrow> r \<in> set (db_runs db) \<Longrightarrow> run_wf A r (steps_of (wr_id r) db)"
  by (simp add: wf_ok_def)

lemma step_unique:
  "wf_ok A db \<Longrightarrow> s \<in> set (db_steps db) \<Longrightarrow> s' \<in> set (db_steps db) \<Longrightarrow> sr_id s = sr_id s' \<Longrightarrow> s = s'"
  unfolding wf_ok_def by (metis distinct_map inj_on_def)

lemma local_change_cong:
  assumes "\<And>s. s \<in> set steps \<Longrightarrow> G s = G' s" "local_change A r r' G new steps"
  shows "local_change A r r' G' new steps"
proof -
  have "map G steps = map G' steps" using assms(1) by simp
  with assms show ?thesis unfolding local_change_def by auto
qed

lemma db_changeI:
  assumes r: "find_run db org rid = Some r" and P: "P r" "\<And>x. P x \<Longrightarrow> wr_id x = rid"
    and runs: "db_runs db' = map (\<lambda>r. if P r then f r else r) (db_runs db)"
    and steps: "db_steps db' = map (\<lambda>s. if Q s then g s else s) (db_steps db) @ new"
    and Q: "\<And>s. s \<in> set (db_steps db) \<Longrightarrow> Q s \<Longrightarrow> sr_workflowRunId s = rid" and g: "keeps_keys g"
    and new: "distinct (map sr_id new)" "\<forall>s \<in> set new. sr_id s \<notin> sr_id ` set (db_steps db)"
    and l: "local_change A r (f r) (\<lambda>s. if Q s then g s else s) new (steps_of rid db)"
  shows "db_change A db db' rid"
  unfolding db_change_def
proof (intro exI conjI)
  let ?G = "\<lambda>s. if sr_workflowRunId s = rid \<and> Q s then g s else s"
  show "r \<in> set (db_runs db)" "wr_id r = rid" using find_run_SomeD [OF r] by auto
  show "db_runs db' = map (\<lambda>r. if P r then f r else r) (db_runs db)" by (rule runs)
  show "\<forall>x. wr_id x \<noteq> rid \<longrightarrow> (if P x then f x else x) = x" using P(2) by auto
  show "db_steps db' = map ?G (db_steps db) @ new" using Q steps by auto
  show "\<forall>s. sr_workflowRunId s \<noteq> rid \<longrightarrow> ?G s = s" by simp
  show "keeps_keys ?G" using g by (simp add: keeps_keys_def)
  show "local_change A r (if P r then f r else r) ?G new (steps_of rid db)"
    using l P(1) by (simp) (rule local_change_cong [rotated], assumption, simp add: steps_of_def)
qed (rule new)+

lemma one_live:
  "filter live steps = [s0] \<Longrightarrow> (\<And>s. s \<in> set steps \<Longrightarrow> s \<noteq> s0 \<Longrightarrow> G s = s) \<Longrightarrow>
   filter live (map G steps) = (if live (G s0) then [G s0] else [])"
proof (induction steps)
  case (Cons s steps)
  show ?case
  proof (cases "live s")
    case True
    with Cons.prems(1) have s: "s = s0" "filter live steps = []" by auto
    then have "live x \<Longrightarrow> x \<notin> set steps" for x by (auto simp: filter_empty_conv)
    with True s Cons.prems(2) have "map G steps = steps" by (intro map_idI) auto
    with s show ?thesis by simp
  next
    case False
    with Cons.prems have "live s0" "G s = s" by (auto simp: filter_eq_Cons_iff)
    with False Cons show ?thesis by auto
  qed
qed simp

lemma keeps_claimed [simp]: "keeps_keys (claimed now input)"
  by (simp add: keeps_keys_def claimed_def)

lemma keeps_cancel [simp]: "keeps_keys (cancel_step_row now)"
  by (simp add: keeps_keys_def cancel_step_row_def)

lemma ready_step_fields [simp]:
  "sr_id (ready_step i org rid t n c m now) = i" "sr_organizationId (ready_step i org rid t n c m now) = org"
  "sr_workflowRunId (ready_step i org rid t n c m now) = rid" "sr_stepType (ready_step i org rid t n c m now) = t"
  "sr_status (ready_step i org rid t n c m now) = STEP_READY" "sr_causationId (ready_step i org rid t n c m now) = c"
  by (simp_all add: ready_step_def)

lemma live_status [simp]: "live s = (sr_status s \<in> {STEP_PENDING, STEP_READY, STEP_RUNNING, STEP_WAITING})"
  by (cases "sr_status s") (auto simp: live_def terminal_step_def)

lemma live_of_live: "live_of org rid s \<longleftrightarrow> sr_organizationId s = org \<and> sr_workflowRunId s = rid \<and> live s"
  by (auto simp: live_of_def NONTERMINAL_STEP_STATUSES_def)

section \<open>Completing a step\<close>

lemma provider_outcome:
  "provider_blocks (providerStatus input) \<Longrightarrow> \<exists>st. nextEngineeringStep input = BLOCKED (PROVIDER_BLOCKED st)"
  by (simp add: nextEngineeringStep_def)

lemma other_block:
  "nextEngineeringStep input = BLOCKED b \<Longrightarrow> \<not> provider_blocks (providerStatus input) \<Longrightarrow>
     block_type b \<noteq> ''PROVIDER_BLOCKED''"
  by (cases "completedStep input")
     (auto simp: nextEngineeringStep_def on_success_def parse_verdict_outcome_def resolveVerdict_def
        enforceAl4Requirements_def Let_def
      split: if_splits option.splits sum.splits ReviewVerdict.splits list.splits DisagreementResolution.splits)

lemma ready_live_run:
  assumes wf: "run_wf A r steps" and s: "s \<in> set steps" "sr_status s = STEP_READY" and nt: "\<not> terminal_run (wr_status r)"
  shows "wr_status r = RUN_RUNNING \<and> wr_currentStepType r = Some (sr_stepType s) \<and> filter live steps = [s]"
proof -
  define L where "L = filter live steps"
  have "s \<in> set L" using s by (simp add: L_def)
  moreover have "run_shape r steps" using wf by (simp add: run_wf_def)
  ultimately show ?thesis using nt s unfolding run_shape_cases L_def [symmetric]
    by (auto simp: terminal_run_def split: WorkflowRunStatus.splits option.splits)
qed

definition may_release :: "approvals \<Rightarrow> CompleteStepInput \<Rightarrow> bool" where
  "may_release A input = (ci_humanApproved input = Some True \<longrightarrow> ci_stepStatus input = SUCCEEDED \<and>
     (\<exists>u. ci_metadata input = Some (approval_metadata u) \<and>
       A (ci_organizationId input) (ci_workflowRunId input) u))"

text \<open>The step the transition creates, if any.\<close>

fun next_steps :: "string \<Rightarrow> CompleteStepInput \<Rightarrow> WorkflowStepRun \<Rightarrow> int \<Rightarrow> TransitionOutcome \<Rightarrow> WorkflowStepRun list" where
  "next_steps newId input st now (NEXT_STEP t) =
     [ready_step newId (ci_organizationId input) (ci_workflowRunId input) t 1 (Some (sr_id st)) (JObj []) now]"
| "next_steps newId input st now _ = []"

lemma activate_next_Inr:
  "activate_next now newId input run st out db = Inr (n, db') \<Longrightarrow>
     db_runs db' = db_runs db \<and> db_steps db' = db_steps db @ next_steps newId input st now out \<and>
     (\<forall>s \<in> set (next_steps newId input st now out). sr_id s \<notin> sr_id ` set (db_steps db))"
  by (cases out) (auto simp: activate_next_def Let_def)

lemma machine_input_simps [simp]:
  "completedStep (machine_input input r s) = sr_stepType s"
  "stepStatus (machine_input input r s) = ci_stepStatus input"
  "providerStatus (machine_input input r s) = ci_providerStatus input"
  "correctionLoopCount (machine_input input r s) = wr_correctionLoopCount r"
  "maxCorrectionLoops (retryPolicy (machine_input input r s)) = wr_maxCorrectionLoops r"
  "humanApproved (machine_input input r s) = ci_humanApproved input"
  by (simp_all add: machine_input_def)

lemma claimed_simps [simp]:
  "sr_status (claimed now input s) = target_status input" "sr_id (claimed now input s) = sr_id s"
  "sr_stepType (claimed now input s) = sr_stepType s"
  by (simp_all add: claimed_def)

lemma outcome_run_keys [simp]:
  "wr_id (outcome_run now d out r) = wr_id r" "wr_organizationId (outcome_run now d out r) = wr_organizationId r"
  "wr_maxCorrectionLoops (outcome_run now d out r) = wr_maxCorrectionLoops r"
  by (cases out; simp)+

lemma complete_trans:
  assumes "wr_status r = RUN_RUNNING" "wr_currentStepType r = Some (sr_stepType s)"
  shows "run_trans (wr_maxCorrectionLoops r) (abs_run r)
    (abs_run (outcome_run now (sr_stepType s) (nextEngineeringStep (machine_input input r s)) r))"
proof (cases "nextEngineeringStep (machine_input input r s)")
  case (NEXT_STEP t)
  have "sm_step (wr_maxCorrectionLoops r) (completedStep (machine_input input r s), wr_correctionLoopCount r)
      (t, if t = CORRECTION then wr_correctionLoopCount r + 1 else wr_correctionLoopCount r)"
    by (rule sm_step.advance [OF NEXT_STEP]) simp_all
  with assms NEXT_STEP show ?thesis by (auto simp: abs_run_def intro: run_trans.advance)
next
  case COMPLETED
  then have "sr_stepType s = REMOTE_VERIFY" using nextEngineeringStep_completed by (metis machine_input_simps(1))
  with assms COMPLETED show ?thesis by (auto simp: abs_run_def intro: run_trans.complete)
qed (use assms in \<open>auto simp: abs_run_def intro: run_trans.intros\<close>)

lemma complete_shape:
  assumes wf: "run_wf A r steps" and f: "filter live steps = [s]" and st: "sr_status s = STEP_READY"
    and G: "\<And>x. x \<in> set steps \<Longrightarrow> x \<noteq> s \<Longrightarrow> G x = x" "G s = claimed now input s"
    and out: "out = nextEngineeringStep (machine_input input r s)"
  shows "run_shape (outcome_run now (sr_stepType s) out r) (map G steps @ next_steps newId input s now out)"
proof -
  have l: "filter live (map G steps) = (if target_status input = STEP_WAITING then [G s] else [])"
    using one_live [OF f G(1)] G(2) by (simp add: target_status_def)
  show ?thesis
  proof (cases "provider_blocks (ci_providerStatus input)")
    case True
    then obtain p where "out = BLOCKED (PROVIDER_BLOCKED p)"
      using provider_outcome [of "machine_input input r s"] out by auto
    with True l G(2) show ?thesis by (auto simp: run_shape_cases target_status_def simp del: live_status)
  next
    case False
    then have l0: "filter live (map G steps) = []" using l by (simp add: target_status_def)
    show ?thesis
    proof (cases out)
      case (BLOCKED b)
      then have "block_type b \<noteq> ''PROVIDER_BLOCKED''" using other_block [of "machine_input input r s" b] False out by simp
      with BLOCKED l0 show ?thesis by (simp add: run_shape_cases del: live_status)
    qed (use l0 in \<open>simp_all add: run_shape_cases\<close>)
  qed
qed

end
