(* ===== verification/Vito_WorkflowOperations.thy ===== *)
theory Vito_WorkflowOperations
  imports Vito_WorkflowInvariant
begin

text \<open>
  Every operation on the workflow tables either leaves runs and steps as they
  are or changes the rows of one run along an edge of the abstract life cycle.
\<close>

lemma ids_update_steps: "keeps_keys g \<Longrightarrow> sr_id ` set (db_steps (update_steps Q g db)) = sr_id ` set (db_steps db)"
proof -
  assume "keeps_keys g"
  then have "map sr_id (db_steps (update_steps Q g db)) = map sr_id (db_steps db)" by (simp add: keeps_keys_def)
  then show ?thesis by (metis set_map)
qed

lemma run_wf_found: "wf_ok A db \<Longrightarrow> find_run db org rid = Some r \<Longrightarrow> run_wf A r (steps_of rid db)"
  by (metis find_run_SomeD run_wf_of)

lemma lineageI:
  "p \<in> set steps \<Longrightarrow> sr_causationId s = Some (sr_id p) \<Longrightarrow> step_edge (sr_stepType p) (sr_stepType s) \<Longrightarrow>
   sr_status p \<in> {STEP_SUCCEEDED, STEP_FAILED} \<Longrightarrow> lineage_ok steps s"
  by (auto simp: lineage_ok_def)

lemma releaseI:
  "g \<in> set steps \<Longrightarrow> sr_causationId s = Some (sr_id g) \<Longrightarrow> sr_stepType g = HUMAN_RELEASE_GATE \<Longrightarrow>
   sr_status g = STEP_SUCCEEDED \<Longrightarrow> sr_metadata g = JObj (approval_metadata u) \<Longrightarrow>
   A (wr_organizationId r) (wr_id r) u \<Longrightarrow> release_ok A r steps s"
  unfolding release_ok_def by blast

lemma release_other: "sr_stepType s \<noteq> RELEASE_EXECUTION \<Longrightarrow> release_ok A r steps s"
  by (simp add: release_ok_def)

lemma local_changeI:
  assumes "wr_id r' = wr_id r" "wr_organizationId r' = wr_organizationId r" "wr_maxCorrectionLoops r' = wr_maxCorrectionLoops r"
    and "run_trans (wr_maxCorrectionLoops r) (abs_run r) (abs_run r')"
    and "\<And>s. s \<in> set steps \<Longrightarrow> \<not> live s \<Longrightarrow> G s = s"
    and "\<And>s. s \<in> set new \<Longrightarrow> sr_workflowRunId s = wr_id r \<and> sr_organizationId s = wr_organizationId r \<and>
        lineage_ok (map G steps) s \<and> release_ok A r (map G steps) s"
    and "run_shape r' (map G steps @ new)"
    and "wr_correctionLoopCount r' = wr_correctionLoopCount r + corrections new"
    and "corrections new \<noteq> 0 \<Longrightarrow> wr_correctionLoopCount r' \<le> wr_maxCorrectionLoops r"
  shows "local_change A r r' G new steps"
  unfolding local_change_def by (intro conjI ballI impI assms)

lemma filter_single:
  assumes "filter P xs = [s]"
  shows "s \<in> set xs \<and> P s" "x \<in> set xs \<Longrightarrow> x \<noteq> s \<Longrightarrow> \<not> P x"
proof -
  have "set (filter P xs) = {s}" using assms by simp
  then show "s \<in> set xs \<and> P s" "x \<in> set xs \<Longrightarrow> x \<noteq> s \<Longrightarrow> \<not> P x" by auto
qed

section \<open>Completing a step\<close>

lemma complete_tx_effect:
  assumes tx: "complete_tx now newId input st0 db = (db', res)" and d: "\<not> same_tables db db'"
  shows "\<exists>r s out. find_run db (ci_organizationId input) (ci_workflowRunId input) = Some r \<and>
    \<not> terminal_run (wr_status r) \<and>
    find_step db (ci_organizationId input) (ci_workflowRunId input) (ci_workflowStepRunId input) = Some s \<and>
    count_steps (\<lambda>x. sr_id x = sr_id s \<and> sr_status x = STEP_READY) db \<noteq> 0 \<and>
    out = nextEngineeringStep (machine_input input r s) \<and>
    db_runs db' = map (\<lambda>x. if wr_id x = ci_workflowRunId input
      then outcome_run now (sr_stepType s) out x else x) (db_runs db) \<and>
    db_steps db' = map (\<lambda>x. if sr_id x = sr_id s \<and> sr_status x = STEP_READY then claimed now input x else x) (db_steps db)
      @ next_steps newId input s now out \<and>
    (\<forall>n \<in> set (next_steps newId input s now out). sr_id n \<notin> sr_id ` set (db_steps db))"
proof -
  let ?org = "ci_organizationId input" and ?rid = "ci_workflowRunId input"
  from transaction_cases [OF tx [unfolded complete_tx_def]] d obtain x where
    b: "(case find_run db ?org ?rid of None \<Rightarrow> Inl WF_NOT_FOUND | Some r \<Rightarrow>
      if terminal_run (wr_status r) then Inr (idempotent_result r st0, db)
      else case find_step db ?org ?rid (ci_workflowStepRunId input) of None \<Rightarrow> Inl WF_NOT_FOUND
      | Some s \<Rightarrow> if terminal_step (sr_status s) \<or> option_test (\<lambda>t. t \<noteq> sr_stepType s) (wr_currentStepType r) \<or>
             count_steps (\<lambda>x. sr_id x = sr_id s \<and> sr_status x = STEP_READY) db = 0
          then Inr (idempotent_result r s, db)
          else (let db = update_steps (\<lambda>x. sr_id x = sr_id s \<and> sr_status x = STEP_READY) (claimed now input) db;
                    done = sr_stepType s; outcome = nextEngineeringStep (machine_input input r s) in
                bindE (activate_next now newId input r s outcome db) (\<lambda>(newStep, db).
                bindE (update_run_by_id ?rid (outcome_run now done outcome) db) (\<lambda>(updatedRun, db).
                Inr (\<lparr>cr_run = updatedRun, cr_stepRun = s, cr_outcome = Some outcome,
                      cr_newStep = newStep, cr_idempotent = False\<rparr>,
                  record_row (system_row ?org (outcome_action outcome) ''WorkflowRun'' ?rid
                    (outcome_metadata r done newId outcome @
                     [(''correlationId'', JStr (wr_correlationId r)),
                      (''completedStepRunId'', JStr (sr_id s))])) db))))) = Inr (x, db')"
    by auto
  from b d obtain r where r: "find_run db ?org ?rid = Some r" "\<not> terminal_run (wr_status r)"
    by (auto split: option.splits if_splits)
  with b d obtain s where s: "find_step db ?org ?rid (ci_workflowStepRunId input) = Some s"
    "count_steps (\<lambda>x. sr_id x = sr_id s \<and> sr_status x = STEP_READY) db \<noteq> 0"
    by (auto split: option.splits if_splits)
  let ?out = "nextEngineeringStep (machine_input input r s)"
  let ?db = "update_steps (\<lambda>x. sr_id x = sr_id s \<and> sr_status x = STEP_READY) (claimed now input) db"
  from b d r s obtain n u db2 db3 e where
    a: "activate_next now newId input r s ?out ?db = Inr (n, db2)"
    "update_run_by_id ?rid (outcome_run now (sr_stepType s) ?out) db2 = Inr (u, db3)" "db' = record_row e db3"
    by (auto simp: Let_def split: if_splits)
  have ids: "sr_id ` set (db_steps ?db) = sr_id ` set (db_steps db)" by (rule ids_update_steps) simp
  from activate_next_Inr [OF a(1)] update_run_by_id_Inr [OF a(2)] a(3) r s ids show ?thesis by auto
qed

lemma outcome_count:
  "wr_correctionLoopCount (outcome_run now d out r) = wr_correctionLoopCount r + corrections (next_steps newId input s now out)"
  by (cases out) auto

lemma outcome_cap:
  assumes "corrections (next_steps newId input s now (nextEngineeringStep (machine_input input r s))) \<noteq> 0"
  shows "wr_correctionLoopCount (outcome_run now d (nextEngineeringStep (machine_input input r s)) r) \<le> wr_maxCorrectionLoops r"
proof (cases "nextEngineeringStep (machine_input input r s)")
  case (NEXT_STEP t)
  with assms have "t = CORRECTION" by (simp split: if_splits)
  with NEXT_STEP nextEngineeringStep_correction [of "machine_input input r s"] show ?thesis by simp
qed (use assms in simp_all)

lemma complete_tx_change:
  assumes ok: "wf_ok A db" and rel: "may_release A input"
    and tx: "complete_tx now newId input st0 db = (db', res)" and d: "\<not> same_tables db db'"
  shows "db_change A db db' (ci_workflowRunId input)"
proof -
  let ?rid = "ci_workflowRunId input"
  from complete_tx_effect [OF tx d] obtain r s out where
    r: "find_run db (ci_organizationId input) ?rid = Some r" "\<not> terminal_run (wr_status r)"
    and s: "find_step db (ci_organizationId input) ?rid (ci_workflowStepRunId input) = Some s"
    and cnt: "count_steps (\<lambda>x. sr_id x = sr_id s \<and> sr_status x = STEP_READY) db \<noteq> 0"
    and out: "out = nextEngineeringStep (machine_input input r s)"
    and runs: "db_runs db' = map (\<lambda>x. if wr_id x = ?rid then outcome_run now (sr_stepType s) out x else x) (db_runs db)"
    and steps: "db_steps db' = map (\<lambda>x. if sr_id x = sr_id s \<and> sr_status x = STEP_READY then claimed now input x else x)
      (db_steps db) @ next_steps newId input s now out"
    and fresh: "\<forall>n \<in> set (next_steps newId input s now out). sr_id n \<notin> sr_id ` set (db_steps db)" by blast
  let ?S = "steps_of ?rid db"
  note R = find_run_SomeD [OF r(1)] and T = find_step_SomeD [OF s]
  have wf: "run_wf A r ?S" by (rule run_wf_found [OF ok r(1)])
  have sin: "s \<in> set (db_steps db)" using T by (simp add: steps_of_def)
  from cnt obtain x where "x \<in> set (db_steps db)" "sr_id x = sr_id s" "sr_status x = STEP_READY"
    by (auto simp: count_steps_def filter_empty_conv)
  with step_unique [OF ok _ sin] have ready: "sr_status s = STEP_READY" by auto
  from ready_live_run [OF wf _ ready r(2)] T
  have run: "wr_status r = RUN_RUNNING" "wr_currentStepType r = Some (sr_stepType s)" "filter live ?S = [s]" by auto
  let ?G = "\<lambda>x. if sr_id x = sr_id s \<and> sr_status x = STEP_READY then claimed now input x else x"
  have G: "\<And>x. x \<in> set ?S \<Longrightarrow> x \<noteq> s \<Longrightarrow> ?G x = x" "?G s = claimed now input s"
    using step_unique [OF ok _ sin] ready by (auto simp: steps_of_def)
  have "s \<in> set ?S" using T by simp
  from imageI [OF this, of ?G] have cl: "claimed now input s \<in> set (map ?G ?S)" unfolding G(2) set_map .
  have new: "sr_workflowRunId n = wr_id r \<and> sr_organizationId n = wr_organizationId r \<and>
      lineage_ok (map ?G ?S) n \<and> release_ok A r (map ?G ?S) n"
    if n: "n \<in> set (next_steps newId input s now out)" for n
  proof -
    from n obtain t where t: "out = NEXT_STEP t" "n = ready_step newId (ci_organizationId input) ?rid t 1
        (Some (sr_id s)) (JObj []) now" by (cases out) auto
    have edge: "step_edge (sr_stepType s) t" using nextEngineeringStep_edge [of "machine_input input r s" t] t out by simp
    have np: "\<not> provider_blocks (ci_providerStatus input)"
      using provider_outcome [of "machine_input input r s"] t(1) out by auto
    have "lineage_ok (map ?G ?S) n" using t(2) edge np
      by (intro lineageI [OF cl]) (simp_all add: target_status_def)
    moreover have "release_ok A r (map ?G ?S) n"
    proof (cases "t = RELEASE_EXECUTION")
      case True
      with t out have h: "ci_humanApproved input = Some True" "sr_stepType s = HUMAN_RELEASE_GATE"
        using nextEngineeringStep_release [of "machine_input input r s"] by auto
      then obtain u where "ci_metadata input = Some (approval_metadata u)" "ci_stepStatus input = SUCCEEDED"
        "A (ci_organizationId input) ?rid u" using rel by (auto simp: may_release_def)
      with h R t(2) np show ?thesis
        by (intro releaseI [OF cl]) (simp_all add: target_status_def claimed_def)
    qed (use t(2) in \<open>simp add: release_other\<close>)
    ultimately show ?thesis using t(2) R by simp
  qed
  have "local_change A r (outcome_run now (sr_stepType s) out r) ?G (next_steps newId input s now out) ?S"
  proof (rule local_changeI)
    show "run_trans (wr_maxCorrectionLoops r) (abs_run r) (abs_run (outcome_run now (sr_stepType s) out r))"
      unfolding out by (rule complete_trans [OF run(1,2)])
    show "run_shape (outcome_run now (sr_stepType s) out r) (map ?G ?S @ next_steps newId input s now out)"
      by (rule complete_shape [OF wf run(3) ready G out])
    show "x \<in> set ?S \<Longrightarrow> \<not> live x \<Longrightarrow> ?G x = x" for x by auto
    show "wr_correctionLoopCount (outcome_run now (sr_stepType s) out r) =
        wr_correctionLoopCount r + corrections (next_steps newId input s now out)" by (rule outcome_count)
    show "corrections (next_steps newId input s now out) \<noteq> 0 \<Longrightarrow>
        wr_correctionLoopCount (outcome_run now (sr_stepType s) out r) \<le> wr_maxCorrectionLoops r"
      unfolding out by (rule outcome_cap)
  qed (simp_all only: outcome_run_keys new)
  moreover have "\<And>x. x \<in> set (db_steps db) \<Longrightarrow> sr_id x = sr_id s \<and> sr_status x = STEP_READY \<Longrightarrow> sr_workflowRunId x = ?rid"
    using step_unique [OF ok _ sin] T by (auto simp: steps_of_def)
  moreover have "distinct (map sr_id (next_steps newId input s now out))" by (cases out) auto
  ultimately show ?thesis using db_changeI [OF r(1) _ _ runs steps] fresh R keeps_claimed by blast
qed

section \<open>Creating, starting and cancelling\<close>

lemma no_step_change: "keeps_keys (\<lambda>s. s)" "map (\<lambda>s. if False then g s else s) xs = xs"
  by (simp_all add: keeps_keys_def)

lemma createRun_ok:
  assumes ok: "wf_ok A db" and c: "createRun now newId uuid input db = (db', res)" and d: "\<not> same_tables db db'"
  shows "wf_ok A db' \<and> (\<exists>r. db_runs db' = db_runs db @ [r] \<and> wr_status r = RUN_CREATED \<and>
    wr_id r \<notin> wr_id ` set (db_runs db)) \<and> db_steps db' = db_steps db"
proof -
  let ?r = "new_run now newId uuid input"
  have r: "wr_id ?r \<notin> wr_id ` set (db_runs db)" "db_runs db' = db_runs db @ [?r]" "db_steps db' = db_steps db"
    using c d by (auto simp: createRun_def transaction_def create_run_def Let_def split: if_splits)
  have n: "wr_status ?r = RUN_CREATED" "wr_currentStepType ?r = None" "wr_correctionLoopCount ?r = 0"
    by (simp_all add: new_run_def)
  have "steps_of (wr_id ?r) db = []" using ok r(1) unfolding wf_ok_def steps_of_def filter_empty_conv by metis
  moreover have "steps_of x db' = steps_of x db" for x using r(3) by (simp add: steps_of_def)
  ultimately have "run_wf A ?r (steps_of (wr_id ?r) db')" using r n by (simp add: run_wf_def run_shape_cases)
  with ok r n \<open>\<And>x. steps_of x db' = steps_of x db\<close> show ?thesis by (auto simp: wf_ok_def)
qed

lemma startRun_change:
  assumes ok: "wf_ok A db" and c: "startRun now newId org rid db = (db', res)" and d: "\<not> same_tables db db'"
  shows "db_change A db db' rid"
proof -
  let ?n = "ready_step newId org rid PLAN 1 None (JObj []) now"
  let ?f = "\<lambda>r. r\<lparr>wr_status := RUN_RUNNING, wr_currentStepType := Some PLAN, wr_startedAt := Some now\<rparr>"
  from c d obtain r db1 u where r: "find_run db org rid = Some r" "wr_status r = RUN_CREATED"
    "update_run_by_id rid ?f db = Inr (u, db1)" "newId \<notin> sr_id ` set (db_steps db1)"
    "db_runs db' = db_runs db1" "db_steps db' = db_steps db1 @ [?n]"
    by (auto simp: startRun_def transaction_def Let_def split: option.splits sum.splits)
  note R = find_run_SomeD [OF r(1)] and U = update_run_by_id_Inr [OF r(3)]
  have S: "steps_of rid db = []" "wr_currentStepType r = None"
    using run_wf_found [OF ok r(1)] r(2) by (simp_all add: run_wf_def run_shape_cases)
  have "local_change A r (?f r) (\<lambda>s. if False then s else s) [?n] (steps_of rid db)" unfolding S(1)
  proof (rule local_changeI)
    show "run_trans (wr_maxCorrectionLoops r) (abs_run r) (abs_run (?f r))"
      using r(2) S(2) by (simp add: abs_run_def run_trans.start)
  qed (use R in \<open>auto simp: run_shape_cases lineage_ok_def release_ok_def\<close>)
  with r U R show ?thesis by (intro db_changeI [OF r(1), of "\<lambda>x. wr_id x = rid" db' ?f "\<lambda>_. False" "\<lambda>s. s" "[?n]"])
    (auto simp: no_step_change)
qed

lemma cancel_tx_change:
  assumes ok: "wf_ok A db" and c: "cancel_tx now input run db = (db', res)" and d: "\<not> same_tables db db'"
  shows "db_change A db db' (ca_workflowRunId input)"
proof -
  let ?org = "ca_organizationId input" and ?rid = "ca_workflowRunId input"
  let ?P = "\<lambda>r. wr_id r = ?rid \<and> wr_organizationId r = ?org \<and>
      wr_status r \<in> {RUN_CREATED, RUN_RUNNING, RUN_WAITING_FOR_HUMAN, RUN_BLOCKED}"
  let ?G = "\<lambda>s. if live_of ?org ?rid s then cancel_step_row now s else s"
  from c d have cnt: "count_runs ?P db \<noteq> 0"
    and db': "db_runs db' = map (\<lambda>r. if ?P r then cancel_row now r else r) (db_runs db)" "db_steps db' = map ?G (db_steps db)"
    by (auto simp: cancel_tx_def transaction_def Let_def split: option.splits if_splits)
  from cnt obtain x where x: "x \<in> set (db_runs db)" "?P x" by (auto simp: count_runs_def filter_empty_conv)
  then have "find_run db ?org ?rid \<noteq> None" by (auto simp: find_run_def find_None_iff)
  then obtain r where r: "find_run db ?org ?rid = Some r" by auto
  note R = find_run_SomeD [OF r]
  have "x = r" using x R ok unfolding wf_ok_def by (metis distinct_map inj_on_def)
  with x have P: "?P r" by blast
  have org: "\<And>s. s \<in> set (steps_of ?rid db) \<Longrightarrow> sr_organizationId s = ?org \<and> sr_workflowRunId s = ?rid"
    using run_wf_found [OF ok r] R by (auto simp: run_wf_def steps_of_def)
  have "filter live (map ?G (steps_of ?rid db)) = []"
    using org by (auto simp: filter_empty_conv live_of_live cancel_step_row_def)
  then have "local_change A r (cancel_row now r) ?G [] (steps_of ?rid db)"
  proof (intro local_changeI)
    show "run_trans (wr_maxCorrectionLoops r) (abs_run r) (abs_run (cancel_row now r))"
      using P by (auto simp: abs_run_def cancel_row_def terminal_run_def intro!: run_trans.cancel)
  qed (auto simp: cancel_row_def run_shape_cases live_of_live)
  with db' P show ?thesis by (intro db_changeI [OF r, of ?P db' "cancel_row now" "live_of ?org ?rid" "cancel_step_row now" "[]"])
    (auto simp: live_of_live)
qed

section \<open>Resuming\<close>

lemma resumeRun_change:
  assumes ok: "wf_ok A db" and c: "resumeRun org rid db = (db', res)" and d: "\<not> same_tables db db'"
  shows "db_change A db db' rid"
proof -
  let ?f = "\<lambda>r. r\<lparr>wr_status := RUN_RUNNING, wr_blockReasonCode := None\<rparr>"
  from c d obtain r where r: "find_run db org rid = Some r" by (auto simp: resumeRun_def split: option.splits)
  note R = find_run_SomeD [OF r] and W = run_wf_found [OF ok r]
  let ?Q = "\<lambda>s. sr_organizationId s = org \<and> sr_workflowRunId s = rid \<and>
     wr_currentStepType r = Some (sr_stepType s) \<and> sr_status s = STEP_WAITING"
  let ?g = "\<lambda>s. s\<lparr>sr_status := STEP_READY, sr_finishedAt := None\<rparr>"
  let ?G = "\<lambda>s. if ?Q s then ?g s else s"
  have st: "wr_status r = RUN_BLOCKED"
    using c d r W by (auto simp: resumeRun_def resume_tx_def run_wf_def run_shape_cases split: if_splits WorkflowRunStatus.splits)
  have pb: "wr_currentStepType r = Some t \<Longrightarrow> wr_blockReasonCode r = Some ''PROVIDER_BLOCKED''" for t
    using W st by (auto simp: run_wf_def run_shape_cases)
  from c d r st obtain u db1 e where u: "update_run_by_id rid ?f db = Inr (u, db1)"
    "db' = record_row e (case wr_currentStepType r of None \<Rightarrow> db1 | Some t \<Rightarrow>
       if wr_blockReasonCode r = Some ''PROVIDER_BLOCKED'' then release_waiting org rid t db1 else db1)"
    by (auto simp: resumeRun_def resume_tx_def transaction_def terminal_run_def Let_def split: if_splits sum.splits)
  have db': "db_runs db' = map (\<lambda>x. if wr_id x = rid then ?f x else x) (db_runs db)" "db_steps db' = map ?G (db_steps db) @ []"
    using u(2) pb update_run_by_id_Inr [OF u(1)] by (cases "wr_currentStepType r"; auto simp: release_waiting_def)+
  have "run_shape (?f r) (map ?G (steps_of rid db))"
  proof (cases "wr_currentStepType r")
    case None
    then show ?thesis using W st by (simp add: run_wf_def run_shape_cases)
  next
    case (Some t)
    with W st obtain s where s: "filter live (steps_of rid db) = [s]" "sr_stepType s = t" "sr_status s = STEP_WAITING"
      by (auto simp: run_wf_def run_shape_cases)
    note sin = filter_single [OF s(1)]
    have "filter live (map ?G (steps_of rid db)) = (if live (?G s) then [?G s] else [])"
      by (rule one_live [OF s(1)]) (use sin(2) in auto)
    moreover have "?G s = ?g s" using sin(1) s Some W R by (auto simp: run_wf_def steps_of_def)
    ultimately show ?thesis using Some s by (simp add: run_shape_cases)
  qed
  then have "local_change A r (?f r) ?G [] (steps_of rid db)"
  proof (intro local_changeI)
    show "run_trans (wr_maxCorrectionLoops r) (abs_run r) (abs_run (?f r))"
      using st by (simp add: abs_run_def run_trans.resume)
  qed auto
  with db' R show ?thesis by (intro db_changeI [OF r, of "\<lambda>x. wr_id x = rid" db' ?f ?Q ?g "[]"])
    (auto simp: keeps_keys_def)
qed

section \<open>Human operations\<close>

lemma latest_by_fold:
  "fold (\<lambda>s acc. case acc of None \<Rightarrow> Some s | Some m \<Rightarrow> if not_older (k s) (k m) then Some s else acc) xs a = Some s \<Longrightarrow>
   s \<in> set xs \<or> a = Some s"
proof (induction xs arbitrary: a)
  case (Cons x xs)
  from Cons.IH [OF Cons.prems [unfolded fold.simps o_apply]] show ?case
    by (auto split: option.splits if_splits)
qed simp

lemma latest_by_mem: "latest_by k xs = Some s \<Longrightarrow> s \<in> set xs"
  using latest_by_fold unfolding latest_by_def by fastforce

lemma latest_step:
  "latest_by k (steps_where org rid t st db) = Some s \<Longrightarrow>
     s \<in> set (steps_of rid db) \<and> sr_organizationId s = org \<and> sr_stepType s = t \<and> sr_status s = st"
  by (drule latest_by_mem) (auto simp: steps_where_def steps_of_def)

lemma set_by_start: "set (by_start P db) = {s \<in> set (db_steps db). P s}"
  by (auto simp: by_start_def)

lemma claim_runs_Inr:
  "claim_runs P f db = Inr db' \<longleftrightarrow> count_runs P db = 1 \<and> db' = update_runs P f db"
  by (auto simp: claim_runs_def)

text \<open>An operation that reopens a run with one new READY step and no live step besides it.\<close>

lemma reopen_change:
  assumes ok: "wf_ok A db" and r: "find_run db org rid = Some r" and P: "P r" "\<And>x. P x \<Longrightarrow> wr_id x = rid"
    and f: "wr_id (f r) = wr_id r" "wr_organizationId (f r) = wr_organizationId r"
      "wr_maxCorrectionLoops (f r) = wr_maxCorrectionLoops r" "wr_status (f r) = RUN_RUNNING"
      "wr_currentStepType (f r) = Some (sr_stepType n)"
      "wr_correctionLoopCount (f r) = wr_correctionLoopCount r + corrections [n]"
      "corrections [n] \<noteq> 0 \<Longrightarrow> wr_correctionLoopCount (f r) \<le> wr_maxCorrectionLoops r"
    and tr: "run_trans (wr_maxCorrectionLoops r) (abs_run r) (abs_run (f r))"
    and runs: "db_runs db' = map (\<lambda>r. if P r then f r else r) (db_runs db)"
    and steps: "db_steps db' = map (\<lambda>s. if Q s then g s else s) (db_steps db) @ [n]"
    and Q: "\<And>s. s \<in> set (db_steps db) \<Longrightarrow> Q s \<Longrightarrow> sr_workflowRunId s = rid \<and> live s" and g: "keeps_keys g"
    and live: "filter live (map (\<lambda>s. if Q s then g s else s) (steps_of rid db)) = []"
    and n: "sr_id n \<notin> sr_id ` set (db_steps db)" "sr_workflowRunId n = rid" "sr_organizationId n = org"
      "sr_status n = STEP_READY" "sr_stepType n \<noteq> RELEASE_EXECUTION"
    and p: "p \<in> set (steps_of rid db)" "sr_causationId n = Some (sr_id p)"
      "step_edge (sr_stepType p) (sr_stepType n)" "sr_status p \<in> {STEP_SUCCEEDED, STEP_FAILED}"
  shows "db_change A db db' rid"
proof -
  let ?G = "\<lambda>s. if Q s then g s else s" and ?S = "steps_of rid db"
  note R = find_run_SomeD [OF r]
  have S: "s \<in> set ?S \<Longrightarrow> s \<in> set (db_steps db)" for s by (simp add: steps_of_def)
  have keep: "s \<in> set ?S \<Longrightarrow> \<not> live s \<Longrightarrow> ?G s = s" for s using Q S by auto
  have "\<not> live p" using p(4) by (rule ended_not_live)
  with keep p(1) have "?G p = p" by blast
  with imageI [OF p(1), of ?G] have "p \<in> set (map ?G ?S)" by simp
  then have lin: "lineage_ok (map ?G ?S) n" using p by (intro lineageI)
  have shape: "run_shape (f r) (map ?G ?S @ [n])"
    using live f n by (simp add: run_shape_cases)
  have "local_change A r (f r) ?G [n] ?S"
    by (rule local_changeI [OF f(1-3) tr keep]) (use R n lin shape f in \<open>auto simp: release_other\<close>)
  with n R Q show ?thesis by (intro db_changeI [OF r P runs steps _ g]) auto
qed

lemma correction_evidence_Inr:
  assumes "correction_evidence org rid db = Inr (r, p)"
  shows "find_run db org rid = Some r \<and> blocked_with org rid ''HUMAN_DECISION_REQUIRED'' (wr_correctionLoopCount r) r \<and>
    latest_by sr_finishedAt (steps_where org rid PARSE_VERDICT STEP_SUCCEEDED db) = Some p \<and>
    wr_correctionLoopCount r < wr_maxCorrectionLoops r"
proof (cases "find_run db org rid")
  case (Some r')
  with assms find_run_SomeD [OF Some] show ?thesis
    by (auto simp: correction_evidence_def blocked_with_def nextEngineeringHumanDecision_correction split: option.splits)
qed (use assms in \<open>simp add: correction_evidence_def\<close>)

lemma tables_rows [simp]:
  "db_runs (correction_rows newId input run p db) = db_runs db" "db_steps (correction_rows newId input run p db) = db_steps db"
  "db_runs (loop_rows newId rinput ref run p is db) = db_runs db" "db_steps (loop_rows newId rinput ref run p is db) = db_steps db"
  "db_runs (verify_rows newId rinput ref run g p c x db) = db_runs db"
  "db_steps (verify_rows newId rinput ref run g p c x db) = db_steps db"
  by (simp_all add: correction_rows_def loop_rows_def verify_rows_def Let_def)

lemma transaction_changed:
  "transaction body db = (db', res) \<Longrightarrow> \<not> same_tables db db' \<Longrightarrow> \<exists>x. body db = Inr (x, db')"
  using transaction_cases by fastforce

lemma requestCorrection_change:
  assumes ok: "wf_ok A db" and c: "requestCorrection now newId input db = (db', res)" and d: "\<not> same_tables db db'"
  shows "db_change A db db' (hq_workflowRunId input)"
proof -
  let ?org = "hq_organizationId input" and ?rid = "hq_workflowRunId input"
  let ?P = "\<lambda>r. blocked_with ?org ?rid ''HUMAN_DECISION_REQUIRED'' (wr_correctionLoopCount r)"
  let ?n = "\<lambda>p. ready_step newId ?org ?rid CORRECTION 1 (Some (sr_id p)) (correction_metadata (hq_userId input) p) now"
  have "\<not> hq_isMachineIdentity input" using c d by (auto simp: requestCorrection_def)
  with c have "\<exists>x. bindE (correction_evidence ?org ?rid db) (\<lambda>(run, parseStep).
      bindE (claim_runs (?P run) to_correction db) (\<lambda>db. bindE (create_step (?n parseStep) db) (\<lambda>db.
      Inr (?n parseStep, correction_rows newId input run parseStep db)))) = Inr (x, db')"
    using d by (intro transaction_changed [where res = res]) (simp_all add: requestCorrection_def Let_def)
  then obtain r p where e: "correction_evidence ?org ?rid db = Inr (r, p)"
    and n: "newId \<notin> sr_id ` set (db_steps db)"
    and runs: "db_runs db' = map (\<lambda>x. if ?P r x then to_correction x else x) (db_runs db)"
    and steps: "db_steps db' = map (\<lambda>s. if False then s else s) (db_steps db) @ [?n p]"
    by (auto simp: claim_runs_Inr)
  note E = correction_evidence_Inr [OF e]
  then have r: "find_run db ?org ?rid = Some r" and p: "latest_by sr_finishedAt (steps_where ?org ?rid PARSE_VERDICT STEP_SUCCEEDED db) = Some p"
    by auto
  have "filter live (steps_of ?rid db) = []"
    using run_wf_found [OF ok r] E by (simp add: run_wf_def run_shape_cases blocked_with_def)
  moreover have "run_trans (wr_maxCorrectionLoops r) (abs_run r) (abs_run (to_correction r))"
    using E by (simp add: abs_run_def to_correction_def blocked_with_def run_trans.correct)
  ultimately show ?thesis using n E latest_step [OF p]
    by (intro reopen_change [OF ok r _ _ _ _ _ _ _ _ _ _ runs steps, where p = p])
       (simp_all add: no_step_change to_correction_def blocked_with_def)
qed

lemma loop_evidence_Inr:
  assumes "loop_evidence org rid db = Inr (r, p)"
  shows "find_run db org rid = Some r \<and> blocked_with org rid ''LOOP_EXHAUSTED'' (wr_correctionLoopCount r) r \<and>
    latest_by sr_finishedAt (steps_where org rid CORRECTION STEP_SUCCEEDED db) = Some p \<and>
    wr_correctionLoopCount r = wr_maxCorrectionLoops r"
proof (cases "find_run db org rid")
  case (Some r')
  with assms find_run_SomeD [OF Some] show ?thesis
    by (auto simp: loop_evidence_def blocked_with_def split: option.splits)
qed (use assms in \<open>simp add: loop_evidence_def\<close>)

text \<open>A blocked run without a current step has no nonterminal step, so there is nothing stale to cancel.\<close>

lemma no_stale_steps:
  assumes ok: "wf_ok A db" and r: "find_run db org rid = Some r" and b: "blocked_with org rid code n r"
  shows "filter live (steps_of rid db) = [] \<and> by_start (live_of org rid) db = []"
proof -
  have l: "filter live (steps_of rid db) = []"
    using run_wf_found [OF ok r] b by (simp add: run_wf_def run_shape_cases blocked_with_def)
  then have "set (by_start (live_of org rid) db) = {}"
    unfolding set_by_start live_of_live by (auto simp: steps_of_def filter_empty_conv)
  with l show ?thesis by simp
qed

lemma loop_recover_change:
  assumes ok: "wf_ok A db" and c: "loop_exhausted_recover now newId input db = (db', res)" and d: "\<not> same_tables db db'"
  shows "db_change A db db' (hq_workflowRunId input)"
proof -
  let ?org = "hq_organizationId input" and ?rid = "hq_workflowRunId input"
  let ?P = "\<lambda>r. blocked_with ?org ?rid ''LOOP_EXHAUSTED'' (wr_correctionLoopCount r)"
  let ?n = "\<lambda>ref run p. ready_step newId ?org ?rid TEST 1 (Some (sr_id p)) (loop_recovery_metadata ref run) now"
  have "\<not> hq_isMachineIdentity input" using c d by (auto simp: loop_exhausted_recover_def)
  moreover obtain ref where "approval_ref input = Inr ref"
    using c d by (cases "approval_ref input") (auto simp: loop_exhausted_recover_def split: if_splits)
  ultimately have "\<exists>x. bindE (loop_evidence ?org ?rid db) (\<lambda>(run, p).
      bindE (claim_runs (?P run) to_test db) (\<lambda>db1. bindE (cancel_stale now ?org ?rid (by_start (live_of ?org ?rid) db) db1) (\<lambda>db1.
      bindE (create_step (?n ref run p) db1) (\<lambda>db1. Inr ((?n ref run p, map sr_id (by_start (live_of ?org ?rid) db)),
        loop_rows newId input ref run p (map sr_id (by_start (live_of ?org ?rid) db)) db1))))) = Inr (x, db')"
    using c d by (intro transaction_changed [where res = res]) (simp_all add: loop_exhausted_recover_def Let_def)
  then obtain r p db1 db2 where e: "loop_evidence ?org ?rid db = Inr (r, p)"
    and s: "db1 = update_runs (?P r) to_test db" "cancel_stale now ?org ?rid (by_start (live_of ?org ?rid) db) db1 = Inr db2"
    and n: "newId \<notin> sr_id ` set (db_steps db2)"
    and db': "db_runs db' = db_runs db2" "db_steps db' = db_steps db2 @ [?n ref r p]"
    by (auto simp: claim_runs_Inr)
  note E = loop_evidence_Inr [OF e]
  then have r: "find_run db ?org ?rid = Some r"
    and p: "latest_by sr_finishedAt (steps_where ?org ?rid CORRECTION STEP_SUCCEEDED db) = Some p" by auto
  have stale: "filter live (steps_of ?rid db) = []" "by_start (live_of ?org ?rid) db = []"
    using no_stale_steps [OF ok r] E by auto
  then have db2: "db2 = db1" using s(2) by (simp add: cancel_stale_def)
  have runs: "db_runs db' = map (\<lambda>x. if ?P r x then to_test x else x) (db_runs db)"
    and steps: "db_steps db' = map (\<lambda>s. if False then s else s) (db_steps db) @ [?n ref r p]"
    using db' db2 s(1) by simp_all
  have "run_trans (wr_maxCorrectionLoops r) (abs_run r) (abs_run (to_test r))"
    using E by (auto simp: abs_run_def to_test_def blocked_with_def intro: run_trans.retest)
  then show ?thesis using n E latest_step [OF p] stale(1) db2 s(1)
    by (intro reopen_change [OF ok r _ _ _ _ _ _ _ _ _ _ runs steps, where p = p])
       (simp_all add: no_step_change to_test_def blocked_with_def)
qed

lemma verify_evidence_Inr:
  assumes "verify_recovery_evidence org rid db = Inr (r, gate, v, c, x)"
  shows "find_run db org rid = Some r \<and> wr_status r = RUN_RUNNING \<and> wr_currentStepType r = Some HUMAN_RELEASE_GATE \<and>
    latest_by sr_startedAt (steps_where org rid HUMAN_RELEASE_GATE STEP_READY db) = Some gate \<and>
    sr_causationId v = Some c \<and> v \<in> set (steps_of rid db) \<and> sr_stepType v = VERIFY"
proof -
  from assms obtain w where w: "find_run db org rid = Some r" "wr_status r = RUN_RUNNING"
    "wr_currentStepType r = Some HUMAN_RELEASE_GATE"
    "latest_by sr_startedAt (steps_where org rid HUMAN_RELEASE_GATE STEP_READY db) = Some gate"
    "find_verify_step db org rid w = Some v" "truthy (sr_causationId v)" "c = the (sr_causationId v)"
    by (auto simp: verify_recovery_evidence_def split: option.splits)
  then have "v \<in> set (steps_of rid db) \<and> sr_stepType v = VERIFY"
    by (auto simp: find_verify_step_def find_Some_iff steps_of_def)
  with w show ?thesis by (auto simp: truthy_iff)
qed

lemma verify_recover_change:
  assumes ok: "wf_ok A db" and c: "release_verification_recover now newId input db = (db', res)" and d: "\<not> same_tables db db'"
  shows "db_change A db db' (hq_workflowRunId input)"
proof -
  let ?org = "hq_organizationId input" and ?rid = "hq_workflowRunId input"
  let ?P = "\<lambda>r. at_release_gate ?org ?rid (wr_correctionLoopCount r)"
  let ?n = "\<lambda>ref run gate v cs x. ready_step newId ?org ?rid VERIFY (sr_attemptNumber v + 1) (Some cs)
     (verify_recovery_metadata ref run v gate x) now"
  have "\<not> hq_isMachineIdentity input" using c d by (auto simp: release_verification_recover_def)
  moreover obtain ref where "approval_ref input = Inr ref"
    using c d by (cases "approval_ref input") (auto simp: release_verification_recover_def split: if_splits)
  ultimately have "\<exists>y. bindE (verify_recovery_evidence ?org ?rid db) (\<lambda>(run, gate, v, cs, x).
      bindE (claim_runs (?P run) to_verify db) (\<lambda>db.
      bindE (guardE (count_steps (stale_gate ?org ?rid gate) db \<noteq> 1) WF_CONFLICT) (\<lambda>_.
      bindE (create_step (?n ref run gate v cs x) (update_steps (stale_gate ?org ?rid gate) (cancel_step_row now) db)) (\<lambda>db.
      Inr (?n ref run gate v cs x, verify_rows newId input ref run gate v cs x db))))) = Inr (y, db')"
    using c d by (intro transaction_changed [where res = res]) (simp_all add: release_verification_recover_def Let_def)
  then obtain r gate v cs x where e: "verify_recovery_evidence ?org ?rid db = Inr (r, gate, v, cs, x)"
    and n: "newId \<notin> sr_id ` set (db_steps (update_steps (stale_gate ?org ?rid gate) (cancel_step_row now) db))"
    and runs: "db_runs db' = map (\<lambda>y. if ?P r y then to_verify y else y) (db_runs db)"
    and steps: "db_steps db' = map (\<lambda>s. if stale_gate ?org ?rid gate s then cancel_step_row now s else s) (db_steps db) @
      [?n ref r gate v cs x]"
    by (auto simp: claim_runs_Inr)
  note E = verify_evidence_Inr [OF e]
  then have r: "find_run db ?org ?rid = Some r"
    and g: "latest_by sr_startedAt (steps_where ?org ?rid HUMAN_RELEASE_GATE STEP_READY db) = Some gate" by auto
  note R = find_run_SomeD [OF r] and G = latest_step [OF g] and W = run_wf_found [OF ok r]
  let ?G = "\<lambda>s. if stale_gate ?org ?rid gate s then cancel_step_row now s else s"
  have one: "filter live (steps_of ?rid db) = [gate]"
    using ready_live_run [OF W] G E by (simp add: terminal_run_def)
  have "?G s = s" if "s \<in> set (steps_of ?rid db)" "s \<noteq> gate" for s
    using that G step_unique [OF ok, of s gate] by (auto simp: stale_gate_def steps_of_def)
  from one_live [OF one, of ?G, OF this] G have live: "filter live (map ?G (steps_of ?rid db)) = []"
    by (simp add: stale_gate_def cancel_step_row_def steps_of_def)
  have "lineage_ok (steps_of ?rid db) v" using W E by (simp add: run_wf_def)
  with E obtain p where p: "p \<in> set (steps_of ?rid db)" "sr_id p = cs" "step_edge (sr_stepType p) VERIFY"
    "sr_status p \<in> {STEP_SUCCEEDED, STEP_FAILED}" by (auto simp: lineage_ok_def)
  have "run_trans (wr_maxCorrectionLoops r) (abs_run r) (abs_run (to_verify r))"
    using E by (simp add: abs_run_def to_verify_def run_trans.reverify)
  moreover have "newId \<notin> sr_id ` set (db_steps db)" using n unfolding ids_update_steps [OF keeps_cancel] .
  ultimately show ?thesis using E R p live
    by (intro reopen_change [OF ok r _ _ _ _ _ _ _ _ _ _ runs steps, where p = p])
       (simp_all add: to_verify_def at_release_gate_def stale_gate_def)
qed

section \<open>The operations the callers see\<close>

lemma same_tables_trans: "same_tables db db1 \<Longrightarrow> same_tables db1 db2 \<Longrightarrow> same_tables db db2"
  by (simp add: same_tables_def)

lemma changed_tables:
  "\<not> same_tables db db' \<Longrightarrow> same_tables db db1 \<Longrightarrow> \<not> same_tables db1 db'"
  "\<not> same_tables db db' \<Longrightarrow> same_tables db2 db' \<Longrightarrow> \<not> same_tables db db2"
  by (auto simp: same_tables_def)

lemma precheck_same: "complete_precheck input db = (db', res) \<Longrightarrow> same_tables db db'"
  by (auto simp: complete_precheck_def split: option.splits if_splits)

lemma db_change_tables:
  assumes "db_change A db1 db2 rid" "same_tables db db1" "same_tables db2 db3"
  shows "db_change A db db3 rid"
  using assms by (simp add: db_change_def same_tables_def steps_of_def)

lemma completeStep_change:
  assumes ok: "wf_ok A db" and rel: "may_release A input" and c: "completeStep now newId input db = (db', res)"
    and d: "\<not> same_tables db db'"
  shows "db_change A db db' (ci_workflowRunId input)"
proof -
  obtain db1 pre where p: "complete_precheck input db = (db1, pre)" by fastforce
  note same = precheck_same [OF p]
  from c p same d obtain st where tx: "complete_tx now newId input st db1 = (db', res)"
    by (auto simp: completeStep_def split: sum.splits)
  have "wf_ok A db1" using ok wf_ok_same [OF same] by simp
  moreover have "\<not> same_tables db1 db'" by (rule changed_tables(1) [OF d same])
  ultimately have "db_change A db1 db' (ci_workflowRunId input)" using rel tx by (intro complete_tx_change)
  from db_change_tables [OF this same same_tables_refl] show ?thesis .
qed

lemma approve_change:
  assumes ok: "wf_ok A db" and c: "approve now newId input db = (db', res)" and d: "\<not> same_tables db db'"
    and A: "\<not> hq_isMachineIdentity input \<Longrightarrow> A (hq_organizationId input) (hq_workflowRunId input) (hq_userId input)"
  shows "db_change A db db' (hq_workflowRunId input)"
proof -
  have h: "\<not> hq_isMachineIdentity input" using c d by (auto simp: approve_def)
  from c d obtain st db1 res1 where s: "completeStep now newId (approval_input input st) db = (db1, res1)"
    "same_tables db1 db'"
    by (auto simp: approve_def Let_def split: if_splits option.splits sum.splits prod.splits)
  have "may_release A (approval_input input st)" using A [OF h] by (auto simp: may_release_def approval_input_def)
  moreover have "\<not> same_tables db db1" by (rule changed_tables(2) [OF d s(2)])
  ultimately have "db_change A db db1 (ci_workflowRunId (approval_input input st))"
    using completeStep_change [OF ok _ s(1)] by blast
  from db_change_tables [OF this same_tables_refl s(2)] show ?thesis by (simp add: approval_input_def)
qed

lemma signal_executions_db: "signal_executions now input run idem (db, reg) = ((db', reg'), res) \<Longrightarrow> db' = db"
  by (auto simp: signal_executions_def split: sum.splits prod.splits)

lemma cancelRun_change:
  assumes ok: "wf_ok A db" and c: "cancelRun now input (db, reg) = ((db', reg'), res)" and d: "\<not> same_tables db db'"
  shows "db_change A db db' (ca_workflowRunId input)"
proof -
  from c d obtain run db1 res1 where t: "cancel_tx now input run db = (db1, res1)" "same_tables db1 db'"
    by (auto simp: cancelRun_def split: if_splits option.splits sum.splits prod.splits dest!: signal_executions_db)
  moreover have "\<not> same_tables db db1" by (rule changed_tables(2) [OF d t(2)])
  ultimately have "db_change A db db1 (ca_workflowRunId input)" using ok by (intro cancel_tx_change)
  from db_change_tables [OF this same_tables_refl t(2)] show ?thesis .
qed

end
