(* ===== verification/Vito_WorkflowSafety.thy ===== *)
theory Vito_WorkflowSafety
  imports Vito_WorkflowOperations
begin

text \<open>
  The workflow runtime as a service: the operations its callers issue, in any
  order, on the tables and the cancellation registry.  Completing a step and
  cancelling a run also appear as their transactions alone, so that the reads
  that precede a transaction may be arbitrarily old: both transactions check
  again what was read.  Resuming a run does not; its transaction with a read of
  its own is a call of \<open>wf_call\<close>, and the properties say where they need that
  no such call was overtaken and what happens when one was.
\<close>

section \<open>The service\<close>

datatype wf_op =
    WfCreate int string string CreateWorkflowRunInput
  | WfStart int string string string
  | WfComplete int string CompleteStepInput
  | WfCompleteTx int string CompleteStepInput WorkflowStepRun
  | WfCancel int CancelRunInput
  | WfCancelTx int CancelRunInput WorkflowRun
  | WfResume string string
  | WfCorrect int string HumanDecisionRequest
  | WfApprove int string HumanDecisionRequest
  | WfRecoverLoop int string RecoveryRequest
  | WfRecoverVerify int string RecoveryRequest
  | WfExecutions "GovernedExecutionRecord list"

text \<open>The rows of governed executions are written by other modules.\<close>

fun wf_step :: "wf_op \<Rightarrow> RuntimeState \<Rightarrow> RuntimeState" where
  "wf_step (WfCreate now newId uuid i) (db, reg) = (fst (createRun now newId uuid i db), reg)"
| "wf_step (WfStart now newId org rid) (db, reg) = (fst (startRun now newId org rid db), reg)"
| "wf_step (WfComplete now newId i) (db, reg) = (fst (completeStep now newId i db), reg)"
| "wf_step (WfCompleteTx now newId i st) (db, reg) = (fst (complete_tx now newId i st db), reg)"
| "wf_step (WfCancel now i) (db, reg) = fst (cancelRun now i (db, reg))"
| "wf_step (WfCancelTx now i run) (db, reg) = (fst (cancel_tx now i run db), reg)"
| "wf_step (WfResume org rid) (db, reg) = (fst (resumeRun org rid db), reg)"
| "wf_step (WfCorrect now newId i) (db, reg) = (fst (requestCorrection now newId i db), reg)"
| "wf_step (WfApprove now newId i) (db, reg) = (fst (approve now newId i db), reg)"
| "wf_step (WfRecoverLoop now newId i) (db, reg) = (fst (loop_exhausted_recover now newId i db), reg)"
| "wf_step (WfRecoverVerify now newId i) (db, reg) = (fst (release_verification_recover now newId i db), reg)"
| "wf_step (WfExecutions xs) (db, reg) = (db\<lparr>db_executions := xs\<rparr>, reg)"

text \<open>Only \<open>approve\<close> passes the approval flag; the approvals \<open>A\<close> are those of its human callers.\<close>

fun wf_admissible :: "approvals \<Rightarrow> wf_op \<Rightarrow> bool" where
  "wf_admissible A (WfComplete now newId i) = (ci_humanApproved i \<noteq> Some True)"
| "wf_admissible A (WfCompleteTx now newId i st) = may_release A i"
| "wf_admissible A (WfApprove now newId i) =
     (\<not> hq_isMachineIdentity i \<longrightarrow> A (hq_organizationId i) (hq_workflowRunId i) (hq_userId i))"
| "wf_admissible A _ = True"

definition runtime_ok :: "approvals \<Rightarrow> RuntimeState \<Rightarrow> bool" where
  "runtime_ok A st = (wf_ok A (fst st) \<and> registry_ok (snd st))"

definition empty_runtime :: RuntimeState where
  "empty_runtime = (\<lparr>db_runs = [], db_steps = [], db_executions = [], db_auditRows = []\<rparr>, empty_registry)"

lemma runtime_ok_empty: "runtime_ok A empty_runtime"
  by (simp add: runtime_ok_def empty_runtime_def wf_ok_def registry_ok_empty)

text \<open>What one operation may do to the tables.\<close>

definition created :: "WorkflowDb \<Rightarrow> WorkflowDb \<Rightarrow> bool" where
  "created db db' = (\<exists>r. db_runs db' = db_runs db @ [r] \<and> wr_status r = RUN_CREATED \<and> db_steps db' = db_steps db)"

definition wf_effect :: "approvals \<Rightarrow> WorkflowDb \<Rightarrow> WorkflowDb \<Rightarrow> bool" where
  "wf_effect A db db' = (same_tables db db' \<or> (\<exists>rid. db_change A db db' rid) \<or> created db db' \<and> wf_ok A db')"

lemma wf_effectI:
  "(\<not> same_tables db db' \<Longrightarrow> db_change A db db' rid) \<Longrightarrow> wf_effect A db db'"
  by (auto simp: wf_effect_def)

lemma change_effects:
  assumes ok: "wf_ok A db"
  shows "wf_effect A db (fst (startRun now newId org rid db))"
    and "may_release A i \<Longrightarrow> wf_effect A db (fst (complete_tx now newId i st db))"
    and "wf_effect A db (fst (cancel_tx now ci run db))"
    and "wf_effect A db (fst (resumeRun org rid db))"
    and "wf_effect A db (fst (requestCorrection now newId hi db))"
    and "wf_effect A db (fst (loop_exhausted_recover now newId ri db))"
    and "wf_effect A db (fst (release_verification_recover now newId ri db))"
proof -
  note whole = prod.collapse [symmetric]
  show "wf_effect A db (fst (startRun now newId org rid db))" by (rule wf_effectI [OF startRun_change [OF ok whole]])
  show "wf_effect A db (fst (complete_tx now newId i st db))" if "may_release A i"
    by (rule wf_effectI [OF complete_tx_change [OF ok that whole]])
  show "wf_effect A db (fst (cancel_tx now ci run db))" by (rule wf_effectI [OF cancel_tx_change [OF ok whole]])
  show "wf_effect A db (fst (resumeRun org rid db))" by (rule wf_effectI [OF resumeRun_change [OF ok whole]])
  show "wf_effect A db (fst (requestCorrection now newId hi db))"
    by (rule wf_effectI [OF requestCorrection_change [OF ok whole]])
  show "wf_effect A db (fst (loop_exhausted_recover now newId ri db))"
    by (rule wf_effectI [OF loop_recover_change [OF ok whole]])
  show "wf_effect A db (fst (release_verification_recover now newId ri db))"
    by (rule wf_effectI [OF verify_recover_change [OF ok whole]])
qed

lemma wf_step_effect:
  assumes ok: "wf_ok A db" and adm: "wf_admissible A p" and s: "wf_step p (db, reg) = (db', reg')"
  shows "wf_effect A db db'"
proof (cases p)
  case (WfCreate now newId uuid i)
  then have d: "db' = fst (createRun now newId uuid i db)" using s by simp
  from createRun_ok [OF ok prod.collapse [symmetric]] show ?thesis unfolding d wf_effect_def created_def by blast
next
  case (WfComplete now newId i)
  with adm have "may_release A i" by (simp add: may_release_def)
  with WfComplete s show ?thesis by (auto intro: wf_effectI [OF completeStep_change [OF ok _ prod.collapse [symmetric]]])
next
  case (WfCancel now i)
  with s have "cancelRun now i (db, reg) = ((db', reg'), snd (cancelRun now i (db, reg)))" by (simp add: prod_eq_iff)
  then show ?thesis by (rule wf_effectI [OF cancelRun_change [OF ok]])
next
  case (WfApprove now newId i)
  with adm have "\<not> hq_isMachineIdentity i \<Longrightarrow> A (hq_organizationId i) (hq_workflowRunId i) (hq_userId i)" by simp
  with WfApprove s show ?thesis by (auto intro: wf_effectI [OF approve_change [OF ok prod.collapse [symmetric]]])
next
  case (WfExecutions xs)
  then show ?thesis using s by (auto simp: wf_effect_def same_tables_def)
qed (use s adm in \<open>auto intro: change_effects [OF ok]\<close>)

lemma wf_effect_ok: "wf_ok A db \<Longrightarrow> wf_effect A db db' \<Longrightarrow> wf_ok A db'"
  using wf_ok_same db_change_ok unfolding wf_effect_def by blast

lemma signal_executions_reg:
  "signal_executions now input run idem (db, reg) = ((db', reg'), res) \<Longrightarrow> registry_ok reg \<Longrightarrow> registry_ok reg'"
  using registry_ok_cancel [of reg now "ca_organizationId input" "ca_workflowRunId input"]
  by (auto simp: signal_executions_def split: sum.splits prod.splits)

lemma cancelRun_reg:
  "cancelRun now input (db, reg) = ((db', reg'), res) \<Longrightarrow> registry_ok reg \<Longrightarrow> registry_ok reg'"
  by (auto simp: cancelRun_def dest: signal_executions_reg split: if_splits option.splits sum.splits prod.splits)

lemma wf_step_reg:
  assumes "wf_step p (db, reg) = (db', reg')" "registry_ok reg"
  shows "registry_ok reg'"
proof (cases p)
  case (WfCancel now i)
  with assms have "cancelRun now i (db, reg) = ((db', reg'), snd (cancelRun now i (db, reg)))" by (simp add: prod_eq_iff)
  from cancelRun_reg [OF this assms(2)] show ?thesis .
qed (use assms in auto)

text \<open>What a later state keeps of an earlier one: runs move along the life cycle, ended rows stay.\<close>

definition run_follows :: "WorkflowRun \<Rightarrow> WorkflowRun \<Rightarrow> bool" where
  "run_follows r r' = (wr_id r' = wr_id r \<and> wr_organizationId r' = wr_organizationId r \<and>
     wr_maxCorrectionLoops r' = wr_maxCorrectionLoops r \<and>
     (run_trans (wr_maxCorrectionLoops r))\<^sup>*\<^sup>* (abs_run r) (abs_run r') \<and>
     (terminal_run (wr_status r) \<longrightarrow> r' = r))"

definition step_follows :: "WorkflowStepRun \<Rightarrow> WorkflowStepRun \<Rightarrow> bool" where
  "step_follows s s' = (sr_id s' = sr_id s \<and> sr_workflowRunId s' = sr_workflowRunId s \<and>
     sr_stepType s' = sr_stepType s \<and> sr_causationId s' = sr_causationId s \<and> (\<not> live s \<longrightarrow> s' = s))"

definition wf_le :: "RuntimeState \<Rightarrow> RuntimeState \<Rightarrow> bool" where
  "wf_le st st' = ((\<forall>r \<in> set (db_runs (fst st)). \<exists>r' \<in> set (db_runs (fst st')). run_follows r r') \<and>
     (\<forall>s \<in> set (db_steps (fst st)). \<exists>s' \<in> set (db_steps (fst st')). step_follows s s'))"

lemma run_follows_refl [simp]: "run_follows r r"
  by (simp add: run_follows_def)

lemma run_follows_trans: "run_follows r s \<Longrightarrow> run_follows s t \<Longrightarrow> run_follows r t"
  unfolding run_follows_def by (metis rtranclp_trans)

lemma step_follows_refl [simp]: "step_follows s s"
  by (simp add: step_follows_def)

lemma step_follows_trans: "step_follows r s \<Longrightarrow> step_follows s t \<Longrightarrow> step_follows r t"
  unfolding step_follows_def by metis

lemma wf_le_refl: "wf_le st st"
  unfolding wf_le_def by (meson run_follows_refl step_follows_refl)

lemma wf_le_trans: "wf_le s t \<Longrightarrow> wf_le t u \<Longrightarrow> wf_le s u"
  unfolding wf_le_def by (meson run_follows_trans step_follows_trans)

text \<open>One change of the tables, seen from one run and one step.\<close>

lemma db_change_run:
  assumes ok: "wf_ok A db" and c: "db_change A db db' rid" and x: "x \<in> set (db_runs db)"
  shows "\<exists>x' \<in> set (db_runs db'). wr_id x' = wr_id x \<and> (x' = x \<or>
    wr_organizationId x' = wr_organizationId x \<and> wr_maxCorrectionLoops x' = wr_maxCorrectionLoops x \<and>
    run_trans (wr_maxCorrectionLoops x) (abs_run x) (abs_run x'))"
proof -
  obtain r F where r: "r \<in> set (db_runs db)" "wr_id r = rid" and F: "db_runs db' = map F (db_runs db)"
    "\<And>x. wr_id x \<noteq> rid \<Longrightarrow> F x = x" and l: "wr_id (F r) = wr_id r \<and> wr_organizationId (F r) = wr_organizationId r \<and>
     wr_maxCorrectionLoops (F r) = wr_maxCorrectionLoops r \<and> run_trans (wr_maxCorrectionLoops r) (abs_run r) (abs_run (F r))"
    using c unfolding db_change_def local_change_def by blast
  have "x = r" if "wr_id x = rid" using that r x ok unfolding wf_ok_def by (metis distinct_map inj_on_def)
  with l F(2) have "wr_id (F x) = wr_id x \<and> (F x = x \<or> wr_organizationId (F x) = wr_organizationId x \<and>
    wr_maxCorrectionLoops (F x) = wr_maxCorrectionLoops x \<and> run_trans (wr_maxCorrectionLoops x) (abs_run x) (abs_run (F x)))"
    by (cases "wr_id x = rid") auto
  with F(1) x show ?thesis by auto
qed

lemma db_change_step:
  assumes ok: "wf_ok A db" and c: "db_change A db db' rid" and s: "s \<in> set (db_steps db)"
  shows "\<exists>s' \<in> set (db_steps db'). step_follows s s'"
proof -
  obtain G new where G: "db_steps db' = map G (db_steps db) @ new" "\<And>s. sr_workflowRunId s \<noteq> rid \<Longrightarrow> G s = s"
    "keeps_keys G" "\<forall>s \<in> set (steps_of rid db). \<not> live s \<longrightarrow> G s = s"
    using c unfolding db_change_def local_change_def by blast
  have "step_follows s (G s)"
    using G s by (cases "sr_workflowRunId s = rid") (auto simp: step_follows_def keeps_keys_def steps_of_def)
  with G(1) s show ?thesis by auto
qed

lemma wf_step_run:
  assumes ok: "wf_ok A db" and adm: "wf_admissible A p" and s: "wf_step p (db, reg) = (db', reg')" and x: "x \<in> set (db_runs db)"
  shows "\<exists>x' \<in> set (db_runs db'). wr_id x' = wr_id x \<and> (x' = x \<or>
    wr_organizationId x' = wr_organizationId x \<and> wr_maxCorrectionLoops x' = wr_maxCorrectionLoops x \<and>
    run_trans (wr_maxCorrectionLoops x) (abs_run x) (abs_run x'))"
  using wf_step_effect [OF ok adm s] db_change_run [OF ok _ x] x
  unfolding wf_effect_def same_tables_def created_def by fastforce

lemma run_trans_follows:
  "wr_id x' = wr_id x \<Longrightarrow> wr_organizationId x' = wr_organizationId x \<Longrightarrow> wr_maxCorrectionLoops x' = wr_maxCorrectionLoops x \<Longrightarrow>
   run_trans (wr_maxCorrectionLoops x) (abs_run x) (abs_run x') \<Longrightarrow> run_follows x x'"
  using run_trans_not_terminal unfolding run_follows_def abs_run_def by fastforce

lemma wf_step_le:
  assumes ok: "wf_ok A db" and adm: "wf_admissible A p" and s: "wf_step p (db, reg) = (db', reg')"
  shows "wf_le (db, reg) (db', reg')"
proof -
  have "\<exists>r' \<in> set (db_runs db'). run_follows r r'" if "r \<in> set (db_runs db)" for r
    using wf_step_run [OF ok adm s that] run_trans_follows run_follows_refl by metis
  moreover have "\<exists>s' \<in> set (db_steps db'). step_follows s s'" if "s \<in> set (db_steps db)" for s
    using wf_step_effect [OF ok adm s] db_change_step [OF ok _ that] that step_follows_refl
    unfolding wf_effect_def same_tables_def created_def by metis
  ultimately show ?thesis by (simp add: wf_le_def)
qed

interpretation workflows: monotone_service wf_step "wf_admissible A" "runtime_ok A" wf_le for A
proof
  show "wf_admissible A p \<Longrightarrow> runtime_ok A s \<Longrightarrow> runtime_ok A (wf_step p s)" for p s
    using wf_effect_ok wf_step_effect wf_step_reg unfolding runtime_ok_def by (metis prod.collapse)
  show "wf_admissible A p \<Longrightarrow> runtime_ok A s \<Longrightarrow> wf_le s (wf_step p s)" for p s
    using wf_step_le unfolding runtime_ok_def by (metis prod.collapse)
  show "wf_le s t \<Longrightarrow> wf_le t u \<Longrightarrow> wf_le s u" for s t u by (rule wf_le_trans)
qed (rule wf_le_refl)

section \<open>A sample history\<close>

definition sample_run_input :: CreateWorkflowRunInput where
  "sample_run_input = \<lparr>cw_organizationId = ''o'', cw_taskId = None, cw_workflowDefinitionCode = ''w'',
     cw_workflowDefinitionVersion = ''1'', cw_assuranceLevel = ''AL1'', cw_correlationId = None,
     cw_maxCorrectionLoops = None\<rparr>"

definition sample_completion :: "string \<Rightarrow> CompleteStepInput" where
  "sample_completion sid = \<lparr>ci_organizationId = ''o'', ci_workflowRunId = ''r'', ci_workflowStepRunId = sid,
     ci_stepStatus = SUCCEEDED, ci_providerStatus = None, ci_verdict = Some ''A'', ci_reviewResults = None,
     ci_independenceContext = None, ci_humanApproved = None, ci_metadata = None\<rparr>"

definition sample_request :: HumanDecisionRequest where
  "sample_request = \<lparr>hq_organizationId = ''o'', hq_workflowRunId = ''r'', hq_userId = ''u'', hq_isMachineIdentity = False\<rparr>"

definition sample_history :: "wf_op list" where
  "sample_history = [WfCreate 0 ''r'' ''c'' sample_run_input, WfStart 1 ''s1'' ''o'' ''r'',
     WfComplete 2 ''s2'' (sample_completion ''s1''), WfComplete 3 ''s3'' (sample_completion ''s2''),
     WfComplete 4 ''s4'' (sample_completion ''s3''), WfComplete 5 ''s5'' (sample_completion ''s4''),
     WfComplete 6 ''s6'' (sample_completion ''s5''), WfComplete 7 ''s7'' (sample_completion ''s6''),
     WfComplete 8 ''s8'' (sample_completion ''s7'')]"

lemma sample_history_admissible: "list_all (wf_admissible A) sample_history"
  by (simp add: sample_history_def sample_completion_def)

lemma reachable_ok: "list_all (wf_admissible A) ops \<Longrightarrow> runtime_ok A (fold wf_step ops empty_runtime)"
  using workflows.run_ok [OF _ runtime_ok_empty] by (simp add: workflows.run_def)

lemma later_le: "list_all (wf_admissible A) ops \<Longrightarrow> runtime_ok A st \<Longrightarrow> wf_le st (fold wf_step ops st)"
  using workflows.run_le by (simp add: workflows.run_def)

lemma later_ok: "list_all (wf_admissible A) ops \<Longrightarrow> runtime_ok A st \<Longrightarrow> runtime_ok A (fold wf_step ops st)"
  using workflows.run_ok by (simp add: workflows.run_def)

definition sample_released :: "wf_op list" where
  "sample_released = sample_history @ [WfApprove 9 ''s9'' sample_request]"

definition sample_approvals :: approvals where
  "sample_approvals org rid u = (org = ''o'' \<and> rid = ''r'' \<and> u = ''u'')"

lemma sample_released_admissible: "list_all (wf_admissible sample_approvals) sample_released"
  by (simp add: sample_released_def sample_history_admissible sample_request_def sample_approvals_def)

lemma sample_released_state:
  "map (\<lambda>r. (wr_id r, abs_run r)) (db_runs (fst (fold wf_step sample_released empty_runtime))) =
     [(''r'', RUN_RUNNING, Some RELEASE_EXECUTION, 0)] \<and>
   map (\<lambda>s. (sr_id s, sr_stepType s, sr_status s)) (db_steps (fst (fold wf_step sample_released empty_runtime))) =
     [(''s1'', PLAN, STEP_SUCCEEDED), (''s2'', BUILD, STEP_SUCCEEDED), (''s3'', TEST, STEP_SUCCEEDED),
      (''s4'', PACKAGE, STEP_SUCCEEDED), (''s5'', RED_TEAM, STEP_SUCCEEDED), (''s6'', PARSE_VERDICT, STEP_SUCCEEDED),
      (''s7'', VERIFY, STEP_SUCCEEDED), (''s8'', HUMAN_RELEASE_GATE, STEP_SUCCEEDED),
      (''s9'', RELEASE_EXECUTION, STEP_READY)]"
  by code_simp

lemma sample_started_state:
  "map (\<lambda>r. (wr_id r, wr_organizationId r, abs_run r)) (db_runs (fst (fold wf_step (take 2 sample_history) empty_runtime))) =
     [(''r'', ''o'', RUN_RUNNING, Some PLAN, 0)] \<and>
   map (\<lambda>s. (sr_id s, sr_stepType s, sr_status s)) (db_steps (fst (fold wf_step (take 2 sample_history) empty_runtime))) =
     [(''s1'', PLAN, STEP_READY)]"
  by code_simp

lemma found_run:
  assumes "wf_ok A db" "r \<in> set (db_runs db)" "org = wr_organizationId r" "rid = wr_id r"
  shows "find_run db org rid = Some r"
proof -
  have "find_run db org rid \<noteq> None" using assms by (auto simp: find_run_def find_None_iff)
  then obtain x where x: "find_run db org rid = Some x" by auto
  with find_run_SomeD [OF x] assms show ?thesis unfolding wf_ok_def by (metis distinct_map inj_on_def)
qed

lemma found_step:
  assumes "wf_ok A db" "s \<in> set (db_steps db)" "org = sr_organizationId s" "rid = sr_workflowRunId s" "sid = sr_id s"
  shows "find_step db org rid sid = Some s"
proof -
  have "find_step db org rid sid \<noteq> None" using assms by (auto simp: find_step_def find_None_iff)
  then obtain x where x: "find_step db org rid sid = Some x" by auto
  with find_step_SomeD [OF x] assms step_unique [OF assms(1)] show ?thesis by (auto simp: steps_of_def)
qed

lemma activate_next_succeeds:
  "newId \<notin> sr_id ` set (db_steps db) \<Longrightarrow>
   \<exists>n db'. activate_next now newId input run st out db = Inr (n, db') \<and> db_runs db' = db_runs db"
  by (cases out) (auto simp: activate_next_def Let_def create_step_def)

lemma complete_tx_succeeds:
  assumes fr: "find_run db (ci_organizationId input) (ci_workflowRunId input) = Some r" "\<not> terminal_run (wr_status r)"
    and fs: "find_step db (ci_organizationId input) (ci_workflowRunId input) (ci_workflowStepRunId input) = Some s"
      "\<not> terminal_step (sr_status s)" "wr_currentStepType r = Some (sr_stepType s)"
    and s: "s \<in> set (db_steps db)" "sr_status s = STEP_READY" and fresh: "newId \<notin> sr_id ` set (db_steps db)"
  shows "\<exists>db' res. complete_tx now newId input old db = (db', Inr res) \<and> \<not> cr_idempotent res \<and>
    cr_outcome res = Some (nextEngineeringStep (machine_input input r s)) \<and>
    outcome_run now (sr_stepType s) (nextEngineeringStep (machine_input input r s)) r \<in> set (db_runs db')"
proof -
  let ?Q = "\<lambda>x. sr_id x = sr_id s \<and> sr_status x = STEP_READY" and ?out = "nextEngineeringStep (machine_input input r s)"
  let ?db = "update_steps ?Q (claimed now input) db" and ?f = "outcome_run now (sr_stepType s) ?out"
  have cnt: "count_steps ?Q db \<noteq> 0" using s by (auto simp: count_steps_def filter_empty_conv)
  have "newId \<notin> sr_id ` set (db_steps ?db)" using fresh unfolding ids_update_steps [OF keeps_claimed] .
  from activate_next_succeeds [OF this, of now input r s ?out] obtain n db2 where
    a: "activate_next now newId input r s ?out ?db = Inr (n, db2)" "db_runs db2 = db_runs db" by auto
  note R = find_run_SomeD [OF fr(1)]
  obtain y where y: "find (\<lambda>x. wr_id x = ci_workflowRunId input) (db_runs db) = Some y"
    using R by (cases "find (\<lambda>x. wr_id x = ci_workflowRunId input) (db_runs db)") (auto simp: find_None_iff)
  have "?f r \<in> set (db_runs (update_runs (\<lambda>x. wr_id x = ci_workflowRunId input) ?f db2))"
    using R a(2) by (auto intro!: image_eqI [of _ _ r])
  with fr fs cnt a y show ?thesis by (simp add: complete_tx_def transaction_def Let_def update_run_by_id_def)
qed

section \<open>Calls that act on a row they read before\<close>

text \<open>\<open>resumeRun\<close> reads the row of the run, and in a later transaction updates the run
  by its id alone.  \<open>WfResumeTx\<close> is that transaction, for any row that was read.\<close>

datatype wf_call = WfCall wf_op | WfResumeTx string string WorkflowRun

fun wf_call_step :: "wf_call \<Rightarrow> RuntimeState \<Rightarrow> RuntimeState" where
  "wf_call_step (WfCall p) st = wf_step p st"
| "wf_call_step (WfResumeTx org rid old) (db, reg) = (fst (resume_tx org rid old db), reg)"

fun call_admissible :: "approvals \<Rightarrow> wf_call \<Rightarrow> bool" where
  "call_admissible A (WfCall p) = wf_admissible A p"
| "call_admissible A (WfResumeTx org rid old) = True"

text \<open>A resume is not overtaken when its transaction still finds the row that was read.\<close>

fun not_overtaken :: "wf_call \<Rightarrow> RuntimeState \<Rightarrow> bool" where
  "not_overtaken (WfCall p) st = True"
| "not_overtaken (WfResumeTx org rid old) st = (find_run (fst st) org rid = Some old)"

fun calm :: "wf_call list \<Rightarrow> RuntimeState \<Rightarrow> bool" where
  "calm [] st = True"
| "calm (c # cs) st = (not_overtaken c st \<and> calm cs (wf_call_step c st))"

fun call_op :: "wf_call \<Rightarrow> wf_op" where
  "call_op (WfCall p) = p"
| "call_op (WfResumeTx org rid old) = WfResume org rid"

lemma not_overtaken_step: "not_overtaken c st \<Longrightarrow> wf_call_step c st = wf_step (call_op c) st"
  by (cases "(c, st)" rule: wf_call_step.cases) (simp_all add: resumeRun_def)

lemma calm_fold: "calm cs st \<Longrightarrow> fold wf_call_step cs st = fold wf_step (map call_op cs) st"
proof (induction cs arbitrary: st)
  case (Cons c cs)
  then show ?case using Cons.IH [of "wf_call_step c st"] not_overtaken_step [of c st] by simp
qed simp

lemma call_op_admissible: "list_all (call_admissible A) cs \<Longrightarrow> list_all (wf_admissible A) (map call_op cs)"
  by (induction cs) (auto split: wf_call.splits elim: call_admissible.elims)

lemma whole_calls [simp]:
  "fold wf_call_step (map WfCall ops) st = fold wf_step ops st"
  "calm (map WfCall ops @ cs) st \<longleftrightarrow> calm cs (fold wf_step ops st)"
  "list_all (call_admissible A) (map WfCall ops) \<longleftrightarrow> list_all (wf_admissible A) ops"
  by (induction ops arbitrary: st) simp_all

text \<open>The rows that lead \<open>resumeRun\<close> to its update, and what an overtaken one does to a run.\<close>

definition resumable :: "WorkflowRun \<Rightarrow> bool" where
  "resumable old = (wr_status old = RUN_WAITING_FOR_HUMAN \<or>
     wr_status old = RUN_BLOCKED \<and> wr_blockReasonCode old \<noteq> Some ''HUMAN_DECISION_REQUIRED'')"

definition set_running :: "WorkflowRun \<Rightarrow> WorkflowRun \<Rightarrow> WorkflowRun" where
  "set_running old r = (if wr_status old = RUN_BLOCKED
     then r\<lparr>wr_status := RUN_RUNNING, wr_blockReasonCode := None\<rparr> else r\<lparr>wr_status := RUN_RUNNING\<rparr>)"

lemma set_running_fields [simp]:
  "wr_id (set_running old r) = wr_id r" "wr_organizationId (set_running old r) = wr_organizationId r"
  "wr_maxCorrectionLoops (set_running old r) = wr_maxCorrectionLoops r"
  "wr_status (set_running old r) = RUN_RUNNING" "wr_currentStepType (set_running old r) = wr_currentStepType r"
  "wr_correctionLoopCount (set_running old r) = wr_correctionLoopCount r"
  by (simp_all add: set_running_def)

lemma resume_tx_runs:
  "db_runs (fst (resume_tx org rid old db)) =
     (if resumable old then map (\<lambda>r. if wr_id r = rid then set_running old r else r) (db_runs db) else db_runs db)"
proof (cases "find (\<lambda>r. wr_id r = rid) (db_runs db)")
  case None
  then have "map (\<lambda>r. if wr_id r = rid then set_running old r else r) (db_runs db) = db_runs db"
    by (intro map_idI) (auto simp: find_None_iff)
  with None show ?thesis
    by (simp add: resume_tx_def terminal_run_def transaction_def update_run_by_id_def record_row_def resumable_def)
next
  case (Some r)
  then show ?thesis
    by (cases "wr_status old")
      (auto simp: resume_tx_def terminal_run_def transaction_def update_run_by_id_def record_row_def resumable_def
        set_running_def update_runs_def update_steps_def release_waiting_def Let_def split: option.splits)
qed

lemma resume_tx_steps:
  "db_steps (fst (resume_tx org rid old db)) = db_steps db \<or>
   db_steps (fst (resume_tx org rid old db)) = map (\<lambda>s. if sr_organizationId s = org \<and> sr_workflowRunId s = rid \<and>
      Some (sr_stepType s) = wr_currentStepType old \<and> sr_status s = STEP_WAITING
      then s\<lparr>sr_status := STEP_READY, sr_finishedAt := None\<rparr> else s) (db_steps db)"
  by (cases "find (\<lambda>r. wr_id r = rid) (db_runs db)"; cases "wr_currentStepType old"; cases "wr_status old")
    (simp_all add: resume_tx_def terminal_run_def transaction_def update_run_by_id_def record_row_def
        update_runs_def update_steps_def release_waiting_def Let_def)

definition revived :: "wf_call \<Rightarrow> WorkflowRun \<Rightarrow> WorkflowRun \<Rightarrow> bool" where
  "revived c r r' =
     (case c of
        WfCall p \<Rightarrow> False
      | WfResumeTx org rid old \<Rightarrow> rid = wr_id r \<and> resumable old \<and>
          wr_status r \<noteq> RUN_RUNNING \<and> wr_status r \<noteq> RUN_BLOCKED \<and>
          abs_run r' = (RUN_RUNNING, wr_currentStepType r, wr_correctionLoopCount r))"

lemma resume_tx_run:
  assumes "r \<in> set (db_runs db)"
  shows "\<exists>r' \<in> set (db_runs (fst (resume_tx org rid old db))). wr_id r' = wr_id r \<and>
    wr_organizationId r' = wr_organizationId r \<and> wr_maxCorrectionLoops r' = wr_maxCorrectionLoops r \<and>
    (abs_run r' = abs_run r \<or> run_trans (wr_maxCorrectionLoops r) (abs_run r) (abs_run r') \<or>
     revived (WfResumeTx org rid old) r r')"
proof (cases "resumable old \<and> wr_id r = rid")
  case True
  have "abs_run (set_running old r) = abs_run r \<or>
      run_trans (wr_maxCorrectionLoops r) (abs_run r) (abs_run (set_running old r)) \<or>
      revived (WfResumeTx org rid old) r (set_running old r)"
    using True by (cases "wr_status r") (simp_all add: abs_run_def revived_def run_trans.resume)
  with True assms show ?thesis unfolding resume_tx_runs by (intro bexI [of _ "set_running old r"]) auto
next
  case False
  with assms show ?thesis unfolding resume_tx_runs by (intro bexI [of _ r]) auto
qed

lemma call_step_run:
  assumes "runtime_ok A (db, reg)" "call_admissible A c" "wf_call_step c (db, reg) = (db', reg')"
    and "r \<in> set (db_runs db)"
  shows "\<exists>r' \<in> set (db_runs db'). wr_id r' = wr_id r \<and> wr_organizationId r' = wr_organizationId r \<and>
    wr_maxCorrectionLoops r' = wr_maxCorrectionLoops r \<and>
    (abs_run r' = abs_run r \<or> run_trans (wr_maxCorrectionLoops r) (abs_run r) (abs_run r') \<or> revived c r r')"
proof (cases c)
  case (WfCall p)
  with assms wf_step_run [of A db p reg db' reg' r] show ?thesis unfolding runtime_ok_def by force
next
  case (WfResumeTx org rid old)
  with assms(3) have "db' = fst (resume_tx org rid old db)" by simp
  with resume_tx_run [OF assms(4), of org rid old] WfResumeTx show ?thesis by simp
qed

section \<open>Properties\<close>

text \<open>C5. The workflow tables stay consistent under every sequence of calls of
  every caller, with the reads before a completion or a cancellation as old as they
  like, as long as no resume is overtaken, that is, each resume's transaction
  still finds the row of its run as it was read.  A run
  in progress has exactly one nonterminal step, READY and of the run's current
  type; a run blocked by its provider has exactly that step WAITING; any other
  run has none.  The steps of a run belong to its organisation, and each was
  caused by an ended step one edge before it in the workflow graph.\<close>

theorem workflow_tables_invariant:
  assumes "list_all (call_admissible A) calls" and "calm calls empty_runtime"
    and "fold wf_call_step calls empty_runtime = (db, reg)"
    and "r \<in> set (db_runs db)"
  shows "run_shape r (steps_of (wr_id r) db) \<and>
    (\<forall>s \<in> set (steps_of (wr_id r) db). sr_organizationId s = wr_organizationId r \<and> lineage_ok (steps_of (wr_id r) db) s) \<and>
    (\<forall>x \<in> set (db_runs db). wr_id x = wr_id r \<longrightarrow> x = r)"
proof -
  have ok: "wf_ok A db"
    using reachable_ok [OF call_op_admissible [OF assms(1)]] calm_fold [OF assms(2)] assms(3)
    unfolding runtime_ok_def by (metis fst_conv)
  have "run_wf A r (steps_of (wr_id r) db)" using run_wf_of [OF ok assms(4)] .
  moreover have "\<forall>x \<in> set (db_runs db). wr_id x = wr_id r \<longrightarrow> x = r"
    using ok assms(4) unfolding wf_ok_def by (metis distinct_map inj_on_def)
  ultimately show ?thesis by (simp add: run_wf_def)
qed

theorem workflow_tables_invariant_witness:
  "\<exists>old r. db_runs (fst (fold wf_call_step (map WfCall (take 2 sample_history) @ [WfResumeTx ''o'' ''r'' old]) empty_runtime)) = [r] \<and>
     run_shape r (steps_of (wr_id r)
       (fst (fold wf_call_step (map WfCall (take 2 sample_history) @ [WfResumeTx ''o'' ''r'' old]) empty_runtime)))"
proof -
  let ?st = "fold wf_step (take 2 sample_history) empty_runtime"
  from sample_started_state obtain r where r: "db_runs (fst ?st) = [r]" "wr_id r = ''r''" "wr_organizationId r = ''o''"
    "wr_status r = RUN_RUNNING" by (auto simp: map_eq_Cons_conv abs_run_def)
  let ?cs = "map WfCall (take 2 sample_history) @ [WfResumeTx ''o'' ''r'' r]"
  have adm: "list_all (call_admissible (\<lambda>_ _ _. False)) ?cs" by (simp add: sample_history_def)
  have calm: "calm ?cs empty_runtime" using r by (simp add: find_run_def)
  have "db_runs (fst (fold wf_call_step ?cs empty_runtime)) = [r]"
    using r by (cases ?st) (simp add: resume_tx_runs resumable_def)
  with workflow_tables_invariant [OF adm calm prod.collapse [symmetric], of r] show ?thesis by auto
qed

text \<open>C12. The runtime against the abstract life cycle of a run.  Seen through
  status, current step and correction counter, every call on the tables, a
  resume that acts on a row read at any earlier time included,
  leaves each run where it is or moves it along one edge of the life cycle,
  whose advances are the transitions of the pure state machine, with one
  exception: a resume that was overtaken, whose read showed the run blocked
  or waiting when the run no longer is, sets it to RUNNING at whatever step and
  counter it has.  No run is lost
  and none changes its identity, its organisation or its budget.\<close>

theorem runtime_refines_life_cycle:
  assumes "runtime_ok A (db, reg)" and "call_admissible A c" and "wf_call_step c (db, reg) = (db', reg')"
    and "r \<in> set (db_runs db)"
  shows "\<exists>r' \<in> set (db_runs db'). wr_id r' = wr_id r \<and> wr_organizationId r' = wr_organizationId r \<and>
    wr_maxCorrectionLoops r' = wr_maxCorrectionLoops r \<and>
    (abs_run r' = abs_run r \<or> run_trans (wr_maxCorrectionLoops r) (abs_run r) (abs_run r') \<or> revived c r r')"
  by (rule call_step_run [OF assms])

theorem runtime_refines_life_cycle_witness:
  "\<exists>r. db_runs (fst (fold wf_step (take 2 sample_history) empty_runtime)) = [r] \<and>
    (\<exists>r' \<in> set (db_runs (fst (wf_call_step (WfResumeTx ''o'' ''r'' r) (fold wf_step (take 2 sample_history) empty_runtime)))).
       wr_id r' = wr_id r)"
proof -
  let ?st = "fold wf_step (take 2 sample_history) empty_runtime"
  from sample_started_state obtain r where r: "db_runs (fst ?st) = [r]" by (auto simp: map_eq_Cons_conv)
  have "list_all (wf_admissible (\<lambda>_ _ _. False)) (take 2 sample_history)" by (simp add: sample_history_def)
  from reachable_ok [OF this] have "runtime_ok (\<lambda>_ _ _. False) (fst ?st, snd ?st)" by simp
  from runtime_refines_life_cycle [OF this, of "WfResumeTx ''o'' ''r'' r" _ _ r] r
  show ?thesis by (metis call_admissible.simps(2) list.set_intros(1) prod.collapse)
qed

text \<open>C18. Completed, failed and cancelled are final as long as no resume is overtaken: a
  run that has reached one of
  them keeps its row unchanged, and a step that has ended keeps its
  row, whatever calls follow, each resume among them finding the row it read.\<close>

theorem ended_rows_final:
  assumes "runtime_ok A (db, reg)" and "list_all (call_admissible A) calls" and "calm calls (db, reg)"
    and "fold wf_call_step calls (db, reg) = (db', reg')"
  shows "(\<forall>r \<in> set (db_runs db). terminal_run (wr_status r) \<longrightarrow> r \<in> set (db_runs db')) \<and>
    (\<forall>s \<in> set (db_steps db). terminal_step (sr_status s) \<longrightarrow> s \<in> set (db_steps db'))"
proof -
  have "wf_le (db, reg) (db', reg')"
    using later_le [OF call_op_admissible [OF assms(2)] assms(1)] calm_fold [OF assms(3)] assms(4) by simp
  then show ?thesis unfolding wf_le_def run_follows_def step_follows_def live_def fst_conv by metis
qed

theorem ended_rows_final_witness:
  "\<exists>s org old. sr_id s = ''s1'' \<and> s \<in> set (db_steps (fst (fold wf_step sample_released empty_runtime))) \<and>
     s \<in> set (db_steps (fst (fold wf_call_step [WfResumeTx org ''r'' old] (fold wf_step sample_released empty_runtime))))"
proof -
  let ?st = "fold wf_step sample_released empty_runtime"
  from sample_released_state obtain r where r: "db_runs (fst ?st) = [r]" "wr_id r = ''r''"
    by (auto simp: map_eq_Cons_conv)
  let ?cs = "[WfResumeTx (wr_organizationId r) ''r'' r]"
  let ?st' = "fold wf_call_step ?cs ?st"
  have "(''s1'', PLAN, STEP_SUCCEEDED) \<in> set (map (\<lambda>s. (sr_id s, sr_stepType s, sr_status s)) (db_steps (fst ?st)))"
    by (simp add: sample_released_state)
  then obtain s where s: "s \<in> set (db_steps (fst ?st))" "sr_id s = ''s1''" "sr_status s = STEP_SUCCEEDED" by auto
  have ok: "runtime_ok sample_approvals (fst ?st, snd ?st)" using reachable_ok [OF sample_released_admissible] by simp
  have "calm ?cs (fst ?st, snd ?st)" using r by (simp add: find_run_def)
  from ended_rows_final [OF ok _ this, of "fst ?st'" "snd ?st'"] s
  have "s \<in> set (db_steps (fst ?st'))" by (simp add: terminal_step_def)
  with s show ?thesis by auto
qed

text \<open>C3. Nothing is released without a human.  If the approval flag reaches the
  runtime only through \<open>approve\<close>, then every RELEASE\_EXECUTION step in the
  tables was caused by a succeeded HUMAN\_RELEASE\_GATE step of its run that
  carries the identity of a user, and that user approved this run of this
  organisation without being a machine identity.\<close>

theorem release_step_has_human_approval:
  assumes ops: "\<forall>p \<in> set ops. (\<forall>now newId i. p = WfComplete now newId i \<longrightarrow> ci_humanApproved i \<noteq> Some True) \<and>
      (\<forall>now newId i st. p = WfCompleteTx now newId i st \<longrightarrow> ci_humanApproved i \<noteq> Some True)"
    and st: "fold wf_step ops empty_runtime = (db, reg)"
    and s: "s \<in> set (db_steps db)" "sr_stepType s = RELEASE_EXECUTION"
  shows "\<exists>gate r now newId i. gate \<in> set (db_steps db) \<and> r \<in> set (db_runs db) \<and>
    sr_workflowRunId s = wr_id r \<and> sr_workflowRunId gate = wr_id r \<and>
    sr_causationId s = Some (sr_id gate) \<and> sr_stepType gate = HUMAN_RELEASE_GATE \<and> sr_status gate = STEP_SUCCEEDED \<and>
    WfApprove now newId i \<in> set ops \<and> \<not> hq_isMachineIdentity i \<and> hq_organizationId i = wr_organizationId r \<and>
    hq_workflowRunId i = wr_id r \<and> sr_metadata gate = JObj (approval_metadata (hq_userId i))"
proof -
  define A :: approvals where "A org rid u = (\<exists>now newId i. WfApprove now newId i \<in> set ops \<and> \<not> hq_isMachineIdentity i \<and>
     hq_organizationId i = org \<and> hq_workflowRunId i = rid \<and> hq_userId i = u)" for org rid u
  have "wf_admissible A p" if "p \<in> set ops" for p
  proof (cases p)
  qed (use that ops in \<open>auto simp: A_def may_release_def\<close>)
  then have "list_all (wf_admissible A) ops" by (simp add: list_all_iff)
  from reachable_ok [OF this] st have ok: "wf_ok A db" by (simp add: runtime_ok_def)
  then obtain r where r: "r \<in> set (db_runs db)" "sr_workflowRunId s = wr_id r" using s(1) unfolding wf_ok_def by blast
  have "release_ok A r (steps_of (wr_id r) db) s"
    using run_wf_of [OF ok r(1)] s(1) r(2) by (simp add: run_wf_def steps_of_def)
  then obtain g u where g: "g \<in> set (steps_of (wr_id r) db)" "sr_causationId s = Some (sr_id g)"
    "sr_stepType g = HUMAN_RELEASE_GATE" "sr_status g = STEP_SUCCEEDED" "sr_metadata g = JObj (approval_metadata u)"
    "A (wr_organizationId r) (wr_id r) u" using s(2) unfolding release_ok_def by blast
  then have "g \<in> set (db_steps db)" "sr_workflowRunId g = wr_id r" by (simp_all add: steps_of_def)
  with g r show ?thesis unfolding A_def by metis
qed

theorem release_step_has_human_approval_witness:
  "\<exists>s. s \<in> set (db_steps (fst (fold wf_step sample_released empty_runtime))) \<and> sr_stepType s = RELEASE_EXECUTION \<and>
     (\<exists>gate \<in> set (db_steps (fst (fold wf_step sample_released empty_runtime))).
        sr_causationId s = Some (sr_id gate) \<and> sr_status gate = STEP_SUCCEEDED)"
proof -
  let ?st = "fold wf_step sample_released empty_runtime"
  have "(''s9'', RELEASE_EXECUTION, STEP_READY) \<in> set (map (\<lambda>s. (sr_id s, sr_stepType s, sr_status s)) (db_steps (fst ?st)))"
    by (simp add: sample_released_state)
  then obtain s where s: "s \<in> set (db_steps (fst ?st))" "sr_stepType s = RELEASE_EXECUTION" by auto
  have "\<forall>p \<in> set sample_released. (\<forall>now newId i. p = WfComplete now newId i \<longrightarrow> ci_humanApproved i \<noteq> Some True) \<and>
      (\<forall>now newId i st. p = WfCompleteTx now newId i st \<longrightarrow> ci_humanApproved i \<noteq> Some True)"
    by (simp add: sample_released_def sample_history_def sample_completion_def)
  from release_step_has_human_approval [OF this prod.collapse [symmetric] s] s show ?thesis by blast
qed

text \<open>C23. The correction budget holds across all paths: the number of CORRECTION
  steps a run has ever been given, by the machine or by a human decision, is
  its correction counter, and never exceeds its budget (a negative budget
  counts as none).\<close>

theorem correction_budget:
  assumes "list_all (wf_admissible A) ops" and "fold wf_step ops empty_runtime = (db, reg)"
    and "r \<in> set (db_runs db)"
  shows "wr_correctionLoopCount r = int (length (filter (\<lambda>s. sr_stepType s = CORRECTION) (steps_of (wr_id r) db))) \<and>
    wr_correctionLoopCount r \<le> max 0 (wr_maxCorrectionLoops r)"
proof -
  have "wf_ok A db" using reachable_ok [OF assms(1)] assms(2) by (simp add: runtime_ok_def)
  from run_wf_of [OF this assms(3)] show ?thesis by (simp add: run_wf_def corrections_def)
qed

theorem correction_budget_witness:
  "\<exists>r. db_runs (fst (fold wf_step sample_released empty_runtime)) = [r] \<and>
     wr_correctionLoopCount r \<le> max 0 (wr_maxCorrectionLoops r)"
proof -
  let ?st = "fold wf_step sample_released empty_runtime"
  from sample_released_state obtain r where r: "db_runs (fst ?st) = [r]" by (auto simp: map_eq_Cons_conv)
  from correction_budget [OF sample_released_admissible prod.collapse [symmetric], of r] r show ?thesis by simp
qed

text \<open>No step is completed twice.  Once a step has ended, a completion of it
  changes no run and no step, however many operations lie in between and
  however old the caller's view is: it returns as idempotent or with an error.\<close>

lemma ended_step_not_completed_again:
  assumes ok: "runtime_ok A (db0, reg0)" and s: "s \<in> set (db_steps db0)" "terminal_step (sr_status s)"
    and ops: "list_all (wf_admissible A) ops" and st: "fold wf_step ops (db0, reg0) = (db, reg)"
    and i: "ci_workflowStepRunId input = sr_id s" and c: "complete_tx now newId input old db = (db', res)"
  shows "db' = db \<and> (\<forall>v. res = Inr v \<longrightarrow> cr_idempotent v)"
proof -
  have "wf_le (db0, reg0) (db, reg)" using later_le [OF ops ok] st by simp
  then have sin: "s \<in> set (db_steps db)" using s unfolding wf_le_def step_follows_def live_def fst_conv by metis
  have okd: "wf_ok A db" using later_ok [OF ops ok] st by (simp add: runtime_ok_def)
  have "x = s" if "find_step db (ci_organizationId input) (ci_workflowRunId input) (ci_workflowStepRunId input) = Some x" for x
    using find_step_SomeD [OF that] i step_unique [OF okd _ sin] by (auto simp: steps_of_def)
  with c s(2) show ?thesis
    by (auto simp: complete_tx_def transaction_def idempotent_result_def split: option.splits if_splits)
qed

text \<open>C24. A run in progress never gets stuck on its step: the READY step that the
  tables promise can be completed, the completion succeeds and is not
  idempotent, and the run moves as the state machine says, with the successor
  step created when there is one.\<close>

theorem current_step_can_complete:
  assumes ok: "runtime_ok A (db, reg)" and r: "r \<in> set (db_runs db)" "wr_status r = RUN_RUNNING"
      "wr_currentStepType r = Some t"
    and fresh: "newId \<notin> sr_id ` set (db_steps db)"
  shows "\<exists>s \<in> set (steps_of (wr_id r) db). sr_stepType s = t \<and> sr_status s = STEP_READY \<and>
    (\<forall>input now. ci_organizationId input = wr_organizationId r \<longrightarrow> ci_workflowRunId input = wr_id r \<longrightarrow>
      ci_workflowStepRunId input = sr_id s \<longrightarrow>
      (\<exists>db' res. completeStep now newId input db = (db', Inr res) \<and> \<not> cr_idempotent res \<and>
         cr_outcome res = Some (nextEngineeringStep (machine_input input r s)) \<and>
         outcome_run now t (nextEngineeringStep (machine_input input r s)) r \<in> set (db_runs db')))"
proof -
  have wf: "wf_ok A db" using ok by (simp add: runtime_ok_def)
  from run_wf_of [OF wf r(1)] r obtain s where s: "filter live (steps_of (wr_id r) db) = [s]" "sr_stepType s = t" "sr_status s = STEP_READY"
    by (auto simp: run_wf_def run_shape_cases)
  note sin = filter_single(1) [OF s(1)]
  have org: "sr_organizationId s = wr_organizationId r" using run_wf_of [OF wf r(1)] sin by (simp add: run_wf_def)
  have "\<exists>db' res. completeStep now newId input db = (db', Inr res) \<and> \<not> cr_idempotent res \<and>
         cr_outcome res = Some (nextEngineeringStep (machine_input input r s)) \<and>
         outcome_run now t (nextEngineeringStep (machine_input input r s)) r \<in> set (db_runs db')"
    if i: "ci_organizationId input = wr_organizationId r" "ci_workflowRunId input = wr_id r" "ci_workflowStepRunId input = sr_id s"
    for input now
  proof -
    have fr: "find_run db (ci_organizationId input) (ci_workflowRunId input) = Some r"
      by (rule found_run [OF wf r(1) i(1,2)])
    have fs: "find_step db (ci_organizationId input) (ci_workflowRunId input) (ci_workflowStepRunId input) = Some s"
      by (rule found_step [OF wf]) (use sin i org in \<open>auto simp: steps_of_def\<close>)
    have nt: "\<not> terminal_run (wr_status r)" "\<not> terminal_step (sr_status s)"
      "wr_currentStepType r = Some (sr_stepType s)"
      using r s by (auto simp: terminal_run_def terminal_step_def)
    have "complete_precheck input db = (db, Inr (Inr s))" using fr fs nt by (simp add: complete_precheck_def)
    then have "completeStep now newId input db = complete_tx now newId input s db" by (simp add: completeStep_def)
    with complete_tx_succeeds [OF fr nt(1) fs nt(2,3) _ s(3) fresh] sin r(1) s(2) i(2) show ?thesis
      by (auto simp: steps_of_def)
  qed
  with s sin show ?thesis by blast
qed

theorem current_step_can_complete_witness:
  "\<exists>db' res. completeStep 2 ''s2'' (sample_completion ''s1'')
     (fst (fold wf_step (take 2 sample_history) empty_runtime)) = (db', Inr res) \<and> \<not> cr_idempotent res"
proof -
  let ?st = "fold wf_step (take 2 sample_history) empty_runtime"
  from sample_started_state obtain r where r: "db_runs (fst ?st) = [r]" "wr_id r = ''r''" "wr_organizationId r = ''o''"
    "abs_run r = (RUN_RUNNING, Some PLAN, 0)" by (auto simp: map_eq_Cons_conv)
  from sample_started_state obtain s0 where s0: "db_steps (fst ?st) = [s0]" "sr_id s0 = ''s1''"
    by (auto simp: map_eq_Cons_conv)
  have "list_all (wf_admissible (\<lambda>_ _ _. False)) (take 2 sample_history)" by (simp add: sample_history_def)
  from reachable_ok [OF this] have ok: "runtime_ok (\<lambda>_ _ _. False) (fst ?st, snd ?st)" by simp
  have "''s2'' \<notin> sr_id ` set (db_steps (fst ?st))" using s0 by simp
  from current_step_can_complete [OF ok _ _ _ this, of r PLAN] r
  obtain s where s: "s \<in> set (steps_of (wr_id r) (fst ?st))"
    and c: "\<forall>input now. ci_organizationId input = wr_organizationId r \<longrightarrow> ci_workflowRunId input = wr_id r \<longrightarrow>
      ci_workflowStepRunId input = sr_id s \<longrightarrow>
      (\<exists>db' res. completeStep now ''s2'' input (fst ?st) = (db', Inr res) \<and> \<not> cr_idempotent res \<and>
         cr_outcome res = Some (nextEngineeringStep (machine_input input r s)) \<and>
         outcome_run now PLAN (nextEngineeringStep (machine_input input r s)) r \<in> set (db_runs db'))"
    by (simp add: abs_run_def) metis
  have "sr_id s = ''s1''" using s s0 by (simp add: steps_of_def split: if_splits)
  then show ?thesis using c [rule_format, of "sample_completion ''s1''" 2] r(2,3) by (auto simp: sample_completion_def)
qed

section \<open>Resuming a run that no step is left for\<close>

lemma stranded_stays:
  assumes "(run_trans m)\<^sup>*\<^sup>* (RUN_RUNNING, None, n) y"
  shows "y = (RUN_RUNNING, None, n) \<or> y = (RUN_CANCELLED, None, n)"
  using assms
proof (induction rule: rtranclp_induct)
  case (step y z)
  then show ?case by (auto elim: run_trans.cases simp: terminal_run_def)
qed simp

lemma resume_other_block:
  assumes ok: "wf_ok A db" and f: "find_run db org rid = Some r" "wr_status r = RUN_BLOCKED"
    and b: "wr_blockReasonCode r = Some code" "code \<noteq> ''HUMAN_DECISION_REQUIRED''" "code \<noteq> ''PROVIDER_BLOCKED''"
  shows "r\<lparr>wr_status := RUN_RUNNING, wr_blockReasonCode := None\<rparr> \<in> set (db_runs (fst (resumeRun org rid db))) \<and>
    wr_currentStepType r = None"
proof -
  note R = find_run_SomeD [OF f(1)]
  have none: "wr_currentStepType r = None"
    using run_wf_found [OF ok f(1)] f(2) b by (auto simp: run_wf_def run_shape_cases split: option.splits)
  obtain y where "find (\<lambda>x. wr_id x = rid) (db_runs db) = Some y"
    using R by (cases "find (\<lambda>x. wr_id x = rid) (db_runs db)") (auto simp: find_None_iff)
  with R f b none show ?thesis
    by (auto simp: resumeRun_def resume_tx_def terminal_run_def transaction_def update_run_by_id_def)
qed

text \<open>C31. Resuming a run that is blocked for any reason but its provider or an open
  human decision strands it: the run shows as RUNNING with no current step and
  no step to complete, and from there no sequence of operations, recoveries
  included, leads anywhere but to cancellation.\<close>

theorem resume_strands_run:
  assumes ok: "runtime_ok A (db, reg)" and f: "find_run db org rid = Some r" "wr_status r = RUN_BLOCKED"
    and b: "wr_blockReasonCode r = Some code" "code \<noteq> ''HUMAN_DECISION_REQUIRED''" "code \<noteq> ''PROVIDER_BLOCKED''"
    and ops: "list_all (wf_admissible A) ops"
    and st: "fold wf_step ops (wf_step (WfResume org rid) (db, reg)) = (db', reg')"
  shows "\<exists>r' \<in> set (db_runs db'). wr_id r' = rid \<and> wr_currentStepType r' = None \<and>
    (wr_status r' = RUN_RUNNING \<or> wr_status r' = RUN_CANCELLED)"
proof -
  let ?u = "r\<lparr>wr_status := RUN_RUNNING, wr_blockReasonCode := None\<rparr>"
  have wf: "wf_ok A db" using ok by (simp add: runtime_ok_def)
  from resume_other_block [OF wf f b] have u: "?u \<in> set (db_runs (fst (wf_step (WfResume org rid) (db, reg))))"
    "wr_currentStepType r = None" by auto
  have "runtime_ok A (wf_step (WfResume org rid) (db, reg))" by (rule workflows.step_ok [OF _ ok]) simp
  from later_le [OF ops this] st u(1) obtain r' where r': "r' \<in> set (db_runs db')" "run_follows ?u r'"
    unfolding wf_le_def by fastforce
  then have "(run_trans (wr_maxCorrectionLoops r))\<^sup>*\<^sup>* (RUN_RUNNING, None, wr_correctionLoopCount r) (abs_run r')"
    using u(2) by (simp add: run_follows_def abs_run_def)
  from stranded_stays [OF this] r' find_run_SomeD [OF f(1)] show ?thesis
    by (auto simp: abs_run_def run_follows_def)
qed

definition sample_blocked :: "wf_op list" where
  "sample_blocked = [WfCreate 0 ''r'' ''c'' (sample_run_input\<lparr>cw_maxCorrectionLoops := Some 0\<rparr>), WfStart 1 ''s1'' ''o'' ''r'',
     WfComplete 2 ''s2'' (sample_completion ''s1''), WfComplete 3 ''s3'' (sample_completion ''s2''),
     WfComplete 4 ''s4'' ((sample_completion ''s3'')\<lparr>ci_stepStatus := STEP_RESULT_FAILED\<rparr>)]"

lemma sample_blocked_state:
  "map (\<lambda>r. (wr_id r, wr_organizationId r, wr_status r, wr_blockReasonCode r))
     (db_runs (fst (fold wf_step sample_blocked empty_runtime))) =
     [(''r'', ''o'', RUN_BLOCKED, Some ''LOOP_EXHAUSTED'')]"
  by code_simp

theorem resume_strands_run_witness:
  "\<exists>r'. wr_id r' = ''r'' \<and> wr_currentStepType r' = None \<and> (wr_status r' = RUN_RUNNING \<or> wr_status r' = RUN_CANCELLED) \<and>
     r' \<in> set (db_runs (fst (fold wf_step [WfStart 9 ''z'' ''o'' ''r'']
       (wf_step (WfResume ''o'' ''r'') (fold wf_step sample_blocked empty_runtime)))))"
proof -
  let ?st = "fold wf_step sample_blocked empty_runtime" and ?A = "\<lambda>_ _ _. False"
  let ?st' = "fold wf_step [WfStart 9 ''z'' ''o'' ''r''] (wf_step (WfResume ''o'' ''r'') ?st)"
  from sample_blocked_state obtain r where r: "db_runs (fst ?st) = [r]" "wr_id r = ''r''" "wr_organizationId r = ''o''"
    "wr_status r = RUN_BLOCKED" "wr_blockReasonCode r = Some ''LOOP_EXHAUSTED''" by (auto simp: map_eq_Cons_conv)
  have "list_all (wf_admissible ?A) sample_blocked" by (simp add: sample_blocked_def sample_completion_def)
  from reachable_ok [OF this] have ok: "runtime_ok ?A (fst ?st, snd ?st)" by simp
  have f: "find_run (fst ?st) ''o'' ''r'' = Some r" using r by (simp add: find_run_def)
  have "fold wf_step [WfStart 9 ''z'' ''o'' ''r''] (wf_step (WfResume ''o'' ''r'') (fst ?st, snd ?st)) = (fst ?st', snd ?st')"
    by simp
  from resume_strands_run [OF ok f r(4,5) _ _ _ this] show ?thesis by auto
qed

section \<open>A resume that was overtaken\<close>

lemma revived_ok:
  assumes ok: "wf_ok A db" and r: "r \<in> set (db_runs db)" "terminal_run (wr_status r)" and old: "resumable old"
  shows "wf_ok A (fst (resume_tx org (wr_id r) old db))" "wr_currentStepType r = None"
    "set_running old r \<in> set (db_runs (fst (resume_tx org (wr_id r) old db)))"
proof -
  let ?db = "fst (resume_tx org (wr_id r) old db)"
  let ?f = "\<lambda>x. if wr_id x = wr_id r then set_running old x else x"
  have runs: "db_runs ?db = map ?f (db_runs db)" using old by (simp add: resume_tx_runs)
  have W: "run_wf A r (steps_of (wr_id r) db)" by (rule run_wf_of [OF ok r(1)])
  then have shape: "wr_currentStepType r = None" "filter live (steps_of (wr_id r) db) = []"
    using r(2) by (auto simp: run_wf_def run_shape_cases terminal_run_def split: WorkflowRunStatus.splits)
  then have ended: "sr_status s \<noteq> STEP_WAITING" if "s \<in> set (db_steps db)" "sr_workflowRunId s = wr_id r" for s
    using that by (auto simp: filter_empty_conv steps_of_def live_def terminal_step_def)
  have steps: "db_steps ?db = db_steps db"
  proof -
    have "map (\<lambda>s. if sr_organizationId s = org \<and> sr_workflowRunId s = wr_id r \<and>
      Some (sr_stepType s) = wr_currentStepType old \<and> sr_status s = STEP_WAITING
      then s\<lparr>sr_status := STEP_READY, sr_finishedAt := None\<rparr> else s) (db_steps db) = db_steps db"
      by (rule map_idI) (use ended in auto)
    with resume_tx_steps [of org "wr_id r" old db] show ?thesis by simp
  qed
  then have so: "steps_of rid ?db = steps_of rid db" for rid by (simp add: steps_of_def)
  have same: "x = r" if "x \<in> set (db_runs db)" "wr_id x = wr_id r" for x
    using that r(1) ok unfolding wf_ok_def by (metis distinct_map inj_on_def)
  have "run_wf A (set_running old r) (steps_of (wr_id r) db)"
    using W shape by (auto simp: run_wf_def run_shape_cases release_ok_def)
  then have "run_wf A (?f x) (steps_of (wr_id (?f x)) db)" if "x \<in> set (db_runs db)" for x
    using same [OF that] run_wf_of [OF ok that] by (cases "wr_id x = wr_id r") simp_all
  then have "\<forall>x \<in> set (db_runs ?db). run_wf A x (steps_of (wr_id x) ?db)"
    unfolding runs so set_map by blast
  moreover have "map wr_id (db_runs ?db) = map wr_id (db_runs db)" unfolding runs by simp
  ultimately show "wf_ok A ?db" using ok steps unfolding wf_ok_def by (metis set_map)
  show "wr_currentStepType r = None" by (rule shape(1))
  show "set_running old r \<in> set (db_runs ?db)" unfolding runs using r(1) by force
qed

text \<open>C39. A resume that was overtaken revives an ended run.  The row a resume acts on is read
  before its transaction and not checked again: if the run was
  cancelled, completed or failed in between, it turns back to RUNNING, with no
  current step and no step to complete, and from there no sequence of operations
  leads anywhere but to cancellation.\<close>

theorem resume_revives_ended_run:
  assumes ok: "runtime_ok A (db, reg)" and r: "r \<in> set (db_runs db)" "terminal_run (wr_status r)"
    and old: "resumable old" and ops: "list_all (wf_admissible A) ops"
    and st: "fold wf_step ops (wf_call_step (WfResumeTx org (wr_id r) old) (db, reg)) = (db', reg')"
  shows "(\<exists>u \<in> set (db_runs (fst (wf_call_step (WfResumeTx org (wr_id r) old) (db, reg)))).
      wr_id u = wr_id r \<and> wr_status u = RUN_RUNNING \<and> wr_currentStepType u = None) \<and>
    (\<exists>r' \<in> set (db_runs db'). wr_id r' = wr_id r \<and> wr_currentStepType r' = None \<and>
      (wr_status r' = RUN_RUNNING \<or> wr_status r' = RUN_CANCELLED))"
proof -
  have wf: "wf_ok A db" and reg: "registry_ok reg" using ok by (simp_all add: runtime_ok_def)
  note R = revived_ok(1) [OF wf r old, of org] revived_ok(2) [OF wf r old] revived_ok(3) [OF wf r old, of org]
  let ?u = "set_running old r" and ?st = "wf_call_step (WfResumeTx org (wr_id r) old) (db, reg)"
  have u: "?u \<in> set (db_runs (fst ?st))" using R(3) by simp
  have "runtime_ok A ?st" using R(1) reg by (simp add: runtime_ok_def)
  from later_le [OF ops this] st u obtain r' where r': "r' \<in> set (db_runs db')" "run_follows ?u r'"
    unfolding wf_le_def by fastforce
  then have "(run_trans (wr_maxCorrectionLoops r))\<^sup>*\<^sup>* (RUN_RUNNING, None, wr_correctionLoopCount r) (abs_run r')"
    using R(2) by (simp add: run_follows_def abs_run_def)
  from stranded_stays [OF this] r' have "\<exists>r' \<in> set (db_runs db'). wr_id r' = wr_id r \<and> wr_currentStepType r' = None \<and>
      (wr_status r' = RUN_RUNNING \<or> wr_status r' = RUN_CANCELLED)"
    by (auto simp: abs_run_def run_follows_def)
  moreover have "\<exists>u \<in> set (db_runs (fst ?st)). wr_id u = wr_id r \<and> wr_status u = RUN_RUNNING \<and> wr_currentStepType u = None"
    using u R(2) by (intro bexI [of _ ?u]) simp_all
  ultimately show ?thesis by blast
qed

definition sample_cancel :: CancelRunInput where
  "sample_cancel = \<lparr>ca_organizationId = ''o'', ca_workflowRunId = ''r'', ca_cancelledByUserId = ''u'',
     ca_isMachineIdentity = False\<rparr>"

lemma sample_cancelled_state:
  "map (\<lambda>r. (wr_id r, wr_status r)) (db_runs (fst (wf_step (WfCancel 6 sample_cancel) (fold wf_step sample_blocked empty_runtime)))) =
     [(''r'', RUN_CANCELLED)]"
  by code_simp

text \<open>The run is read blocked, cancelled, and then resumed on the row that was read.\<close>

theorem resume_revives_ended_run_witness:
  "\<exists>old u. find_run (fst (fold wf_step sample_blocked empty_runtime)) ''o'' ''r'' = Some old \<and>
     wr_id u = ''r'' \<and> wr_status u = RUN_RUNNING \<and>
     u \<in> set (db_runs (fst (wf_call_step (WfResumeTx ''o'' ''r'' old)
       (fold wf_step (sample_blocked @ [WfCancel 6 sample_cancel]) empty_runtime))))"
proof -
  let ?s0 = "fold wf_step sample_blocked empty_runtime" and ?A = "\<lambda>_ _ _. False"
  let ?s1 = "wf_step (WfCancel 6 sample_cancel) ?s0"
  from sample_blocked_state obtain old where old: "db_runs (fst ?s0) = [old]" "wr_id old = ''r''" "wr_organizationId old = ''o''"
    "wr_status old = RUN_BLOCKED" "wr_blockReasonCode old = Some ''LOOP_EXHAUSTED''" by (auto simp: map_eq_Cons_conv)
  from sample_cancelled_state obtain r where r: "db_runs (fst ?s1) = [r]" "wr_id r = ''r''" "wr_status r = RUN_CANCELLED"
    by (auto simp: map_eq_Cons_conv)
  have "list_all (wf_admissible ?A) (sample_blocked @ [WfCancel 6 sample_cancel])"
    by (simp add: sample_blocked_def sample_completion_def)
  from reachable_ok [OF this] have ok: "runtime_ok ?A (fst ?s1, snd ?s1)" by simp
  have t: "terminal_run (wr_status r)" "r \<in> set (db_runs (fst ?s1))" "resumable old"
    using r old by (simp_all add: terminal_run_def resumable_def)
  have f: "find_run (fst ?s0) ''o'' ''r'' = Some old" using old by (simp add: find_run_def)
  have e: "fold wf_step (sample_blocked @ [WfCancel 6 sample_cancel]) empty_runtime = (fst ?s1, snd ?s1)" by simp
  have "list_all (wf_admissible ?A) []" by simp
  from resume_revives_ended_run [OF ok t(2,1,3) this prod.collapse [symmetric], of "''o''", unfolded r(2)]
  obtain u where "u \<in> set (db_runs (fst (wf_call_step (WfResumeTx ''o'' ''r'' old) (fst ?s1, snd ?s1))))"
    "wr_id u = ''r''" "wr_status u = RUN_RUNNING" by blast
  with f show ?thesis unfolding e by blast
qed

end
