(* ===== verification/Vito_StepResults.thy ===== *)
theory Vito_StepResults
  imports Vito_WorkflowSafety
begin

text \<open>
  What the workflow agent runtime makes of an agent's output: the projectors of
  review, test and release-verification results
  (\<open>workflow-review-result-projector.service.ts\<close>,
  \<open>workflow-test-result-projector.service.ts\<close>,
  \<open>workflow-release-verification-result-projector.service.ts\<close>) and the
  capabilities of \<open>workflow-execution-plan.service.ts\<close>.  An execution result is
  a JSON object; \<open>JSON.parse\<close> (no value when it throws) is an argument.  Bounds on
  the length of text are integers.
\<close>

section \<open>Capabilities of steps\<close>

fun capabilityForStep :: "EngineeringStepType \<Rightarrow> string option" where
  "capabilityForStep PLAN = Some ''CODE_PLAN''"
| "capabilityForStep BUILD = Some ''CODE_BUILD''"
| "capabilityForStep TEST = Some ''TEST_EXECUTION''"
| "capabilityForStep PACKAGE = Some ''REVIEW_PACKAGE''"
| "capabilityForStep RED_TEAM = Some ''RED_TEAM''"
| "capabilityForStep CORRECTION = Some ''CODE_BUILD''"
| "capabilityForStep VERIFY = Some ''RELEASE_VERIFICATION''"
| "capabilityForStep REMOTE_VERIFY = Some ''RELEASE_VERIFICATION''"
| "capabilityForStep PARSE_VERDICT = None"
| "capabilityForStep HUMAN_RELEASE_GATE = None"
| "capabilityForStep RELEASE_EXECUTION = None"

section \<open>Reading JSON\<close>

definition MAX_STDOUT_CHARS :: int where
  "MAX_STDOUT_CHARS = 64 * 1024"

definition MAX_REFERENCE_CHARS :: int where
  "MAX_REFERENCE_CHARS = 2048"

definition bounded_item :: "int \<Rightarrow> json \<Rightarrow> bool" where
  "bounded_item n v = (case v of JStr s \<Rightarrow> s \<noteq> [] \<and> int (length s) \<le> n | _ \<Rightarrow> False)"

definition bounded_text :: "json option \<Rightarrow> int \<Rightarrow> string option" where
  "bounded_text v n = (case v of Some (JStr s) \<Rightarrow> if s \<noteq> [] \<and> int (length s) \<le> n then Some s else None | _ \<Rightarrow> None)"

definition str_of :: "json \<Rightarrow> string" where
  "str_of v = (case v of JStr s \<Rightarrow> s | _ \<Rightarrow> [])"

text \<open>Keeping the well-formed items, keeping the first of them, or all of them or nothing.\<close>

definition references :: "json option \<Rightarrow> nat \<Rightarrow> string list" where
  "references v n = (case v of
     Some (JArr vs) \<Rightarrow> if n < length vs then [] else map str_of (filter (bounded_item MAX_REFERENCE_CHARS) vs)
   | _ \<Rightarrow> [])"

definition bounded_list :: "json option \<Rightarrow> nat \<Rightarrow> int \<Rightarrow> string list" where
  "bounded_list v items chars = (case v of
     Some (JArr vs) \<Rightarrow> take items (map str_of (filter (bounded_item chars) vs))
   | _ \<Rightarrow> [])"

definition strict_strings :: "json option \<Rightarrow> nat \<Rightarrow> int \<Rightarrow> string list option" where
  "strict_strings v items chars = (case v of
     Some (JArr vs) \<Rightarrow> if length vs \<le> items \<and> list_all (bounded_item chars) vs then Some (map str_of vs) else None
   | _ \<Rightarrow> None)"

text \<open>The standard output an agent left, parsed.\<close>

definition parsed_stdout :: "(string \<Rightarrow> json option) \<Rightarrow> json \<Rightarrow> (string \<times> json) list option" where
  "parsed_stdout parse execution =
     (case bounded_text (field_of (objectValue (field_of (objectValue (Some execution)) ''providerExecutionMetadata''))
             ''stdout'') MAX_STDOUT_CHARS of
        None \<Rightarrow> None
      | Some stdout \<Rightarrow> objectValue (parse stdout))"

section \<open>Review results\<close>

definition MAX_FINDINGS :: nat where "MAX_FINDINGS = 50"
definition MAX_FINDING_ID_CHARS :: int where "MAX_FINDING_ID_CHARS = 256"
definition MAX_SUMMARY_CHARS :: int where "MAX_SUMMARY_CHARS = 1000"
definition MAX_EVIDENCE_REFS :: nat where "MAX_EVIDENCE_REFS = 16"
definition MAX_ARTIFACT_REFS :: nat where "MAX_ARTIFACT_REFS = 32"

definition SEVERITIES :: "(string \<times> ReviewFindingSeverity) list" where
  "SEVERITIES = [(''INFO'', SEV_INFO), (''LOW'', SEV_LOW), (''MEDIUM'', SEV_MEDIUM), (''HIGH'', SEV_HIGH),
     (''CRITICAL'', SEV_CRITICAL)]"

definition CATEGORIES :: "(string \<times> ReviewFindingCategory) list" where
  "CATEGORIES = [(''CORRECTNESS'', CORRECTNESS), (''SECURITY'', SECURITY), (''ARCHITECTURE'', ARCHITECTURE),
     (''TESTING'', TESTING), (''MAINTAINABILITY'', MAINTAINABILITY), (''GOVERNANCE'', GOVERNANCE), (''OTHER'', OTHER)]"

definition named_value :: "(string \<times> 'a) list \<Rightarrow> json option \<Rightarrow> 'a option" where
  "named_value table v = (case v of Some (JStr s) \<Rightarrow> map_of table s | _ \<Rightarrow> None)"

definition VERDICTS :: "(string \<times> ReviewVerdict) list" where
  "VERDICTS = [(''A'', VerdictA), (''B'', VerdictB), (''C'', VerdictC), (''D'', VerdictD)]"

definition LEVELS :: "(string \<times> AssuranceLevel) list" where
  "LEVELS = [(''AL1'', AL1), (''AL2'', AL2), (''AL3'', AL3), (''AL4'', AL4)]"

text \<open>The level with an optional dash, as in \<open>AL-4\<close>.\<close>

definition strip_dash :: "string \<Rightarrow> string" where
  "strip_dash s = (case s of [a, l, d, n] \<Rightarrow>
      if [a, l, d] = ''AL-'' \<and> is_digit n then [a, l, n] else s | _ \<Rightarrow> s)"

definition normalizeAssuranceLevel :: "string \<Rightarrow> AssuranceLevel option" where
  "normalizeAssuranceLevel s = map_of LEVELS (strip_dash s)"

definition bool_value :: "json option \<Rightarrow> bool option" where
  "bool_value v = (case v of Some (JBool b) \<Rightarrow> Some b | _ \<Rightarrow> None)"

definition array_value :: "json option \<Rightarrow> json list option" where
  "array_value v = (case v of Some (JArr vs) \<Rightarrow> Some vs | _ \<Rightarrow> None)"

definition review_finding :: "json \<Rightarrow> ReviewFinding option" where
  "review_finding v =
     (let source = objectValue (Some v);
          evidence = references (field_of source ''evidenceRefs'') MAX_EVIDENCE_REFS in
      Option.bind (bounded_text (field_of source ''id'') MAX_FINDING_ID_CHARS) (\<lambda>i.
      Option.bind (bounded_text (field_of source ''summary'') MAX_SUMMARY_CHARS) (\<lambda>m.
      Option.bind (named_value SEVERITIES (field_of source ''severity'')) (\<lambda>sev.
      Option.bind (named_value CATEGORIES (field_of source ''category'')) (\<lambda>cat.
      Option.bind (bool_value (field_of source ''blocking'')) (\<lambda>b.
      Option.bind (array_value (field_of source ''evidenceRefs'')) (\<lambda>vs.
      if length evidence \<noteq> length vs then None
      else Some \<lparr>findingId = i, severity = sev, category = cat, summary = m, evidenceRefs = evidence, blocking = b\<rparr>)))))))"

fun review_findings :: "json list \<Rightarrow> ReviewFinding list option" where
  "review_findings [] = Some []"
| "review_findings (v # vs) = (case (review_finding v, review_findings vs) of
     (Some f, Some fs) \<Rightarrow> Some (f # fs) | _ \<Rightarrow> None)"

definition project_review :: "(string \<Rightarrow> json option) \<Rightarrow> json \<Rightarrow> string \<Rightarrow> ReviewResult option" where
  "project_review parse execution level =
     (let source = objectValue (Some execution) in
      case (boundedString (field_of source ''invocationId'') MAX_INVOCATION_ID_CHARS, parsed_stdout parse execution,
            normalizeAssuranceLevel level) of
        (Some i, Some payload, Some al) \<Rightarrow>
          (case (named_value VERDICTS (map_of payload ''verdict''), map_of payload ''findings'') of
             (Some v, Some (JArr vs)) \<Rightarrow>
               if MAX_FINDINGS < length vs then None
               else (case review_findings vs of
                  None \<Rightarrow> None
                | Some fs \<Rightarrow> Some \<lparr>rr_verdict = v, findings = fs, reviewerExecutionId = i, rr_assuranceLevel = al,
                     artifactRefs = references (field_of source ''artifactReferences'') MAX_ARTIFACT_REFS\<rparr>)
           | _ \<Rightarrow> None)
      | _ \<Rightarrow> None)"

section \<open>Test and verification results\<close>

datatype ResultStatus = PASS | FAIL | BLOCKED_RESULT

definition RESULT_STATUSES :: "(string \<times> ResultStatus) list" where
  "RESULT_STATUSES = [(''PASS'', PASS), (''FAIL'', FAIL), (''BLOCKED'', BLOCKED_RESULT)]"

definition MAX_TEST_COUNT :: int where "MAX_TEST_COUNT = 1000000"

definition count_value :: "json option \<Rightarrow> int option" where
  "count_value v = (case v of Some (JNum n) \<Rightarrow> if 0 \<le> n \<and> n \<le> MAX_TEST_COUNT then Some n else None | _ \<Rightarrow> None)"

record TestResultProjection =
  tp_status :: ResultStatus
  testsExecuted :: int
  testsFailed :: int
  tp_evidenceRefs :: "string list"

definition MAX_RESULT_REFS :: nat where "MAX_RESULT_REFS = 32"

definition project_test :: "(string \<Rightarrow> json option) \<Rightarrow> json \<Rightarrow> TestResultProjection option" where
  "project_test parse execution =
     (case parsed_stdout parse execution of
        None \<Rightarrow> None
      | Some payload \<Rightarrow>
          (case (named_value RESULT_STATUSES (map_of payload ''status''), count_value (map_of payload ''testsExecuted''),
                 count_value (map_of payload ''testsFailed''),
                 strict_strings (map_of payload ''evidenceRefs'') MAX_RESULT_REFS MAX_REFERENCE_CHARS) of
             (Some st, Some executed, Some failed, Some refs) \<Rightarrow>
               if executed < failed \<or> st = PASS \<and> (executed < 1 \<or> failed \<noteq> 0) \<or>
                  st = FAIL \<and> (executed < 1 \<or> failed < 1) then None
               else Some \<lparr>tp_status = st, testsExecuted = executed, testsFailed = failed, tp_evidenceRefs = refs\<rparr>
           | _ \<Rightarrow> None))"

record ReleaseVerificationResultProjection =
  vp_status :: ResultStatus
  checksExecuted :: int
  checksFailed :: int
  blockingReasons :: "string list"
  vp_evidenceRefs :: "string list"

definition MAX_BLOCKING_REASONS :: nat where "MAX_BLOCKING_REASONS = 16"
definition MAX_REASON_CHARS :: int where "MAX_REASON_CHARS = 1000"

definition project_verification :: "(string \<Rightarrow> json option) \<Rightarrow> json \<Rightarrow> ReleaseVerificationResultProjection option" where
  "project_verification parse execution =
     (case parsed_stdout parse execution of
        None \<Rightarrow> None
      | Some payload \<Rightarrow>
          (case (named_value RESULT_STATUSES (map_of payload ''status''), count_value (map_of payload ''checksExecuted''),
                 count_value (map_of payload ''checksFailed''),
                 strict_strings (map_of payload ''blockingReasons'') MAX_BLOCKING_REASONS MAX_REASON_CHARS,
                 strict_strings (map_of payload ''evidenceRefs'') MAX_RESULT_REFS MAX_REFERENCE_CHARS) of
             (Some st, Some executed, Some failed, Some reasons, Some refs) \<Rightarrow>
               if executed < failed \<or> st = PASS \<and> (executed < 1 \<or> failed \<noteq> 0 \<or> reasons \<noteq> []) \<or>
                  st = FAIL \<and> (executed < 1 \<or> failed < 1 \<or> reasons = []) \<or> st = BLOCKED_RESULT \<and> reasons = []
               then None
               else Some \<lparr>vp_status = st, checksExecuted = executed, checksFailed = failed,
                 blockingReasons = reasons, vp_evidenceRefs = refs\<rparr>
           | _ \<Rightarrow> None))"

end
