(* ===== verification/Vito_AgentRuntime.thy ===== *)
theory Vito_AgentRuntime
  imports Vito_StepResults
begin

text \<open>
  Executing the current step of a run through an agent,
  \<open>workflow-agent-runtime.service.ts\<close>, and running steps until a boundary,
  \<open>workflow-agent-runner.service.ts\<close>.  The dispatch to an agent, which ends in the
  governed invocation service, and the services that hand approvals and
  manifests to it are arguments, collected in a record; the text of the prompt is
  left out.  Between the checks and the completion other operations may run:
  the two halves are definitions of their own.
\<close>

section \<open>Interface to the other services\<close>

datatype AgentError = AG_WORKFLOW WorkflowError | AG_ASSIGNMENT_REQUIRED | AG_DISPATCH_FAILED

record AgentDispatch =
  dp_routingDecisionId :: string
  dp_selectedProviderId :: string
  dp_selectedProviderCode :: string
  dp_experienceId :: "string option"
  dp_status :: AgentExecutionStatus
  dp_execution :: json

record AgentEnv =
  ae_task :: "string \<Rightarrow> string \<Rightarrow> bool"
  ae_codeBuildApproval :: "(string \<Rightarrow> string \<Rightarrow> string \<Rightarrow> AgentError + json) option"
  ae_redTeamEvidence :: "(string \<Rightarrow> string \<Rightarrow> string \<Rightarrow> AgentError + json) option"
  ae_correctionContext :: "(string \<Rightarrow> string \<Rightarrow> string \<Rightarrow> AgentError + json) option"
  ae_dispatch :: "string \<Rightarrow> string \<Rightarrow> string \<Rightarrow> string \<Rightarrow> string \<Rightarrow> json option \<Rightarrow> IndependenceContext option \<Rightarrow>
    AgentError + AgentDispatch"
  ae_parse :: "string \<Rightarrow> json option"
  ae_sha256 :: "string \<Rightarrow> string"

section \<open>Execution evidence\<close>

definition MAX_EXECUTION_EVIDENCE_REFERENCES :: nat where "MAX_EXECUTION_EVIDENCE_REFERENCES = 32"
definition MAX_RESULT_SUMMARY_CHARS :: int where "MAX_RESULT_SUMMARY_CHARS = 6000"
definition MAX_CHANGED_FILES :: nat where "MAX_CHANGED_FILES = 64"
definition MAX_CHANGED_FILE_CHARS :: int where "MAX_CHANGED_FILE_CHARS = 512"

definition opt_entry :: "string \<Rightarrow> json option \<Rightarrow> (string \<times> json) list" where
  "opt_entry k v = (case v of None \<Rightarrow> [] | Some x \<Rightarrow> [(k, x)])"

definition list_entry :: "string \<Rightarrow> string list \<Rightarrow> (string \<times> json) list" where
  "list_entry k xs = (if xs = [] then [] else [(k, JArr (map JStr xs))])"

definition hex_char :: "char \<Rightarrow> bool" where
  "hex_char c = (is_digit c \<or> c \<in> set ''abcdef'')"

text \<open>The 40 to 64 hexadecimal digits of a governed revision reference.\<close>

definition revisionSha :: "json option \<Rightarrow> string option" where
  "revisionSha v = (case v of
     Some (JStr s) \<Rightarrow>
       (let sha = drop 15 s in
        if take 15 s = ''gov://revision/'' \<and> 40 \<le> length sha \<and> length sha \<le> 64 \<and> list_all hex_char sha
        then Some sha else None)
   | _ \<Rightarrow> None)"

definition boundedChangedFiles :: "json option \<Rightarrow> string list" where
  "boundedChangedFiles v = bounded_list v MAX_CHANGED_FILES MAX_CHANGED_FILE_CHARS"

definition buildBoundedExecutionResultSummary ::
  "(string \<Rightarrow> string) \<Rightarrow> (string \<times> json) list option \<Rightarrow> int \<Rightarrow> json option" where
  "buildBoundedExecutionResultSummary sha256 metadata maxChars =
     (case field_of metadata ''stdout'' of
        Some (JStr stdout) \<Rightarrow>
          if maxChars < 1 \<or> stdout = [] then None
          else Some (JObj [(''sha256'', JStr (sha256 stdout)), (''content'', JStr (if int (length stdout) \<le> maxChars then stdout else take (nat maxChars) stdout)),
            (''truncated'', JBool (maxChars < int (length stdout))), (''charLength'', JNum (int (length stdout)))])
      | _ \<Rightarrow> None)"

definition summarised_step :: "EngineeringStepType \<Rightarrow> bool" where
  "summarised_step t = (t = TEST \<or> t = PACKAGE \<or> t = VERIFY \<or> t = REMOTE_VERIFY)"

definition revision_entries :: "(string \<times> json) list option \<Rightarrow> (string \<times> json) list option \<Rightarrow> (string \<times> json) list" where
  "revision_entries binding settling = (case revisionSha (field_of binding ''revisionReference'') of
       None \<Rightarrow> []
     | Some sha \<Rightarrow> [(''revision'', JObj [(''baseSha'', JStr sha),
         (''changedFiles'', JArr (map JStr (boundedChangedFiles (field_of settling ''changedFiles''))))])])"

definition executionEvidence ::
  "(string \<Rightarrow> string) \<Rightarrow> json \<Rightarrow> EngineeringStepType \<Rightarrow> (string \<times> json) list" where
  "executionEvidence sha256 execution t =
     (case execution of
        JObj source \<Rightarrow>
          (let str = (\<lambda>k n. map_option JStr (bounded_text (map_of source k) n));
               refs = (\<lambda>k. bounded_list (map_of source k) MAX_EXECUTION_EVIDENCE_REFERENCES MAX_REFERENCE_CHARS);
               providerMetadata = objectValue (map_of source ''providerExecutionMetadata'');
               binding = objectValue (field_of (objectValue (map_of source ''usageMetadata'')) ''governedEvidenceBinding'');
               settling = objectValue (field_of providerMetadata ''governedResultSettling'') in
           opt_entry ''invocationId'' (str ''invocationId'' (int MAX_INVOCATION_ID_CHARS)) @
           opt_entry ''outputReference'' (str ''outputReference'' MAX_REFERENCE_CHARS) @
           list_entry ''artifactReferences'' (refs ''artifactReferences'') @
           list_entry ''evidenceReferences'' (refs ''evidenceReferences'') @
           revision_entries binding settling @
           opt_entry ''resultSummary'' (if summarised_step t
             then buildBoundedExecutionResultSummary sha256 providerMetadata MAX_RESULT_SUMMARY_CHARS else None))
      | _ \<Rightarrow> [])"

definition changedFilesFromExecutionEvidence :: "(string \<times> json) list \<Rightarrow> string list" where
  "changedFilesFromExecutionEvidence evidence =
     boundedChangedFiles (field_of (objectValue (map_of evidence ''revision'')) ''changedFiles'')"

section \<open>Projections as metadata\<close>

fun level_name :: "AssuranceLevel \<Rightarrow> string" where
  "level_name AL1 = ''AL1''" | "level_name AL2 = ''AL2''" | "level_name AL3 = ''AL3''" | "level_name AL4 = ''AL4''"

fun severity_name :: "ReviewFindingSeverity \<Rightarrow> string" where
  "severity_name SEV_INFO = ''INFO''" | "severity_name SEV_LOW = ''LOW''" | "severity_name SEV_MEDIUM = ''MEDIUM''"
| "severity_name SEV_HIGH = ''HIGH''" | "severity_name SEV_CRITICAL = ''CRITICAL''"

fun category_name :: "ReviewFindingCategory \<Rightarrow> string" where
  "category_name CORRECTNESS = ''CORRECTNESS''" | "category_name SECURITY = ''SECURITY''"
| "category_name ARCHITECTURE = ''ARCHITECTURE''" | "category_name TESTING = ''TESTING''"
| "category_name MAINTAINABILITY = ''MAINTAINABILITY''" | "category_name GOVERNANCE = ''GOVERNANCE''"
| "category_name OTHER = ''OTHER''"

fun result_name :: "ResultStatus \<Rightarrow> string" where
  "result_name PASS = ''PASS''" | "result_name FAIL = ''FAIL''" | "result_name BLOCKED_RESULT = ''BLOCKED''"

definition finding_json :: "ReviewFinding \<Rightarrow> json" where
  "finding_json f = JObj [(''id'', JStr (findingId f)), (''severity'', JStr (severity_name (severity f))),
     (''category'', JStr (category_name (category f))), (''summary'', JStr (summary f)),
     (''evidenceRefs'', JArr (map JStr (evidenceRefs f))), (''blocking'', JBool (blocking f))]"

definition review_json :: "ReviewResult \<Rightarrow> json" where
  "review_json r = JObj [(''verdict'', JStr (verdict_name (rr_verdict r))),
     (''findings'', JArr (map finding_json (findings r))), (''reviewerExecutionId'', JStr (reviewerExecutionId r)),
     (''assuranceLevel'', JStr (level_name (rr_assuranceLevel r))), (''artifactRefs'', JArr (map JStr (artifactRefs r)))]"

definition test_json :: "TestResultProjection \<Rightarrow> json" where
  "test_json r = JObj [(''status'', JStr (result_name (tp_status r))), (''testsExecuted'', JNum (testsExecuted r)),
     (''testsFailed'', JNum (testsFailed r)), (''evidenceRefs'', JArr (map JStr (tp_evidenceRefs r)))]"

definition verification_json :: "ReleaseVerificationResultProjection \<Rightarrow> json" where
  "verification_json r = JObj [(''status'', JStr (result_name (vp_status r))), (''checksExecuted'', JNum (checksExecuted r)),
     (''checksFailed'', JNum (checksFailed r)), (''blockingReasons'', JArr (map JStr (blockingReasons r))),
     (''evidenceRefs'', JArr (map JStr (vp_evidenceRefs r)))]"

section \<open>Before the dispatch\<close>

record PreparedStep =
  pp_run :: WorkflowRun
  pp_step :: WorkflowStepRun
  pp_capabilityCode :: string
  pp_codeBuildApproval :: "json option"
  pp_redTeamManifest :: "json option"
  pp_correctionManifest :: "json option"

definition resolve_when ::
  "bool \<Rightarrow> WorkflowError \<Rightarrow> (string \<Rightarrow> string \<Rightarrow> string \<Rightarrow> AgentError + json) option \<Rightarrow>
   string \<Rightarrow> string \<Rightarrow> string \<Rightarrow> AgentError + json option" where
  "resolve_when needed missing resolver org rid sid =
     (if \<not> needed then Inr None
      else case resolver of
        None \<Rightarrow> Inl (AG_WORKFLOW missing)
      | Some f \<Rightarrow> (case f org rid sid of Inl e \<Rightarrow> Inl e | Inr m \<Rightarrow> Inr (Some m)))"

text \<open>The READY step of the current type, and what it needs; no value for a step no agent executes.\<close>

definition prepare_step ::
  "AgentEnv \<Rightarrow> string \<Rightarrow> string \<Rightarrow> WorkflowDb \<Rightarrow> AgentError + (WorkflowStepRun + PreparedStep)" where
  "prepare_step env org rid db =
     (case find_run db org rid of
        None \<Rightarrow> Inl (AG_WORKFLOW WF_NOT_FOUND)
      | Some run \<Rightarrow>
          (case wr_currentStepType run of
             None \<Rightarrow> Inl (AG_WORKFLOW WF_CONFLICT)
           | Some t \<Rightarrow>
          bindE (guardE (wr_status run \<noteq> RUN_RUNNING) (AG_WORKFLOW WF_CONFLICT)) (\<lambda>_.
          case latest_by sr_startedAt (steps_where org rid t STEP_READY db) of
            None \<Rightarrow> Inl (AG_WORKFLOW WF_CONFLICT)
          | Some st \<Rightarrow>
              (case capabilityForStep (sr_stepType st) of
                 None \<Rightarrow> Inr (Inl st)
               | Some code \<Rightarrow>
                   bindE (resolve_when (code = ''CODE_BUILD'') WF_FORBIDDEN (ae_codeBuildApproval env) org rid (sr_id st)) (\<lambda>approval.
                   bindE (guardE (\<not> truthy (wr_taskId run)) (AG_WORKFLOW WF_CONFLICT)) (\<lambda>_.
                   bindE (guardE (\<not> ae_task env (the (wr_taskId run)) org) (AG_WORKFLOW WF_NOT_FOUND)) (\<lambda>_.
                   bindE (resolve_when (sr_stepType st = RED_TEAM) WF_CONFLICT (ae_redTeamEvidence env) org rid (sr_id st)) (\<lambda>redTeam.
                   bindE (resolve_when (sr_stepType st = CORRECTION) WF_CONFLICT (ae_correctionContext env) org rid (sr_id st)) (\<lambda>correction.
                   Inr (Inr \<lparr>pp_run = run, pp_step = st, pp_capabilityCode = code, pp_codeBuildApproval = approval,
                     pp_redTeamManifest = redTeam, pp_correctionManifest = correction\<rparr>))))))))))"

section \<open>After the dispatch\<close>

datatype Disposition =
    NON_AGENT_STEP | EXECUTION_BLOCKED | EXECUTION_INCOMPLETE | REVIEW_RESULT_INVALID
  | VERIFICATION_RESULT_INVALID | CORRECTION_RESULT_INVALID | TEST_RESULT_INVALID | TRANSITIONED

fun toWorkflowCompletionStatus :: "AgentExecutionStatus \<Rightarrow> StepResult option" where
  "toWorkflowCompletionStatus AES_SUCCEEDED = Some SUCCEEDED"
| "toWorkflowCompletionStatus AES_FAILED = Some STEP_RESULT_FAILED"
| "toWorkflowCompletionStatus AES_TIMED_OUT = Some STEP_RESULT_FAILED"
| "toWorkflowCompletionStatus AES_CANCELLED = Some STEP_RESULT_FAILED"
| "toWorkflowCompletionStatus _ = None"

definition agent_completion ::
  "string \<Rightarrow> string \<Rightarrow> string \<Rightarrow> StepResult \<Rightarrow> AgentExecutionStatus option \<Rightarrow> (string \<times> json) list \<Rightarrow> CompleteStepInput" where
  "agent_completion org rid sid res provider metadata = \<lparr>ci_organizationId = org, ci_workflowRunId = rid,
     ci_workflowStepRunId = sid, ci_stepStatus = res, ci_providerStatus = provider, ci_verdict = None,
     ci_reviewResults = None, ci_independenceContext = None, ci_humanApproved = None, ci_metadata = Some metadata\<rparr>"

definition agent_metadata :: "string \<Rightarrow> AgentDispatch \<Rightarrow> (string \<times> json) list \<Rightarrow> (string \<times> json) list" where
  "agent_metadata code d evidence =
     [(''source'', JStr ''WORKFLOW_AGENT_RUNTIME''), (''capabilityCode'', JStr code),
      (''routingDecisionId'', JStr (dp_routingDecisionId d)), (''selectedProviderId'', JStr (dp_selectedProviderId d)),
      (''selectedProviderCode'', JStr (dp_selectedProviderCode d)), (''experienceId'', opt_json (dp_experienceId d)),
      (''executionStatus'', JStr (status_name (dp_status d))), (''executionEvidence'', JObj evidence)]"

definition verifies :: "EngineeringStepType \<Rightarrow> bool" where
  "verifies t = (t = VERIFY \<or> t = REMOTE_VERIFY)"

text \<open>What the result of the dispatch means for the step.\<close>

definition step_disposition :: "AgentEnv \<Rightarrow> PreparedStep \<Rightarrow> AgentDispatch \<Rightarrow> Disposition" where
  "step_disposition env p d =
     (let t = sr_stepType (pp_step p); e = dp_execution d;
          succeeded = (toWorkflowCompletionStatus (dp_status d) = Some SUCCEEDED) in
      if provider_blocks (Some (dp_status d)) then EXECUTION_BLOCKED
      else if toWorkflowCompletionStatus (dp_status d) = None then EXECUTION_INCOMPLETE
      else if t = RED_TEAM \<and> succeeded \<and> project_review (ae_parse env) e (wr_assuranceLevel (pp_run p)) = None
      then REVIEW_RESULT_INVALID
      else if verifies t \<and> succeeded \<and> \<not> option_test (\<lambda>v. vp_status v = PASS) (project_verification (ae_parse env) e)
      then VERIFICATION_RESULT_INVALID
      else if t = CORRECTION \<and> succeeded \<and> changedFilesFromExecutionEvidence (executionEvidence (ae_sha256 env) e t) = []
      then CORRECTION_RESULT_INVALID
      else if t = TEST \<and> succeeded \<and> \<not> option_test (\<lambda>v. tp_status v = PASS) (project_test (ae_parse env) e)
      then TEST_RESULT_INVALID
      else TRANSITIONED)"

text \<open>The metadata of a report beyond the common part, and what it reports.\<close>

definition review_entries :: "ReviewResult option \<Rightarrow> (string \<times> json) list" where
  "review_entries v = (case v of None \<Rightarrow> []
     | Some r \<Rightarrow> [(''reviewProjectionStatus'', JStr ''VALID''), (''reviewResult'', review_json r)])"

definition test_entries :: "TestResultProjection option \<Rightarrow> (string \<times> json) list" where
  "test_entries v = (case v of None \<Rightarrow> []
     | Some r \<Rightarrow> [(''testResultProjectionStatus'', JStr ''VALID''), (''testResult'', test_json r)])"

definition verification_entries :: "ReleaseVerificationResultProjection option \<Rightarrow> (string \<times> json) list" where
  "verification_entries v = (case v of None \<Rightarrow> []
     | Some r \<Rightarrow> [(''verificationResultProjectionStatus'', JStr ''VALID''),
         (''verificationResultStatus'', JStr (result_name (vp_status r))), (''verificationResult'', verification_json r)])"

definition rejected_verification_entries :: "ReleaseVerificationResultProjection option \<Rightarrow> (string \<times> json) list" where
  "rejected_verification_entries v = (case v of
       None \<Rightarrow> [(''verificationResultProjectionStatus'', JStr ''INVALID''), (''verificationResultStatus'', JStr ''INVALID'')]
     | Some r \<Rightarrow> [(''verificationResultProjectionStatus'', JStr ''REJECTED''),
         (''verificationResultStatus'', JStr (result_name (vp_status r))), (''verificationResult'', verification_json r)])"

definition rejected_test_entries :: "TestResultProjection option \<Rightarrow> (string \<times> json) list" where
  "rejected_test_entries v = (case v of
       None \<Rightarrow> [(''testResultProjectionStatus'', JStr ''INVALID''), (''testResultStatus'', JStr ''INVALID'')]
     | Some r \<Rightarrow> [(''testResultProjectionStatus'', JStr ''REJECTED''),
         (''testResultStatus'', JStr (result_name (tp_status r))), (''testResult'', test_json r)])"

definition report_entries :: "AgentEnv \<Rightarrow> PreparedStep \<Rightarrow> AgentDispatch \<Rightarrow> (string \<times> json) list" where
  "report_entries env p d =
     (let t = sr_stepType (pp_step p); e = dp_execution d;
          succeeded = (toWorkflowCompletionStatus (dp_status d) = Some SUCCEEDED);
          redTeam = opt_entry ''redTeamEvidenceManifest'' (pp_redTeamManifest p);
          correction = opt_entry ''correctionContextManifest'' (pp_correctionManifest p) in
      case step_disposition env p d of
        EXECUTION_BLOCKED \<Rightarrow> redTeam @ correction
      | REVIEW_RESULT_INVALID \<Rightarrow> redTeam @ correction @ [(''reviewProjectionStatus'', JStr ''INVALID'')]
      | VERIFICATION_RESULT_INVALID \<Rightarrow> rejected_verification_entries (project_verification (ae_parse env) e)
      | CORRECTION_RESULT_INVALID \<Rightarrow> [(''correctionResultProjectionStatus'', JStr ''REJECTED''),
          (''correctionResultStatus'', JStr ''EMPTY_CHANGESET'')] @ correction
      | TEST_RESULT_INVALID \<Rightarrow> rejected_test_entries (project_test (ae_parse env) e) @ redTeam @ correction
      | TRANSITIONED \<Rightarrow> redTeam @ correction @
          review_entries (if t = RED_TEAM \<and> succeeded
            then project_review (ae_parse env) e (wr_assuranceLevel (pp_run p)) else None) @
          test_entries (if t = TEST \<and> succeeded then project_test (ae_parse env) e else None) @
          verification_entries (if verifies t \<and> succeeded then project_verification (ae_parse env) e else None)
      | _ \<Rightarrow> [])"

definition reported_result :: "Disposition \<Rightarrow> AgentExecutionStatus \<Rightarrow> (StepResult \<times> AgentExecutionStatus option) option" where
  "reported_result disp status = (case disp of
       EXECUTION_INCOMPLETE \<Rightarrow> None
     | EXECUTION_BLOCKED \<Rightarrow> Some (STEP_RESULT_FAILED, Some status)
     | TRANSITIONED \<Rightarrow> map_option (\<lambda>res. (res, None)) (toWorkflowCompletionStatus status)
     | _ \<Rightarrow> Some (STEP_RESULT_FAILED, None))"

definition step_report :: "AgentEnv \<Rightarrow> string \<Rightarrow> string \<Rightarrow> PreparedStep \<Rightarrow> AgentDispatch \<Rightarrow> CompleteStepInput option" where
  "step_report env org rid p d =
     map_option (\<lambda>(res, provider). agent_completion org rid (sr_id (pp_step p)) res provider
       (agent_metadata (pp_capabilityCode p) d (executionEvidence (ae_sha256 env) (dp_execution d) (sr_stepType (pp_step p))) @
        report_entries env p d))
     (reported_result (step_disposition env p d) (dp_status d))"

record StepExecution =
  se_disposition :: Disposition
  se_workflowStepRunId :: string
  se_transition :: "CompleteStepResult option"

definition finish_step ::
  "AgentEnv \<Rightarrow> int \<Rightarrow> string \<Rightarrow> string \<Rightarrow> string \<Rightarrow> PreparedStep \<Rightarrow> AgentDispatch \<Rightarrow> WorkflowDb \<Rightarrow>
   WorkflowDb \<times> (AgentError + StepExecution)" where
  "finish_step env now newId org rid p d db =
     (let disp = step_disposition env p d in
      case step_report env org rid p d of
        None \<Rightarrow> (db, Inr \<lparr>se_disposition = disp, se_workflowStepRunId = sr_id (pp_step p), se_transition = None\<rparr>)
      | Some input \<Rightarrow>
          (case completeStep now newId input db of
             (db', Inl e) \<Rightarrow> (db', Inl (AG_WORKFLOW e))
           | (db', Inr res) \<Rightarrow>
               (db', Inr \<lparr>se_disposition = disp, se_workflowStepRunId = sr_id (pp_step p), se_transition = Some res\<rparr>)))"

definition dispatch_step :: "AgentEnv \<Rightarrow> string \<Rightarrow> string \<Rightarrow> PreparedStep \<Rightarrow> AgentError + AgentDispatch" where
  "dispatch_step env org rid p = ae_dispatch env org rid (sr_id (pp_step p)) (pp_capabilityCode p)
     (wr_assuranceLevel (pp_run p)) (pp_codeBuildApproval p) None"

definition executeCurrentStep ::
  "AgentEnv \<Rightarrow> int \<Rightarrow> string \<Rightarrow> string \<Rightarrow> string \<Rightarrow> WorkflowDb \<Rightarrow> WorkflowDb \<times> (AgentError + StepExecution)" where
  "executeCurrentStep env now newId org rid db =
     (case prepare_step env org rid db of
        Inl e \<Rightarrow> (db, Inl e)
      | Inr (Inl st) \<Rightarrow> (db, Inr \<lparr>se_disposition = NON_AGENT_STEP, se_workflowStepRunId = sr_id st, se_transition = None\<rparr>)
      | Inr (Inr p) \<Rightarrow>
          (case dispatch_step env org rid p of
             Inl e \<Rightarrow> (db, Inl e)
           | Inr d \<Rightarrow> finish_step env now newId org rid p d db))"

section \<open>Running until a boundary\<close>

definition MAX_AUTONOMOUS_STEPS :: nat where
  "MAX_AUTONOMOUS_STEPS = 8"

datatype Boundary =
    ASSIGNMENT_BOUNDARY | DISPOSITION_BOUNDARY Disposition | WORKFLOW_BOUNDARY TransitionOutcome
  | WORKFLOW_INDETERMINATE | AUTONOMY_BUDGET_EXHAUSTED

text \<open>
  The loop; \<open>n\<close> is the rest of the budget, \<open>done\<close> the executions so far, newest last.
  The environment, the clock and the new identifier are given for each round.
\<close>

fun run_steps ::
  "nat \<Rightarrow> (nat \<Rightarrow> AgentEnv \<times> int \<times> string) \<Rightarrow> string \<Rightarrow> string \<Rightarrow> StepExecution list \<Rightarrow> WorkflowDb \<Rightarrow>
   WorkflowDb \<times> (AgentError + Boundary \<times> StepExecution list)" where
  "run_steps 0 world org rid done db = (db, Inr (AUTONOMY_BUDGET_EXHAUSTED, done))"
| "run_steps (Suc n) world org rid done db =
     (case world (length done) of (env, now, newId) \<Rightarrow>
      (case executeCurrentStep env now newId org rid db of
         (db', Inl AG_ASSIGNMENT_REQUIRED) \<Rightarrow> (db', Inr (ASSIGNMENT_BOUNDARY, done))
       | (db', Inl e) \<Rightarrow> (db', Inl e)
       | (db', Inr x) \<Rightarrow>
           if se_disposition x \<noteq> TRANSITIONED then (db', Inr (DISPOSITION_BOUNDARY (se_disposition x), done @ [x]))
           else (case Option.bind (se_transition x) cr_outcome of
                   Some (NEXT_STEP t) \<Rightarrow> run_steps n world org rid (done @ [x]) db'
                 | Some out \<Rightarrow> (db', Inr (WORKFLOW_BOUNDARY out, done @ [x]))
                 | None \<Rightarrow> (db', Inr (WORKFLOW_INDETERMINATE, done @ [x])))))"

definition executeUntilBoundary ::
  "(nat \<Rightarrow> AgentEnv \<times> int \<times> string) \<Rightarrow> string \<Rightarrow> string \<Rightarrow> WorkflowDb \<Rightarrow>
   WorkflowDb \<times> (AgentError + Boundary \<times> StepExecution list)" where
  "executeUntilBoundary world org rid = run_steps MAX_AUTONOMOUS_STEPS world org rid []"

section \<open>What a completion changes\<close>

lemma completeStep_effect:
  assumes "completeStep now newId input db = (db', res)" "\<not> same_tables db db'"
  shows "\<exists>st. complete_tx now newId input st db = (db', res)"
  using assms by (auto simp: completeStep_def complete_precheck_def split: option.splits if_splits)

lemma completeStep_steps:
  assumes c: "completeStep now newId input db = (db', res)" and x: "x \<in> set (db_steps db')" "x \<notin> set (db_steps db)"
  shows "sr_status x = STEP_READY \<or>
    (\<exists>s \<in> set (db_steps db). sr_id s = ci_workflowStepRunId input \<and> sr_status s = STEP_READY \<and> x = claimed now input s)"
proof -
  have d: "\<not> same_tables db db'" using x by (auto simp: same_tables_def)
  from completeStep_effect [OF c d] obtain st where "complete_tx now newId input st db = (db', res)" ..
  from complete_tx_effect [OF this d] obtain r s out where
    s: "find_step db (ci_organizationId input) (ci_workflowRunId input) (ci_workflowStepRunId input) = Some s"
    and steps: "db_steps db' = map (\<lambda>x. if sr_id x = sr_id s \<and> sr_status x = STEP_READY then claimed now input x else x)
      (db_steps db) @ next_steps newId input s now out" by blast
  have "sr_id s = ci_workflowStepRunId input" using find_step_SomeD [OF s] by simp
  moreover have "sr_status n = STEP_READY" if "n \<in> set (next_steps newId input s now out)" for n
    by (cases out) (use that in auto)
  ultimately show ?thesis using x steps by (auto split: if_splits)
qed

section \<open>What a report rests on\<close>

lemma project_test_Some:
  "project_test parse e = Some v \<Longrightarrow> tp_status v = PASS \<Longrightarrow> 1 \<le> testsExecuted v \<and> testsFailed v = 0"
  by (auto simp: project_test_def split: option.splits if_splits)

lemma project_verification_Some:
  "project_verification parse e = Some v \<Longrightarrow> vp_status v = PASS \<Longrightarrow>
   1 \<le> checksExecuted v \<and> checksFailed v = 0 \<and> blockingReasons v = []"
  by (auto simp: project_verification_def split: option.splits if_splits)

lemma review_findings_length: "review_findings vs = Some fs \<Longrightarrow> length fs = length vs"
  by (induction vs arbitrary: fs) (auto split: option.splits)

lemma project_review_Some:
  assumes "project_review parse e level = Some r"
  shows "boundedString (field_of (objectValue (Some e)) ''invocationId'') MAX_INVOCATION_ID_CHARS = Some (reviewerExecutionId r) \<and>
   normalizeAssuranceLevel level = Some (rr_assuranceLevel r) \<and> length (findings r) \<le> MAX_FINDINGS"
proof -
  from assms obtain i payload al v vs fs where
    "boundedString (field_of (objectValue (Some e)) ''invocationId'') MAX_INVOCATION_ID_CHARS = Some i"
    "normalizeAssuranceLevel level = Some al" "\<not> MAX_FINDINGS < length vs" "review_findings vs = Some fs"
    "reviewerExecutionId r = i" "rr_assuranceLevel r = al" "findings r = fs"
    by (auto simp: project_review_def Let_def split: option.splits json.splits if_splits)
  then show ?thesis using review_findings_length by simp
qed

text \<open>What the output of a succeeded execution has to show, by the type of the step.\<close>

definition output_supports :: "AgentEnv \<Rightarrow> string \<Rightarrow> EngineeringStepType \<Rightarrow> json \<Rightarrow> bool" where
  "output_supports env level t e =
     ((t = TEST \<longrightarrow> (\<exists>v. project_test (ae_parse env) e = Some v \<and> tp_status v = PASS \<and>
         1 \<le> testsExecuted v \<and> testsFailed v = 0)) \<and>
      (verifies t \<longrightarrow> (\<exists>v. project_verification (ae_parse env) e = Some v \<and> vp_status v = PASS \<and>
         1 \<le> checksExecuted v \<and> checksFailed v = 0 \<and> blockingReasons v = [])) \<and>
      (t = RED_TEAM \<longrightarrow> (\<exists>r. project_review (ae_parse env) e level = Some r \<and>
         field_of (objectValue (Some e)) ''invocationId'' = Some (JStr (reviewerExecutionId r)) \<and>
         normalizeAssuranceLevel level = Some (rr_assuranceLevel r))) \<and>
      (t = CORRECTION \<longrightarrow> changedFilesFromExecutionEvidence (executionEvidence (ae_sha256 env) e t) \<noteq> []))"

lemma agent_completion_simps [simp]:
  "ci_organizationId (agent_completion org rid sid res pv m) = org"
  "ci_workflowRunId (agent_completion org rid sid res pv m) = rid"
  "ci_workflowStepRunId (agent_completion org rid sid res pv m) = sid"
  "ci_stepStatus (agent_completion org rid sid res pv m) = res"
  "ci_providerStatus (agent_completion org rid sid res pv m) = pv"
  "ci_humanApproved (agent_completion org rid sid res pv m) = None"
  by (simp_all add: agent_completion_def)

lemma completion_succeeded: "toWorkflowCompletionStatus st = Some SUCCEEDED \<Longrightarrow> st = AES_SUCCEEDED"
  by (cases st) auto

lemma step_report_shape:
  "step_report env org rid p d = Some input \<Longrightarrow>
   ci_organizationId input = org \<and> ci_workflowRunId input = rid \<and> ci_workflowStepRunId input = sr_id (pp_step p) \<and>
   ci_humanApproved input = None"
  by (auto simp: step_report_def)

lemma bounded_JStr: "boundedString v n = Some s \<Longrightarrow> v = Some (JStr s)"
  by (auto simp: boundedString_def split: option.splits json.splits if_splits)

lemma step_report_succeeded:
  assumes s: "step_report env org rid p d = Some input" and t: "target_status input = STEP_SUCCEEDED"
  shows "step_disposition env p d = TRANSITIONED \<and> dp_status d = AES_SUCCEEDED"
proof -
  from s obtain res pv m where r: "reported_result (step_disposition env p d) (dp_status d) = Some (res, pv)"
    "input = agent_completion org rid (sr_id (pp_step p)) res pv m" by (auto simp: step_report_def)
  with t have "res = SUCCEEDED" by (simp add: target_status_def split: if_splits)
  with r(1) show ?thesis by (auto simp: reported_result_def completion_succeeded split: Disposition.splits)
qed

lemma option_test_Some: "option_test P v \<Longrightarrow> \<exists>x. v = Some x \<and> P x"
  by (cases v) auto

lemma transitioned_supports:
  assumes d: "step_disposition env p d = TRANSITIONED" and s: "dp_status d = AES_SUCCEEDED"
  shows "output_supports env (wr_assuranceLevel (pp_run p)) (sr_stepType (pp_step p)) (dp_execution d)"
proof -
  let ?t = "sr_stepType (pp_step p)" and ?e = "dp_execution d"
  have nb: "\<not> provider_blocks (Some AES_SUCCEEDED)" by (simp add: provider_blocks_def)
  note D = d [unfolded step_disposition_def Let_def s toWorkflowCompletionStatus.simps, simplified nb]
  have "project_review (ae_parse env) ?e (wr_assuranceLevel (pp_run p)) \<noteq> None" if "?t = RED_TEAM"
    using D that by (auto split: if_splits)
  moreover have "option_test (\<lambda>v. vp_status v = PASS) (project_verification (ae_parse env) ?e)" if "verifies ?t"
    using D that by (auto split: if_splits)
  moreover have "option_test (\<lambda>v. tp_status v = PASS) (project_test (ae_parse env) ?e)" if "?t = TEST"
    using D that by (auto split: if_splits)
  moreover have "changedFilesFromExecutionEvidence (executionEvidence (ae_sha256 env) ?e ?t) \<noteq> []" if "?t = CORRECTION"
    using D that by (auto split: if_splits)
  ultimately show ?thesis
    unfolding output_supports_def
    by (auto dest!: option_test_Some dest: project_review_Some project_test_Some project_verification_Some bounded_JStr)
qed

lemma prepare_step_Inr:
  assumes "prepare_step env org rid db = Inr (Inr p)"
  shows "find_run db org rid = Some (pp_run p) \<and> wr_status (pp_run p) = RUN_RUNNING \<and>
    wr_currentStepType (pp_run p) = Some (sr_stepType (pp_step p)) \<and> pp_step p \<in> set (steps_of rid db) \<and>
    sr_organizationId (pp_step p) = org \<and> sr_status (pp_step p) = STEP_READY \<and>
    capabilityForStep (sr_stepType (pp_step p)) = Some (pp_capabilityCode p)"
proof -
  from assms obtain run t st code where
    "find_run db org rid = Some run" "wr_currentStepType run = Some t" "wr_status run = RUN_RUNNING"
    and l: "latest_by sr_startedAt (steps_where org rid t STEP_READY db) = Some st"
    and "capabilityForStep (sr_stepType st) = Some code" "pp_run p = run" "pp_step p = st" "pp_capabilityCode p = code"
    by (auto simp: prepare_step_def split: option.splits)
  with latest_step [OF l] show ?thesis by simp
qed

lemma executeCurrentStep_effect:
  "executeCurrentStep env now newId org rid db = (db', res) \<Longrightarrow> db' = db \<or>
   (\<exists>p d input res'. prepare_step env org rid db = Inr (Inr p) \<and> dispatch_step env org rid p = Inr d \<and>
      step_report env org rid p d = Some input \<and> completeStep now newId input db = (db', res'))"
  by (auto simp: executeCurrentStep_def finish_step_def Let_def split: sum.splits option.splits prod.splits)

text \<open>An execution after which the runner goes on.\<close>

definition advanced :: "StepExecution \<Rightarrow> bool" where
  "advanced x = (se_disposition x = TRANSITIONED \<and> (\<exists>t. Option.bind (se_transition x) cr_outcome = Some (NEXT_STEP t)))"

definition agent_op :: "string \<Rightarrow> string \<Rightarrow> wf_op \<Rightarrow> bool" where
  "agent_op org rid p = (\<exists>now newId i. p = WfComplete now newId i \<and> ci_organizationId i = org \<and>
     ci_workflowRunId i = rid \<and> ci_humanApproved i = None)"

lemma executeCurrentStep_op:
  assumes "executeCurrentStep env now newId org rid db = (db', res)"
  shows "\<exists>ops. length ops \<le> 1 \<and> fold wf_step ops (db, reg) = (db', reg) \<and> list_all (agent_op org rid) ops"
proof (cases "db' = db")
  case True
  then show ?thesis by (intro exI [of _ "[]"]) simp
next
  case False
  with executeCurrentStep_effect [OF assms] obtain p d input res' where
    "step_report env org rid p d = Some input" "completeStep now newId input db = (db', res')" by auto
  with step_report_shape show ?thesis
    by (intro exI [of _ "[WfComplete now newId input]"]) (auto simp: agent_op_def)
qed

lemma run_steps_round:
  assumes "run_steps (Suc n) world org rid done db = (db', res)" and "world (length done) = (env, now, newId)"
    and "executeCurrentStep env now newId org rid db = (db1, r1)"
  shows "db' = db1 \<and> (\<exists>e. res = Inl e) \<or> db' = db1 \<and> res = Inr (ASSIGNMENT_BOUNDARY, done) \<or>
    (\<exists>x b. db' = db1 \<and> res = Inr (b, done @ [x]) \<and> \<not> advanced x \<and> b \<noteq> AUTONOMY_BUDGET_EXHAUSTED) \<or>
    (\<exists>x. advanced x \<and> run_steps n world org rid (done @ [x]) db1 = (db', res))"
proof (cases r1)
  case (Inl e)
  with assms show ?thesis by (cases e) auto
next
  case (Inr x)
  show ?thesis
  proof (cases "Option.bind (se_transition x) cr_outcome")
    case None
    with assms Inr show ?thesis by (auto simp: advanced_def split: if_splits)
  next
    case (Some out)
    then show ?thesis using assms Inr by (cases out) (auto simp: advanced_def split: if_splits)
  qed
qed

lemma run_steps_bounded:
  assumes "run_steps n world org rid done db = (db', res)" and "\<forall>x \<in> set done. advanced x"
  shows "\<exists>ops. length ops \<le> n \<and> fold wf_step ops (db, reg) = (db', reg) \<and> list_all (agent_op org rid) ops \<and>
    (\<forall>b xs. res = Inr (b, xs) \<longrightarrow> length xs \<le> n + length done \<and>
      (b = AUTONOMY_BUDGET_EXHAUSTED \<longleftrightarrow> length xs = n + length done \<and> (\<forall>x \<in> set xs. advanced x)))"
  using assms
proof (induction n arbitrary: "done" db)
  case 0
  then show ?case by (intro exI [of _ "[]"]) auto
next
  case (Suc n)
  obtain env now newId where w: "world (length done) = (env, now, newId)" by (metis prod_cases3)
  obtain db1 r1 where e: "executeCurrentStep env now newId org rid db = (db1, r1)" by fastforce
  from executeCurrentStep_op [OF e, of reg] obtain ops1 where
    o1: "length ops1 \<le> 1" "fold wf_step ops1 (db, reg) = (db1, reg)" "list_all (agent_op org rid) ops1" by auto
  show ?case
  proof (cases "\<exists>x. advanced x \<and> run_steps n world org rid (done @ [x]) db1 = (db', res)")
    case True
    then obtain x where x: "advanced x" "run_steps n world org rid (done @ [x]) db1 = (db', res)" by auto
    with Suc.prems(2) have "\<forall>y \<in> set (done @ [x]). advanced y" by auto
    from Suc.IH [OF x(2) this] obtain ops where
      o: "length ops \<le> n" "fold wf_step ops (db1, reg) = (db', reg)" "list_all (agent_op org rid) ops"
      and b: "\<forall>b xs. res = Inr (b, xs) \<longrightarrow> length xs \<le> n + length (done @ [x]) \<and>
        (b = AUTONOMY_BUDGET_EXHAUSTED \<longleftrightarrow> length xs = n + length (done @ [x]) \<and> (\<forall>x \<in> set xs. advanced x))" by auto
    show ?thesis using o o1 b by (intro exI [of _ "ops1 @ ops"]) auto
  next
    case False
    with run_steps_round [OF Suc.prems(1) w e] have "db' = db1"
      "(\<exists>e. res = Inl e) \<or> res = Inr (ASSIGNMENT_BOUNDARY, done) \<or>
       (\<exists>x b. res = Inr (b, done @ [x]) \<and> \<not> advanced x \<and> b \<noteq> AUTONOMY_BUDGET_EXHAUSTED)" by auto
    with o1 show ?thesis by (intro exI [of _ ops1]) auto
  qed
qed

lemma latest_by_fold_Some:
  "fold (\<lambda>s acc. case acc of None \<Rightarrow> Some s | Some m \<Rightarrow> if not_older (k s) (k m) then Some s else acc) xs (Some a) \<noteq> None"
  by (induction xs arbitrary: a) auto

lemma latest_by_exists: "xs \<noteq> [] \<Longrightarrow> \<exists>s. latest_by k xs = Some s"
  by (cases xs) (use latest_by_fold_Some in \<open>auto simp: latest_by_def\<close>)

lemma ready_step_found:
  assumes ok: "wf_ok A db" and f: "find_run db org rid = Some r" "wr_status r = RUN_RUNNING" "wr_currentStepType r = Some t"
  shows "\<exists>st. latest_by sr_startedAt (steps_where org rid t STEP_READY db) = Some st \<and> sr_stepType st = t"
proof -
  have wf: "run_wf A r (steps_of rid db)" by (rule run_wf_found [OF ok f(1)])
  with f obtain s where s: "filter live (steps_of rid db) = [s]" "sr_stepType s = t" "sr_status s = STEP_READY"
    by (auto simp: run_wf_def run_shape_cases)
  have "s \<in> set (steps_of rid db)" using filter_single(1) [OF s(1)] by simp
  with wf s find_run_SomeD [OF f(1)] have "s \<in> set (steps_where org rid t STEP_READY db)"
    by (auto simp: run_wf_def steps_of_def steps_where_def)
  then obtain st where "latest_by sr_startedAt (steps_where org rid t STEP_READY db) = Some st"
    using latest_by_exists by (metis empty_iff empty_set)
  with latest_step [OF this] show ?thesis by auto
qed

section \<open>A sample agent\<close>

definition sample_output :: json where
  "sample_output = JObj [(''status'', JStr ''PASS''), (''testsExecuted'', JNum 2), (''testsFailed'', JNum 0),
     (''checksExecuted'', JNum 3), (''checksFailed'', JNum 0), (''blockingReasons'', JArr []), (''evidenceRefs'', JArr []),
     (''verdict'', JStr ''A''), (''findings'', JArr [])]"

definition sample_dispatch :: AgentDispatch where
  "sample_dispatch = \<lparr>dp_routingDecisionId = ''d'', dp_selectedProviderId = ''p'', dp_selectedProviderCode = ''c'',
     dp_experienceId = None, dp_status = AES_SUCCEEDED,
     dp_execution = JObj [(''invocationId'', JStr ''i''), (''providerExecutionMetadata'', JObj [(''stdout'', JStr ''out'')])]\<rparr>"

definition sample_env :: AgentEnv where
  "sample_env = \<lparr>ae_task = (\<lambda>_ _. True), ae_codeBuildApproval = None, ae_redTeamEvidence = Some (\<lambda>_ _ _. Inr (JObj [])),
     ae_correctionContext = None, ae_dispatch = (\<lambda>_ _ _ _ _ _ _. Inr sample_dispatch),
     ae_parse = (\<lambda>_. Some sample_output), ae_sha256 = (\<lambda>s. s)\<rparr>"

definition sample_task_history :: "wf_op list" where
  "sample_task_history = [WfCreate 0 ''r'' ''c'' (sample_run_input\<lparr>cw_taskId := Some ''t''\<rparr>), WfStart 1 ''s1'' ''o'' ''r'',
     WfComplete 2 ''s2'' (sample_completion ''s1''), WfComplete 3 ''s3'' (sample_completion ''s2'')]"

definition sample_world :: "nat \<Rightarrow> AgentEnv \<times> int \<times> string" where
  "sample_world n = (sample_env, 10 + int n, replicate (Suc n) (CHR ''x''))"

lemma sample_task_admissible: "list_all (wf_admissible A) sample_task_history"
  by (simp add: sample_task_history_def sample_completion_def)

lemma sample_test_executed:
  "map (\<lambda>s. (sr_id s, sr_stepType s, sr_status s))
     (db_steps (fst (executeCurrentStep sample_env 9 ''s4'' ''o'' ''r'' (fst (fold wf_step sample_task_history empty_runtime))))) =
     [(''s1'', PLAN, STEP_SUCCEEDED), (''s2'', BUILD, STEP_SUCCEEDED), (''s3'', TEST, STEP_SUCCEEDED), (''s4'', PACKAGE, STEP_READY)] \<and>
   map (\<lambda>s. (sr_id s, sr_stepType s, sr_status s)) (db_steps (fst (fold wf_step sample_task_history empty_runtime))) =
     [(''s1'', PLAN, STEP_SUCCEEDED), (''s2'', BUILD, STEP_SUCCEEDED), (''s3'', TEST, STEP_READY)]"
  by code_simp

lemma sample_runner:
  "map_sum id (\<lambda>(b, xs). (b, map se_disposition xs)) (snd (executeUntilBoundary sample_world ''o'' ''r''
     (fst (fold wf_step sample_task_history empty_runtime)))) =
   Inr (DISPOSITION_BOUNDARY NON_AGENT_STEP, [TRANSITIONED, TRANSITIONED, TRANSITIONED, NON_AGENT_STEP])"
  by code_simp

lemma sample_verdict_state:
  "map_option abs_run (find_run (fst (fold wf_step (take 7 sample_history) empty_runtime)) ''o'' ''r'') =
     Some (RUN_RUNNING, Some PARSE_VERDICT, 0)"
  by code_simp

section \<open>Properties\<close>

text \<open>C6. No agent talks a step into success.  When executing the current step turns
  a step to SUCCEEDED, it is the run's READY step, of a type an agent may
  execute; the governed execution succeeded; and its output shows what the type
  asks for: a test step at least one executed test and no failed one, a
  verification step an executed check, no failed one and no blocking reason, a
  review a well-formed result that carries the identity of the invocation and
  the level of the run, a correction at least one changed file.\<close>

theorem agent_success_needs_evidence:
  assumes ok: "runtime_ok A (db, reg)" and x: "executeCurrentStep env now newId org rid db = (db', res)"
    and s: "s \<in> set (db_steps db')" "s \<notin> set (db_steps db)" "sr_status s = STEP_SUCCEEDED"
  shows "\<exists>p d. prepare_step env org rid db = Inr (Inr p) \<and> dispatch_step env org rid p = Inr d \<and>
    sr_id s = sr_id (pp_step p) \<and> sr_stepType s = sr_stepType (pp_step p) \<and> sr_status (pp_step p) = STEP_READY \<and>
    capabilityForStep (sr_stepType s) = Some (pp_capabilityCode p) \<and> dp_status d = AES_SUCCEEDED \<and>
    output_supports env (wr_assuranceLevel (pp_run p)) (sr_stepType s) (dp_execution d)"
proof -
  from executeCurrentStep_effect [OF x] s(1,2) obtain p d input res' where
    p: "prepare_step env org rid db = Inr (Inr p)" "dispatch_step env org rid p = Inr d"
    and r: "step_report env org rid p d = Some input" and c: "completeStep now newId input db = (db', res')" by auto
  from completeStep_steps [OF c s(1,2)] s(3) obtain y where
    y: "y \<in> set (db_steps db)" "sr_id y = sr_id (pp_step p)" "s = claimed now input y"
    using step_report_shape [OF r] by auto
  note P = prepare_step_Inr [OF p(1)]
  have "y = pp_step p"
    using P y step_unique [of A db y "pp_step p"] ok by (auto simp: runtime_ok_def steps_of_def)
  with y(3) s(3) have "target_status input = STEP_SUCCEEDED" "sr_stepType s = sr_stepType (pp_step p)" "sr_id s = sr_id (pp_step p)"
    by simp_all
  with step_report_succeeded [OF r] transitioned_supports [of env p d] P p show ?thesis by auto
qed

theorem agent_success_needs_evidence_witness:
  "\<exists>s p d. s \<in> set (db_steps (fst (executeCurrentStep sample_env 9 ''s4'' ''o'' ''r''
       (fst (fold wf_step sample_task_history empty_runtime))))) \<and> sr_stepType s = TEST \<and> sr_status s = STEP_SUCCEEDED \<and>
     dispatch_step sample_env ''o'' ''r'' p = Inr d \<and> output_supports sample_env (wr_assuranceLevel (pp_run p)) TEST (dp_execution d)"
proof -
  let ?st = "fold wf_step sample_task_history empty_runtime"
  let ?x = "executeCurrentStep sample_env 9 ''s4'' ''o'' ''r'' (fst ?st)"
  let ?key = "\<lambda>s. (sr_id s, sr_stepType s, sr_status s)"
  have "(''s3'', TEST, STEP_SUCCEEDED) \<in> set (map ?key (db_steps (fst ?x)))" by (simp add: sample_test_executed)
  then obtain s where s: "s \<in> set (db_steps (fst ?x))" "sr_id s = ''s3''" "sr_stepType s = TEST" "sr_status s = STEP_SUCCEEDED" by auto
  have "(''s3'', TEST, STEP_SUCCEEDED) \<notin> set (map ?key (db_steps (fst ?st)))" by (simp add: sample_test_executed)
  with s have new: "s \<notin> set (db_steps (fst ?st))" by force
  have ok: "runtime_ok (\<lambda>_ _ _. False) (fst ?st, snd ?st)" using reachable_ok [OF sample_task_admissible] by simp
  from agent_success_needs_evidence [OF ok prod.collapse [symmetric] s(1) new s(4)] s show ?thesis by auto
qed

text \<open>C26. The autonomous runner is a bounded sequence of ordinary completions: it
  executes at most eight steps, what it does to the tables is what that many
  completions of this run do, none of them carries a human approval, and so
  every property of the runtime's operations holds of it.\<close>

theorem runner_bounded_completions:
  assumes "executeUntilBoundary world org rid db = (db', res)"
  shows "\<exists>ops. length ops \<le> MAX_AUTONOMOUS_STEPS \<and> fold wf_step ops (db, reg) = (db', reg) \<and>
    (\<forall>p \<in> set ops. \<exists>now newId i. p = WfComplete now newId i \<and> ci_organizationId i = org \<and>
       ci_workflowRunId i = rid \<and> ci_humanApproved i = None) \<and>
    (\<forall>b xs. res = Inr (b, xs) \<longrightarrow> length xs \<le> MAX_AUTONOMOUS_STEPS \<and>
       (b = AUTONOMY_BUDGET_EXHAUSTED \<longleftrightarrow> length xs = MAX_AUTONOMOUS_STEPS \<and>
          (\<forall>x \<in> set xs. se_disposition x = TRANSITIONED \<and> (\<exists>t. Option.bind (se_transition x) cr_outcome = Some (NEXT_STEP t)))))"
  using run_steps_bounded [of MAX_AUTONOMOUS_STEPS world org rid "[]" db db' res reg] assms
  by (simp add: executeUntilBoundary_def list_all_iff agent_op_def advanced_def)

theorem runner_bounded_completions_witness:
  "\<exists>xs ops. snd (executeUntilBoundary sample_world ''o'' ''r'' (fst (fold wf_step sample_task_history empty_runtime))) =
       Inr (DISPOSITION_BOUNDARY NON_AGENT_STEP, xs) \<and> length xs = 4 \<and> length ops \<le> 8 \<and>
     fst (fold wf_step ops (fold wf_step sample_task_history empty_runtime)) =
       fst (executeUntilBoundary sample_world ''o'' ''r'' (fst (fold wf_step sample_task_history empty_runtime)))"
proof -
  let ?st = "fold wf_step sample_task_history empty_runtime"
  from sample_runner obtain xs where
    xs: "snd (executeUntilBoundary sample_world ''o'' ''r'' (fst ?st)) = Inr (DISPOSITION_BOUNDARY NON_AGENT_STEP, xs)"
    "map se_disposition xs = [TRANSITIONED, TRANSITIONED, TRANSITIONED, NON_AGENT_STEP]"
    by (cases "snd (executeUntilBoundary sample_world ''o'' ''r'' (fst ?st))") auto
  from arg_cong [OF xs(2), of length] have "length xs = 4" by simp
  with xs(1) runner_bounded_completions [of sample_world "''o''" "''r''" "fst ?st", OF prod.collapse [symmetric], of "snd ?st"]
  show ?thesis unfolding MAX_AUTONOMOUS_STEPS_def by (metis fst_conv prod.collapse)
qed

text \<open>The steps no agent has a capability for are a hard boundary.  On a run
  that waits for a verdict, for the human release gate or for the release
  itself, executing the current step and the autonomous runner return at once
  and leave the tables as they are, whatever the agents would answer.\<close>

lemma agents_stop_at_boundary:
  assumes ok: "runtime_ok A (db, reg)" and r: "find_run db org rid = Some r" "wr_status r = RUN_RUNNING"
      "wr_currentStepType r = Some t" "t \<in> {PARSE_VERDICT, HUMAN_RELEASE_GATE, RELEASE_EXECUTION}"
  shows "\<exists>x. se_disposition x = NON_AGENT_STEP \<and> se_transition x = None \<and>
    executeCurrentStep env now newId org rid db = (db, Inr x) \<and>
    executeUntilBoundary world org rid db = (db, Inr (DISPOSITION_BOUNDARY NON_AGENT_STEP, [x]))"
proof -
  from ready_step_found [OF _ r(1-3)] ok obtain st where
    st: "latest_by sr_startedAt (steps_where org rid t STEP_READY db) = Some st" "sr_stepType st = t" by (auto simp: runtime_ok_def)
  let ?x = "\<lparr>se_disposition = NON_AGENT_STEP, se_workflowStepRunId = sr_id st, se_transition = None\<rparr>"
  have "capabilityForStep t = None" using r(4) by auto
  with st r have p: "prepare_step env org rid db = Inr (Inl st)" for env by (simp add: prepare_step_def)
  then have e: "executeCurrentStep env now newId org rid db = (db, Inr ?x)" for env now newId
    by (simp add: executeCurrentStep_def)
  have "executeUntilBoundary world org rid db = (db, Inr (DISPOSITION_BOUNDARY NON_AGENT_STEP, [?x]))"
    by (simp add: executeUntilBoundary_def MAX_AUTONOMOUS_STEPS_def eval_nat_numeral e split: prod.splits)
  with e show ?thesis by (intro exI [of _ ?x]) simp
qed

end
