(* ===== verification/Vito_ReviewVerdict.thy ===== *)
theory Vito_ReviewVerdict
  imports Vito_AgentRuntime
begin

text \<open>
  From reviews to a verdict: the evidence a review step is bound to
  (\<open>workflow-review-evidence.service.ts\<close>), the verdict that completes a
  PARSE\_VERDICT step (\<open>workflow-review-verdict.service.ts\<close>) and the two
  independent reviews of an AL4 run
  (\<open>workflow-al4-review-coordinator.service.ts\<close>).  The rows of providers are an
  argument; the text of the review prompt is left out.
\<close>

section \<open>Review evidence\<close>

record ReviewEvidence =
  ev_correlationId :: string
  ev_reviewStepRunId :: string
  ev_invocationId :: string
  ev_providerId :: string
  ev_outputReference :: "string option"
  ev_artifactReferences :: "string list"

definition MAX_REFERENCES :: nat where "MAX_REFERENCES = 32"

definition referenceList :: "json option \<Rightarrow> string list" where
  "referenceList v = bounded_list v MAX_REFERENCES MAX_REFERENCE_CHARS"

definition find_review_record ::
  "WorkflowDb \<Rightarrow> string \<Rightarrow> string \<Rightarrow> string \<Rightarrow> string \<Rightarrow> GovernedExecutionRecord option" where
  "find_review_record db i org rid sid = find (\<lambda>x. gx_id x = i \<and> gx_organizationId x = org \<and>
     gx_workflowRunId x = rid \<and> gx_workflowStepRunId x = sid \<and> gx_capabilityCode x = ''RED_TEAM'' \<and>
     gx_status x = AES_SUCCEEDED) (db_executions db)"

definition bound_evidence :: "WorkflowStepRun \<Rightarrow> (string \<times> json) list option" where
  "bound_evidence s = objectValue (field_of (objectValue (Some (sr_metadata s))) ''executionEvidence'')"

definition resolve_evidence :: "string \<Rightarrow> string \<Rightarrow> WorkflowDb \<Rightarrow> WorkflowError + ReviewEvidence" where
  "resolve_evidence org rid db =
     (case find_run db org rid of
        None \<Rightarrow> Inl WF_NOT_FOUND
      | Some run \<Rightarrow>
     (case latest_by sr_startedAt (steps_where org rid RED_TEAM STEP_SUCCEEDED db) of
        None \<Rightarrow> Inl WF_CONFLICT
      | Some reviewStep \<Rightarrow>
     (case boundedString (field_of (bound_evidence reviewStep) ''invocationId'') MAX_INVOCATION_ID_CHARS of
        None \<Rightarrow> Inl WF_CONFLICT
      | Some invocationId \<Rightarrow>
     (case find_review_record db invocationId org rid (sr_id reviewStep) of
        None \<Rightarrow> Inl WF_CONFLICT
      | Some x \<Rightarrow>
          (let authoritative = referenceList (Some (gx_artifactReferences x)) in
           bindE (guardE (option_test (\<lambda>out. gx_outputReference x \<noteq> Some out)
             (bounded_text (field_of (bound_evidence reviewStep) ''outputReference'') MAX_REFERENCE_CHARS)) WF_CONFLICT) (\<lambda>_.
           bindE (guardE (\<not> list_all (\<lambda>ref. ref \<in> set authoritative)
             (referenceList (field_of (bound_evidence reviewStep) ''artifactReferences''))) WF_CONFLICT) (\<lambda>_.
           Inr \<lparr>ev_correlationId = wr_correlationId run, ev_reviewStepRunId = sr_id reviewStep, ev_invocationId = gx_id x,
             ev_providerId = gx_providerId x, ev_outputReference = gx_outputReference x,
             ev_artifactReferences = authoritative\<rparr>)))))))"

section \<open>Reading persisted reviews\<close>

definition stringArray :: "json option \<Rightarrow> string list option" where
  "stringArray v = (case v of
     Some (JArr vs) \<Rightarrow> if list_all (\<lambda>x. case x of JStr s \<Rightarrow> True | _ \<Rightarrow> False) vs then Some (map str_of vs) else None
   | _ \<Rightarrow> None)"

definition nonEmptyString :: "json option \<Rightarrow> string option" where
  "nonEmptyString v = (case v of Some (JStr s) \<Rightarrow> if js_trim s \<noteq> [] then Some s else None | _ \<Rightarrow> None)"

definition level_value :: "json option \<Rightarrow> AssuranceLevel option" where
  "level_value v = (case v of Some (JStr s) \<Rightarrow> normalizeAssuranceLevel s | _ \<Rightarrow> None)"

definition object_fields :: "json \<Rightarrow> (string \<times> json) list option" where
  "object_fields v = objectValue (Some v)"

definition objectArray :: "json option \<Rightarrow> (string \<times> json) list list" where
  "objectArray v = (case v of
     Some (JArr vs) \<Rightarrow> if list_all (\<lambda>x. object_fields x \<noteq> None) vs then map (\<lambda>x. the (object_fields x)) vs else []
   | _ \<Rightarrow> [])"

text \<open>
  A persisted review of an AL4 run.  Its findings have only to be a list, and
  nothing reads them again: the model keeps those with the shape of a finding.
\<close>

definition stored_findings :: "json list \<Rightarrow> ReviewFinding list" where
  "stored_findings vs = List.map_filter review_finding vs"

definition stored_review :: "json \<Rightarrow> ReviewResult option" where
  "stored_review v =
     (let rec = object_fields v in
      case (named_value VERDICTS (field_of rec ''verdict''),
            boundedString (field_of rec ''reviewerExecutionId'') MAX_INVOCATION_ID_CHARS,
            stringArray (field_of rec ''artifactRefs''), field_of rec ''findings'') of
        (Some vd, Some i, Some refs, Some (JArr fs)) \<Rightarrow>
          if level_value (field_of rec ''assuranceLevel'') \<noteq> Some AL4 then None
          else Some \<lparr>rr_verdict = vd, findings = stored_findings fs, reviewerExecutionId = i,
            rr_assuranceLevel = AL4, artifactRefs = refs\<rparr>
      | _ \<Rightarrow> None)"

fun stored_reviews :: "json list \<Rightarrow> ReviewResult list option" where
  "stored_reviews [] = Some []"
| "stored_reviews (v # vs) = (case stored_review v of
     None \<Rightarrow> None
   | Some r \<Rightarrow> map_option (\<lambda>rs. r # rs) (stored_reviews vs))"

definition review_results :: "json option \<Rightarrow> ReviewResult list option" where
  "review_results v = (case v of Some (JArr vs) \<Rightarrow> stored_reviews vs | _ \<Rightarrow> None)"

definition stored_context :: "json option \<Rightarrow> IndependenceContext option" where
  "stored_context v =
     (let rec = objectValue v in
      case (nonEmptyString (field_of rec ''builderProviderId''), nonEmptyString (field_of rec ''builderModelFamily''),
            stringArray (field_of rec ''previousReviewerProviderIds''),
            stringArray (field_of rec ''previousReviewerModelFamilies'')) of
        (Some bp, Some bf, Some ps, Some fs) \<Rightarrow>
          Some \<lparr>builderProviderId = Some bp, builderModelFamily = Some bf,
            previousReviewerProviderIds = ps, previousReviewerModelFamilies = fs\<rparr>
      | _ \<Rightarrow> None)"

section \<open>The verdict\<close>

record AgentProviderRow =
  ap_id :: string
  ap_organizationId :: string
  ap_modelFamily :: "string option"

definition find_provider :: "AgentProviderRow list \<Rightarrow> string \<Rightarrow> string \<Rightarrow> AgentProviderRow option" where
  "find_provider providers pid org = find (\<lambda>a. ap_id a = pid \<and> ap_organizationId a = org) providers"

definition succeeded_completion ::
  "string \<Rightarrow> string \<Rightarrow> string \<Rightarrow> string option \<Rightarrow> ReviewResult list option \<Rightarrow> IndependenceContext option \<Rightarrow>
   (string \<times> json) list \<Rightarrow> CompleteStepInput" where
  "succeeded_completion org rid sid vd results ctx metadata = \<lparr>ci_organizationId = org, ci_workflowRunId = rid,
     ci_workflowStepRunId = sid, ci_stepStatus = SUCCEEDED, ci_providerStatus = None, ci_verdict = vd,
     ci_reviewResults = results, ci_independenceContext = ctx, ci_humanApproved = None, ci_metadata = Some metadata\<rparr>"

text \<open>The single review of a run below AL4: the verdict of a persisted review that matches the evidence.\<close>

definition bound_verdict :: "ReviewEvidence \<Rightarrow> AssuranceLevel \<Rightarrow> WorkflowStepRun \<Rightarrow> WorkflowError + ReviewVerdict" where
  "bound_verdict evidence level reviewStep =
     (case objectValue (field_of (objectValue (Some (sr_metadata reviewStep))) ''reviewResult'') of
        None \<Rightarrow> Inl WF_CONFLICT
      | Some review \<Rightarrow>
          (case (named_value VERDICTS (map_of review ''verdict''), stringArray (map_of review ''artifactRefs'')) of
             (Some vd, Some refs) \<Rightarrow>
               bindE (guardE (map_of review ''reviewerExecutionId'' \<noteq> Some (JStr (ev_invocationId evidence))) WF_CONFLICT) (\<lambda>_.
               bindE (guardE (level_value (map_of review ''assuranceLevel'') \<noteq> Some level) WF_CONFLICT) (\<lambda>_.
               bindE (guardE (\<not> list_all (\<lambda>ref. ref \<in> set (ev_artifactReferences evidence)) refs) WF_CONFLICT) (\<lambda>_.
               Inr vd)))
           | _ \<Rightarrow> Inl WF_CONFLICT))"

definition single_verdict ::
  "string \<Rightarrow> string \<Rightarrow> AssuranceLevel \<Rightarrow> string \<Rightarrow> WorkflowDb \<Rightarrow> WorkflowError + CompleteStepInput" where
  "single_verdict org rid level parseId db =
     bindE (resolve_evidence org rid db) (\<lambda>evidence.
     case find (\<lambda>s. sr_id s = ev_reviewStepRunId evidence) (steps_where org rid RED_TEAM STEP_SUCCEEDED db) of
       None \<Rightarrow> Inl WF_CONFLICT
     | Some reviewStep \<Rightarrow>
         bindE (bound_verdict evidence level reviewStep) (\<lambda>vd.
         Inr (succeeded_completion org rid parseId (Some (verdict_name vd)) None None
           [(''source'', JStr ''WORKFLOW_REVIEW_VERDICT_RUNTIME''), (''reviewStepRunId'', JStr (sr_id reviewStep)),
            (''reviewerExecutionId'', JStr (ev_invocationId evidence)), (''assuranceLevel'', JStr (level_name level)),
            (''verdict'', JStr (verdict_name vd)), (''authority'', JStr ''GOVERNED_EXECUTION_RECORD'')])))"

text \<open>One reviewer of an AL4 run: its provider and model family, once both and the execution are confirmed.\<close>

definition al4_reviewer ::
  "string \<Rightarrow> string \<Rightarrow> string \<Rightarrow> AgentProviderRow list \<Rightarrow> WorkflowDb \<Rightarrow> ReviewResult \<Rightarrow> (string \<times> json) list \<Rightarrow>
   WorkflowError + string \<times> string" where
  "al4_reviewer org rid sid providers db review lineage =
     (case (boundedString (map_of lineage ''reviewerExecutionId'') MAX_INVOCATION_ID_CHARS,
            nonEmptyString (map_of lineage ''providerId''), nonEmptyString (map_of lineage ''modelFamily'')) of
        (Some i, Some pid, Some family) \<Rightarrow>
          bindE (guardE (reviewerExecutionId review \<noteq> i) WF_CONFLICT) (\<lambda>_.
          bindE (guardE (rr_assuranceLevel review \<noteq> AL4) WF_CONFLICT) (\<lambda>_.
          bindE (guardE (Option.bind (find_provider providers pid org) ap_modelFamily \<noteq> Some family) WF_CONFLICT) (\<lambda>_.
          case find (\<lambda>x. gx_id x = i \<and> gx_organizationId x = org \<and> gx_workflowRunId x = rid \<and>
                 gx_workflowStepRunId x = sid \<and> gx_capabilityCode x = ''RED_TEAM'' \<and> gx_status x = AES_SUCCEEDED \<and>
                 gx_providerId x = pid) (db_executions db) of
            None \<Rightarrow> Inl WF_CONFLICT
          | Some x \<Rightarrow>
              bindE (guardE (\<not> list_all (\<lambda>ref. ref \<in> set (referenceList (Some (gx_artifactReferences x))))
                (referenceList (Some (JArr (map JStr (artifactRefs review)))))) WF_CONFLICT) (\<lambda>_.
              Inr (pid, family)))))
      | _ \<Rightarrow> Inl WF_CONFLICT)"

fun al4_reviewers ::
  "string \<Rightarrow> string \<Rightarrow> string \<Rightarrow> AgentProviderRow list \<Rightarrow> WorkflowDb \<Rightarrow> ReviewResult list \<Rightarrow> (string \<times> json) list list \<Rightarrow>
   WorkflowError + (string \<times> string) list" where
  "al4_reviewers org rid sid providers db (r # rs) (l # ls) =
     bindE (al4_reviewer org rid sid providers db r l) (\<lambda>x.
     bindE (al4_reviewers org rid sid providers db rs ls) (\<lambda>xs. Inr (x # xs)))"
| "al4_reviewers org rid sid providers db _ _ = Inr []"

text \<open>What the coordinator persisted: the reviews, the context, the builder and the lineage of the reviewers.\<close>

definition al4_evidence ::
  "WorkflowStepRun \<Rightarrow>
   WorkflowError + ReviewResult list \<times> IndependenceContext \<times> (string \<times> string) \<times> (string \<times> json) list list" where
  "al4_evidence reviewStep =
     (let metadata = objectValue (Some (sr_metadata reviewStep));
          lineage = objectArray (field_of metadata ''reviewerLineage'') in
      bindE (guardE (field_of metadata ''source'' \<noteq> Some (JStr ''WORKFLOW_AL4_REVIEW_COORDINATOR'')) WF_CONFLICT) (\<lambda>_.
      case (review_results (field_of metadata ''reviewResults''), stored_context (field_of metadata ''independenceContext''),
            objectValue (field_of metadata ''builderLineage'')) of
        (Some results, Some ctx, Some builder) \<Rightarrow>
          bindE (guardE (length results \<noteq> 2 \<or> length lineage \<noteq> 2) WF_CONFLICT) (\<lambda>_.
          case (nonEmptyString (map_of builder ''providerId''), nonEmptyString (map_of builder ''modelFamily'')) of
            (Some bp, Some bf) \<Rightarrow>
              bindE (guardE (builderProviderId ctx \<noteq> Some bp \<or> builderModelFamily ctx \<noteq> Some bf) WF_CONFLICT) (\<lambda>_.
              Inr (results, ctx, (bp, bf), lineage))
          | _ \<Rightarrow> Inl WF_CONFLICT)
      | _ \<Rightarrow> Inl WF_CONFLICT))"

text \<open>Whether the identities prove that builder and reviewers are independent.\<close>

definition independent :: "IndependenceContext \<Rightarrow> string \<times> string \<Rightarrow> nat \<Rightarrow> (string \<times> string) list \<Rightarrow> bool" where
  "independent ctx builder n identities =
     (set_size (map fst identities) = n \<and> set_size (map snd identities) = n \<and>
      fst builder \<notin> set (map fst identities) \<and> snd builder \<notin> set (map snd identities) \<and>
      previousReviewerProviderIds ctx = map fst identities \<and> previousReviewerModelFamilies ctx = map snd identities)"

definition al4_verdict ::
  "string \<Rightarrow> string \<Rightarrow> AgentProviderRow list \<Rightarrow> string \<Rightarrow> WorkflowDb \<Rightarrow> WorkflowError + CompleteStepInput" where
  "al4_verdict org rid providers parseId db =
     (case latest_by sr_finishedAt (steps_where org rid RED_TEAM STEP_SUCCEEDED db) of
        None \<Rightarrow> Inl WF_CONFLICT
      | Some reviewStep \<Rightarrow>
          bindE (al4_evidence reviewStep) (\<lambda>(results, ctx, builder, lineage).
          bindE (al4_reviewers org rid (sr_id reviewStep) providers db results lineage) (\<lambda>identities.
          bindE (guardE (\<not> independent ctx builder (length results) identities) WF_CONFLICT) (\<lambda>_.
          Inr (succeeded_completion org rid parseId None (Some results) (Some ctx)
            [(''source'', JStr ''WORKFLOW_AL4_REVIEW_VERDICT_RUNTIME''), (''reviewStepRunId'', JStr (sr_id reviewStep)),
             (''assuranceLevel'', JStr ''AL4''),
             (''reviewerExecutionIds'', JArr (map (\<lambda>r. JStr (reviewerExecutionId r)) results)),
             (''reviewerProviderIds'', JArr (map (JStr \<circ> fst) identities)),
             (''reviewerModelFamilies'', JArr (map (JStr \<circ> snd) identities)),
             (''builderProviderId'', JStr (fst builder)), (''builderModelFamily'', JStr (snd builder)),
             (''authority'', JStr ''GOVERNED_EXECUTION_RECORDS'')])))))"

text \<open>The checks on the run, and the completion that follows from the persisted reviews.\<close>

definition parse_verdict ::
  "AgentProviderRow list \<Rightarrow> string \<Rightarrow> string \<Rightarrow> WorkflowDb \<Rightarrow> WorkflowError + CompleteStepInput" where
  "parse_verdict providers org rid db =
     (case find_run db org rid of
        None \<Rightarrow> Inl WF_NOT_FOUND
      | Some run \<Rightarrow>
          bindE (guardE (wr_status run \<noteq> RUN_RUNNING \<or> wr_currentStepType run \<noteq> Some PARSE_VERDICT) WF_CONFLICT) (\<lambda>_.
          case normalizeAssuranceLevel (wr_assuranceLevel run) of
            None \<Rightarrow> Inl WF_CONFLICT
          | Some level \<Rightarrow>
         (case latest_by sr_startedAt (steps_where org rid PARSE_VERDICT STEP_READY db) of
            None \<Rightarrow> Inl WF_CONFLICT
          | Some parseStep \<Rightarrow>
              if level = AL4 then al4_verdict org rid providers (sr_id parseStep) db
              else single_verdict org rid level (sr_id parseStep) db)))"

definition parseAndTransition ::
  "AgentProviderRow list \<Rightarrow> int \<Rightarrow> string \<Rightarrow> string \<Rightarrow> string \<Rightarrow> WorkflowDb \<Rightarrow>
   WorkflowDb \<times> (WorkflowError + CompleteStepResult)" where
  "parseAndTransition providers now newId org rid db =
     (case parse_verdict providers org rid db of
        Inl e \<Rightarrow> (db, Inl e)
      | Inr input \<Rightarrow> completeStep now newId input db)"

section \<open>Two independent reviews\<close>

type_synonym ProviderLineage = "string \<times> string"

definition resolveReviewerIdentity ::
  "AgentProviderRow list \<Rightarrow> string \<Rightarrow> string \<Rightarrow> AgentError + ProviderLineage" where
  "resolveReviewerIdentity providers org pid =
     (case find_provider providers pid org of
        None \<Rightarrow> Inl (AG_WORKFLOW WF_CONFLICT)
      | Some a \<Rightarrow>
          (case nonEmptyString (map_option JStr (ap_modelFamily a)) of
             None \<Rightarrow> Inl (AG_WORKFLOW WF_CONFLICT)
           | Some family \<Rightarrow> Inr (ap_id a, family)))"

definition resolveBuilderLineage ::
  "AgentProviderRow list \<Rightarrow> string \<Rightarrow> string \<Rightarrow> WorkflowDb \<Rightarrow> AgentError + ProviderLineage" where
  "resolveBuilderLineage providers org rid db =
     (case nonEmptyString (field_of (objectValue (map_option sr_metadata
             (latest_by sr_finishedAt (steps_where org rid BUILD STEP_SUCCEEDED db)))) ''selectedProviderId'') of
        None \<Rightarrow> Inl (AG_WORKFLOW WF_CONFLICT)
      | Some pid \<Rightarrow> resolveReviewerIdentity providers org pid)"

definition dispatchReview ::
  "AgentEnv \<Rightarrow> string \<Rightarrow> string \<Rightarrow> string \<Rightarrow> IndependenceContext \<Rightarrow> AgentError + AgentDispatch \<times> ReviewResult" where
  "dispatchReview env org rid sid ctx =
     bindE (ae_dispatch env org rid sid ''RED_TEAM'' ''AL4'' None (Some ctx)) (\<lambda>d.
     bindE (guardE (dp_status d \<noteq> AES_SUCCEEDED) (AG_WORKFLOW WF_CONFLICT)) (\<lambda>_.
     case project_review (ae_parse env) (dp_execution d) ''AL4'' of
       None \<Rightarrow> Inl (AG_WORKFLOW WF_CONFLICT)
     | Some r \<Rightarrow> Inr (d, r)))"

definition independence_json :: "ProviderLineage \<Rightarrow> ProviderLineage list \<Rightarrow> json" where
  "independence_json builder reviewers = JObj [(''builderProviderId'', JStr (fst builder)),
     (''builderModelFamily'', JStr (snd builder)),
     (''previousReviewerProviderIds'', JArr (map (JStr \<circ> fst) reviewers)),
     (''previousReviewerModelFamilies'', JArr (map (JStr \<circ> snd) reviewers))]"

definition independence_context :: "ProviderLineage \<Rightarrow> ProviderLineage list \<Rightarrow> IndependenceContext" where
  "independence_context builder reviewers = \<lparr>builderProviderId = Some (fst builder), builderModelFamily = Some (snd builder),
     previousReviewerProviderIds = map fst reviewers, previousReviewerModelFamilies = map snd reviewers\<rparr>"

definition reviewerLineage :: "AgentDispatch \<times> ReviewResult \<Rightarrow> ProviderLineage \<Rightarrow> json" where
  "reviewerLineage x reviewer = JObj [(''reviewerExecutionId'', JStr (reviewerExecutionId (snd x))),
     (''routingDecisionId'', JStr (dp_routingDecisionId (fst x))), (''providerId'', JStr (fst reviewer)),
     (''providerCode'', JStr (dp_selectedProviderCode (fst x))), (''modelFamily'', JStr (snd reviewer)),
     (''artifactRefs'', JArr (map JStr (artifactRefs (snd x))))]"

definition coordination_metadata ::
  "ProviderLineage \<Rightarrow> ((AgentDispatch \<times> ReviewResult) \<times> ProviderLineage) list \<Rightarrow> (string \<times> json) list" where
  "coordination_metadata builder reviews =
     [(''source'', JStr ''WORKFLOW_AL4_REVIEW_COORDINATOR''), (''reviewProjectionStatus'', JStr ''VALID''),
      (''reviewResults'', JArr (map (\<lambda>(x, _). review_json (snd x)) reviews)),
      (''independenceContext'', independence_json builder (map snd reviews)),
      (''builderLineage'', JObj [(''providerId'', JStr (fst builder)), (''modelFamily'', JStr (snd builder))]),
      (''reviewerLineage'', JArr (map (\<lambda>(x, i). reviewerLineage x i) reviews))]"

text \<open>The READY review step of an AL4 run with a task.\<close>

definition al4_ready :: "AgentEnv \<Rightarrow> string \<Rightarrow> string \<Rightarrow> WorkflowDb \<Rightarrow> AgentError + WorkflowStepRun" where
  "al4_ready env org rid db =
     (case find_run db org rid of
        None \<Rightarrow> Inl (AG_WORKFLOW WF_NOT_FOUND)
      | Some run \<Rightarrow>
          bindE (guardE (wr_status run \<noteq> RUN_RUNNING \<or> wr_currentStepType run \<noteq> Some RED_TEAM \<or>
            normalizeAssuranceLevel (wr_assuranceLevel run) \<noteq> Some AL4) (AG_WORKFLOW WF_CONFLICT)) (\<lambda>_.
          case latest_by sr_startedAt (steps_where org rid RED_TEAM STEP_READY db) of
            None \<Rightarrow> Inl (AG_WORKFLOW WF_CONFLICT)
          | Some st \<Rightarrow>
              bindE (guardE (capabilityForStep RED_TEAM \<noteq> Some ''RED_TEAM'') (AG_WORKFLOW WF_CONFLICT)) (\<lambda>_.
              bindE (guardE (\<not> truthy (wr_taskId run)) (AG_WORKFLOW WF_CONFLICT)) (\<lambda>_.
              bindE (guardE (\<not> ae_task env (the (wr_taskId run)) org) (AG_WORKFLOW WF_NOT_FOUND)) (\<lambda>_.
              Inr st)))))"

text \<open>The reviews and the identities of the reviewers, in order.\<close>

definition two_reviews ::
  "AgentEnv \<Rightarrow> AgentProviderRow list \<Rightarrow> string \<Rightarrow> string \<Rightarrow> string \<Rightarrow> ProviderLineage \<Rightarrow>
   AgentError + ((AgentDispatch \<times> ReviewResult) \<times> ProviderLineage) list" where
  "two_reviews env providers org rid sid builder =
     bindE (dispatchReview env org rid sid (independence_context builder [])) (\<lambda>first.
     bindE (resolveReviewerIdentity providers org (dp_selectedProviderId (fst first))) (\<lambda>firstReviewer.
     bindE (dispatchReview env org rid sid (independence_context builder [firstReviewer])) (\<lambda>second.
     bindE (resolveReviewerIdentity providers org (dp_selectedProviderId (fst second))) (\<lambda>secondReviewer.
     bindE (guardE (fst secondReviewer = fst firstReviewer \<or> snd secondReviewer = snd firstReviewer \<or>
       fst secondReviewer = fst builder \<or> snd secondReviewer = snd builder) (AG_WORKFLOW WF_CONFLICT)) (\<lambda>_.
     Inr [(first, firstReviewer), (second, secondReviewer)])))))"

definition coordinate ::
  "AgentEnv \<Rightarrow> AgentProviderRow list \<Rightarrow> int \<Rightarrow> string \<Rightarrow> string \<Rightarrow> string \<Rightarrow> WorkflowDb \<Rightarrow>
   WorkflowDb \<times> (AgentError + CompleteStepResult)" where
  "coordinate env providers now newId org rid db =
     (case bindE (al4_ready env org rid db) (\<lambda>st.
           bindE (resolveBuilderLineage providers org rid db) (\<lambda>builder.
           bindE (two_reviews env providers org rid (sr_id st) builder) (\<lambda>reviews.
           Inr (succeeded_completion org rid (sr_id st) None None None (coordination_metadata builder reviews))))) of
        Inl e \<Rightarrow> (db, Inl e)
      | Inr input \<Rightarrow>
          (case completeStep now newId input db of
             (db', Inl e) \<Rightarrow> (db', Inl (AG_WORKFLOW e))
           | (db', Inr res) \<Rightarrow> (db', Inr res)))"

end
