(* ===== verification/Vito_VerdictSafety.thy ===== *)
theory Vito_VerdictSafety
  imports Vito_ReviewVerdict
begin

text \<open>
  What a verdict rests on.  A verdict repeats a persisted review whose execution
  is in the governed ledger; the two reviews of an AL4 run come from
  providers and model families that differ from each other and from the
  builder's; and what the agent runtime and the coordinator persist is what the
  verdict service accepts.
\<close>

section \<open>Evidence\<close>

lemma resolve_evidence_Inr:
  assumes "resolve_evidence org rid db = Inr e"
  shows "\<exists>s x. s \<in> set (steps_of rid db) \<and> sr_organizationId s = org \<and> sr_stepType s = RED_TEAM \<and>
    sr_status s = STEP_SUCCEEDED \<and> ev_reviewStepRunId e = sr_id s \<and>
    x \<in> set (db_executions db) \<and> gx_organizationId x = org \<and> gx_workflowRunId x = rid \<and> gx_workflowStepRunId x = sr_id s \<and>
    gx_capabilityCode x = ''RED_TEAM'' \<and> gx_status x = AES_SUCCEEDED \<and> ev_invocationId e = gx_id x \<and>
    ev_artifactReferences e = referenceList (Some (gx_artifactReferences x))"
proof -
  from assms obtain s i x where l: "latest_by sr_startedAt (steps_where org rid RED_TEAM STEP_SUCCEEDED db) = Some s"
    and f: "find_review_record db i org rid (sr_id s) = Some x"
    and e: "ev_reviewStepRunId e = sr_id s" "ev_invocationId e = gx_id x"
      "ev_artifactReferences e = referenceList (Some (gx_artifactReferences x))"
    by (auto simp: resolve_evidence_def Let_def split: option.splits)
  from f have "x \<in> set (db_executions db) \<and> gx_organizationId x = org \<and> gx_workflowRunId x = rid \<and>
      gx_workflowStepRunId x = sr_id s \<and> gx_capabilityCode x = ''RED_TEAM'' \<and> gx_status x = AES_SUCCEEDED"
    unfolding find_review_record_def find_Some_iff by auto
  with latest_step [OF l] e show ?thesis by blast
qed

lemma named_verdict: "named_value VERDICTS v = Some vd \<Longrightarrow> v = Some (JStr (verdict_name vd))"
  by (auto simp: named_value_def VERDICTS_def split: option.splits json.splits if_splits)

lemma succeeded_completion_simps [simp]:
  "ci_organizationId (succeeded_completion org rid sid vd rs ctx m) = org"
  "ci_workflowRunId (succeeded_completion org rid sid vd rs ctx m) = rid"
  "ci_workflowStepRunId (succeeded_completion org rid sid vd rs ctx m) = sid"
  "ci_stepStatus (succeeded_completion org rid sid vd rs ctx m) = SUCCEEDED"
  "ci_providerStatus (succeeded_completion org rid sid vd rs ctx m) = None"
  "ci_verdict (succeeded_completion org rid sid vd rs ctx m) = vd"
  "ci_reviewResults (succeeded_completion org rid sid vd rs ctx m) = rs"
  "ci_independenceContext (succeeded_completion org rid sid vd rs ctx m) = ctx"
  "ci_humanApproved (succeeded_completion org rid sid vd rs ctx m) = None"
  "ci_metadata (succeeded_completion org rid sid vd rs ctx m) = Some m"
  by (simp_all add: succeeded_completion_def)

lemma bound_verdict_Inr:
  assumes "bound_verdict e level s = Inr vd"
  shows "\<exists>review refs. objectValue (field_of (objectValue (Some (sr_metadata s))) ''reviewResult'') = Some review \<and>
    map_of review ''verdict'' = Some (JStr (verdict_name vd)) \<and>
    map_of review ''reviewerExecutionId'' = Some (JStr (ev_invocationId e)) \<and>
    level_value (map_of review ''assuranceLevel'') = Some level \<and>
    stringArray (map_of review ''artifactRefs'') = Some refs \<and> set refs \<subseteq> set (ev_artifactReferences e)"
  using assms named_verdict
  by (fastforce simp: bound_verdict_def list_all_iff subset_iff split: option.splits)

lemma single_verdict_Inr:
  assumes "single_verdict org rid level pid db = Inr input"
  shows "\<exists>e s vd. resolve_evidence org rid db = Inr e \<and>
    find (\<lambda>s. sr_id s = ev_reviewStepRunId e) (steps_where org rid RED_TEAM STEP_SUCCEEDED db) = Some s \<and>
    bound_verdict e level s = Inr vd \<and> ci_verdict input = Some (verdict_name vd) \<and> ci_reviewResults input = None"
  using assms by (auto simp: single_verdict_def split: option.splits)

lemma parse_verdict_Inr:
  assumes "parse_verdict providers org rid db = Inr input"
  shows "\<exists>run level st. find_run db org rid = Some run \<and> wr_status run = RUN_RUNNING \<and>
    wr_currentStepType run = Some PARSE_VERDICT \<and> normalizeAssuranceLevel (wr_assuranceLevel run) = Some level \<and>
    latest_by sr_startedAt (steps_where org rid PARSE_VERDICT STEP_READY db) = Some st \<and>
    (if level = AL4 then al4_verdict org rid providers (sr_id st) db
     else single_verdict org rid level (sr_id st) db) = Inr input"
  using assms by (auto simp: parse_verdict_def split: option.splits)

section \<open>AL4 evidence\<close>

definition al4_record ::
  "string \<Rightarrow> string \<Rightarrow> string \<Rightarrow> AgentProviderRow list \<Rightarrow> WorkflowDb \<Rightarrow> ReviewResult \<Rightarrow> string \<times> string \<Rightarrow> bool" where
  "al4_record org rid sid providers db r i = (\<exists>x \<in> set (db_executions db). gx_id x = reviewerExecutionId r \<and>
     gx_organizationId x = org \<and> gx_workflowRunId x = rid \<and> gx_workflowStepRunId x = sid \<and>
     gx_capabilityCode x = ''RED_TEAM'' \<and> gx_status x = AES_SUCCEEDED \<and> gx_providerId x = fst i \<and>
     Option.bind (find_provider providers (fst i) org) ap_modelFamily = Some (snd i))"

lemma al4_reviewer_Inr:
  "al4_reviewer org rid sid providers db r l = Inr i \<Longrightarrow> al4_record org rid sid providers db r i"
  by (auto simp: al4_reviewer_def al4_record_def find_Some_iff split: option.splits intro!: bexI nth_mem)

lemma al4_reviewers_Inr:
  "al4_reviewers org rid sid providers db rs ls = Inr xs \<Longrightarrow> length rs = length ls \<Longrightarrow>
   list_all2 (al4_record org rid sid providers db) rs xs"
  by (induction org rid sid providers db rs ls arbitrary: xs rule: al4_reviewers.induct) (auto dest: al4_reviewer_Inr)

lemma al4_verdict_Inr:
  assumes "al4_verdict org rid providers pid db = Inr input"
  shows "\<exists>s results ctx builder lineage identities.
    latest_by sr_finishedAt (steps_where org rid RED_TEAM STEP_SUCCEEDED db) = Some s \<and>
    al4_evidence s = Inr (results, ctx, builder, lineage) \<and>
    al4_reviewers org rid (sr_id s) providers db results lineage = Inr identities \<and>
    independent ctx builder (length results) identities \<and>
    ci_reviewResults input = Some results \<and> ci_independenceContext input = Some ctx \<and>
    ci_verdict input = None \<and> ci_stepStatus input = SUCCEEDED \<and> ci_providerStatus input = None"
  using assms by (auto simp: al4_verdict_def split: option.splits)

lemma al4_evidence_Inr:
  assumes "al4_evidence s = Inr (results, ctx, builder, lineage)"
  shows "field_of (objectValue (Some (sr_metadata s))) ''source'' = Some (JStr ''WORKFLOW_AL4_REVIEW_COORDINATOR'') \<and>
    length results = 2 \<and> length lineage = 2 \<and> builderProviderId ctx = Some (fst builder) \<and>
    builderModelFamily ctx = Some (snd builder) \<and> js_trim (snd builder) \<noteq> []"
proof -
  have trim: "nonEmptyString v = Some x \<Longrightarrow> js_trim x \<noteq> []" for v x
    by (auto simp: nonEmptyString_def split: option.splits json.splits if_splits)
  from assms show ?thesis by (auto simp: al4_evidence_def Let_def split: option.splits dest: trim)
qed

lemma al4_gate_open:
  assumes r: "ci_reviewResults input = Some [r1, r2]" "reviewerExecutionId r1 \<noteq> reviewerExecutionId r2"
    and c: "ci_independenceContext input = Some ctx" "previousReviewerProviderIds ctx = [p1, p2]" "p1 \<noteq> p2"
      "previousReviewerModelFamilies ctx = [f1, f2]" "f1 \<noteq> f2" "builderModelFamily ctx = Some bf" "bf \<noteq> f1" "js_trim bf \<noteq> []"
  shows "enforceAl4Requirements (machine_input input run s) = None"
proof -
  have "bf \<noteq> []" using c(8) by (auto simp: js_trim_def)
  with assms show ?thesis
    by (simp add: enforceAl4Requirements_def machine_input_def set_size_def blank_def Let_def)
qed

section \<open>What is persisted reads back\<close>

lemma bounded_text_nat: "bounded_text v (int n) = boundedString v n"
  by (auto simp: bounded_text_def boundedString_def split: option.splits json.splits)

lemma str_of_items: "list_all (bounded_item n) (map JStr xs) \<longleftrightarrow> (\<forall>s \<in> set xs. s \<noteq> [] \<and> int (length s) \<le> n)"
  by (auto simp: list_all_iff bounded_item_def)

lemma items_of_filter: "s \<in> set (map str_of (filter (bounded_item n) vs)) \<Longrightarrow> s \<noteq> [] \<and> int (length s) \<le> n"
  by (auto simp: bounded_item_def str_of_def split: json.splits)

lemma filter_JStr: "\<forall>s \<in> set xs. s \<noteq> [] \<and> int (length s) \<le> n \<Longrightarrow> map str_of (filter (bounded_item n) (map JStr xs)) = xs"
  by (induction xs) (auto simp: bounded_item_def str_of_def)

lemma bounded_list_items: "s \<in> set (bounded_list v k n) \<Longrightarrow> s \<noteq> [] \<and> int (length s) \<le> n"
  by (auto simp: bounded_list_def dest!: in_set_takeD items_of_filter simp del: set_map split: option.splits json.splits)

lemma bounded_list_length: "length (bounded_list v k n) \<le> k"
  by (auto simp: bounded_list_def split: option.splits json.splits)

lemma bounded_list_again: "bounded_list (Some (JArr (map JStr (bounded_list v k n)))) k n = bounded_list v k n"
proof -
  have "\<forall>s \<in> set (bounded_list v k n). s \<noteq> [] \<and> int (length s) \<le> n" using bounded_list_items by blast
  from filter_JStr [OF this] bounded_list_length [of v k n] show ?thesis by (simp add: bounded_list_def [of "Some _"])
qed

lemma references_subset: "references v k = xs \<Longrightarrow> set xs \<subseteq> set (bounded_list v k MAX_REFERENCE_CHARS)"
proof (cases "\<exists>vs. v = Some (JArr vs) \<and> length vs \<le> k")
  case True
  then obtain vs where vs: "v = Some (JArr vs)" "length vs \<le> k" by auto
  have "length (map str_of (filter (bounded_item MAX_REFERENCE_CHARS) vs)) \<le> k"
    unfolding length_map by (rule order_trans [OF length_filter_le vs(2)])
  then show "references v k = xs \<Longrightarrow> ?thesis" using vs by (auto simp: references_def bounded_list_def)
next
  case False
  then show "references v k = xs \<Longrightarrow> ?thesis" by (auto simp: references_def split: option.splits json.splits if_splits)
qed

lemma stringArray_JStr [simp]: "stringArray (Some (JArr (map JStr xs))) = Some xs"
  by (simp add: stringArray_def list_all_iff str_of_def o_def)

lemma named_value_names [simp]:
  "named_value SEVERITIES (Some (JStr (severity_name a))) = Some a"
  "named_value CATEGORIES (Some (JStr (category_name b))) = Some b"
  by (cases a; simp add: named_value_def SEVERITIES_def) (cases b; simp add: named_value_def CATEGORIES_def)

lemma named_value_verdict:
  "named_value VERDICTS v = Some vd \<Longrightarrow> named_value VERDICTS (Some (JStr (verdict_name vd))) = Some vd"
  using named_verdict [of v vd] by simp

lemma level_value_name [simp]: "level_value (Some (JStr (level_name l))) = Some l"
  by (cases l) (simp_all add: level_value_def normalizeAssuranceLevel_def strip_dash_def LEVELS_def)

lemma bounded_text_JStr: "bounded_text v n = Some s \<Longrightarrow> bounded_text (Some (JStr s)) n = Some s"
  by (auto simp: bounded_text_def split: option.splits json.splits if_splits)

lemma references_again:
  assumes "references v k = xs" "length xs \<le> k"
  shows "references (Some (JArr (map JStr xs))) k = xs"
proof -
  have "\<forall>s \<in> set xs. s \<noteq> [] \<and> int (length s) \<le> MAX_REFERENCE_CHARS"
    using references_subset [OF assms(1)] bounded_list_items by blast
  from filter_JStr [OF this] assms(2) show ?thesis by (simp add: references_def)
qed

lemma review_finding_again:
  assumes "review_finding v = Some f"
  shows "review_finding (finding_json f) = Some f"
proof -
  let ?s = "objectValue (Some v)"
  from assms obtain vs where a: "array_value (field_of ?s ''evidenceRefs'') = Some vs"
    and t: "bounded_text (field_of ?s ''id'') MAX_FINDING_ID_CHARS = Some (findingId f)"
    "bounded_text (field_of ?s ''summary'') MAX_SUMMARY_CHARS = Some (summary f)"
    and e: "references (field_of ?s ''evidenceRefs'') MAX_EVIDENCE_REFS = evidenceRefs f" "length (evidenceRefs f) = length vs"
    unfolding review_finding_def Let_def bind_eq_Some_conv by (auto split: if_splits)
  have "field_of ?s ''evidenceRefs'' = Some (JArr vs)"
    using a by (auto simp: array_value_def split: option.splits json.splits)
  then have "length (evidenceRefs f) \<le> MAX_EVIDENCE_REFS"
    using e by (cases "MAX_EVIDENCE_REFS < length vs") (auto simp: references_def)
  from references_again [OF e(1) this] bounded_text_JStr [OF t(1)] bounded_text_JStr [OF t(2)] show ?thesis
    by (simp add: review_finding_def finding_json_def Let_def objectValue_def field_of_def bool_value_def array_value_def)
qed

lemma review_findings_again:
  "review_findings vs = Some fs \<Longrightarrow> stored_findings (map finding_json fs) = fs"
proof (induction vs arbitrary: fs)
  case (Cons v vs)
  then obtain f gs where f: "review_finding v = Some f" "review_findings vs = Some gs" "fs = f # gs"
    by (auto split: option.splits)
  from Cons.IH [OF f(2)] review_finding_again [OF f(1)] f(3) show ?case
    by (simp add: stored_findings_def map_filter_def)
qed (simp add: stored_findings_def map_filter_def)

lemma project_review_fields:
  assumes "project_review parse e level = Some r"
  shows "(\<exists>vs. review_findings vs = Some (findings r)) \<and> (\<exists>v. named_value VERDICTS v = Some (rr_verdict r)) \<and>
    artifactRefs r = references (field_of (objectValue (Some e)) ''artifactReferences'') MAX_ARTIFACT_REFS"
  using assms by (auto simp: project_review_def Let_def split: option.splits json.splits if_splits)

lemma bounded_again: "boundedString v n = Some s \<Longrightarrow> boundedString (Some (JStr s)) n = Some s"
  by (auto simp: boundedString_def split: option.splits json.splits if_splits)

lemma stored_review_again:
  assumes r: "project_review parse e ''AL4'' = Some r"
  shows "stored_review (review_json r) = Some r"
proof -
  from project_review_fields [OF r] obtain vs v where f: "review_findings vs = Some (findings r)"
    "named_value VERDICTS v = Some (rr_verdict r)" by auto
  have l: "rr_assuranceLevel r = AL4"
    using project_review_Some [OF r] by (simp add: normalizeAssuranceLevel_def strip_dash_def LEVELS_def)
  show ?thesis
    using project_review_Some [OF r, THEN conjunct1, THEN bounded_again] named_value_verdict [OF f(2)] review_findings_again [OF f(1)] l
    by (simp add: stored_review_def review_json_def Let_def object_fields_def objectValue_def field_of_def
        level_value_def normalizeAssuranceLevel_def strip_dash_def LEVELS_def)
qed

section \<open>The evidence of a reported review\<close>

lemma map_of_opt_entry [simp]: "map_of (opt_entry k v) k' = (if k' = k then v else None)"
  by (auto simp: opt_entry_def split: option.splits)

lemma map_of_list_entry [simp]:
  "map_of (list_entry k xs) k' = (if k' = k \<and> xs \<noteq> [] then Some (JArr (map JStr xs)) else None)"
  by (auto simp: list_entry_def)

lemma evidence_fields:
  assumes ev_def: "ev = executionEvidence sha256 (JObj source) t"
  shows "map_of ev ''invocationId'' = map_option JStr (boundedString (map_of source ''invocationId'') MAX_INVOCATION_ID_CHARS)"
    and "map_of ev ''outputReference'' = map_option JStr (bounded_text (map_of source ''outputReference'') MAX_REFERENCE_CHARS)"
    and "referenceList (map_of ev ''artifactReferences'') = referenceList (map_of source ''artifactReferences'')"
proof -
  let ?refs = "\<lambda>k. bounded_list (map_of source k) MAX_EXECUTION_EVIDENCE_REFERENCES MAX_REFERENCE_CHARS"
  have rev: "map_of (revision_entries a b) k = None" if "k \<noteq> ''revision''" for a b k
    using that by (auto simp: revision_entries_def split: option.splits)
  note ev = ev_def [unfolded executionEvidence_def Let_def json.case]
  show "map_of ev ''invocationId'' = map_option JStr (boundedString (map_of source ''invocationId'') MAX_INVOCATION_ID_CHARS)"
    by (simp add: ev rev bounded_text_nat map_add_def split: option.splits)
  show "map_of ev ''outputReference'' = map_option JStr (bounded_text (map_of source ''outputReference'') MAX_REFERENCE_CHARS)"
    by (simp add: ev rev map_add_def split: option.splits)
  have "map_of ev ''artifactReferences'' = map_of (list_entry ''artifactReferences'' (?refs ''artifactReferences'')) ''artifactReferences''"
    by (simp add: ev rev map_add_def)
  then show "referenceList (map_of ev ''artifactReferences'') = referenceList (map_of source ''artifactReferences'')"
    using bounded_list_again [of "map_of source ''artifactReferences''" MAX_REFERENCES MAX_REFERENCE_CHARS]
    by (auto simp: referenceList_def MAX_REFERENCES_def MAX_EXECUTION_EVIDENCE_REFERENCES_def bounded_list_def [of None])
qed

lemma report_metadata:
  assumes "step_report env org rid p d = Some i"
  shows "ci_metadata i = Some (agent_metadata (pp_capabilityCode p) d
    (executionEvidence (ae_sha256 env) (dp_execution d) (sr_stepType (pp_step p))) @ report_entries env p d)"
  using assms by (auto simp: step_report_def agent_completion_def)

lemma review_report:
  assumes r: "step_report env org rid p d = Some i" "ci_metadata i = Some m" "target_status i = STEP_SUCCEEDED"
    and t: "sr_stepType (pp_step p) = RED_TEAM"
  shows "\<exists>rvw. project_review (ae_parse env) (dp_execution d) (wr_assuranceLevel (pp_run p)) = Some rvw \<and>
    map_of m ''reviewResult'' = Some (review_json rvw) \<and>
    map_of m ''executionEvidence'' = Some (JObj (executionEvidence (ae_sha256 env) (dp_execution d) RED_TEAM)) \<and>
    map_of m ''source'' = Some (JStr ''WORKFLOW_AGENT_RUNTIME'')"
proof -
  note S = step_report_succeeded [OF r(1,3)]
  from transitioned_supports [of env p d] S t obtain rvw where
    rvw: "project_review (ae_parse env) (dp_execution d) (wr_assuranceLevel (pp_run p)) = Some rvw"
    by (auto simp: output_supports_def)
  have m: "m = agent_metadata (pp_capabilityCode p) d (executionEvidence (ae_sha256 env) (dp_execution d) RED_TEAM) @
      report_entries env p d" using report_metadata [OF r(1)] r(2) t by simp
  have "map_of (report_entries env p d) ''reviewResult'' = Some (review_json rvw)"
    using S t rvw by (simp add: report_entries_def review_entries_def test_entries_def verification_entries_def verifies_def Let_def map_add_def)
  with rvw show ?thesis by (simp add: m agent_metadata_def map_add_def)
qed

lemma resolved_evidence:
  assumes run: "find_run db org rid = Some r"
    and s: "latest_by sr_startedAt (steps_where org rid RED_TEAM STEP_SUCCEEDED db) = Some s" "sr_metadata s = JObj m"
    and m: "map_of m ''executionEvidence'' = Some (JObj (executionEvidence sha256 (JObj source) t))"
    and i: "boundedString (map_of source ''invocationId'') MAX_INVOCATION_ID_CHARS = Some i"
    and x: "find_review_record db i org rid (sr_id s) = Some x" "map_of source ''artifactReferences'' = Some (gx_artifactReferences x)"
      "map_of source ''outputReference'' = map_option JStr (gx_outputReference x)"
  shows "\<exists>e. resolve_evidence org rid db = Inr e \<and> ev_reviewStepRunId e = sr_id s \<and> ev_invocationId e = i \<and>
    ev_artifactReferences e = referenceList (Some (gx_artifactReferences x))"
proof -
  have b: "bound_evidence s = Some (executionEvidence sha256 (JObj source) t)"
    by (simp add: bound_evidence_def s(2) objectValue_def field_of_def m)
  note F = evidence_fields [OF refl, of sha256 source t]
  have out: "bounded_text (map_option JStr (bounded_text (map_option JStr v) n)) n = Some y \<Longrightarrow> v = Some y" for v n y
    by (cases v) (auto simp: bounded_text_def split: if_splits)
  have g: "gx_id x = i" using x(1) unfolding find_review_record_def find_Some_iff by auto
  show ?thesis
    using out [of "gx_outputReference x" MAX_REFERENCE_CHARS]
    by (auto simp add: resolve_evidence_def run s(1) b field_of_def F(1,2) i bounded_again [OF i] x g F(3) list_all_iff Let_def
        guardE_def)
qed

lemma found_in_steps:
  assumes ok: "wf_ok A db" and s: "s \<in> set (steps_where org rid t st db)"
  shows "find (\<lambda>x. sr_id x = sr_id s) (steps_where org rid t st db) = Some s"
proof -
  obtain y where y: "find (\<lambda>x. sr_id x = sr_id s) (steps_where org rid t st db) = Some y"
    using s by (cases "find (\<lambda>x. sr_id x = sr_id s) (steps_where org rid t st db)") (auto simp: find_None_iff)
  then have "y \<in> set (steps_where org rid t st db)" "sr_id y = sr_id s" by (auto simp: find_Some_iff)
  with s step_unique [OF ok] have "y = s" by (auto simp: steps_where_def)
  with y show ?thesis by simp
qed

lemma bound_verdict_review:
  assumes r: "project_review parse (JObj source) lv = Some rvw" and l: "normalizeAssuranceLevel lv = Some level"
    and s: "sr_metadata s = JObj m" "map_of m ''reviewResult'' = Some (review_json rvw)"
    and e: "boundedString (map_of source ''invocationId'') MAX_INVOCATION_ID_CHARS = Some (ev_invocationId e)"
      "ev_artifactReferences e = referenceList (map_of source ''artifactReferences'')"
  shows "bound_verdict e level s = Inr (rr_verdict rvw)"
proof -
  note F = project_review_fields [OF r] project_review_Some [OF r]
  from F(1) obtain v where v: "named_value VERDICTS v = Some (rr_verdict rvw)" by auto
  have "set (artifactRefs rvw) \<subseteq> set (ev_artifactReferences e)"
    using references_subset F(1) e(2)
    by (simp add: objectValue_def field_of_def referenceList_def MAX_REFERENCES_def MAX_ARTIFACT_REFS_def)
  moreover have "reviewerExecutionId rvw = ev_invocationId e" using F(2) e(1) by (simp add: objectValue_def field_of_def)
  moreover have "rr_assuranceLevel rvw = level" using F(2) l by simp
  ultimately show ?thesis using named_value_verdict [OF v]
    by (auto simp: bound_verdict_def s objectValue_def field_of_def review_json_def list_all_iff guardE_def)
qed

section \<open>The evidence of coordinated reviews\<close>

definition named_provider :: "AgentProviderRow list \<Rightarrow> string \<Rightarrow> ProviderLineage \<Rightarrow> bool" where
  "named_provider providers org i = (Option.bind (find_provider providers (fst i) org) ap_modelFamily = Some (snd i) \<and>
     js_trim (snd i) \<noteq> [] \<and> (\<exists>a \<in> set providers. ap_id a = fst i))"

lemma find_provider_SomeD: "find_provider providers pid org = Some a \<Longrightarrow> a \<in> set providers \<and> ap_id a = pid"
  by (auto simp: find_provider_def find_Some_iff)

lemma identity_named:
  assumes "resolveReviewerIdentity providers org pid = Inr i"
  shows "named_provider providers org i"
proof -
  from assms obtain a f where a: "find_provider providers pid org = Some a" "ap_modelFamily a = Some f" "js_trim f \<noteq> []" "i = (ap_id a, f)"
    by (auto simp: resolveReviewerIdentity_def nonEmptyString_def split: option.splits if_splits)
  with find_provider_SomeD [OF a(1)] show ?thesis by (auto simp: named_provider_def)
qed

lemma dispatchReview_Inr:
  "dispatchReview env org rid sid ctx = Inr x \<Longrightarrow> project_review (ae_parse env) (dp_execution (fst x)) ''AL4'' = Some (snd x)"
  by (auto simp: dispatchReview_def split: option.splits)

lemma two_reviews_Inr:
  assumes "two_reviews env providers org rid sid builder = Inr reviews"
  obtains x y i j where "reviews = [(x, i), (y, j)]" "named_provider providers org i" "named_provider providers org j"
    "project_review (ae_parse env) (dp_execution (fst x)) ''AL4'' = Some (snd x)"
    "project_review (ae_parse env) (dp_execution (fst y)) ''AL4'' = Some (snd y)"
    "fst j \<noteq> fst i" "snd j \<noteq> snd i" "fst j \<noteq> fst builder" "snd j \<noteq> snd builder"
proof -
  from assms obtain x i y j where
    x: "dispatchReview env org rid sid (independence_context builder []) = Inr x"
    "resolveReviewerIdentity providers org (dp_selectedProviderId (fst x)) = Inr i"
    and y: "dispatchReview env org rid sid (independence_context builder [i]) = Inr y"
    "resolveReviewerIdentity providers org (dp_selectedProviderId (fst y)) = Inr j"
    and d: "\<not> (fst j = fst i \<or> snd j = snd i \<or> fst j = fst builder \<or> snd j = snd builder)"
      "reviews = [(x, i), (y, j)]"
    unfolding two_reviews_def by auto
  show thesis
    by (rule that [OF d(2) identity_named [OF x(2)] identity_named [OF y(2)] dispatchReview_Inr [OF x(1)] dispatchReview_Inr [OF y(1)]])
      (use d(1) in auto)
qed

lemma objectValue_JObj: "objectValue (Some (JObj fs)) = Some fs"
  by (simp add: objectValue_def)

lemma nonEmpty_JStr: "js_trim s \<noteq> [] \<Longrightarrow> nonEmptyString (Some (JStr s)) = Some s"
  by (simp add: nonEmptyString_def)

lemma coordinated_evidence:
  assumes m: "sr_metadata s = JObj (coordination_metadata builder [(x, i), (y, j)])"
    and r: "stored_review (review_json (snd x)) = Some (snd x)" "stored_review (review_json (snd y)) = Some (snd y)"
    and b: "js_trim (fst builder) \<noteq> []" "js_trim (snd builder) \<noteq> []"
  shows "al4_evidence s = Inr ([snd x, snd y], independence_context builder [i, j], builder,
     [the (object_fields (reviewerLineage x i)), the (object_fields (reviewerLineage y j))])"
proof -
  let ?m = "objectValue (Some (sr_metadata s))"
  have f: "field_of ?m ''source'' = Some (JStr ''WORKFLOW_AL4_REVIEW_COORDINATOR'')"
    "field_of ?m ''reviewResults'' = Some (JArr [review_json (snd x), review_json (snd y)])"
    "field_of ?m ''independenceContext'' = Some (independence_json builder [i, j])"
    "field_of ?m ''builderLineage'' = Some (JObj [(''providerId'', JStr (fst builder)), (''modelFamily'', JStr (snd builder))])"
    "field_of ?m ''reviewerLineage'' = Some (JArr [reviewerLineage x i, reviewerLineage y j])"
    by (simp_all add: m objectValue_def field_of_def coordination_metadata_def)
  have "stored_context (Some (independence_json builder [i, j])) = Some (independence_context builder [i, j])"
    using stringArray_JStr [of "[fst i, fst j]"] stringArray_JStr [of "[snd i, snd j]"] b
    by (simp add: stored_context_def independence_json_def independence_context_def objectValue_def field_of_def nonEmpty_JStr Let_def)
  moreover have "objectArray (Some (JArr [reviewerLineage x i, reviewerLineage y j])) =
      [the (object_fields (reviewerLineage x i)), the (object_fields (reviewerLineage y j))]"
    by (simp add: objectArray_def object_fields_def objectValue_def reviewerLineage_def)
  ultimately show ?thesis using r b
    by (simp add: al4_evidence_def Let_def f review_results_def objectValue_JObj nonEmpty_JStr guardE_def
        independence_context_def)
qed

lemma coordinated_reviewer:
  assumes r: "project_review parse (dp_execution (fst x)) ''AL4'' = Some (snd x)"
    and n: "named_provider providers org i" "js_trim (fst i) \<noteq> []"
    and g: "g \<in> set (db_executions db)" "distinct (map gx_id (db_executions db))" "gx_id g = reviewerExecutionId (snd x)"
      "gx_organizationId g = org" "gx_workflowRunId g = rid" "gx_workflowStepRunId g = sid" "gx_capabilityCode g = ''RED_TEAM''"
      "gx_status g = AES_SUCCEEDED" "gx_providerId g = fst i"
      "field_of (objectValue (Some (dp_execution (fst x)))) ''artifactReferences'' = Some (gx_artifactReferences g)"
  shows "al4_reviewer org rid sid providers db (snd x) (the (object_fields (reviewerLineage x i))) = Inr i"
proof -
  let ?P = "\<lambda>z. gx_id z = reviewerExecutionId (snd x) \<and> gx_organizationId z = org \<and> gx_workflowRunId z = rid \<and>
     gx_workflowStepRunId z = sid \<and> gx_capabilityCode z = ''RED_TEAM'' \<and> gx_status z = AES_SUCCEEDED \<and> gx_providerId z = fst i"
  obtain z where z: "find ?P (db_executions db) = Some z" using g by (cases "find ?P (db_executions db)") (auto simp: find_None_iff)
  then have "z \<in> set (db_executions db)" "gx_id z = gx_id g" using g(3) by (auto simp: find_Some_iff)
  with g(1,2) have zg: "z = g" by (metis distinct_map inj_on_def)
  note R = project_review_Some [OF r]
  have l: "rr_assuranceLevel (snd x) = AL4"
    using R by (simp add: normalizeAssuranceLevel_def strip_dash_def LEVELS_def)
  have refs: "set (referenceList (Some (JArr (map JStr (artifactRefs (snd x)))))) \<subseteq> set (referenceList (Some (gx_artifactReferences g)))"
  proof -
    have a: "set (artifactRefs (snd x)) \<subseteq> set (referenceList (Some (gx_artifactReferences g)))"
      using project_review_fields [OF r] references_subset g(10)
      by (simp add: referenceList_def MAX_REFERENCES_def MAX_ARTIFACT_REFS_def)
    have "set (bounded_list (Some (JArr (map JStr xs))) k n) \<subseteq> set xs" for xs k n
      by (auto simp: bounded_list_def str_of_def dest!: in_set_takeD)
    with a show ?thesis unfolding referenceList_def by blast
  qed
  have f: "map_of (the (object_fields (reviewerLineage x i))) ''reviewerExecutionId'' = Some (JStr (reviewerExecutionId (snd x)))"
    "map_of (the (object_fields (reviewerLineage x i))) ''providerId'' = Some (JStr (fst i))"
    "map_of (the (object_fields (reviewerLineage x i))) ''modelFamily'' = Some (JStr (snd i))"
    by (simp_all add: object_fields_def objectValue_def reviewerLineage_def)
  have b: "boundedString (Some (JStr (reviewerExecutionId (snd x)))) MAX_INVOCATION_ID_CHARS = Some (reviewerExecutionId (snd x))"
    by (rule bounded_again [OF R [THEN conjunct1]])
  show ?thesis
    using n refs z by (simp add: al4_reviewer_def f b nonEmpty_JStr named_provider_def l zg list_all_iff guardE_def subset_iff)
qed

section \<open>Sample reviews\<close>

definition sample_review_history :: "string \<Rightarrow> CompleteStepInput \<Rightarrow> GovernedExecutionRecord list \<Rightarrow> wf_op list" where
  "sample_review_history level review xs =
     [WfCreate 0 ''r'' ''c'' (sample_run_input\<lparr>cw_taskId := Some ''t'', cw_assuranceLevel := level\<rparr>), WfStart 1 ''s1'' ''o'' ''r'',
      WfComplete 2 ''s2'' (sample_completion ''s1''), WfComplete 3 ''s3'' (sample_completion ''s2''),
      WfComplete 4 ''s4'' (sample_completion ''s3''), WfComplete 5 ''s5'' (sample_completion ''s4''),
      WfComplete 6 ''s6'' review, WfExecutions xs]"

definition sample_state :: "string \<Rightarrow> CompleteStepInput \<Rightarrow> GovernedExecutionRecord list \<Rightarrow> RuntimeState" where
  "sample_state level review xs = fold wf_step (sample_review_history level review xs) empty_runtime"

definition sample_source :: "string \<Rightarrow> (string \<times> json) list" where
  "sample_source i = [(''invocationId'', JStr i), (''artifactReferences'', JArr [JStr ''a'']),
     (''providerExecutionMetadata'', JObj [(''stdout'', JStr ''out'')])]"

definition sample_record :: "string \<Rightarrow> string \<Rightarrow> GovernedExecutionRecord" where
  "sample_record i pid = \<lparr>gx_id = i, gx_organizationId = ''o'', gx_workflowRunId = ''r'', gx_workflowStepRunId = ''s5'',
     gx_capabilityCode = ''RED_TEAM'', gx_providerId = pid, gx_status = AES_SUCCEEDED, gx_outputReference = None,
     gx_artifactReferences = JArr [JStr ''a'']\<rparr>"

definition sample_prepared :: "string \<Rightarrow> PreparedStep" where
  "sample_prepared level = \<lparr>pp_run = new_run 0 ''r'' ''c'' (sample_run_input\<lparr>cw_assuranceLevel := level\<rparr>),
     pp_step = ready_step ''s5'' ''o'' ''r'' RED_TEAM 1 None (JObj []) 0, pp_capabilityCode = ''RED_TEAM'',
     pp_codeBuildApproval = None, pp_redTeamManifest = Some (JObj []), pp_correctionManifest = None\<rparr>"

definition sample_review_dispatch :: AgentDispatch where
  "sample_review_dispatch = sample_dispatch\<lparr>dp_execution := JObj (sample_source ''i'')\<rparr>"

definition sample_report :: "string \<Rightarrow> CompleteStepInput" where
  "sample_report level = the (step_report sample_env ''o'' ''r'' (sample_prepared level) sample_review_dispatch)"

definition sample_builder :: ProviderLineage where
  "sample_builder = (''b'', ''fb'')"

definition sample_providers :: "AgentProviderRow list" where
  "sample_providers = map (\<lambda>(i, f). \<lparr>ap_id = i, ap_organizationId = ''o'', ap_modelFamily = Some f\<rparr>)
     [sample_builder, (''p'', ''fp''), (''q'', ''fq'')]"

text \<open>An agent service that routes the second review to another provider.\<close>

definition sample_al4_env :: AgentEnv where
  "sample_al4_env = sample_env\<lparr>ae_dispatch := (\<lambda>_ _ _ _ _ _ ctx.
     let second = (case ctx of None \<Rightarrow> False | Some c \<Rightarrow> previousReviewerProviderIds c \<noteq> []) in
     Inr (sample_dispatch\<lparr>dp_selectedProviderId := (if second then ''q'' else ''p''),
       dp_execution := JObj (sample_source (if second then ''j'' else ''i''))\<rparr>))\<rparr>"

definition sample_reviews :: "((AgentDispatch \<times> ReviewResult) \<times> ProviderLineage) list" where
  "sample_reviews = (case two_reviews sample_al4_env sample_providers ''o'' ''r'' ''s5'' sample_builder of Inr xs \<Rightarrow> xs | Inl _ \<Rightarrow> [])"

definition sample_coordination :: CompleteStepInput where
  "sample_coordination = succeeded_completion ''o'' ''r'' ''s5'' None None None (coordination_metadata sample_builder sample_reviews)"

lemma sample_reports:
  "step_report sample_env ''o'' ''r'' (sample_prepared ''AL1'') sample_review_dispatch = Some (sample_report ''AL1'')"
  "step_report sample_env ''o'' ''r'' (sample_prepared ''AL4'') sample_review_dispatch = Some (sample_report ''AL4'')"
  "target_status (sample_report ''AL1'') = STEP_SUCCEEDED"
proof -
  have "\<not> Option.is_none (step_report sample_env ''o'' ''r'' (sample_prepared ''AL1'') sample_review_dispatch) \<and>
      \<not> Option.is_none (step_report sample_env ''o'' ''r'' (sample_prepared ''AL4'') sample_review_dispatch)" by code_simp
  then show "step_report sample_env ''o'' ''r'' (sample_prepared ''AL1'') sample_review_dispatch = Some (sample_report ''AL1'')"
    "step_report sample_env ''o'' ''r'' (sample_prepared ''AL4'') sample_review_dispatch = Some (sample_report ''AL4'')"
    by (auto simp: sample_report_def Option.is_none_def)
  show "target_status (sample_report ''AL1'') = STEP_SUCCEEDED" by code_simp
qed

lemma sample_metadata:
  "ci_metadata (sample_report level) = Some (the (ci_metadata (sample_report level)))" if "level \<in> {''AL1'', ''AL4''}"
  using that report_metadata [OF sample_reports(1)] report_metadata [OF sample_reports(2)] by auto

lemma sample_review_admissible:
  "ci_humanApproved i = None \<Longrightarrow> list_all (wf_admissible A) (sample_review_history level i xs)"
  by (simp add: sample_review_history_def sample_completion_def)

lemma sample_state_ok: "ci_humanApproved i = None \<Longrightarrow> runtime_ok A (sample_state level i xs)"
  unfolding sample_state_def by (rule reachable_ok [OF sample_review_admissible])

lemma sample_report_approval [simp]: "ci_humanApproved (sample_report ''AL1'') = None" "ci_humanApproved (sample_report ''AL4'') = None"
  using step_report_shape [OF sample_reports(1)] step_report_shape [OF sample_reports(2)] by auto

text \<open>The run, the last started and the last finished review of a state.\<close>

definition review_view :: "WorkflowDb \<Rightarrow>
  (WorkflowRunStatus \<times> EngineeringStepType option \<times> string) option \<times> (string \<times> json) option \<times> (string \<times> json) option" where
  "review_view db = (map_option (\<lambda>r. (wr_status r, wr_currentStepType r, wr_assuranceLevel r)) (find_run db ''o'' ''r''),
     map_option (\<lambda>s. (sr_id s, sr_metadata s)) (latest_by sr_startedAt (steps_where ''o'' ''r'' RED_TEAM STEP_SUCCEEDED db)),
     map_option (\<lambda>s. (sr_id s, sr_metadata s)) (latest_by sr_finishedAt (steps_where ''o'' ''r'' RED_TEAM STEP_SUCCEEDED db)))"

lemma review_view_cases:
  assumes "review_view db = (Some (st, t, l), Some (i, m), Some (j, n))"
  obtains r s z where "find_run db ''o'' ''r'' = Some r" "wr_status r = st" "wr_currentStepType r = t" "wr_assuranceLevel r = l"
    "latest_by sr_startedAt (steps_where ''o'' ''r'' RED_TEAM STEP_SUCCEEDED db) = Some s" "sr_id s = i" "sr_metadata s = m"
    "latest_by sr_finishedAt (steps_where ''o'' ''r'' RED_TEAM STEP_SUCCEEDED db) = Some z" "sr_id z = j" "sr_metadata z = n"
  using assms by (auto simp: review_view_def)

lemma sample_single_state:
  "review_view (fst (sample_state ''AL1'' (sample_report ''AL1'') [sample_record ''i'' ''p''])) =
     (Some (RUN_RUNNING, Some PARSE_VERDICT, ''AL1''), Some (''s5'', JObj (the (ci_metadata (sample_report ''AL1'')))),
      Some (''s5'', JObj (the (ci_metadata (sample_report ''AL1''))))) \<and>
   \<not> isl (parse_verdict [] ''o'' ''r'' (fst (sample_state ''AL1'' (sample_report ''AL1'') [sample_record ''i'' ''p''])))"
  by code_simp

definition sample_records :: "GovernedExecutionRecord list" where
  "sample_records = [sample_record ''i'' ''p'', sample_record ''j'' ''q'']"

lemma sample_al4_state:
  "review_view (fst (sample_state ''AL4'' sample_coordination sample_records)) =
     (Some (RUN_RUNNING, Some PARSE_VERDICT, ''AL4''), Some (''s5'', JObj (coordination_metadata sample_builder sample_reviews)),
      Some (''s5'', JObj (coordination_metadata sample_builder sample_reviews))) \<and>
   \<not> isl (parse_verdict sample_providers ''o'' ''r'' (fst (sample_state ''AL4'' sample_coordination sample_records)))"
  by code_simp

lemma sample_state_executions: "db_executions (fst (sample_state level i xs)) = xs"
proof -
  have "db_executions (fst (wf_step (WfExecutions xs) st)) = xs" for st by (cases st) simp
  then show ?thesis by (simp add: sample_state_def sample_review_history_def)
qed

abbreviation sample_single :: WorkflowDb where
  "sample_single \<equiv> fst (sample_state ''AL1'' (sample_report ''AL1'') [sample_record ''i'' ''p''])"

abbreviation sample_al4 :: WorkflowDb where
  "sample_al4 \<equiv> fst (sample_state ''AL4'' sample_coordination sample_records)"

lemma sample_levels: "normalizeAssuranceLevel ''AL1'' = Some AL1" "normalizeAssuranceLevel ''AL4'' = Some AL4"
  by (simp_all add: normalizeAssuranceLevel_def strip_dash_def LEVELS_def)

lemma not_isl_Inr: "\<not> isl x \<Longrightarrow> \<exists>y. x = Inr y"
  by (cases x) auto

lemma sample_two_reviews: "two_reviews sample_al4_env sample_providers ''o'' ''r'' ''s5'' sample_builder = Inr sample_reviews"
proof -
  have "\<not> isl (two_reviews sample_al4_env sample_providers ''o'' ''r'' ''s5'' sample_builder)" by code_simp
  then show ?thesis by (auto simp: sample_reviews_def isl_def split: sum.splits)
qed

lemma sample_reviews_fields:
  "map (\<lambda>(x, i). (reviewerExecutionId (snd x), i, field_of (objectValue (Some (dp_execution (fst x)))) ''artifactReferences'')) sample_reviews =
     [(''i'', (''p'', ''fp''), Some (JArr [JStr ''a''])), (''j'', (''q'', ''fq''), Some (JArr [JStr ''a'']))]"
  by code_simp

section \<open>Properties\<close>

text \<open>C10. A verdict below AL4 is the verdict of a governed review and of nothing
  else.  When the verdict service completes a step, there is a succeeded review
  step of the run and an entry of the execution ledger for exactly that step,
  capability, run and organisation, with success; the persisted review carries
  the identity of that execution and the level of the run, all its artifacts
  are among those of the ledger entry, and the verdict passed on is the one it
  holds.\<close>

theorem verdict_bound_to_ledger:
  assumes v: "parse_verdict providers org rid db = Inr input" and run: "find_run db org rid = Some r"
    and level: "normalizeAssuranceLevel (wr_assuranceLevel r) = Some level" "level \<noteq> AL4"
  shows "\<exists>s \<in> set (steps_of rid db). \<exists>x \<in> set (db_executions db). \<exists>review refs vd.
    sr_organizationId s = org \<and> sr_stepType s = RED_TEAM \<and> sr_status s = STEP_SUCCEEDED \<and>
    gx_organizationId x = org \<and> gx_workflowRunId x = rid \<and> gx_workflowStepRunId x = sr_id s \<and>
    gx_capabilityCode x = ''RED_TEAM'' \<and> gx_status x = AES_SUCCEEDED \<and>
    objectValue (field_of (objectValue (Some (sr_metadata s))) ''reviewResult'') = Some review \<and>
    map_of review ''reviewerExecutionId'' = Some (JStr (gx_id x)) \<and> map_of review ''verdict'' = Some (JStr (verdict_name vd)) \<and>
    level_value (map_of review ''assuranceLevel'') = Some level \<and>
    stringArray (map_of review ''artifactRefs'') = Some refs \<and> set refs \<subseteq> set (referenceList (Some (gx_artifactReferences x))) \<and>
    ci_verdict input = Some (verdict_name vd)"
proof -
  from parse_verdict_Inr [OF v] run level obtain pid where "single_verdict org rid level pid db = Inr input" by auto
  from single_verdict_Inr [OF this] obtain e s vd where e: "resolve_evidence org rid db = Inr e"
    and f: "find (\<lambda>s. sr_id s = ev_reviewStepRunId e) (steps_where org rid RED_TEAM STEP_SUCCEEDED db) = Some s"
    and b: "bound_verdict e level s = Inr vd" and i: "ci_verdict input = Some (verdict_name vd)" by auto
  from f have s: "s \<in> set (steps_where org rid RED_TEAM STEP_SUCCEEDED db)" "sr_id s = ev_reviewStepRunId e"
    by (auto simp: find_Some_iff)
  from resolve_evidence_Inr [OF e] obtain x where x: "x \<in> set (db_executions db)" "gx_organizationId x = org"
    "gx_workflowRunId x = rid" "gx_workflowStepRunId x = sr_id s" "gx_capabilityCode x = ''RED_TEAM''" "gx_status x = AES_SUCCEEDED"
    "ev_invocationId e = gx_id x" "ev_artifactReferences e = referenceList (Some (gx_artifactReferences x))"
    using s(2) by auto
  from bound_verdict_Inr [OF b] s(1) x i show ?thesis by (fastforce simp: steps_where_def steps_of_def)
qed

theorem verdict_bound_to_ledger_witness:
  "\<exists>s \<in> set (steps_of ''r'' sample_single). \<exists>x \<in> set (db_executions sample_single).
     sr_stepType s = RED_TEAM \<and> gx_workflowStepRunId x = sr_id s \<and> gx_status x = AES_SUCCEEDED"
proof -
  from sample_single_state obtain input where v: "parse_verdict [] ''o'' ''r'' sample_single = Inr input"
    using not_isl_Inr by blast
  from sample_single_state obtain r where "find_run sample_single ''o'' ''r'' = Some r" "wr_assuranceLevel r = ''AL1''"
    by (auto elim: review_view_cases)
  with verdict_bound_to_ledger [OF v, of r AL1] sample_levels show ?thesis by fastforce
qed

text \<open>C7. An AL4 verdict rests on two independent governed reviews.  When the verdict
  service completes a step of an AL4 run, it passes on exactly two reviews;
  each has a succeeded entry in the execution ledger for the review step,
  recorded for the provider the context names, whose model family is the
  registered one; builder and reviewers are three different providers of three
  different families; and with unique ledger identifiers the AL4 gate of the
  state machine accepts the evidence, so the gaps of that gate stay closed.\<close>

theorem al4_verdict_independent:
  assumes v: "parse_verdict providers org rid db = Inr input" and run: "find_run db org rid = Some r"
    and level: "normalizeAssuranceLevel (wr_assuranceLevel r) = Some AL4" and ids: "distinct (map gx_id (db_executions db))"
  shows "\<exists>r1 r2 p1 p2 f1 f2 bp bf ctx s. ci_reviewResults input = Some [r1, r2] \<and> ci_independenceContext input = Some ctx \<and>
    ctx = \<lparr>builderProviderId = Some bp, builderModelFamily = Some bf,
      previousReviewerProviderIds = [p1, p2], previousReviewerModelFamilies = [f1, f2]\<rparr> \<and>
    distinct [bp, p1, p2] \<and> distinct [bf, f1, f2] \<and>
    s \<in> set (steps_of rid db) \<and> sr_stepType s = RED_TEAM \<and> sr_status s = STEP_SUCCEEDED \<and>
    al4_record org rid (sr_id s) providers db r1 (p1, f1) \<and> al4_record org rid (sr_id s) providers db r2 (p2, f2) \<and>
    (\<forall>st. enforceAl4Requirements (machine_input input r st) = None)"
proof -
  from parse_verdict_Inr [OF v] run level obtain pid where "al4_verdict org rid providers pid db = Inr input" by auto
  from al4_verdict_Inr [OF this] obtain s results ctx builder lineage identities where
    s: "latest_by sr_finishedAt (steps_where org rid RED_TEAM STEP_SUCCEEDED db) = Some s"
    and e: "al4_evidence s = Inr (results, ctx, builder, lineage)"
    and a: "al4_reviewers org rid (sr_id s) providers db results lineage = Inr identities"
    and ind: "independent ctx builder (length results) identities"
    and i: "ci_reviewResults input = Some results" "ci_independenceContext input = Some ctx" by auto
  note E = al4_evidence_Inr [OF e]
  have "list_all2 (al4_record org rid (sr_id s) providers db) results identities"
    using al4_reviewers_Inr [OF a] E by simp
  moreover obtain r1 r2 where rs: "results = [r1, r2]" using E by (auto simp: length_Suc_conv numeral_2_eq_2)
  ultimately obtain p1 f1 p2 f2 where x: "identities = [(p1, f1), (p2, f2)]"
    "al4_record org rid (sr_id s) providers db r1 (p1, f1)" "al4_record org rid (sr_id s) providers db r2 (p2, f2)"
    by (auto simp: list_all2_Cons1)
  have d: "p1 \<noteq> p2" "f1 \<noteq> f2" "fst builder \<noteq> p1" "fst builder \<noteq> p2" "snd builder \<noteq> f1" "snd builder \<noteq> f2"
    "previousReviewerProviderIds ctx = [p1, p2]" "previousReviewerModelFamilies ctx = [f1, f2]"
    using ind x(1) rs by (auto simp: independent_def set_size_def split: if_splits)
  have "reviewerExecutionId r1 \<noteq> reviewerExecutionId r2"
    using x(2,3) d(1) ids unfolding al4_record_def distinct_map inj_on_def by force
  with al4_gate_open [OF i(1) [unfolded rs] _ i(2) d(7,1,8,2)] E d
  have gate: "\<forall>st. enforceAl4Requirements (machine_input input r st) = None" by auto
  show ?thesis
  proof (intro exI conjI)
    show "ci_reviewResults input = Some [r1, r2]" "ci_independenceContext input = Some ctx" using i rs by simp_all
    show "ctx = \<lparr>builderProviderId = Some (fst builder), builderModelFamily = Some (snd builder),
      previousReviewerProviderIds = [p1, p2], previousReviewerModelFamilies = [f1, f2]\<rparr>"
      using E d by (simp add: IndependenceContext.equality)
    show "distinct [fst builder, p1, p2]" "distinct [snd builder, f1, f2]" using d by simp_all
    show "s \<in> set (steps_of rid db)" "sr_stepType s = RED_TEAM" "sr_status s = STEP_SUCCEEDED"
      using latest_step [OF s] by simp_all
  qed (fact x(2) x(3) gate)+
qed

theorem al4_verdict_independent_witness:
  "\<exists>input r1 r2. parse_verdict sample_providers ''o'' ''r'' sample_al4 = Inr input \<and> ci_reviewResults input = Some [r1, r2]"
proof -
  from sample_al4_state obtain input where v: "parse_verdict sample_providers ''o'' ''r'' sample_al4 = Inr input"
    using not_isl_Inr by blast
  from sample_al4_state obtain r where r: "find_run sample_al4 ''o'' ''r'' = Some r" "wr_assuranceLevel r = ''AL4''"
    by (auto elim: review_view_cases)
  have "distinct (map gx_id (db_executions sample_al4))"
    by (simp add: sample_state_executions sample_records_def sample_record_def)
  from al4_verdict_independent [OF v r(1) _ this] r(2) sample_levels v show ?thesis by fastforce
qed

text \<open>A review an agent gave is a review the verdict service accepts.  Suppose the
  last succeeded review of a run below AL4 was reported by the agent runtime
  and the ledger holds its execution, with the references the execution
  returned.  Then the verdict service accepts it, and the verdict it passes on
  is the one projected from the agent's output: nothing is lost or refused
  between the two services.\<close>

lemma reported_review_reaches_verdict:
  assumes ok: "runtime_ok A (db, reg)"
    and run: "find_run db org rid = Some r" "wr_status r = RUN_RUNNING" "wr_currentStepType r = Some PARSE_VERDICT"
      "normalizeAssuranceLevel (wr_assuranceLevel r) = Some level" "level \<noteq> AL4"
    and s: "latest_by sr_startedAt (steps_where org rid RED_TEAM STEP_SUCCEEDED db) = Some s"
    and rep: "step_report env org rid p d = Some i" "target_status i = STEP_SUCCEEDED" "ci_metadata i = Some m"
      "sr_metadata s = JObj m" "sr_stepType (pp_step p) = RED_TEAM" "wr_assuranceLevel (pp_run p) = wr_assuranceLevel r"
    and led: "dp_execution d = JObj source" "map_of source ''invocationId'' = Some (JStr ivk)"
      "find_review_record db ivk org rid (sr_id s) = Some x" "map_of source ''artifactReferences'' = Some (gx_artifactReferences x)"
      "map_of source ''outputReference'' = map_option JStr (gx_outputReference x)"
  shows "\<exists>rvw input. project_review (ae_parse env) (dp_execution d) (wr_assuranceLevel r) = Some rvw \<and>
    parse_verdict providers org rid db = Inr input \<and> ci_verdict input = Some (verdict_name (rr_verdict rvw))"
proof -
  have wf: "wf_ok A db" using ok by (simp add: runtime_ok_def)
  from review_report [OF rep(1,3,2,5)] obtain rvw where
    rvw: "project_review (ae_parse env) (JObj source) (wr_assuranceLevel r) = Some rvw"
    and m: "map_of m ''reviewResult'' = Some (review_json rvw)"
      "map_of m ''executionEvidence'' = Some (JObj (executionEvidence (ae_sha256 env) (JObj source) RED_TEAM))"
    using rep(6) led(1) by auto
  have i: "boundedString (map_of source ''invocationId'') MAX_INVOCATION_ID_CHARS = Some ivk"
  proof -
    have b: "boundedString (Some (JStr ivk)) MAX_INVOCATION_ID_CHARS = Some (reviewerExecutionId rvw)"
      using project_review_Some [OF rvw] led(2) by (simp add: objectValue_def field_of_def)
    have "reviewerExecutionId rvw = ivk" using bounded_JStr [OF b] by simp
    from b [unfolded this] show ?thesis unfolding led(2) .
  qed
  from resolved_evidence [OF run(1) s rep(4) m(2) i led(3-5)] obtain e where
    e: "resolve_evidence org rid db = Inr e" "ev_reviewStepRunId e = sr_id s" "ev_invocationId e = ivk"
    "ev_artifactReferences e = referenceList (Some (gx_artifactReferences x))" by auto
  have "bound_verdict e level s = Inr (rr_verdict rvw)"
    by (rule bound_verdict_review [OF rvw run(4) rep(4) m(1)]) (simp_all add: i [unfolded led(2)] e led)
  moreover have "find (\<lambda>y. sr_id y = sr_id s) (steps_where org rid RED_TEAM STEP_SUCCEEDED db) = Some s"
    by (rule found_in_steps [OF wf latest_by_mem [OF s]])
  moreover from ready_step_found [OF wf run(1-3)] obtain st where
    "latest_by sr_startedAt (steps_where org rid PARSE_VERDICT STEP_READY db) = Some st" by auto
  ultimately show ?thesis using rvw e run
    by (auto simp: parse_verdict_def single_verdict_def led(1) guardE_def)
qed

text \<open>C27. What the coordinator persists for an AL4 run is what the verdict service
  accepts.  Suppose the last finished review step of the run carries the
  evidence of two coordinated reviews, the routing kept the first reviewer
  apart from the builder, provider identifiers are not blank, and the ledger
  holds both executions under unique identifiers.  Then the verdict service
  reads both reviews back unchanged and completes the step with them.\<close>

theorem coordinated_reviews_reach_verdict:
  assumes ok: "runtime_ok A (db, reg)"
    and run: "find_run db org rid = Some r" "wr_status r = RUN_RUNNING" "wr_currentStepType r = Some PARSE_VERDICT"
      "normalizeAssuranceLevel (wr_assuranceLevel r) = Some AL4"
    and s: "latest_by sr_finishedAt (steps_where org rid RED_TEAM STEP_SUCCEEDED db) = Some s"
      "sr_metadata s = JObj (coordination_metadata builder reviews)"
    and two: "resolveReviewerIdentity providers org bp = Inr builder" "two_reviews env providers org rid (sr_id s) builder = Inr reviews"
      "fst (snd (hd reviews)) \<noteq> fst builder" "snd (snd (hd reviews)) \<noteq> snd builder" "\<forall>a \<in> set providers. js_trim (ap_id a) \<noteq> []"
    and led: "distinct (map gx_id (db_executions db))"
      "\<forall>(x, i) \<in> set reviews. \<exists>g \<in> set (db_executions db). gx_id g = reviewerExecutionId (snd x) \<and> gx_organizationId g = org \<and>
        gx_workflowRunId g = rid \<and> gx_workflowStepRunId g = sr_id s \<and> gx_capabilityCode g = ''RED_TEAM'' \<and>
        gx_status g = AES_SUCCEEDED \<and> gx_providerId g = fst i \<and>
        field_of (objectValue (Some (dp_execution (fst x)))) ''artifactReferences'' = Some (gx_artifactReferences g)"
  shows "\<exists>input. parse_verdict providers org rid db = Inr input \<and> ci_reviewResults input = Some (map (snd \<circ> fst) reviews) \<and>
    ci_independenceContext input = Some (independence_context builder (map snd reviews))"
proof -
  from two(2) obtain x y i j where xy: "reviews = [(x, i), (y, j)]" and n: "named_provider providers org i" "named_provider providers org j"
    and p: "project_review (ae_parse env) (dp_execution (fst x)) ''AL4'' = Some (snd x)"
      "project_review (ae_parse env) (dp_execution (fst y)) ''AL4'' = Some (snd y)"
    and d: "fst j \<noteq> fst i" "snd j \<noteq> snd i" "fst j \<noteq> fst builder" "snd j \<noteq> snd builder" by (rule two_reviews_Inr)
  have trim: "js_trim (fst k) \<noteq> [] \<and> js_trim (snd k) \<noteq> []" if "named_provider providers org k" for k
    using that two(5) by (auto simp: named_provider_def)
  note b = trim [OF identity_named [OF two(1)]] and ti = trim [OF n(1)] and tj = trim [OF n(2)]
  have e: "al4_evidence s = Inr ([snd x, snd y], independence_context builder [i, j], builder,
     [the (object_fields (reviewerLineage x i)), the (object_fields (reviewerLineage y j))])"
    by (rule coordinated_evidence [OF s(2) [unfolded xy] stored_review_again [OF p(1)] stored_review_again [OF p(2)]]) (use b in auto)
  have "al4_reviewer org rid (sr_id s) providers db (snd x) (the (object_fields (reviewerLineage x i))) = Inr i"
    using led(2) xy coordinated_reviewer [OF p(1) n(1) _ _ led(1)] ti by auto
  moreover have "al4_reviewer org rid (sr_id s) providers db (snd y) (the (object_fields (reviewerLineage y j))) = Inr j"
    using led(2) xy coordinated_reviewer [OF p(2) n(2) _ _ led(1)] tj by auto
  moreover have "independent (independence_context builder [i, j]) builder 2 [i, j]"
    using d two(3,4) xy by (auto simp: independent_def independence_context_def set_size_def)
  moreover from ready_step_found [OF _ run(1-3)] ok obtain st where
    "latest_by sr_startedAt (steps_where org rid PARSE_VERDICT STEP_READY db) = Some st" by (auto simp: runtime_ok_def)
  ultimately show ?thesis using run s(1) e xy
    by (simp add: parse_verdict_def al4_verdict_def guardE_def numeral_2_eq_2)
qed

theorem coordinated_reviews_reach_verdict_witness:
  "\<exists>input. parse_verdict sample_providers ''o'' ''r'' sample_al4 = Inr input \<and>
     ci_reviewResults input = Some (map (snd \<circ> fst) sample_reviews) \<and> length sample_reviews = 2"
proof -
  from sample_al4_state obtain r s where r: "find_run sample_al4 ''o'' ''r'' = Some r" "wr_status r = RUN_RUNNING"
    "wr_currentStepType r = Some PARSE_VERDICT" "wr_assuranceLevel r = ''AL4''"
    and s: "latest_by sr_finishedAt (steps_where ''o'' ''r'' RED_TEAM STEP_SUCCEEDED sample_al4) = Some s" "sr_id s = ''s5''"
    "sr_metadata s = JObj (coordination_metadata sample_builder sample_reviews)"
    by (auto elim: review_view_cases)
  have ok: "runtime_ok (\<lambda>_ _ _. False) (sample_al4, snd (sample_state ''AL4'' sample_coordination sample_records))"
    using sample_state_ok [of sample_coordination] by (simp add: sample_coordination_def)
  have l: "normalizeAssuranceLevel (wr_assuranceLevel r) = Some AL4" using r(4) sample_levels by simp
  have t: "two_reviews sample_al4_env sample_providers ''o'' ''r'' (sr_id s) sample_builder = Inr sample_reviews"
    using sample_two_reviews s(2) by simp
  have b: "resolveReviewerIdentity sample_providers ''o'' ''b'' = Inr sample_builder" by code_simp
  have d: "distinct (map gx_id (db_executions sample_al4))"
    by (simp add: sample_state_executions sample_records_def sample_record_def)
  have "\<forall>a \<in> set sample_providers. js_trim (ap_id a) \<noteq> []" by (simp add: sample_providers_def sample_builder_def js_trim_def js_ws_def)
  note blank = this
  from sample_reviews_fields obtain x y where xy: "sample_reviews = [(x, (''p'', ''fp'')), (y, (''q'', ''fq''))]"
    "reviewerExecutionId (snd x) = ''i''" "reviewerExecutionId (snd y) = ''j''"
    "field_of (objectValue (Some (dp_execution (fst x)))) ''artifactReferences'' = Some (JArr [JStr ''a''])"
    "field_of (objectValue (Some (dp_execution (fst y)))) ''artifactReferences'' = Some (JArr [JStr ''a''])"
    by (auto simp: map_eq_Cons_conv)
  have led: "\<forall>(x, i) \<in> set sample_reviews. \<exists>g \<in> set (db_executions sample_al4). gx_id g = reviewerExecutionId (snd x) \<and>
      gx_organizationId g = ''o'' \<and> gx_workflowRunId g = ''r'' \<and> gx_workflowStepRunId g = sr_id s \<and> gx_capabilityCode g = ''RED_TEAM'' \<and>
      gx_status g = AES_SUCCEEDED \<and> gx_providerId g = fst i \<and>
      field_of (objectValue (Some (dp_execution (fst x)))) ''artifactReferences'' = Some (gx_artifactReferences g)"
    unfolding xy(1) using xy(2-) s(2) by (simp add: sample_state_executions sample_records_def sample_record_def)
  have "fst (snd (hd sample_reviews)) \<noteq> fst sample_builder" "snd (snd (hd sample_reviews)) \<noteq> snd sample_builder"
    unfolding xy(1) by (simp_all add: sample_builder_def)
  from coordinated_reviews_reach_verdict [OF ok r(1-3) l s(1,3) b t this blank d led] obtain input where
    "parse_verdict sample_providers ''o'' ''r'' sample_al4 = Inr input"
    "ci_reviewResults input = Some (map (snd \<circ> fst) sample_reviews)" by auto
  moreover have "length sample_reviews = 2" unfolding xy(1) by simp
  ultimately show ?thesis by auto
qed

text \<open>An AL4 review that did not come from the coordinator is a dead end.  The
  agent runtime executes the review step of an AL4 run like any other and
  completes it with a single review; as long as this is the latest succeeded review
  of the run, the verdict service refuses the run and leaves the tables as they are.\<close>

lemma al4_single_review_refused:
  assumes run: "find_run db org rid = Some r" "normalizeAssuranceLevel (wr_assuranceLevel r) = Some AL4"
    and s: "latest_by sr_finishedAt (steps_where org rid RED_TEAM STEP_SUCCEEDED db) = Some s" "sr_metadata s = JObj m"
    and rep: "step_report env org rid p d = Some i" "ci_metadata i = Some m"
  shows "parseAndTransition providers now newId org rid db = (db, Inl WF_CONFLICT)"
proof -
  have "map_of m ''source'' = Some (JStr ''WORKFLOW_AGENT_RUNTIME'')"
    using report_metadata [OF rep(1)] rep(2) by (simp add: agent_metadata_def map_add_def split: option.splits)
  then have "al4_evidence s = Inl WF_CONFLICT"
    by (simp add: al4_evidence_def s(2) objectValue_JObj field_of_def guardE_def Let_def)
  then have "al4_verdict org rid providers pid db = Inl WF_CONFLICT" for pid by (simp add: al4_verdict_def s(1))
  then have "parse_verdict providers org rid db = Inl WF_CONFLICT"
    by (simp add: parse_verdict_def run bindE_Inl_iff guardE_def split: option.splits)
  then show ?thesis by (simp add: parseAndTransition_def)
qed

end
