(* ===== verification/Vito_ProviderRegistry.thy ===== *)
theory Vito_ProviderRegistry
  imports Vito_WorkflowRuntime
begin

text \<open>
  The provider registry: \<open>provider-registry.service.ts\<close>, the endpoints of
  \<open>provider-registry.controller.ts\<close> that change it, and the bootstrap of the
  engineering provider, \<open>engineering-provider-provisioning.service.ts\<close>.  The tables
  are lists of rows; an operation returns the tables and its result or error.
  An update reads its row before the transaction that writes it, so the two
  halves are definitions of their own.  Enumerations arrive as strings; a value
  outside its enumeration makes the database client throw.
\<close>

section \<open>Tables\<close>

record AgentProvider =
  ap_id :: string
  ap_organizationId :: string
  ap_providerCode :: string
  ap_displayName :: string
  ap_providerType :: ProviderType
  ap_status :: ProviderStatus
  ap_credentialRequirement :: ProviderCredentialRequirement
  ap_modelFamily :: "string option"
  ap_modelName :: "string option"
  ap_modelCode :: "string option"
  ap_supportedCapabilities :: "string list"
  ap_estimatedCostMinorUnits :: "int option"
  ap_healthStatus :: ProviderHealthStatus
  ap_healthCheckedAt :: "int option"
  ap_quotaStatus :: ProviderQuotaStatus
  ap_quotaCheckedAt :: "int option"
  ap_qualityScore :: "rat option"
  ap_latencyScore :: "rat option"
  ap_costScore :: "rat option"
  ap_costMetadata :: "(string \<times> json) list"
  ap_assuranceLevels :: "string list"
  ap_metadata :: "(string \<times> json) list"

record ProviderCapability =
  pc_id :: string
  pc_organizationId :: string
  pc_agentProviderId :: string
  pc_capabilityCode :: string
  pc_isEnabled :: bool

record ProviderScoreComponents =
  sc_qualityScore :: rat
  sc_costScore :: rat
  sc_latencyScore :: rat
  sc_healthPreference :: rat

record ProviderRoutingDecision =
  rd_id :: string
  rd_organizationId :: string
  rd_correlationId :: string
  rd_workflowRunId :: "string option"
  rd_workflowStepRunId :: "string option"
  rd_requestedCapability :: string
  rd_assuranceLevel :: "string option"
  rd_selectedProviderId :: "string option"
  rd_candidateProviderIds :: "string list"
  rd_rejectionReasons :: "(string \<times> string) list"
  rd_scoreComponents :: "(string \<times> ProviderScoreComponents) list"
  rd_finalScore :: "rat option"
  rd_decisionReason :: string
  rd_routingPolicyVersion :: string
  rd_createdAt :: int

record RegistryDb =
  rg_providers :: "AgentProvider list"
  rg_capabilities :: "ProviderCapability list"
  rg_decisions :: "ProviderRoutingDecision list"
  rg_auditRows :: "AuditRow list"

datatype RegistryError =
    RG_NOT_FOUND | RG_CONFLICT | RG_BAD_REQUEST | RG_UNIQUE_VIOLATION | RG_INVALID_VALUE | RG_RECORD_MISSING

definition PROVIDER_TYPES :: "(string \<times> ProviderType) list" where
  "PROVIDER_TYPES = [(''CLOUD_LLM'', CLOUD_LLM), (''LOCAL_LLM'', LOCAL_LLM),
     (''DETERMINISTIC_TOOL'', DETERMINISTIC_TOOL), (''LOCAL_TOOL'', LOCAL_TOOL)]"

definition PROVIDER_STATUSES :: "(string \<times> ProviderStatus) list" where
  "PROVIDER_STATUSES = [(''ACTIVE'', PS_ACTIVE), (''DISABLED'', PS_DISABLED), (''DEGRADED'', PS_DEGRADED)]"

definition HEALTH_STATUSES :: "(string \<times> ProviderHealthStatus) list" where
  "HEALTH_STATUSES = [(''UNKNOWN'', PH_UNKNOWN), (''HEALTHY'', PH_HEALTHY), (''DEGRADED'', PH_DEGRADED),
     (''QUOTA_LIMITED'', PH_QUOTA_LIMITED), (''UNAVAILABLE'', PH_UNAVAILABLE), (''DISABLED'', PH_DISABLED)]"

definition QUOTA_STATUSES :: "(string \<times> ProviderQuotaStatus) list" where
  "QUOTA_STATUSES = [(''UNKNOWN'', PQ_UNKNOWN), (''AVAILABLE'', PQ_AVAILABLE), (''LIMITED'', PQ_LIMITED),
     (''EXHAUSTED'', PQ_EXHAUSTED)]"

definition CREDENTIAL_REQUIREMENTS :: "(string \<times> ProviderCredentialRequirement) list" where
  "CREDENTIAL_REQUIREMENTS = [(''REQUIRED'', CR_REQUIRED), (''NOT_REQUIRED'', CR_NOT_REQUIRED), (''UNKNOWN'', CR_UNKNOWN)]"

definition enum_value :: "(string \<times> 'a) list \<Rightarrow> string \<Rightarrow> RegistryError + 'a" where
  "enum_value tbl s = (case map_of tbl s of None \<Rightarrow> Inl RG_INVALID_VALUE | Some v \<Rightarrow> Inr v)"

definition enum_update :: "(string \<times> 'a) list \<Rightarrow> string option \<Rightarrow> 'a \<Rightarrow> RegistryError + 'a" where
  "enum_update tbl s old = (case s of None \<Rightarrow> Inr old | Some n \<Rightarrow> enum_value tbl n)"

definition enum_name :: "(string \<times> 'a) list \<Rightarrow> 'a \<Rightarrow> string" where
  "enum_name tbl v = (case find (\<lambda>e. snd e = v) tbl of None \<Rightarrow> [] | Some e \<Rightarrow> fst e)"

section \<open>Queries\<close>

definition find_agent_provider :: "RegistryDb \<Rightarrow> string \<Rightarrow> string \<Rightarrow> AgentProvider option" where
  "find_agent_provider db org pid = find (\<lambda>p. ap_id p = pid \<and> ap_organizationId p = org) (rg_providers db)"

definition findProviderById :: "string \<Rightarrow> string \<Rightarrow> RegistryDb \<Rightarrow> RegistryError + AgentProvider" where
  "findProviderById org pid db = (case find_agent_provider db org pid of None \<Rightarrow> Inl RG_NOT_FOUND | Some p \<Rightarrow> Inr p)"

definition findProviderByCode :: "string \<Rightarrow> string \<Rightarrow> RegistryDb \<Rightarrow> AgentProvider option" where
  "findProviderByCode org code db =
     find (\<lambda>p. ap_organizationId p = org \<and> ap_providerCode p = code) (rg_providers db)"

text \<open>The collation of the database is an argument of the queries that order by a text column.\<close>

definition by_code :: "(string \<Rightarrow> string \<Rightarrow> bool) \<Rightarrow> (AgentProvider \<Rightarrow> bool) \<Rightarrow> RegistryDb \<Rightarrow> AgentProvider list" where
  "by_code le P db = sort_by (\<lambda>p q. le (ap_providerCode p) (ap_providerCode q)) (filter P (rg_providers db))"

definition findAllProviders :: "(string \<Rightarrow> string \<Rightarrow> bool) \<Rightarrow> string \<Rightarrow> RegistryDb \<Rightarrow> AgentProvider list" where
  "findAllProviders le org db = by_code le (\<lambda>p. ap_organizationId p = org) db"

definition findActiveProviders :: "(string \<Rightarrow> string \<Rightarrow> bool) \<Rightarrow> string \<Rightarrow> RegistryDb \<Rightarrow> AgentProvider list" where
  "findActiveProviders le org db = by_code le (\<lambda>p. ap_organizationId p = org \<and> ap_status p = PS_ACTIVE) db"

definition capabilities_of :: "RegistryDb \<Rightarrow> string \<Rightarrow> ProviderCapability list" where
  "capabilities_of db pid = filter (\<lambda>c. pc_agentProviderId c = pid) (rg_capabilities db)"

definition listCapabilities ::
  "(string \<Rightarrow> string \<Rightarrow> bool) \<Rightarrow> string \<Rightarrow> string option \<Rightarrow> RegistryDb \<Rightarrow> ProviderCapability list" where
  "listCapabilities le org pid db =
     sort_by (\<lambda>c d. if pc_capabilityCode c = pc_capabilityCode d then le (pc_agentProviderId c) (pc_agentProviderId d)
                    else le (pc_capabilityCode c) (pc_capabilityCode d))
       (filter (\<lambda>c. pc_organizationId c = org \<and> (truthy pid \<longrightarrow> Some (pc_agentProviderId c) = pid)) (rg_capabilities db))"

section \<open>Writing\<close>

definition registry_audit :: "AuditRow \<Rightarrow> RegistryDb \<Rightarrow> RegistryDb" where
  "registry_audit e db = db\<lparr>rg_auditRows := rg_auditRows db @ [e]\<rparr>"

definition insert_provider :: "AgentProvider \<Rightarrow> RegistryDb \<Rightarrow> RegistryError + RegistryDb" where
  "insert_provider p db =
     (if \<exists>q \<in> set (rg_providers db). ap_id q = ap_id p \<or>
          (ap_organizationId q = ap_organizationId p \<and> ap_providerCode q = ap_providerCode p)
      then Inl RG_UNIQUE_VIOLATION else Inr (db\<lparr>rg_providers := rg_providers db @ [p]\<rparr>))"

definition set_provider :: "string \<Rightarrow> AgentProvider \<Rightarrow> RegistryDb \<Rightarrow> RegistryDb" where
  "set_provider pid row db = db\<lparr>rg_providers := map (\<lambda>q. if ap_id q = pid then row else q) (rg_providers db)\<rparr>"

definition insert_capability :: "ProviderCapability \<Rightarrow> RegistryDb \<Rightarrow> RegistryError + RegistryDb" where
  "insert_capability c db =
     (if \<exists>d \<in> set (rg_capabilities db). pc_id d = pc_id c \<or>
          (pc_organizationId d = pc_organizationId c \<and> pc_agentProviderId d = pc_agentProviderId c \<and>
           pc_capabilityCode d = pc_capabilityCode c)
      then Inl RG_UNIQUE_VIOLATION else Inr (db\<lparr>rg_capabilities := rg_capabilities db @ [c]\<rparr>))"

definition registry_tx :: "(RegistryDb \<Rightarrow> RegistryError + ('a \<times> RegistryDb)) \<Rightarrow> RegistryDb \<Rightarrow>
    RegistryDb \<times> (RegistryError + 'a)" where
  "registry_tx body db = (case body db of Inl e \<Rightarrow> (db, Inl e) | Inr (x, db') \<Rightarrow> (db', Inr x))"

text \<open>A cloud model provider requires a credential; nothing else is accepted for it.\<close>

definition resolveCredentialRequirementForWrite ::
  "string \<Rightarrow> string option \<Rightarrow> bool \<Rightarrow> RegistryError + ProviderCredentialRequirement" where
  "resolveCredentialRequirementForWrite providerType raw applyCloudDefault =
     (let resolved = (if raw = None \<and> applyCloudDefault \<and> providerType = ''CLOUD_LLM'' then ''REQUIRED''
                      else case raw of None \<Rightarrow> ''UNKNOWN'' | Some r \<Rightarrow> r) in
      case map_of CREDENTIAL_REQUIREMENTS resolved of
        None \<Rightarrow> Inl RG_BAD_REQUEST
      | Some c \<Rightarrow> if providerType = ''CLOUD_LLM'' \<and> c \<noteq> CR_REQUIRED then Inl RG_BAD_REQUEST else Inr c)"

section \<open>Creating a provider\<close>

record CreateProviderInput =
  cp_in_organizationId :: string
  cp_in_providerCode :: string
  cp_in_displayName :: string
  cp_in_providerType :: "string option"
  cp_in_status :: "string option"
  cp_in_modelFamily :: "string option"
  cp_in_modelName :: "string option"
  cp_in_modelCode :: "string option"
  cp_in_supportedCapabilities :: "string list"
  cp_in_estimatedCostMinorUnits :: "int option"
  cp_in_healthStatus :: "string option"
  cp_in_quotaStatus :: "string option"
  cp_in_qualityScore :: "rat option"
  cp_in_latencyScore :: "rat option"
  cp_in_costScore :: "rat option"
  cp_in_costMetadata :: "(string \<times> json) list option"
  cp_in_assuranceLevels :: "string list option"
  cp_in_metadata :: "(string \<times> json) list option"
  cp_in_credentialRequirement :: "string option"

definition or_else :: "'a option \<Rightarrow> 'a \<Rightarrow> 'a" where
  "or_else v d = (case v of None \<Rightarrow> d | Some x \<Rightarrow> x)"

definition new_provider ::
  "string \<Rightarrow> CreateProviderInput \<Rightarrow> ProviderCredentialRequirement \<Rightarrow> RegistryError + AgentProvider" where
  "new_provider newId input credential =
     bindE (enum_value PROVIDER_TYPES (or_else (cp_in_providerType input) ''CLOUD_LLM'')) (\<lambda>providerType.
     bindE (enum_value PROVIDER_STATUSES (or_else (cp_in_status input) ''DISABLED'')) (\<lambda>status.
     bindE (enum_value HEALTH_STATUSES (or_else (cp_in_healthStatus input) ''UNKNOWN'')) (\<lambda>health.
     bindE (enum_value QUOTA_STATUSES (or_else (cp_in_quotaStatus input) ''UNKNOWN'')) (\<lambda>quota.
     Inr \<lparr>ap_id = newId, ap_organizationId = cp_in_organizationId input, ap_providerCode = cp_in_providerCode input,
       ap_displayName = cp_in_displayName input, ap_providerType = providerType, ap_status = status,
       ap_credentialRequirement = credential, ap_modelFamily = cp_in_modelFamily input,
       ap_modelName = cp_in_modelName input, ap_modelCode = cp_in_modelCode input,
       ap_supportedCapabilities = cp_in_supportedCapabilities input,
       ap_estimatedCostMinorUnits = cp_in_estimatedCostMinorUnits input,
       ap_healthStatus = health, ap_healthCheckedAt = None, ap_quotaStatus = quota, ap_quotaCheckedAt = None,
       ap_qualityScore = cp_in_qualityScore input, ap_latencyScore = cp_in_latencyScore input,
       ap_costScore = cp_in_costScore input, ap_costMetadata = or_else (cp_in_costMetadata input) [],
       ap_assuranceLevels = or_else (cp_in_assuranceLevels input) [], ap_metadata = or_else (cp_in_metadata input) []\<rparr>))))"

definition registered_row :: "AgentProvider \<Rightarrow> AuditRow" where
  "registered_row p = system_row (ap_organizationId p) ''PROVIDER_REGISTERED'' ''AgentProvider'' (ap_id p)
     [(''providerCode'', JStr (ap_providerCode p)), (''displayName'', JStr (ap_displayName p)),
      (''providerType'', JStr (enum_name PROVIDER_TYPES (ap_providerType p))),
      (''credentialRequirement'', JStr (enum_name CREDENTIAL_REQUIREMENTS (ap_credentialRequirement p))),
      (''supportedCapabilities'', JArr (map JStr (ap_supportedCapabilities p)))]"

definition createProvider ::
  "string \<Rightarrow> CreateProviderInput \<Rightarrow> RegistryDb \<Rightarrow> RegistryDb \<times> (RegistryError + AgentProvider)" where
  "createProvider newId input = registry_tx (\<lambda>db.
     bindE (resolveCredentialRequirementForWrite (or_else (cp_in_providerType input) ''CLOUD_LLM'')
       (cp_in_credentialRequirement input) True) (\<lambda>credential.
     bindE (new_provider newId input credential) (\<lambda>p.
     bindE (insert_provider p db) (\<lambda>db'.
     Inr (p, registry_audit (registered_row p) db')))))"

section \<open>Updating a provider\<close>

record UpdateProviderInput =
  up_organizationId :: string
  up_providerId :: string
  up_displayName :: "string option"
  up_providerType :: "string option"
  up_status :: "string option"
  up_modelFamily :: "string option"
  up_modelName :: "string option"
  up_modelCode :: "string option"
  up_supportedCapabilities :: "string list option"
  up_estimatedCostMinorUnits :: "int option option"
  up_healthStatus :: "string option"
  up_healthCheckedAt :: "int option"
  up_quotaStatus :: "string option"
  up_quotaCheckedAt :: "int option"
  up_qualityScore :: "rat option"
  up_latencyScore :: "rat option"
  up_costScore :: "rat option"
  up_costMetadata :: "(string \<times> json) list option"
  up_assuranceLevels :: "string list option"
  up_metadata :: "(string \<times> json) list option"
  up_credentialRequirement :: "string option"

text \<open>The read of the row and the checks in front of the transaction.  The value is the
  credential requirement to write, if any.\<close>

definition check_update ::
  "UpdateProviderInput \<Rightarrow> RegistryDb \<Rightarrow> RegistryError + ProviderCredentialRequirement option" where
  "check_update input db =
     (case find_agent_provider db (up_organizationId input) (up_providerId input) of
        None \<Rightarrow> Inl RG_NOT_FOUND
      | Some existing \<Rightarrow>
          bindE (if up_credentialRequirement input \<noteq> None \<or> up_providerType input \<noteq> None
                 then (case resolveCredentialRequirementForWrite
                     (or_else (up_providerType input) (enum_name PROVIDER_TYPES (ap_providerType existing)))
                     (Some (or_else (up_credentialRequirement input)
                       (enum_name CREDENTIAL_REQUIREMENTS (ap_credentialRequirement existing)))) False of
                   Inl e \<Rightarrow> Inl e | Inr c \<Rightarrow> Inr (Some c))
                 else Inr None) (\<lambda>credential.
          if up_status input = Some ''ACTIVE'' then Inl RG_BAD_REQUEST else Inr credential))"

definition updated_row ::
  "int \<Rightarrow> UpdateProviderInput \<Rightarrow> ProviderCredentialRequirement option \<Rightarrow> AgentProvider \<Rightarrow> RegistryError + AgentProvider" where
  "updated_row now input credential p =
     bindE (enum_update PROVIDER_TYPES (up_providerType input) (ap_providerType p)) (\<lambda>providerType.
     bindE (enum_update PROVIDER_STATUSES (up_status input) (ap_status p)) (\<lambda>status.
     bindE (enum_update HEALTH_STATUSES (up_healthStatus input) (ap_healthStatus p)) (\<lambda>health.
     bindE (enum_update QUOTA_STATUSES (up_quotaStatus input) (ap_quotaStatus p)) (\<lambda>quota.
     Inr (p\<lparr>ap_displayName := or_else (up_displayName input) (ap_displayName p),
       ap_providerType := providerType, ap_status := status,
       ap_credentialRequirement := or_else credential (ap_credentialRequirement p),
       ap_modelFamily := (if up_modelFamily input = None then ap_modelFamily p else up_modelFamily input),
       ap_modelName := (if up_modelName input = None then ap_modelName p else up_modelName input),
       ap_modelCode := (if up_modelCode input = None then ap_modelCode p else up_modelCode input),
       ap_supportedCapabilities := or_else (up_supportedCapabilities input) (ap_supportedCapabilities p),
       ap_estimatedCostMinorUnits := or_else (up_estimatedCostMinorUnits input) (ap_estimatedCostMinorUnits p),
       ap_healthStatus := health,
       ap_healthCheckedAt := (if up_healthCheckedAt input \<noteq> None then up_healthCheckedAt input
         else if up_healthStatus input \<noteq> None then Some now else ap_healthCheckedAt p),
       ap_quotaStatus := quota,
       ap_quotaCheckedAt := (if up_quotaCheckedAt input \<noteq> None then up_quotaCheckedAt input
         else if up_quotaStatus input \<noteq> None then Some now else ap_quotaCheckedAt p),
       ap_qualityScore := (if up_qualityScore input = None then ap_qualityScore p else up_qualityScore input),
       ap_latencyScore := (if up_latencyScore input = None then ap_latencyScore p else up_latencyScore input),
       ap_costScore := (if up_costScore input = None then ap_costScore p else up_costScore input),
       ap_costMetadata := or_else (up_costMetadata input) (ap_costMetadata p),
       ap_assuranceLevels := or_else (up_assuranceLevels input) (ap_assuranceLevels p),
       ap_metadata := or_else (up_metadata input) (ap_metadata p)\<rparr>)))))"

definition updated_fields :: "UpdateProviderInput \<Rightarrow> string list" where
  "updated_fields i =
     (let given = (\<lambda>b k. if b then [k] else []) in
      given (up_displayName i \<noteq> None) ''displayName'' @ given (up_providerType i \<noteq> None) ''providerType'' @
      given (up_status i \<noteq> None) ''status'' @ given (up_modelFamily i \<noteq> None) ''modelFamily'' @
      given (up_modelName i \<noteq> None) ''modelName'' @ given (up_modelCode i \<noteq> None) ''modelCode'' @
      given (up_supportedCapabilities i \<noteq> None) ''supportedCapabilities'' @
      given (up_estimatedCostMinorUnits i \<noteq> None) ''estimatedCostMinorUnits'' @
      given (up_healthStatus i \<noteq> None) ''healthStatus'' @
      given (up_healthStatus i \<noteq> None \<or> up_healthCheckedAt i \<noteq> None) ''healthCheckedAt'' @
      given (up_quotaStatus i \<noteq> None) ''quotaStatus'' @
      given (up_quotaStatus i \<noteq> None \<or> up_quotaCheckedAt i \<noteq> None) ''quotaCheckedAt'' @
      given (up_qualityScore i \<noteq> None) ''qualityScore'' @ given (up_latencyScore i \<noteq> None) ''latencyScore'' @
      given (up_costScore i \<noteq> None) ''costScore'' @ given (up_costMetadata i \<noteq> None) ''costMetadata'' @
      given (up_assuranceLevels i \<noteq> None) ''assuranceLevels'' @ given (up_metadata i \<noteq> None) ''metadata'' @
      given (up_credentialRequirement i \<noteq> None \<or> up_providerType i \<noteq> None) ''credentialRequirement'')"

text \<open>The transaction: it finds the row by its primary key alone.\<close>

definition write_update ::
  "int \<Rightarrow> UpdateProviderInput \<Rightarrow> ProviderCredentialRequirement option \<Rightarrow> RegistryDb \<Rightarrow>
   RegistryDb \<times> (RegistryError + AgentProvider)" where
  "write_update now input credential = registry_tx (\<lambda>db.
     case find (\<lambda>p. ap_id p = up_providerId input) (rg_providers db) of
       None \<Rightarrow> Inl RG_RECORD_MISSING
     | Some p \<Rightarrow>
         bindE (updated_row now input credential p) (\<lambda>p'.
         Inr (p', registry_audit (system_row (up_organizationId input) ''PROVIDER_UPDATED'' ''AgentProvider'' (ap_id p')
           [(''providerCode'', JStr (ap_providerCode p')), (''updatedFields'', JArr (map JStr (updated_fields input)))])
           (set_provider (up_providerId input) p' db))))"

definition updateProvider ::
  "int \<Rightarrow> UpdateProviderInput \<Rightarrow> RegistryDb \<Rightarrow> RegistryDb \<times> (RegistryError + AgentProvider)" where
  "updateProvider now input db =
     (case check_update input db of Inl e \<Rightarrow> (db, Inl e) | Inr credential \<Rightarrow> write_update now input credential db)"

definition empty_update :: "string \<Rightarrow> string \<Rightarrow> UpdateProviderInput" where
  "empty_update org pid = \<lparr>up_organizationId = org, up_providerId = pid, up_displayName = None,
     up_providerType = None, up_status = None, up_modelFamily = None, up_modelName = None, up_modelCode = None,
     up_supportedCapabilities = None, up_estimatedCostMinorUnits = None, up_healthStatus = None,
     up_healthCheckedAt = None, up_quotaStatus = None, up_quotaCheckedAt = None, up_qualityScore = None,
     up_latencyScore = None, up_costScore = None, up_costMetadata = None, up_assuranceLevels = None,
     up_metadata = None, up_credentialRequirement = None\<rparr>"

definition updateHealthStatus ::
  "int \<Rightarrow> string \<Rightarrow> string \<Rightarrow> string \<Rightarrow> RegistryDb \<Rightarrow> RegistryDb \<times> (RegistryError + AgentProvider)" where
  "updateHealthStatus now org pid health = updateProvider now ((empty_update org pid)\<lparr>up_healthStatus := Some health\<rparr>)"

definition updateQuotaStatus ::
  "int \<Rightarrow> string \<Rightarrow> string \<Rightarrow> string \<Rightarrow> RegistryDb \<Rightarrow> RegistryDb \<times> (RegistryError + AgentProvider)" where
  "updateQuotaStatus now org pid quota = updateProvider now ((empty_update org pid)\<lparr>up_quotaStatus := Some quota\<rparr>)"

definition disableProvider ::
  "int \<Rightarrow> string \<Rightarrow> string \<Rightarrow> RegistryDb \<Rightarrow> RegistryDb \<times> (RegistryError + AgentProvider)" where
  "disableProvider now org pid = updateProvider now ((empty_update org pid)\<lparr>up_status := Some ''DISABLED''\<rparr>)"

section \<open>The activation gate\<close>

record ActivateProviderInput =
  ac_organizationId :: string
  ac_providerId :: string
  ac_credentialAuthorizationConfirmed :: bool
  ac_capabilitiesReviewed :: bool
  ac_cloudProfileReviewed :: bool
  ac_approvalNote :: "string option"

definition reviewed :: "ActivateProviderInput \<Rightarrow> bool" where
  "reviewed i = (ac_credentialAuthorizationConfirmed i \<and> ac_capabilitiesReviewed i \<and> ac_cloudProfileReviewed i)"

text \<open>The enabled capabilities of a provider that may be activated.\<close>

definition check_activate :: "ActivateProviderInput \<Rightarrow> RegistryDb \<Rightarrow> RegistryError + ProviderCapability list" where
  "check_activate input db =
     (case find_agent_provider db (ac_organizationId input) (ac_providerId input) of
        None \<Rightarrow> Inl RG_NOT_FOUND
      | Some existing \<Rightarrow>
          (let enabled = filter pc_isEnabled (capabilities_of db (ap_id existing)) in
           if ap_status existing = PS_ACTIVE \<or> \<not> reviewed input \<or> enabled = [] then Inl RG_BAD_REQUEST
           else Inr enabled))"

definition write_activate ::
  "ActivateProviderInput \<Rightarrow> ProviderCapability list \<Rightarrow> RegistryDb \<Rightarrow> RegistryDb \<times> (RegistryError + AgentProvider)" where
  "write_activate input enabled = registry_tx (\<lambda>db.
     case find (\<lambda>p. ap_id p = ac_providerId input) (rg_providers db) of
       None \<Rightarrow> Inl RG_RECORD_MISSING
     | Some p \<Rightarrow>
         (let p' = p\<lparr>ap_status := PS_ACTIVE\<rparr> in
          Inr (p', registry_audit (system_row (ac_organizationId input) ''PROVIDER_ACTIVATED'' ''AgentProvider'' (ap_id p')
            ([(''providerCode'', JStr (ap_providerCode p')), (''credentialAuthorizationConfirmed'', JBool True),
              (''capabilitiesReviewed'', JBool True), (''cloudProfileReviewed'', JBool True),
              (''enabledCapabilityCodes'', JArr (map (JStr \<circ> pc_capabilityCode) enabled))] @
             (case ac_approvalNote input of None \<Rightarrow> [] | Some n \<Rightarrow> [(''approvalNote'', JStr n)]) @
             [(''activationGateVersion'', JStr ''0.1.0'')]))
            (set_provider (ac_providerId input) p' db))))"

definition activateProvider ::
  "ActivateProviderInput \<Rightarrow> RegistryDb \<Rightarrow> RegistryDb \<times> (RegistryError + AgentProvider)" where
  "activateProvider input db =
     (case check_activate input db of Inl e \<Rightarrow> (db, Inl e) | Inr enabled \<Rightarrow> write_activate input enabled db)"

section \<open>Capabilities\<close>

record AssignProviderCapabilityInput =
  as_organizationId :: string
  as_agentProviderId :: string
  as_capabilityCode :: string
  as_isEnabled :: "bool option"

definition assignCapability ::
  "string \<Rightarrow> AssignProviderCapabilityInput \<Rightarrow> RegistryDb \<Rightarrow> RegistryDb \<times> (RegistryError + ProviderCapability)" where
  "assignCapability newId input db =
     (case find_agent_provider db (as_organizationId input) (as_agentProviderId input) of
        None \<Rightarrow> (db, Inl RG_NOT_FOUND)
      | Some p \<Rightarrow>
          (let c = \<lparr>pc_id = newId, pc_organizationId = as_organizationId input, pc_agentProviderId = ap_id p,
                    pc_capabilityCode = as_capabilityCode input, pc_isEnabled = or_else (as_isEnabled input) False\<rparr> in
           case insert_capability c db of
             Inl e \<Rightarrow> (db, Inl RG_CONFLICT)
           | Inr db' \<Rightarrow> (registry_audit (system_row (as_organizationId input) ''PROVIDER_CAPABILITY_ASSIGNED''
               ''ProviderCapability'' newId [(''agentProviderId'', JStr (ap_id p)), (''providerCode'', JStr (ap_providerCode p)),
                 (''capabilityCode'', JStr (pc_capabilityCode c)), (''isEnabled'', JBool (pc_isEnabled c))]) db', Inr c)))"

definition setCapabilityEnabled ::
  "string \<Rightarrow> string \<Rightarrow> bool \<Rightarrow> RegistryDb \<Rightarrow> RegistryDb \<times> (RegistryError + ProviderCapability)" where
  "setCapabilityEnabled org cid isEnabled db =
     (case find (\<lambda>c. pc_id c = cid \<and> pc_organizationId c = org) (rg_capabilities db) of
        None \<Rightarrow> (db, Inl RG_NOT_FOUND)
      | Some c \<Rightarrow>
          (let c' = c\<lparr>pc_isEnabled := isEnabled\<rparr> in
           (registry_audit (system_row org ''PROVIDER_CAPABILITY_UPDATED'' ''ProviderCapability'' cid
              [(''agentProviderId'', JStr (pc_agentProviderId c)), (''capabilityCode'', JStr (pc_capabilityCode c)),
               (''isEnabled'', JBool isEnabled)])
             (db\<lparr>rg_capabilities := map (\<lambda>d. if pc_id d = cid then d\<lparr>pc_isEnabled := isEnabled\<rparr> else d) (rg_capabilities db)\<rparr>),
            Inr c')))"

section \<open>Bootstrap of the engineering provider\<close>

record TenantContext =
  tn_organizationId :: string
  tn_userId :: "string option"
  tn_authenticationMethod :: string

definition ENGINEERING_CODE :: string where "ENGINEERING_CODE = ''cloud.openai.main''"

definition ENGINEERING_CAPABILITIES :: "string list" where
  "ENGINEERING_CAPABILITIES = [''CODE_PLAN'', ''CODE_BUILD'', ''TEST_EXECUTION'', ''REVIEW_PACKAGE'', ''RED_TEAM'',
     ''RELEASE_VERIFICATION'']"

definition engineering_input :: "string \<Rightarrow> CreateProviderInput" where
  "engineering_input org = \<lparr>cp_in_organizationId = org, cp_in_providerCode = ENGINEERING_CODE,
     cp_in_displayName = ''OpenAI Cloud Coding'', cp_in_providerType = Some ''CLOUD_LLM'', cp_in_status = Some ''DISABLED'',
     cp_in_modelFamily = Some ''openai'', cp_in_modelName = None, cp_in_modelCode = None,
     cp_in_supportedCapabilities = ENGINEERING_CAPABILITIES, cp_in_estimatedCostMinorUnits = None,
     cp_in_healthStatus = None, cp_in_quotaStatus = None, cp_in_qualityScore = None, cp_in_latencyScore = None,
     cp_in_costScore = None, cp_in_costMetadata = None, cp_in_assuranceLevels = Some [''AL1'', ''AL2'', ''AL3'', ''AL4''],
     cp_in_metadata = Some [(''serverOwned'', JBool True), (''purpose'', JStr ''vito-engineering-builder''),
       (''requiresExplicitActivation'', JBool True)],
     cp_in_credentialRequirement = None\<rparr>"

definition matches_bootstrap :: "AgentProvider \<Rightarrow> bool" where
  "matches_bootstrap p = (ap_status p = PS_DISABLED \<and> ap_providerType p = CLOUD_LLM \<and> ap_modelFamily p = Some ''openai'' \<and>
     length (ap_supportedCapabilities p) = length ENGINEERING_CAPABILITIES \<and>
     list_all (\<lambda>c. c \<in> set (ap_supportedCapabilities p)) ENGINEERING_CAPABILITIES)"

definition engineering_provider ::
  "string \<Rightarrow> string \<Rightarrow> RegistryDb \<Rightarrow> RegistryDb \<times> (RegistryError + AgentProvider)" where
  "engineering_provider newId org db =
     (case findProviderByCode org ENGINEERING_CODE db of
        Some p \<Rightarrow> (db, if matches_bootstrap p then Inr p else Inl RG_CONFLICT)
      | None \<Rightarrow> createProvider newId (engineering_input org) db)"

fun assign_missing ::
  "(nat \<Rightarrow> string) \<Rightarrow> nat \<Rightarrow> string \<Rightarrow> string \<Rightarrow> string list \<Rightarrow> string list \<Rightarrow> RegistryDb \<Rightarrow> RegistryDb \<times> (RegistryError + unit)" where
  "assign_missing fresh n org pid existing [] db = (db, Inr ())"
| "assign_missing fresh n org pid existing (code # codes) db =
     (if code \<in> set existing then assign_missing fresh n org pid existing codes db
      else case assignCapability (fresh n) \<lparr>as_organizationId = org, as_agentProviderId = pid,
             as_capabilityCode = code, as_isEnabled = Some False\<rparr> db of
          (db', Inl e) \<Rightarrow> (db', Inl e)
        | (db', Inr _) \<Rightarrow> assign_missing fresh (Suc n) org pid existing codes db')"

text \<open>The identifiers of the rows it creates are an argument; the result is the provider.\<close>

definition provision ::
  "(string \<Rightarrow> string \<Rightarrow> bool) \<Rightarrow> (nat \<Rightarrow> string) \<Rightarrow> TenantContext \<Rightarrow> RegistryDb \<Rightarrow> RegistryDb \<times> (RegistryError + AgentProvider)" where
  "provision le fresh tenant db =
     (if tn_authenticationMethod tenant \<noteq> ''jwt'' \<or> \<not> truthy (tn_userId tenant) then (db, Inl RG_BAD_REQUEST)
      else case engineering_provider (fresh 0) (tn_organizationId tenant) db of
          (db1, Inl e) \<Rightarrow> (db1, Inl e)
        | (db1, Inr p) \<Rightarrow>
            (let existing = listCapabilities le (tn_organizationId tenant) (Some (ap_id p)) db1 in
             if \<exists>c \<in> set existing. pc_capabilityCode c \<notin> set ENGINEERING_CAPABILITIES \<or> pc_isEnabled c
             then (db1, Inl RG_CONFLICT)
             else case assign_missing fresh 1 (tn_organizationId tenant) (ap_id p)
                      (map pc_capabilityCode existing) ENGINEERING_CAPABILITIES db1 of
                 (db2, Inl e) \<Rightarrow> (db2, Inl e)
               | (db2, Inr _) \<Rightarrow> (db2, Inr p)))"

section \<open>Endpoints\<close>

text \<open>The body of a request is spread over the fields the endpoint sets.  Its declared type is no
  class, so the validation pipe passes every field of it on: a body that names an
  organisation or a provider replaces the one of the tenant context or the path.\<close>

definition ctl_createProvider ::
  "string \<Rightarrow> string \<Rightarrow> string option \<Rightarrow> CreateProviderInput \<Rightarrow> RegistryDb \<Rightarrow> RegistryDb \<times> (RegistryError + AgentProvider)" where
  "ctl_createProvider newId tenant bodyOrg body =
     createProvider newId (body\<lparr>cp_in_organizationId := or_else bodyOrg tenant\<rparr>)"

definition ctl_updateProvider ::
  "int \<Rightarrow> string \<Rightarrow> string \<Rightarrow> string option \<Rightarrow> string option \<Rightarrow> UpdateProviderInput \<Rightarrow> RegistryDb \<Rightarrow>
   RegistryDb \<times> (RegistryError + AgentProvider)" where
  "ctl_updateProvider now tenant pathId bodyOrg bodyId body =
     updateProvider now (body\<lparr>up_organizationId := or_else bodyOrg tenant, up_providerId := or_else bodyId pathId\<rparr>)"

definition ctl_activateProvider ::
  "string \<Rightarrow> string \<Rightarrow> string option \<Rightarrow> string option \<Rightarrow> ActivateProviderInput \<Rightarrow> RegistryDb \<Rightarrow>
   RegistryDb \<times> (RegistryError + AgentProvider)" where
  "ctl_activateProvider tenant pathId bodyOrg bodyId body =
     activateProvider (body\<lparr>ac_organizationId := or_else bodyOrg tenant, ac_providerId := or_else bodyId pathId\<rparr>)"

end
