(* ===== verification/Vito_ProviderRuntime.thy ===== *)
theory Vito_ProviderRuntime
  imports Vito_ProviderRegistry "HOL-Library.Word"
begin

text \<open>
  What the system observes of a provider: \<open>provider-runtime-state.service.ts\<close> and
  \<open>provider-readiness-probe.service.ts\<close>.  Times are milliseconds.  The clock, the
  values of the environment, \<open>Number(s)\<close> (the integer it reads, if it reads one)
  and the execution of a probe by the cloud worker are arguments.  A second
  request for a probe that is still running shares its result; that map of
  running probes is left out.
\<close>

unbundle bit_operations_syntax

section \<open>Freshness\<close>

definition DEFAULT_HEALTHY_TTL_MS :: int where "DEFAULT_HEALTHY_TTL_MS = 300000"
definition DEFAULT_FAILURE_BACKOFF_MS :: int where "DEFAULT_FAILURE_BACKOFF_MS = 900000"
definition MIN_TTL_MS :: int where "MIN_TTL_MS = 30000"
definition MAX_TTL_MS :: int where "MAX_TTL_MS = 21600000"

definition boundedMs :: "(string \<Rightarrow> int option) \<Rightarrow> string option \<Rightarrow> int \<Rightarrow> int" where
  "boundedMs number raw fallback = (case raw of
       None \<Rightarrow> fallback
     | Some s \<Rightarrow> if js_trim s = [] then fallback
         else (case number s of
             None \<Rightarrow> fallback
           | Some n \<Rightarrow> if n < MIN_TTL_MS \<or> MAX_TTL_MS < n then fallback else n))"

record RuntimeStateConfig =
  rc_healthyTtlMs :: int
  rc_failureBackoffMs :: int

definition runtime_config :: "(string \<Rightarrow> int option) \<Rightarrow> string option \<Rightarrow> string option \<Rightarrow> RuntimeStateConfig" where
  "runtime_config number ttl backoff = \<lparr>rc_healthyTtlMs = boundedMs number ttl DEFAULT_HEALTHY_TTL_MS,
     rc_failureBackoffMs = boundedMs number backoff DEFAULT_FAILURE_BACKOFF_MS\<rparr>"

definition healthTtl :: "RuntimeStateConfig \<Rightarrow> ProviderHealthStatus \<Rightarrow> int" where
  "healthTtl cfg s = (if s = PH_HEALTHY \<or> s = PH_DEGRADED then rc_healthyTtlMs cfg else rc_failureBackoffMs cfg)"

definition quotaTtl :: "RuntimeStateConfig \<Rightarrow> ProviderQuotaStatus \<Rightarrow> int" where
  "quotaTtl cfg s = (if s = PQ_AVAILABLE \<or> s = PQ_LIMITED then rc_healthyTtlMs cfg else rc_failureBackoffMs cfg)"

definition isHealthFresh :: "RuntimeStateConfig \<Rightarrow> int \<Rightarrow> ProviderDeclaration \<Rightarrow> bool" where
  "isHealthFresh cfg now p = (case pd_healthCheckedAt p of
       None \<Rightarrow> False | Some t \<Rightarrow> now - t \<le> healthTtl cfg (pd_healthStatus p))"

definition isQuotaFresh :: "RuntimeStateConfig \<Rightarrow> int \<Rightarrow> ProviderDeclaration \<Rightarrow> bool" where
  "isQuotaFresh cfg now p = (case pd_quotaCheckedAt p of
       None \<Rightarrow> False | Some t \<Rightarrow> now - t \<le> quotaTtl cfg (pd_quotaStatus p))"

definition needsRefresh :: "RuntimeStateConfig \<Rightarrow> int \<Rightarrow> ProviderDeclaration \<Rightarrow> bool" where
  "needsRefresh cfg now p = (\<not> isHealthFresh cfg now p \<or> \<not> isQuotaFresh cfg now p)"

section \<open>Recording an observation\<close>

record ProviderRuntimeObservation =
  ob_healthStatus :: ProviderHealthStatus
  ob_quotaStatus :: ProviderQuotaStatus
  ob_reasonCode :: string
  ob_durationMs :: "int option"
  ob_observedProviderId :: "string option"
  ob_observedModelId :: "string option"
  ob_limitKind :: "string option"
  ob_errorFingerprint :: "string option"

definition num_json :: "int option \<Rightarrow> json" where
  "num_json v = (case v of None \<Rightarrow> JNull | Some n \<Rightarrow> JNum n)"

definition observed_row :: "int \<Rightarrow> ProviderRuntimeObservation \<Rightarrow> AgentProvider \<Rightarrow> AgentProvider" where
  "observed_row now obs p = p\<lparr>ap_healthStatus := ob_healthStatus obs, ap_healthCheckedAt := Some now,
     ap_quotaStatus := ob_quotaStatus obs, ap_quotaCheckedAt := Some now\<rparr>"

definition recordProbe ::
  "int \<Rightarrow> string \<Rightarrow> string \<Rightarrow> ProviderRuntimeObservation \<Rightarrow> RegistryDb \<Rightarrow> RegistryDb \<times> (RegistryError + unit)" where
  "recordProbe now org pid obs = registry_tx (\<lambda>db.
     let hit = (\<lambda>p. ap_id p = pid \<and> ap_organizationId p = org) in
     if length (filter hit (rg_providers db)) \<noteq> 1 then Inl RG_NOT_FOUND
     else Inr ((), registry_audit (system_row org ''PROVIDER_RUNTIME_PROBED'' ''AgentProvider'' pid
       [(''healthStatus'', JStr (enum_name HEALTH_STATUSES (ob_healthStatus obs))),
        (''quotaStatus'', JStr (enum_name QUOTA_STATUSES (ob_quotaStatus obs))), (''reasonCode'', JStr (ob_reasonCode obs)),
        (''durationMs'', num_json (ob_durationMs obs)), (''observedProviderId'', opt_json (ob_observedProviderId obs)),
        (''observedModelId'', opt_json (ob_observedModelId obs)), (''limitKind'', opt_json (ob_limitKind obs)),
        (''errorFingerprint'', opt_json (ob_errorFingerprint obs)), (''checkedAt'', JNum now)])
       (db\<lparr>rg_providers := map (\<lambda>p. if hit p then observed_row now obs p else p) (rg_providers db)\<rparr>)))"

section \<open>Signals in the text of an execution\<close>

text \<open>\<open>JSON.stringify\<close> and \<open>toLowerCase\<close>.\<close>

definition hex_digit :: "nat \<Rightarrow> char" where
  "hex_digit n = (if n < 10 then char_of (48 + n) else char_of (87 + n))"

definition json_escape :: "char \<Rightarrow> string" where
  "json_escape c = (let n = of_char c :: nat in
     if n = 34 \<or> n = 92 then [char_of (92 :: nat), c]
     else if n = 8 then [char_of (92 :: nat), CHR ''b''] else if n = 9 then [char_of (92 :: nat), CHR ''t'']
     else if n = 10 then [char_of (92 :: nat), CHR ''n''] else if n = 12 then [char_of (92 :: nat), CHR ''f'']
     else if n = 13 then [char_of (92 :: nat), CHR ''r'']
     else if n < 32 then [char_of (92 :: nat)] @ ''u00'' @ [hex_digit (n div 16), hex_digit (n mod 16)]
     else [c])"

definition json_quote :: "string \<Rightarrow> string" where
  "json_quote s = [char_of (34 :: nat)] @ concat (map json_escape s) @ [char_of (34 :: nat)]"

fun json_text :: "json \<Rightarrow> string" where
  "json_text JNull = ''null''"
| "json_text (JBool b) = (if b then ''true'' else ''false'')"
| "json_text (JNum n) = (if n < 0 then ''-'' else []) @ dec (nat (abs n))"
| "json_text (JFloat s) = s"
| "json_text (JStr s) = json_quote s"
| "json_text (JArr xs) = ''['' @ js_join '','' (map json_text xs) @ '']''"
| "json_text (JObj fs) = ''{'' @ js_join '','' (map (\<lambda>(k, v). json_quote k @ '':'' @ json_text v) fs) @ ''}''"

definition js_lower_char :: "char \<Rightarrow> char" where
  "js_lower_char c = (let n = of_char c :: nat in
     if 65 \<le> n \<and> n \<le> 90 \<or> 192 \<le> n \<and> n \<le> 222 \<and> n \<noteq> 215 then char_of (n + 32) else c)"

definition js_lower :: "string \<Rightarrow> string" where
  "js_lower s = map js_lower_char s"

fun invocation_reason_name :: "InvocationFailureReason \<Rightarrow> string" where
  "invocation_reason_name PROVIDER_UNAVAILABLE = ''PROVIDER_UNAVAILABLE''"
| "invocation_reason_name ADAPTER_NOT_REGISTERED = ''ADAPTER_NOT_REGISTERED''"
| "invocation_reason_name CAPABILITY_NOT_SUPPORTED = ''CAPABILITY_NOT_SUPPORTED''"
| "invocation_reason_name PROVIDER_NOT_ELIGIBLE = ''PROVIDER_NOT_ELIGIBLE''"
| "invocation_reason_name INVOCATION_INVALID = ''INVOCATION_INVALID''"
| "invocation_reason_name EXECUTION_FAILED = ''EXECUTION_FAILED''"
| "invocation_reason_name CAPABILITY_PROVIDER_MISMATCH = ''CAPABILITY_PROVIDER_MISMATCH''"
| "invocation_reason_name ORGANIZATION_MISMATCH = ''ORGANIZATION_MISMATCH''"
| "invocation_reason_name UNKNOWN_ADAPTER_TYPE = ''UNKNOWN_ADAPTER_TYPE''"
| "invocation_reason_name UNKNOWN_PROVIDER_TYPE = ''UNKNOWN_PROVIDER_TYPE''"
| "invocation_reason_name MALFORMED_INVOCATION = ''MALFORMED_INVOCATION''"
| "invocation_reason_name HUMAN_GATE_NOT_BOUND = ''HUMAN_GATE_NOT_BOUND''"
| "invocation_reason_name HUMAN_GATE_EXPIRED = ''HUMAN_GATE_EXPIRED''"
| "invocation_reason_name HUMAN_GATE_CONTEXT_MISMATCH = ''HUMAN_GATE_CONTEXT_MISMATCH''"
| "invocation_reason_name INVOCATION_DUPLICATE = ''INVOCATION_DUPLICATE''"
| "invocation_reason_name INVOCATION_IDEMPOTENCY_CONFLICT = ''INVOCATION_IDEMPOTENCY_CONFLICT''"
| "invocation_reason_name EXECUTABLE_NOT_TRUSTED = ''EXECUTABLE_NOT_TRUSTED''"
| "invocation_reason_name ENVIRONMENT_NOT_ALLOWED = ''ENVIRONMENT_NOT_ALLOWED''"
| "invocation_reason_name CREDENTIAL_INJECTION_FAILED = ''CREDENTIAL_INJECTION_FAILED''"
| "invocation_reason_name POLICY_BLOCKED = ''POLICY_BLOCKED''"
| "invocation_reason_name WORKING_DIRECTORY_NOT_GOVERNED = ''WORKING_DIRECTORY_NOT_GOVERNED''"
| "invocation_reason_name EXECUTION_PROFILE_NOT_GOVERNED = ''EXECUTION_PROFILE_NOT_GOVERNED''"

definition executionText :: "InvocationResult \<Rightarrow> string" where
  "executionText x = js_lower (json_text (JObj
     [(''reason'', case ir_normalizedError x of None \<Rightarrow> JNull | Some e \<Rightarrow> JStr (invocation_reason_name (ie_reason e))),
      (''message'', case ir_normalizedError x of None \<Rightarrow> JNull | Some e \<Rightarrow> JStr (ie_message e)),
      (''providerMetadata'', case ir_normalizedError x of None \<Rightarrow> JNull
         | Some e \<Rightarrow> (case ie_providerMetadata e of None \<Rightarrow> JNull | Some m \<Rightarrow> m)),
      (''providerExecutionMetadata'', ir_providerExecutionMetadata x)]))"

definition rx_gap :: rx where
  "rx_gap = ROpt (RCls (\<lambda>c. c \<in> set ''_ -''))"

definition rx_usage_limit :: rx where
  "rx_usage_limit = RStr ''usage limit has been reached''"

definition rx_quota_signal :: rx where
  "rx_quota_signal = RAlts [rx_usage_limit, RSeqs [RStr ''insufficient'', rx_gap, RStr ''quota''],
     RSeqs [RStr ''quota'', rx_gap, RAlts [RStr ''exceeded'', RStr ''exhausted'']]]"

definition rx_rate_limit :: rx where
  "rx_rate_limit = RAlts [RSeqs [RStr ''rate'', rx_gap, RStr ''limit''], RStr ''too many requests'',
     RSeqs [RWordB, RStr ''429'', RWordB]]"

definition hasQuotaSignal :: "InvocationResult \<Rightarrow> bool" where
  "hasQuotaSignal x = rx_test rx_quota_signal (executionText x)"

definition hasRateLimitSignal :: "InvocationResult \<Rightarrow> bool" where
  "hasRateLimitSignal x = (rx_test rx_rate_limit (executionText x) \<and> \<not> rx_test rx_usage_limit (executionText x))"

definition observedIdentity :: "json \<Rightarrow> string option \<times> string option" where
  "observedIdentity metadata =
     (let post = (case metadata of JObj fs \<Rightarrow> map_of fs ''providerIdentityPostcondition'' | _ \<Rightarrow> None);
          str = (\<lambda>k. case post of Some (JObj v) \<Rightarrow> (case map_of v k of Some (JStr s) \<Rightarrow> Some s | _ \<Rightarrow> None) | _ \<Rightarrow> None) in
      (str ''observedProviderId'', str ''observedModelId''))"

text \<open>What an execution says of its provider; nothing when it says nothing.\<close>

definition execution_observation :: "InvocationResult \<Rightarrow> ProviderRuntimeObservation option" where
  "execution_observation x =
     (let seen = observedIdentity (ir_providerExecutionMetadata x);
          obs = (\<lambda>h q r. \<lparr>ob_healthStatus = h, ob_quotaStatus = q, ob_reasonCode = r, ob_durationMs = Some (ir_durationMs x),
            ob_observedProviderId = fst seen, ob_observedModelId = snd seen, ob_limitKind = None, ob_errorFingerprint = None\<rparr>) in
      if ir_status x = AES_SUCCEEDED then Some (obs PH_HEALTHY PQ_AVAILABLE ''EXECUTION_SUCCEEDED'')
      else if ir_status x = AES_QUOTA_BLOCKED \<or> hasQuotaSignal x then
        (if hasRateLimitSignal x then Some (obs PH_QUOTA_LIMITED PQ_LIMITED ''EXECUTION_RATE_LIMITED'')
         else Some (obs PH_HEALTHY PQ_EXHAUSTED ''EXECUTION_QUOTA_EXHAUSTED''))
      else if ir_status x = AES_TIMED_OUT then Some (obs PH_UNAVAILABLE PQ_UNKNOWN ''EXECUTION_TIMED_OUT'')
      else if ir_status x = AES_FAILED \<and> option_test ie_retryable (ir_normalizedError x)
      then Some (obs PH_UNAVAILABLE PQ_UNKNOWN ''EXECUTION_RETRYABLE_FAILURE'')
      else None)"

definition observeExecution ::
  "int \<Rightarrow> string \<Rightarrow> string \<Rightarrow> InvocationResult \<Rightarrow> RegistryDb \<Rightarrow> RegistryDb \<times> (RegistryError + unit)" where
  "observeExecution now org pid x db = (case execution_observation x of
       None \<Rightarrow> (db, Inr ()) | Some obs \<Rightarrow> recordProbe now org pid obs db)"

section \<open>The readiness probe\<close>

definition DEFAULT_PROBE_TIMEOUT_MS :: int where "DEFAULT_PROBE_TIMEOUT_MS = 45000"
definition MIN_PROBE_TIMEOUT_MS :: int where "MIN_PROBE_TIMEOUT_MS = 5000"
definition MAX_PROBE_TIMEOUT_MS :: int where "MAX_PROBE_TIMEOUT_MS = 120000"

definition boundedProbeTimeout :: "(string \<Rightarrow> int option) \<Rightarrow> string option \<Rightarrow> int" where
  "boundedProbeTimeout number raw = (case raw of
       None \<Rightarrow> DEFAULT_PROBE_TIMEOUT_MS
     | Some s \<Rightarrow> if js_trim s = [] then DEFAULT_PROBE_TIMEOUT_MS
         else (case number s of
             None \<Rightarrow> DEFAULT_PROBE_TIMEOUT_MS
           | Some n \<Rightarrow> if n < MIN_PROBE_TIMEOUT_MS \<or> MAX_PROBE_TIMEOUT_MS < n then DEFAULT_PROBE_TIMEOUT_MS else n))"

text \<open>The 32-bit hash of the first match, as eight hexadecimal digits.\<close>

definition fnv_step :: "32 word \<Rightarrow> char \<Rightarrow> 32 word" where
  "fnv_step h c = (h XOR of_nat (of_char c)) * 16777619"

fun hex_digits :: "nat \<Rightarrow> nat \<Rightarrow> string" where
  "hex_digits 0 n = []"
| "hex_digits (Suc k) n = hex_digits k (n div 16) @ [hex_digit (n mod 16)]"

definition stableFingerprint :: "string \<Rightarrow> string" where
  "stableFingerprint v = hex_digits 8 (unat (fold (\<lambda>c h. fnv_step h c) v 2166136261))"

text \<open>\<open>text.match(r)[0]\<close>: the leftmost match with the end the engine finds first.\<close>

fun rx_first :: "rx \<Rightarrow> char option \<Rightarrow> string \<Rightarrow> string option" where
  "rx_first r b s = (case rx_ends r (b, s) of
       q # _ \<Rightarrow> Some (take (length s - length (snd q)) s)
     | [] \<Rightarrow> (case s of [] \<Rightarrow> None | c # cs \<Rightarrow> rx_first r (Some c) cs))"

declare rx_first.simps [simp del]

fun collapse_ws :: "bool \<Rightarrow> string \<Rightarrow> string" where
  "collapse_ws seen [] = []"
| "collapse_ws seen (c # cs) =
     (if js_ws c then (if seen then collapse_ws True cs else CHR '' '' # collapse_ws True cs)
      else c # collapse_ws False cs)"

definition rx_spend_or_usage :: rx where
  "rx_spend_or_usage = RAlts [RStr ''spend'', RStr ''usage'']"

definition rx_scope_limit :: "rx \<Rightarrow> rx" where
  "rx_scope_limit scope = RAlts [RSeqs [scope, rx_gap, rx_spend_or_usage, rx_gap, RStr ''limit''],
     RSeqs [scope, RUpTo 40 (RCls is_dot), rx_spend_or_usage, RUpTo 20 (RCls is_dot), RStr ''limit'']]"

definition rx_credit :: rx where
  "rx_credit = RAlts [RSeqs [RStr ''credit'', rx_gap, RStr ''balance'', rx_gap, RStr ''exhausted''],
     RSeqs [RStr ''insufficient'', rx_gap, RAlts [RStr ''credit'', RStr ''quota'']],
     RSeqs [RStr ''quota'', rx_gap, RAlts [RStr ''exceeded'', RStr ''exhausted'']]]"

definition limit_rules :: "(string \<times> string \<times> rx \<times> ProviderQuotaStatus) list" where
  "limit_rules =
     [(''PROJECT_LIMIT_REACHED'', ''PROBE_PROJECT_LIMIT_REACHED'', rx_scope_limit (RStr ''project''), PQ_EXHAUSTED),
      (''ORGANIZATION_LIMIT_REACHED'', ''PROBE_ORGANIZATION_LIMIT_REACHED'',
        rx_scope_limit (RSeqs [RStr ''organi'', RCls (\<lambda>c. c \<in> set ''sz''), RStr ''ation'']), PQ_EXHAUSTED),
      (''CREDIT_OR_QUOTA_EXHAUSTED'', ''PROBE_CREDIT_OR_QUOTA_EXHAUSTED'', rx_credit, PQ_EXHAUSTED),
      (''USAGE_LIMIT_REACHED'', ''PROBE_USAGE_LIMIT_REACHED'', rx_usage_limit, PQ_EXHAUSTED),
      (''RATE_LIMITED'', ''PROBE_RATE_LIMITED'', rx_rate_limit, PQ_LIMITED)]"

record LimitSignal =
  ls_kind :: string
  ls_reasonCode :: string
  ls_quotaStatus :: ProviderQuotaStatus
  ls_fingerprint :: string

fun first_limit :: "(string \<times> string \<times> rx \<times> ProviderQuotaStatus) list \<Rightarrow> string \<Rightarrow> LimitSignal option" where
  "first_limit [] s = None"
| "first_limit ((kind, code, r, q) # rules) s = (case rx_first r None s of
       None \<Rightarrow> first_limit rules s
     | Some m \<Rightarrow> Some \<lparr>ls_kind = kind, ls_reasonCode = code, ls_quotaStatus = q,
         ls_fingerprint = kind @ '':'' @ stableFingerprint (take 160 (js_trim (collapse_ws False m)))\<rparr>)"

definition classifyLimit :: "string \<Rightarrow> LimitSignal option" where
  "classifyLimit s = first_limit limit_rules s"

definition rx_auth_failure :: rx where
  "rx_auth_failure = RAlts [RStr ''unauthorized'', RStr ''authentication'',
     RSeqs [RStr ''invalid'', RStar (RCls is_dot), RAlts [RStr ''api'', RStr ''token'', RStr ''credential'']],
     RSeqs [RStr ''oauth'', RStar (RCls is_dot), RStr ''expired''],
     RSeqs [RStr ''token'', RStar (RCls is_dot), RStr ''expired'']]"

record ProbeExecution =
  px_stdout :: string
  px_stderr :: string
  px_changedFiles :: "string list"
  px_empty :: bool
  px_timedOut :: bool
  px_exitCode :: "int option"
  px_identityError :: "string option"
  px_observedProviderId :: "string option"
  px_observedModelId :: "string option"
  px_durationMs :: int

definition classifyProbeResult :: "ProbeExecution \<Rightarrow> ProviderRuntimeObservation" where
  "classifyProbeResult x =
     (let s = js_lower (px_stdout x @ [CHR 0x0A] @ px_stderr x);
          limit = classifyLimit s;
          obs = (\<lambda>h q r kind print. \<lparr>ob_healthStatus = h, ob_quotaStatus = q, ob_reasonCode = r,
            ob_durationMs = Some (px_durationMs x), ob_observedProviderId = px_observedProviderId x,
            ob_observedModelId = px_observedModelId x, ob_limitKind = kind, ob_errorFingerprint = print\<rparr>) in
      if px_changedFiles x \<noteq> [] \<or> \<not> px_empty x then obs PH_UNAVAILABLE PQ_UNKNOWN ''PROBE_SIDE_EFFECT_DETECTED'' None None
      else if px_timedOut x then obs PH_UNAVAILABLE PQ_UNKNOWN ''PROBE_TIMED_OUT'' None None
      else case limit of
        Some l \<Rightarrow> if ls_quotaStatus l = PQ_EXHAUSTED
          then obs PH_HEALTHY PQ_EXHAUSTED (ls_reasonCode l) (Some (ls_kind l)) (Some (ls_fingerprint l))
          else obs PH_QUOTA_LIMITED PQ_LIMITED (ls_reasonCode l) (Some (ls_kind l)) (Some (ls_fingerprint l))
      | None \<Rightarrow>
          if rx_test rx_auth_failure s then obs PH_UNAVAILABLE PQ_UNKNOWN ''PROBE_AUTHENTICATION_FAILED'' None None
          else case px_identityError x of
            Some code \<Rightarrow> obs PH_UNAVAILABLE PQ_UNKNOWN code None None
          | None \<Rightarrow> if px_exitCode x = Some 0 then obs PH_HEALTHY PQ_AVAILABLE ''PROBE_SUCCEEDED'' None None
              else obs PH_UNAVAILABLE PQ_UNKNOWN ''PROBE_PROVIDER_UNAVAILABLE'' None None)"

definition isInfrastructureProbeFailure :: "string \<Rightarrow> bool" where
  "isInfrastructureProbeFailure code = (code \<in> set [''WORKSPACE_PROVISION_FAILED'', ''REPOSITORY_NOT_ALLOWED'',
     ''BASE_REF_NOT_ALLOWED'', ''PROBE_EXECUTABLE_UNAVAILABLE''])"

text \<open>The services a probe calls: the resolver of trusted executables and the cloud worker,
  which answers with a result or the code of an error.\<close>

record ProbeEnv =
  pe_profiles :: cloud_registry
  pe_timeoutMs :: int
  pe_executable :: "string \<Rightarrow> string \<Rightarrow> bool"
  pe_execute :: "string \<Rightarrow> string \<Rightarrow> CloudExecutionProfile \<Rightarrow> int \<Rightarrow> string + ProbeExecution"

record ProbeResult =
  pr_attempted :: bool
  pr_refreshed :: bool
  pr_reasonCode :: string

definition frozenResult :: "bool \<Rightarrow> bool \<Rightarrow> string \<Rightarrow> ProbeResult" where
  "frozenResult attempted refreshed code = \<lparr>pr_attempted = attempted, pr_refreshed = refreshed, pr_reasonCode = code\<rparr>"

definition failed_probe :: "string \<Rightarrow> ProviderRuntimeObservation" where
  "failed_probe code = \<lparr>ob_healthStatus = PH_UNAVAILABLE, ob_quotaStatus = PQ_UNKNOWN, ob_reasonCode = code,
     ob_durationMs = None, ob_observedProviderId = None, ob_observedModelId = None, ob_limitKind = None,
     ob_errorFingerprint = None\<rparr>"

definition record_and_report ::
  "int \<Rightarrow> string \<Rightarrow> string \<Rightarrow> ProviderRuntimeObservation \<Rightarrow> RegistryDb \<Rightarrow> RegistryDb \<times> (RegistryError + ProbeResult)" where
  "record_and_report now org pid obs db = (case recordProbe now org pid obs db of
       (db', Inl e) \<Rightarrow> (db', Inl e) | (db', Inr _) \<Rightarrow> (db', Inr (frozenResult True True (ob_reasonCode obs))))"

definition probe_failure ::
  "int \<Rightarrow> string \<Rightarrow> string \<Rightarrow> string \<Rightarrow> RegistryDb \<Rightarrow> RegistryDb \<times> (RegistryError + ProbeResult)" where
  "probe_failure now org pid code db =
     (if isInfrastructureProbeFailure code then (db, Inr (frozenResult True False code))
      else record_and_report now org pid (failed_probe code) db)"

definition probe ::
  "ProbeEnv \<Rightarrow> int \<Rightarrow> string \<Rightarrow> ProviderDeclaration \<Rightarrow> CloudExecutionProfile \<Rightarrow> string \<Rightarrow> RegistryDb \<Rightarrow>
   RegistryDb \<times> (RegistryError + ProbeResult)" where
  "probe env now org provider profile alias db =
     (if \<not> pe_executable env alias (pd_id provider) then (db, Inr (frozenResult True False ''PROBE_EXECUTABLE_UNAVAILABLE''))
      else case pe_execute env org alias profile (min (pe_timeoutMs env) (cp_maxDurationMs profile)) of
          Inl code \<Rightarrow> probe_failure now org (pd_id provider) code db
        | Inr x \<Rightarrow> (case record_and_report now org (pd_id provider) (classifyProbeResult x) db of
              (db', Inl e) \<Rightarrow> probe_failure now org (pd_id provider) ''PROBE_EXECUTION_ERROR'' db'
            | (db', Inr r) \<Rightarrow> (db', Inr r)))"

definition refreshIfStale ::
  "RuntimeStateConfig \<Rightarrow> ProbeEnv \<Rightarrow> int \<Rightarrow> string \<Rightarrow> ProviderDeclaration \<Rightarrow> RegistryDb \<Rightarrow>
   RegistryDb \<times> (RegistryError + ProbeResult)" where
  "refreshIfStale cfg env now org provider db =
     (if \<not> needsRefresh cfg now provider then (db, Inr (frozenResult False False ''STATE_FRESH''))
      else if pd_providerType provider \<noteq> CLOUD_LLM
      then (db, Inr (frozenResult False False ''PROBE_UNSUPPORTED_PROVIDER_TYPE''))
      else case cloud_resolve (pe_profiles env) (pd_providerCode provider) of
          None \<Rightarrow> (db, Inr (frozenResult False False ''PROBE_PROFILE_UNAVAILABLE''))
        | Some profile \<Rightarrow> (case cp_readinessProbeLauncherAlias profile of
              None \<Rightarrow> (db, Inr (frozenResult False False ''PROBE_PROFILE_UNAVAILABLE''))
            | Some alias \<Rightarrow> if alias = [] then (db, Inr (frozenResult False False ''PROBE_PROFILE_UNAVAILABLE''))
                else probe env now org provider profile alias db))"

end
