(* ===== verification/Vito_Routing.thy ===== *)
theory Vito_Routing
  imports Vito_ProviderRuntime
begin

text \<open>
  The provider router: \<open>provider-router.ts\<close> and \<open>provider-router.service.ts\<close>.
  Scores are computed in doubles: every operation rounds, and the rounding is an
  argument; subtracting two doubles gives zero only for equal ones and keeps the
  sign, so the comparison is exact.  The collation of the database,
  \<open>localeCompare\<close>, \<open>toFixed(4)\<close>, the clock and the optional services are arguments too.
\<close>

section \<open>Requests, reasons and phases\<close>

datatype RoutingRejectionReason =
    RR_CAPABILITY_UNSUPPORTED | RR_PROVIDER_DISABLED | RR_PROVIDER_UNHEALTHY | RR_PROVIDER_UNAVAILABLE
  | RR_HEALTH_STATUS_STALE | RR_QUOTA_UNAVAILABLE | RR_QUOTA_EXHAUSTED | RR_QUOTA_STATUS_UNKNOWN
  | RR_QUOTA_STATUS_STALE | RR_POLICY_INCOMPATIBLE | RR_ASSURANCE_LEVEL_UNSUPPORTED
  | RR_INDEPENDENCE_REQUIREMENT_UNSATISFIED | RR_MODEL_IDENTITY_UNVERIFIABLE | RR_BUDGET_INCOMPATIBLE
  | RR_COST_UNKNOWN | RR_NO_ELIGIBLE_PROVIDER

fun rejection_name :: "RoutingRejectionReason \<Rightarrow> string" where
  "rejection_name RR_CAPABILITY_UNSUPPORTED = ''CAPABILITY_UNSUPPORTED''"
| "rejection_name RR_PROVIDER_DISABLED = ''PROVIDER_DISABLED''"
| "rejection_name RR_PROVIDER_UNHEALTHY = ''PROVIDER_UNHEALTHY''"
| "rejection_name RR_PROVIDER_UNAVAILABLE = ''PROVIDER_UNAVAILABLE''"
| "rejection_name RR_HEALTH_STATUS_STALE = ''HEALTH_STATUS_STALE''"
| "rejection_name RR_QUOTA_UNAVAILABLE = ''QUOTA_UNAVAILABLE''"
| "rejection_name RR_QUOTA_EXHAUSTED = ''QUOTA_EXHAUSTED''"
| "rejection_name RR_QUOTA_STATUS_UNKNOWN = ''QUOTA_STATUS_UNKNOWN''"
| "rejection_name RR_QUOTA_STATUS_STALE = ''QUOTA_STATUS_STALE''"
| "rejection_name RR_POLICY_INCOMPATIBLE = ''POLICY_INCOMPATIBLE''"
| "rejection_name RR_ASSURANCE_LEVEL_UNSUPPORTED = ''ASSURANCE_LEVEL_UNSUPPORTED''"
| "rejection_name RR_INDEPENDENCE_REQUIREMENT_UNSATISFIED = ''INDEPENDENCE_REQUIREMENT_UNSATISFIED''"
| "rejection_name RR_MODEL_IDENTITY_UNVERIFIABLE = ''MODEL_IDENTITY_UNVERIFIABLE''"
| "rejection_name RR_BUDGET_INCOMPATIBLE = ''BUDGET_INCOMPATIBLE''"
| "rejection_name RR_COST_UNKNOWN = ''COST_UNKNOWN''"
| "rejection_name RR_NO_ELIGIBLE_PROVIDER = ''NO_ELIGIBLE_PROVIDER''"

datatype EligibilityPhase =
    EP_CAPABILITY | EP_STATUS_POLICY | EP_AVAILABILITY | EP_QUOTA | EP_ASSURANCE | EP_INDEPENDENCE | EP_BUDGET

record ProviderRoutingRequest =
  rt_organizationId :: string
  rt_capability :: string
  rt_assuranceLevel :: "string option"
  rt_workflowRunId :: "string option"
  rt_workflowStepRunId :: "string option"
  rt_independenceContext :: "IndependenceContext option"
  rt_maxCostMinorUnits :: "int option"
  rt_correlationId :: string

record ProviderRoutingResponse =
  rs_selectedProvider :: "ProviderDeclaration option"
  rs_routingDecisionId :: string
  rs_eligibleCandidateIds :: "string list"
  rs_allCandidateIds :: "string list"
  rs_rejectionReasons :: "(string \<times> RoutingRejectionReason) list"
  rs_rejectionPhases :: "(string \<times> EligibilityPhase) list"
  rs_scoreComponents :: "(string \<times> ProviderScoreComponents) list"
  rs_finalScores :: "(string \<times> rat) list"
  rs_decisionReason :: string
  rs_runtimeRefreshedProviderIds :: "string list"

record RouterEnv =
  re_collate :: "string \<Rightarrow> string \<Rightarrow> bool"
  re_localeCompare :: "string \<Rightarrow> string \<Rightarrow> bool"
  re_round :: "rat \<Rightarrow> rat"
  re_toFixed4 :: "rat \<Rightarrow> string"
  re_runtimeState :: "RuntimeStateConfig option"
  re_readinessProbe :: "ProbeEnv option"

section \<open>Candidates\<close>

definition declaration_of :: "RegistryDb \<Rightarrow> AgentProvider \<Rightarrow> ProviderDeclaration" where
  "declaration_of db p = \<lparr>pd_id = ap_id p, pd_organizationId = ap_organizationId p, pd_providerCode = ap_providerCode p,
     pd_providerType = ap_providerType p, pd_status = ap_status p, pd_modelFamily = ap_modelFamily p,
     pd_capabilityAssignments = map (\<lambda>c. \<lparr>pa_capabilityCode = pc_capabilityCode c, pa_isEnabled = pc_isEnabled c\<rparr>)
       (capabilities_of db (ap_id p)),
     pd_estimatedCostMinorUnits = ap_estimatedCostMinorUnits p, pd_healthStatus = ap_healthStatus p,
     pd_healthCheckedAt = ap_healthCheckedAt p, pd_quotaStatus = ap_quotaStatus p, pd_quotaCheckedAt = ap_quotaCheckedAt p,
     pd_qualityScore = ap_qualityScore p, pd_latencyScore = ap_latencyScore p, pd_costScore = ap_costScore p,
     pd_assuranceLevels = ap_assuranceLevels p, pd_metadata = ap_metadata p,
     pd_credentialRequirement = Some (ap_credentialRequirement p)\<rparr>"

definition loadCandidates :: "RouterEnv \<Rightarrow> string \<Rightarrow> RegistryDb \<Rightarrow> ProviderDeclaration list" where
  "loadCandidates env org db = map (declaration_of db) (findAllProviders (re_collate env) org db)"

definition checkIndependence :: "ProviderDeclaration \<Rightarrow> IndependenceContext \<Rightarrow> RoutingRejectionReason option" where
  "checkIndependence p ctx =
     (if truthy (builderProviderId ctx) \<and> builderProviderId ctx = Some (pd_id p)
      then Some RR_INDEPENDENCE_REQUIREMENT_UNSATISFIED
      else if truthy (builderModelFamily ctx) \<and> truthy (pd_modelFamily p) \<and> pd_modelFamily p = builderModelFamily ctx
      then Some RR_INDEPENDENCE_REQUIREMENT_UNSATISFIED
      else if pd_id p \<in> set (previousReviewerProviderIds ctx) then Some RR_INDEPENDENCE_REQUIREMENT_UNSATISFIED
      else if truthy (pd_modelFamily p) \<and> the (pd_modelFamily p) \<in> set (previousReviewerModelFamilies ctx)
      then Some RR_INDEPENDENCE_REQUIREMENT_UNSATISFIED
      else if \<not> truthy (pd_modelFamily p) \<or> js_trim (the (pd_modelFamily p)) = [] then Some RR_MODEL_IDENTITY_UNVERIFIABLE
      else None)"

definition stale :: "(RuntimeStateConfig \<Rightarrow> int \<Rightarrow> ProviderDeclaration \<Rightarrow> bool) \<Rightarrow> RouterEnv \<Rightarrow> int \<Rightarrow> ProviderDeclaration \<Rightarrow> bool" where
  "stale fresh env now p = (case re_runtimeState env of None \<Rightarrow> False | Some cfg \<Rightarrow> \<not> fresh cfg now p)"

text \<open>The reason a candidate is rejected for and the phase; none when it is eligible.\<close>

definition evaluateCandidate ::
  "RouterEnv \<Rightarrow> int \<Rightarrow> ProviderRoutingRequest \<Rightarrow> ProviderDeclaration \<Rightarrow> (RoutingRejectionReason \<times> EligibilityPhase) option" where
  "evaluateCandidate env now req p =
     (if \<not> providerSupportsCapability p (rt_capability req) then Some (RR_CAPABILITY_UNSUPPORTED, EP_CAPABILITY)
      else if pd_status p = PS_DISABLED then Some (RR_PROVIDER_DISABLED, EP_STATUS_POLICY)
      else if pd_status p = PS_DEGRADED then Some (RR_PROVIDER_UNHEALTHY, EP_STATUS_POLICY)
      else if stale isHealthFresh env now p then Some (RR_HEALTH_STATUS_STALE, EP_AVAILABILITY)
      else if pd_healthStatus p = PH_DISABLED then Some (RR_PROVIDER_DISABLED, EP_AVAILABILITY)
      else if pd_healthStatus p = PH_UNAVAILABLE then Some (RR_PROVIDER_UNAVAILABLE, EP_AVAILABILITY)
      else if pd_healthStatus p = PH_QUOTA_LIMITED then Some (RR_QUOTA_UNAVAILABLE, EP_AVAILABILITY)
      else if pd_healthStatus p = PH_UNKNOWN then Some (RR_PROVIDER_UNHEALTHY, EP_AVAILABILITY)
      else if stale isQuotaFresh env now p then Some (RR_QUOTA_STATUS_STALE, EP_QUOTA)
      else if pd_quotaStatus p = PQ_EXHAUSTED then Some (RR_QUOTA_EXHAUSTED, EP_QUOTA)
      else if pd_quotaStatus p = PQ_UNKNOWN then Some (RR_QUOTA_STATUS_UNKNOWN, EP_QUOTA)
      else if truthy (rt_assuranceLevel req) \<and> pd_assuranceLevels p \<noteq> [] \<and>
          the (rt_assuranceLevel req) \<notin> set (pd_assuranceLevels p)
      then Some (RR_ASSURANCE_LEVEL_UNSUPPORTED, EP_ASSURANCE)
      else case Option.bind (rt_independenceContext req) (checkIndependence p) of
        Some violation \<Rightarrow> Some (violation, EP_INDEPENDENCE)
      | None \<Rightarrow>
          (case rt_maxCostMinorUnits req of
             None \<Rightarrow> None
           | Some limit \<Rightarrow>
               (case pd_estimatedCostMinorUnits p of
                  None \<Rightarrow> Some (RR_COST_UNKNOWN, EP_BUDGET)
                | Some cost \<Rightarrow> if limit < cost then Some (RR_BUDGET_INCOMPATIBLE, EP_BUDGET) else None)))"

section \<open>Scores\<close>

definition penalty :: "(rat \<Rightarrow> rat) \<Rightarrow> rat \<Rightarrow> rat option \<Rightarrow> rat" where
  "penalty fl scale v = (case v of None \<Rightarrow> 1 / 2 | Some x \<Rightarrow> max 0 (fl (1 - fl (x / scale))))"

definition computeScore :: "(rat \<Rightarrow> rat) \<Rightarrow> ProviderDeclaration \<Rightarrow> ProviderScoreComponents" where
  "computeScore fl p = \<lparr>sc_qualityScore = (case pd_qualityScore p of None \<Rightarrow> 1 / 2 | Some q \<Rightarrow> q),
     sc_costScore = penalty fl 1000 (pd_costScore p), sc_latencyScore = penalty fl 10000 (pd_latencyScore p),
     sc_healthPreference = (if pd_healthStatus p = PH_HEALTHY then 1
       else if pd_healthStatus p = PH_DEGRADED then 1 / 2 else fl (3 / 10))\<rparr>"

definition aggregateScore :: "(rat \<Rightarrow> rat) \<Rightarrow> ProviderScoreComponents \<Rightarrow> rat" where
  "aggregateScore fl c =
     fl (fl (fl (fl (sc_qualityScore c * fl (4 / 10)) + fl (sc_costScore c * fl (3 / 10))) +
             fl (sc_latencyScore c * fl (2 / 10))) + fl (sc_healthPreference c * fl (1 / 10)))"

definition finalScore :: "RouterEnv \<Rightarrow> ProviderDeclaration \<Rightarrow> rat" where
  "finalScore env p = aggregateScore (re_round env) (computeScore (re_round env) p)"

definition ranks_before :: "RouterEnv \<Rightarrow> ProviderDeclaration \<Rightarrow> ProviderDeclaration \<Rightarrow> bool" where
  "ranks_before env p q =
     (if finalScore env p \<noteq> finalScore env q then finalScore env q < finalScore env p
      else re_localeCompare env (pd_providerCode p) (pd_providerCode q))"

section \<open>Routing\<close>

definition ROUTING_POLICY_VERSION :: string where "ROUTING_POLICY_VERSION = ''v0.1''"

definition eligible_candidates ::
  "RouterEnv \<Rightarrow> int \<Rightarrow> ProviderRoutingRequest \<Rightarrow> ProviderDeclaration list \<Rightarrow> ProviderDeclaration list" where
  "eligible_candidates env now req ps = filter (\<lambda>p. evaluateCandidate env now req p = None) ps"

definition selected_of :: "RouterEnv \<Rightarrow> ProviderDeclaration list \<Rightarrow> ProviderDeclaration option" where
  "selected_of env eligible = (case sort_by (ranks_before env) eligible of [] \<Rightarrow> None | p # _ \<Rightarrow> Some p)"

definition rejections ::
  "RouterEnv \<Rightarrow> int \<Rightarrow> ProviderRoutingRequest \<Rightarrow> ProviderDeclaration list \<Rightarrow> (string \<times> RoutingRejectionReason \<times> EligibilityPhase) list" where
  "rejections env now req ps =
     List.map_filter (\<lambda>p. map_option (\<lambda>r. (pd_id p, r)) (evaluateCandidate env now req p)) ps"

definition decision_reason :: "RouterEnv \<Rightarrow> ProviderDeclaration option \<Rightarrow> string" where
  "decision_reason env sel = (case sel of
       None \<Rightarrow> ''Kein geeigneter Provider f'' @ [CHR 0xFC] @ ''r die angeforderte Capability''
     | Some p \<Rightarrow> ''Provider '' @ pd_providerCode p @ '' ausgew'' @ [CHR 0xE4] @ ''hlt (Score: '' @
         re_toFixed4 env (finalScore env p) @ '')'')"

definition routing_response ::
  "RouterEnv \<Rightarrow> int \<Rightarrow> string \<Rightarrow> ProviderRoutingRequest \<Rightarrow> string list \<Rightarrow> ProviderDeclaration list \<Rightarrow> ProviderRoutingResponse" where
  "routing_response env now newId req refreshed ps =
     (let eligible = eligible_candidates env now req ps; rejected = rejections env now req ps; sel = selected_of env eligible in
      \<lparr>rs_selectedProvider = sel, rs_routingDecisionId = newId, rs_eligibleCandidateIds = map pd_id eligible,
       rs_allCandidateIds = map pd_id ps, rs_rejectionReasons = map (\<lambda>(i, r, _). (i, r)) rejected,
       rs_rejectionPhases = map (\<lambda>(i, _, ph). (i, ph)) rejected,
       rs_scoreComponents = map (\<lambda>p. (pd_id p, computeScore (re_round env) p)) eligible,
       rs_finalScores = map (\<lambda>p. (pd_id p, finalScore env p)) eligible,
       rs_decisionReason = decision_reason env sel, rs_runtimeRefreshedProviderIds = refreshed\<rparr>)"

definition decision_row ::
  "RouterEnv \<Rightarrow> int \<Rightarrow> ProviderRoutingRequest \<Rightarrow> ProviderRoutingResponse \<Rightarrow> ProviderRoutingDecision" where
  "decision_row env now req res = \<lparr>rd_id = rs_routingDecisionId res, rd_organizationId = rt_organizationId req,
     rd_correlationId = rt_correlationId req, rd_workflowRunId = rt_workflowRunId req,
     rd_workflowStepRunId = rt_workflowStepRunId req, rd_requestedCapability = rt_capability req,
     rd_assuranceLevel = rt_assuranceLevel req, rd_selectedProviderId = map_option pd_id (rs_selectedProvider res),
     rd_candidateProviderIds = rs_allCandidateIds res,
     rd_rejectionReasons = map (\<lambda>(i, r). (i, rejection_name r)) (rs_rejectionReasons res),
     rd_scoreComponents = rs_scoreComponents res,
     rd_finalScore = map_option (finalScore env) (rs_selectedProvider res), rd_decisionReason = rs_decisionReason res,
     rd_routingPolicyVersion = ROUTING_POLICY_VERSION, rd_createdAt = now\<rparr>"

definition selection_row :: "ProviderRoutingRequest \<Rightarrow> ProviderRoutingResponse \<Rightarrow> AuditRow" where
  "selection_row req res = system_row (rt_organizationId req)
     (if rs_selectedProvider res = None then ''PROVIDER_ROUTING_REQUESTED'' else ''PROVIDER_SELECTED'')
     ''ProviderRoutingDecision'' (rs_routingDecisionId res)
     ([(''correlationId'', JStr (rt_correlationId req)), (''capability'', JStr (rt_capability req))] @
      (case rt_assuranceLevel req of None \<Rightarrow> [] | Some l \<Rightarrow> [(''assuranceLevel'', JStr l)]) @
      [(''selectedProviderId'', opt_json (map_option pd_id (rs_selectedProvider res))),
       (''selectedProviderCode'', opt_json (map_option pd_providerCode (rs_selectedProvider res))),
       (''candidateCount'', JNum (int (length (rs_allCandidateIds res)))),
       (''eligibleCount'', JNum (int (length (rs_eligibleCandidateIds res)))),
       (''rejectionReasons'', JObj (map (\<lambda>(i, r). (i, JStr (rejection_name r))) (rs_rejectionReasons res))),
       (''decisionReason'', JStr (rs_decisionReason res)),
       (''runtimeRefreshedProviderIds'', JArr (map JStr (rs_runtimeRefreshedProviderIds res)))])"

definition routeInternal ::
  "RouterEnv \<Rightarrow> int \<Rightarrow> string \<Rightarrow> ProviderRoutingRequest \<Rightarrow> string list \<Rightarrow> RegistryDb \<Rightarrow>
   RegistryDb \<times> (RegistryError + ProviderRoutingResponse)" where
  "routeInternal env now newId req refreshed db =
     (let res = routing_response env now newId req refreshed (loadCandidates env (rt_organizationId req) db) in
      if newId \<in> rd_id ` set (rg_decisions db) then (db, Inl RG_UNIQUE_VIOLATION)
      else (registry_audit (selection_row req res) (db\<lparr>rg_decisions := rg_decisions db @ [decision_row env now req res]\<rparr>),
            Inr res))"

definition route ::
  "RouterEnv \<Rightarrow> int \<Rightarrow> string \<Rightarrow> ProviderRoutingRequest \<Rightarrow> RegistryDb \<Rightarrow> RegistryDb \<times> (RegistryError + ProviderRoutingResponse)" where
  "route env now newId req db = routeInternal env now newId req [] db"

text \<open>Every candidate reads the clock anew.\<close>

fun refresh_each ::
  "RuntimeStateConfig \<Rightarrow> ProbeEnv \<Rightarrow> (nat \<Rightarrow> int) \<Rightarrow> nat \<Rightarrow> ProviderRoutingRequest \<Rightarrow> ProviderDeclaration list \<Rightarrow> RegistryDb \<Rightarrow>
   RegistryDb \<times> (RegistryError + string list)" where
  "refresh_each cfg penv clock n req [] db = (db, Inr [])"
| "refresh_each cfg penv clock n req (p # ps) db =
     (if pd_status p \<noteq> PS_ACTIVE \<or> \<not> providerSupportsCapability p (rt_capability req) \<or> \<not> needsRefresh cfg (clock n) p
      then refresh_each cfg penv clock (Suc n) req ps db
      else case refreshIfStale cfg penv (clock n) (rt_organizationId req) p db of
          (db', Inl e) \<Rightarrow> (db', Inl e)
        | (db', Inr r) \<Rightarrow> (case refresh_each cfg penv clock (Suc n) req ps db' of
              (db'', Inl e) \<Rightarrow> (db'', Inl e)
            | (db'', Inr ids) \<Rightarrow> (db'', Inr (if pr_refreshed r then pd_id p # ids else ids))))"

definition refreshStaleCandidates ::
  "RouterEnv \<Rightarrow> (nat \<Rightarrow> int) \<Rightarrow> ProviderRoutingRequest \<Rightarrow> ProviderDeclaration list \<Rightarrow> RegistryDb \<Rightarrow>
   RegistryDb \<times> (RegistryError + string list)" where
  "refreshStaleCandidates env clock req ps db =
     (case (re_runtimeState env, re_readinessProbe env) of
        (Some cfg, Some penv) \<Rightarrow> refresh_each cfg penv clock 0 req ps db
      | _ \<Rightarrow> (db, Inr []))"

definition routeForExecution ::
  "RouterEnv \<Rightarrow> (nat \<Rightarrow> int) \<Rightarrow> string \<Rightarrow> ProviderRoutingRequest \<Rightarrow> RegistryDb \<Rightarrow>
   RegistryDb \<times> (RegistryError + ProviderRoutingResponse)" where
  "routeForExecution env clock newId req db =
     (let ps = loadCandidates env (rt_organizationId req) db in
      case refreshStaleCandidates env clock req ps db of
        (db', Inl e) \<Rightarrow> (db', Inl e)
      | (db', Inr refreshed) \<Rightarrow> routeInternal env (clock (length ps)) newId req refreshed db')"

section \<open>Stored decisions\<close>

definition findDecisionById :: "string \<Rightarrow> string \<Rightarrow> RegistryDb \<Rightarrow> ProviderRoutingDecision option" where
  "findDecisionById org did db = find (\<lambda>d. rd_id d = did \<and> rd_organizationId d = org) (rg_decisions db)"

definition decisions_by_creation :: "(ProviderRoutingDecision \<Rightarrow> bool) \<Rightarrow> RegistryDb \<Rightarrow> ProviderRoutingDecision list" where
  "decisions_by_creation P db = sort_key rd_createdAt (filter P (rg_decisions db))"

definition findDecisionsByCorrelationId :: "string \<Rightarrow> string \<Rightarrow> RegistryDb \<Rightarrow> ProviderRoutingDecision list" where
  "findDecisionsByCorrelationId org cid =
     decisions_by_creation (\<lambda>d. rd_organizationId d = org \<and> rd_correlationId d = cid)"

definition findDecisionsByWorkflowRunId :: "string \<Rightarrow> string \<Rightarrow> RegistryDb \<Rightarrow> ProviderRoutingDecision list" where
  "findDecisionsByWorkflowRunId org rid =
     decisions_by_creation (\<lambda>d. rd_organizationId d = org \<and> rd_workflowRunId d = Some rid)"

section \<open>Provider intelligence\<close>

text \<open>The read-only coverage of \<open>provider-intelligence.service.ts\<close>: per capability, how many providers
  could be routed to.\<close>

definition isStaticallyRoutable :: "AgentProvider \<Rightarrow> bool" where
  "isStaticallyRoutable p = (ap_status p = PS_ACTIVE \<and> (ap_healthStatus p = PH_HEALTHY \<or> ap_healthStatus p = PH_DEGRADED) \<and>
     (ap_quotaStatus p = PQ_AVAILABLE \<or> ap_quotaStatus p = PQ_LIMITED))"

datatype Resilience = REDUNDANT | SINGLE_PROVIDER | COVERAGE_UNAVAILABLE

definition routable_providers :: "RouterEnv \<Rightarrow> int \<Rightarrow> string \<Rightarrow> string \<Rightarrow> RegistryDb \<Rightarrow> AgentProvider list" where
  "routable_providers env now org capability db =
     filter (\<lambda>p. (\<exists>c \<in> set (capabilities_of db (ap_id p)). pc_organizationId c = org \<and> pc_isEnabled c \<and> pc_capabilityCode c = capability) \<and>
         isStaticallyRoutable p \<and>
         (case re_runtimeState env of None \<Rightarrow> True
          | Some cfg \<Rightarrow> isHealthFresh cfg now (declaration_of db p) \<and> isQuotaFresh cfg now (declaration_of db p)))
       (findAllProviders (re_collate env) org db)"

definition resilience :: "RouterEnv \<Rightarrow> int \<Rightarrow> string \<Rightarrow> string \<Rightarrow> RegistryDb \<Rightarrow> Resilience" where
  "resilience env now org capability db =
     (let n = length (routable_providers env now org capability db) in
      if 2 \<le> n then REDUNDANT else if n = 1 then SINGLE_PROVIDER else COVERAGE_UNAVAILABLE)"

end
