(* ===== verification/Vito_RegistrySafety.thy ===== *)
theory Vito_RegistrySafety
  imports Vito_Routing
begin

text \<open>
  The provider registry keeps its tables consistent and its tenants apart, and a
  provider turns active through the activation gate; three ways in which the
  code falls short of that are shown at the end.
\<close>

section \<open>Operations\<close>

datatype registry_op =
    RO_create string CreateProviderInput
  | RO_update int UpdateProviderInput
  | RO_activate ActivateProviderInput
  | RO_assign string AssignProviderCapabilityInput
  | RO_enable string string bool
  | RO_probe int string string ProviderRuntimeObservation
  | RO_route RouterEnv int string ProviderRoutingRequest

fun registry_exec :: "registry_op \<Rightarrow> RegistryDb \<Rightarrow> RegistryDb" where
  "registry_exec (RO_create newId i) db = fst (createProvider newId i db)"
| "registry_exec (RO_update now i) db = fst (updateProvider now i db)"
| "registry_exec (RO_activate i) db = fst (activateProvider i db)"
| "registry_exec (RO_assign newId i) db = fst (assignCapability newId i db)"
| "registry_exec (RO_enable org cid b) db = fst (setCapabilityEnabled org cid b db)"
| "registry_exec (RO_probe now org pid obs) db = fst (recordProbe now org pid obs db)"
| "registry_exec (RO_route env now newId req) db = fst (route env now newId req db)"

fun op_org :: "registry_op \<Rightarrow> string" where
  "op_org (RO_create newId i) = cp_in_organizationId i"
| "op_org (RO_update now i) = up_organizationId i"
| "op_org (RO_activate i) = ac_organizationId i"
| "op_org (RO_assign newId i) = as_organizationId i"
| "op_org (RO_enable org cid b) = org"
| "op_org (RO_probe now org pid obs) = org"
| "op_org (RO_route env now newId req) = rt_organizationId req"

definition empty_provider_db :: RegistryDb where
  "empty_provider_db = \<lparr>rg_providers = [], rg_capabilities = [], rg_decisions = [], rg_auditRows = []\<rparr>"

section \<open>The invariant\<close>

definition provider_key :: "AgentProvider \<Rightarrow> string \<times> string \<times> string" where
  "provider_key p = (ap_id p, ap_organizationId p, ap_providerCode p)"

definition capability_key :: "ProviderCapability \<Rightarrow> string \<times> string \<times> string \<times> string" where
  "capability_key c = (pc_id c, pc_organizationId c, pc_agentProviderId c, pc_capabilityCode c)"

definition provider_keys :: "RegistryDb \<Rightarrow> (string \<times> string \<times> string) list" where
  "provider_keys db = map provider_key (rg_providers db)"

definition capability_keys :: "RegistryDb \<Rightarrow> (string \<times> string \<times> string \<times> string) list" where
  "capability_keys db = map capability_key (rg_capabilities db)"

text \<open>Primary keys and the two unique constraints hold, a capability belongs to a provider of its
  organisation.\<close>

definition keys_ok :: "(string \<times> string \<times> string) list \<Rightarrow> (string \<times> string \<times> string \<times> string) list \<Rightarrow> bool" where
  "keys_ok ps cs = (distinct (map fst ps) \<and> distinct (map snd ps) \<and> distinct (map fst cs) \<and> distinct (map snd cs) \<and>
     (\<forall>(cid, org, pid, code) \<in> set cs. \<exists>pcode. (pid, org, pcode) \<in> set ps))"

definition credential_ok :: "AgentProvider \<Rightarrow> bool" where
  "credential_ok p = (ap_providerType p = CLOUD_LLM \<longrightarrow> ap_credentialRequirement p = CR_REQUIRED)"

definition providers_ok :: "RegistryDb \<Rightarrow> bool" where
  "providers_ok db = (keys_ok (provider_keys db) (capability_keys db) \<and> list_all credential_ok (rg_providers db))"

lemma providers_ok_ids: "providers_ok db \<Longrightarrow> distinct (map ap_id (rg_providers db))"
  by (simp add: providers_ok_def keys_ok_def provider_keys_def provider_key_def comp_def)

lemma providers_ok_capability_ids: "providers_ok db \<Longrightarrow> distinct (map pc_id (rg_capabilities db))"
  by (simp add: providers_ok_def keys_ok_def capability_keys_def capability_key_def comp_def)

lemma registry_tx_fst: "fst (registry_tx body db) = (case body db of Inl e \<Rightarrow> db | Inr (x, db') \<Rightarrow> db')"
  by (simp add: registry_tx_def split: sum.splits prod.splits)

lemma registry_audit_tables [simp]:
  "rg_providers (registry_audit e db) = rg_providers db"
  "rg_capabilities (registry_audit e db) = rg_capabilities db"
  by (simp_all add: registry_audit_def)

lemma set_provider_capabilities [simp]: "rg_capabilities (set_provider pid row db) = rg_capabilities db"
  by (simp add: set_provider_def)

text \<open>A table whose rows change at one identifier only.\<close>

lemma filter_changed:
  assumes "\<And>q. q \<in> set xs \<Longrightarrow> H q \<Longrightarrow> \<not> P q \<and> \<not> P (f q)"
  shows "filter P (map (\<lambda>q. if H q then f q else q) xs) = filter P xs"
  using assms by (induction xs) auto

lemma unique_row:
  assumes "distinct (map key xs)" and "x \<in> set xs" and "y \<in> set xs" and "key x = key y"
  shows "x = y"
  using assms by (metis distinct_map inj_onD)

lemma find_SomeD: "find P xs = Some x \<Longrightarrow> x \<in> set xs \<and> P x"
  by (auto simp: find_Some_iff)

lemma find_agent_providerD:
  "find_agent_provider db org pid = Some p \<Longrightarrow> p \<in> set (rg_providers db) \<and> ap_id p = pid \<and> ap_organizationId p = org"
  by (auto simp: find_agent_provider_def dest: find_SomeD)

lemma found_by_id:
  assumes "providers_ok db" and "p \<in> set (rg_providers db)"
  shows "find (\<lambda>q. ap_id q = ap_id p) (rg_providers db) = Some p"
proof -
  obtain q where q: "find (\<lambda>q. ap_id q = ap_id p) (rg_providers db) = Some q"
    using assms(2) by (cases "find (\<lambda>q. ap_id q = ap_id p) (rg_providers db)") (auto simp: find_None_iff)
  then have "q \<in> set (rg_providers db)" "ap_id q = ap_id p" by (auto dest: find_SomeD)
  with q assms show ?thesis using unique_row [OF providers_ok_ids] by metis
qed

lemma set_provider_ok:
  assumes "providers_ok db" and "p \<in> set (rg_providers db)"
    and "provider_key p' = provider_key p" and "credential_ok p'"
  shows "providers_ok (registry_audit e (set_provider (ap_id p) p' db))"
proof -
  let ?db = "set_provider (ap_id p) p' db"
  have u: "q = p" if "q \<in> set (rg_providers db)" "ap_id q = ap_id p" for q
    using that assms(2) unique_row [OF providers_ok_ids [OF assms(1)]] by blast
  have "provider_keys ?db = provider_keys db"
    unfolding provider_keys_def set_provider_def using assms(3) by (auto dest: u)
  then have "keys_ok (provider_keys ?db) (capability_keys ?db)"
    using assms(1) by (simp add: providers_ok_def capability_keys_def)
  then show ?thesis
    using assms by (auto simp: providers_ok_def provider_keys_def capability_keys_def set_provider_def list_all_iff)
qed

section \<open>Each operation keeps the invariant\<close>

lemma resolve_credential_cloud:
  "resolveCredentialRequirementForWrite ''CLOUD_LLM'' raw d = Inr c \<Longrightarrow> c = CR_REQUIRED"
  by (auto simp: resolveCredentialRequirementForWrite_def Let_def split: option.splits if_splits)

lemma provider_type_CLOUD: "enum_value PROVIDER_TYPES s = Inr CLOUD_LLM \<longleftrightarrow> s = ''CLOUD_LLM''"
  by (auto simp: enum_value_def PROVIDER_TYPES_def split: if_splits)

lemma provider_status_ACTIVE: "enum_value PROVIDER_STATUSES s = Inr PS_ACTIVE \<longleftrightarrow> s = ''ACTIVE''"
  by (auto simp: enum_value_def PROVIDER_STATUSES_def split: if_splits)

lemma enum_name_CLOUD: "enum_name PROVIDER_TYPES CLOUD_LLM = ''CLOUD_LLM''"
  by (simp add: enum_name_def PROVIDER_TYPES_def)

lemma new_provider_fields:
  assumes "new_provider newId i c = Inr p"
  shows "provider_key p = (newId, cp_in_organizationId i, cp_in_providerCode i)"
    and "enum_value PROVIDER_TYPES (or_else (cp_in_providerType i) ''CLOUD_LLM'') = Inr (ap_providerType p)"
    and "enum_value PROVIDER_STATUSES (or_else (cp_in_status i) ''DISABLED'') = Inr (ap_status p)"
    and "ap_credentialRequirement p = c"
  using assms by (auto simp: new_provider_def provider_key_def)

lemma createProvider_cases:
  obtains "fst (createProvider newId i db) = db"
  | p where "fst (createProvider newId i db) = registry_audit (registered_row p) (db\<lparr>rg_providers := rg_providers db @ [p]\<rparr>)"
      "provider_key p = (newId, cp_in_organizationId i, cp_in_providerCode i)" "credential_ok p"
      "ap_status p = PS_ACTIVE \<longleftrightarrow> cp_in_status i = Some ''ACTIVE''"
      "\<forall>q \<in> set (rg_providers db). ap_id q \<noteq> newId \<and>
         (ap_organizationId q = cp_in_organizationId i \<longrightarrow> ap_providerCode q \<noteq> cp_in_providerCode i)"
proof (cases "snd (createProvider newId i db)")
  case (Inl e)
  then have "fst (createProvider newId i db) = db"
    by (auto simp: createProvider_def registry_tx_def split: sum.splits)
  then show ?thesis using that(1) by blast
next
  case (Inr p)
  then obtain c db' where
    c: "resolveCredentialRequirementForWrite (or_else (cp_in_providerType i) ''CLOUD_LLM'')
       (cp_in_credentialRequirement i) True = Inr c"
    and p: "new_provider newId i c = Inr p" and ins: "insert_provider p db = Inr db'"
    and db: "fst (createProvider newId i db) = registry_audit (registered_row p) db'"
    by (auto simp: createProvider_def registry_tx_def split: sum.splits)
  note f = new_provider_fields [OF p]
  have key: "ap_id p = newId" "ap_organizationId p = cp_in_organizationId i" "ap_providerCode p = cp_in_providerCode i"
    using f(1) by (auto simp: provider_key_def)
  have "credential_ok p"
    using f(2,4) c resolve_credential_cloud by (auto simp: credential_ok_def provider_type_CLOUD)
  moreover have "ap_status p = PS_ACTIVE \<longleftrightarrow> or_else (cp_in_status i) ''DISABLED'' = ''ACTIVE''"
    using f(3) provider_status_ACTIVE [of "or_else (cp_in_status i) ''DISABLED''"] by simp
  then have "ap_status p = PS_ACTIVE \<longleftrightarrow> cp_in_status i = Some ''ACTIVE''"
    by (cases "cp_in_status i") (simp_all add: or_else_def)
  ultimately show ?thesis
    using that(2) [of p] f(1) db ins key by (auto simp: insert_provider_def split: if_splits)
qed

lemma append_provider_ok:
  assumes "providers_ok db" and "provider_key p = (newId, org, code)" and "credential_ok p"
    and "\<forall>q \<in> set (rg_providers db). ap_id q \<noteq> newId \<and> (ap_organizationId q = org \<longrightarrow> ap_providerCode q \<noteq> code)"
  shows "providers_ok (registry_audit e (db\<lparr>rg_providers := rg_providers db @ [p]\<rparr>))"
proof -
  have "\<forall>k \<in> set (provider_keys db). fst k \<noteq> newId \<and> snd k \<noteq> (org, code)"
    using assms(4) by (auto simp: provider_keys_def provider_key_def)
  moreover have "keys_ok (provider_keys db) (capability_keys db)" using assms(1) by (simp add: providers_ok_def)
  ultimately have "keys_ok (provider_keys db @ [(newId, org, code)]) (capability_keys db)"
    unfolding keys_ok_def by (fastforce simp: image_iff)
  with assms show ?thesis
    by (simp add: providers_ok_def provider_keys_def capability_keys_def)
qed

lemma updated_row_fields:
  assumes "updated_row now i c p = Inr p'"
  shows "provider_key p' = provider_key p"
    and "enum_update PROVIDER_TYPES (up_providerType i) (ap_providerType p) = Inr (ap_providerType p')"
    and "enum_update PROVIDER_STATUSES (up_status i) (ap_status p) = Inr (ap_status p')"
    and "ap_credentialRequirement p' = or_else c (ap_credentialRequirement p)"
  using assms by (auto simp: updated_row_def provider_key_def)

lemma updated_credential_ok:
  assumes "check_update i db = Inr c" and "find_agent_provider db (up_organizationId i) (up_providerId i) = Some p"
    and "updated_row now i c p = Inr p'" and "credential_ok p"
  shows "credential_ok p'"
proof (cases "up_credentialRequirement i \<noteq> None \<or> up_providerType i \<noteq> None")
  case True
  then obtain r where r: "c = Some r"
    "resolveCredentialRequirementForWrite (or_else (up_providerType i) (enum_name PROVIDER_TYPES (ap_providerType p)))
       (Some (or_else (up_credentialRequirement i) (enum_name CREDENTIAL_REQUIREMENTS (ap_credentialRequirement p)))) False = Inr r"
    using assms(1,2) by (auto simp: check_update_def split: sum.splits if_splits)
  have "or_else (up_providerType i) (enum_name PROVIDER_TYPES (ap_providerType p)) = ''CLOUD_LLM''"
    if "ap_providerType p' = CLOUD_LLM"
    using that updated_row_fields(2) [OF assms(3)]
    by (cases "up_providerType i") (simp_all add: enum_update_def or_else_def provider_type_CLOUD enum_name_CLOUD)
  then show ?thesis
    using r resolve_credential_cloud updated_row_fields(4) [OF assms(3)] by (auto simp: credential_ok_def or_else_def)
next
  case False
  then have "c = None" "up_providerType i = None"
    using assms(1,2) by (auto simp: check_update_def split: if_splits)
  then show ?thesis
    using assms(4) updated_row_fields [OF assms(3)] by (simp add: credential_ok_def enum_update_def or_else_def)
qed

lemma updateProvider_cases:
  assumes "providers_ok db"
  obtains "fst (updateProvider now i db) = db"
  | p p' e where "p \<in> set (rg_providers db)" "ap_id p = up_providerId i" "ap_organizationId p = up_organizationId i"
      "fst (updateProvider now i db) = registry_audit e (set_provider (ap_id p) p' db)"
      "provider_key p' = provider_key p" "credential_ok p'"
      "ap_status p' = PS_ACTIVE \<longrightarrow> ap_status p = PS_ACTIVE"
proof (cases "check_update i db")
  case (Inl e)
  then show ?thesis using that(1) by (simp add: updateProvider_def)
next
  case (Inr c)
  then obtain p where p: "find_agent_provider db (up_organizationId i) (up_providerId i) = Some p"
    by (auto simp: check_update_def split: option.splits)
  from find_agent_providerD [OF p] have in_p: "p \<in> set (rg_providers db)" "ap_id p = up_providerId i"
    "ap_organizationId p = up_organizationId i" by auto
  note found = found_by_id [OF assms in_p(1), unfolded in_p(2)]
  show ?thesis
  proof (cases "updated_row now i c p")
    case Inl
    then show ?thesis
      using that(1) Inr found by (simp add: updateProvider_def write_update_def registry_tx_fst)
  next
    case row: (Inr p')
    have "up_status i \<noteq> Some ''ACTIVE''" using Inr p by (auto simp: check_update_def split: if_splits)
    then have "ap_status p' = PS_ACTIVE \<longrightarrow> ap_status p = PS_ACTIVE"
      using updated_row_fields(3) [OF row] by (cases "up_status i") (auto simp: enum_update_def provider_status_ACTIVE)
    moreover have "credential_ok p'"
      using updated_credential_ok [OF Inr p row] in_p(1) assms by (auto simp: providers_ok_def list_all_iff)
    ultimately show ?thesis
      using that(2) [OF in_p] Inr found row updated_row_fields(1) [OF row] in_p(2)
      by (simp add: updateProvider_def write_update_def registry_tx_fst)
  qed
qed

lemma activateProvider_cases:
  assumes "providers_ok db"
  obtains "fst (activateProvider i db) = db"
  | p e where "p \<in> set (rg_providers db)" "ap_id p = ac_providerId i" "ap_organizationId p = ac_organizationId i"
      "fst (activateProvider i db) = registry_audit e (set_provider (ap_id p) (p\<lparr>ap_status := PS_ACTIVE\<rparr>) db)"
      "reviewed i" "\<exists>c \<in> set (capabilities_of db (ap_id p)). pc_isEnabled c"
proof (cases "check_activate i db")
  case (Inl e)
  then show ?thesis using that(1) by (simp add: activateProvider_def)
next
  case (Inr cs)
  then obtain p where p: "find_agent_provider db (ac_organizationId i) (ac_providerId i) = Some p"
    by (auto simp: check_activate_def split: option.splits)
  from find_agent_providerD [OF p] have in_p: "p \<in> set (rg_providers db)" "ap_id p = ac_providerId i"
    "ap_organizationId p = ac_organizationId i" by auto
  have "reviewed i" "filter pc_isEnabled (capabilities_of db (ap_id p)) \<noteq> []"
    using Inr p by (auto simp: check_activate_def Let_def split: if_splits)
  then show ?thesis
    using that(2) [OF in_p] Inr found_by_id [OF assms in_p(1), unfolded in_p(2)] in_p(2)
    by (auto simp: activateProvider_def write_activate_def registry_tx_fst Let_def filter_empty_conv)
qed

lemma activated_ok:
  "providers_ok db \<Longrightarrow> p \<in> set (rg_providers db) \<Longrightarrow>
     providers_ok (registry_audit e (set_provider (ap_id p) (p\<lparr>ap_status := s\<rparr>) db))"
  using set_provider_ok [of db p "p\<lparr>ap_status := s\<rparr>" e]
  by (auto simp: provider_key_def credential_ok_def providers_ok_def list_all_iff)

lemma assignCapability_cases:
  obtains "fst (assignCapability newId i db) = db"
  | p c e where "p \<in> set (rg_providers db)" "ap_id p = as_agentProviderId i" "ap_organizationId p = as_organizationId i"
      "fst (assignCapability newId i db) = registry_audit e (db\<lparr>rg_capabilities := rg_capabilities db @ [c]\<rparr>)"
      "capability_key c = (newId, as_organizationId i, as_agentProviderId i, as_capabilityCode i)"
      "\<forall>d \<in> set (rg_capabilities db). pc_id d \<noteq> newId \<and> snd (capability_key d) \<noteq> snd (capability_key c)"
proof (cases "snd (assignCapability newId i db)")
  case (Inl e)
  then have "fst (assignCapability newId i db) = db"
    by (auto simp: assignCapability_def Let_def split: option.splits sum.splits)
  then show ?thesis using that(1) by blast
next
  case (Inr c)
  then obtain p where p: "find_agent_provider db (as_organizationId i) (as_agentProviderId i) = Some p"
    by (auto simp: assignCapability_def split: option.splits)
  let ?c = "\<lparr>pc_id = newId, pc_organizationId = as_organizationId i, pc_agentProviderId = ap_id p,
    pc_capabilityCode = as_capabilityCode i, pc_isEnabled = or_else (as_isEnabled i) False\<rparr>"
  from Inr obtain db' where ins: "insert_capability ?c db = Inr db'"
    by (auto simp: assignCapability_def p Let_def split: sum.splits)
  then have db': "db' = db\<lparr>rg_capabilities := rg_capabilities db @ [?c]\<rparr>"
    and new: "\<forall>d \<in> set (rg_capabilities db). pc_id d \<noteq> newId \<and> snd (capability_key d) \<noteq> snd (capability_key ?c)"
    by (auto simp: insert_capability_def capability_key_def split: if_splits)
  have "\<exists>e. fst (assignCapability newId i db) = registry_audit e db'"
    by (auto simp: assignCapability_def p Let_def ins)
  then obtain e where "fst (assignCapability newId i db) = registry_audit e db'" by blast
  with that(2) [of p e ?c] find_agent_providerD [OF p] new db' show ?thesis by (simp add: capability_key_def)
qed

lemma append_capability_ok:
  assumes "providers_ok db" and "p \<in> set (rg_providers db)"
    and "capability_key c = (newId, ap_organizationId p, ap_id p, code)"
    and "\<forall>d \<in> set (rg_capabilities db). pc_id d \<noteq> newId \<and> snd (capability_key d) \<noteq> snd (capability_key c)"
  shows "providers_ok (registry_audit e (db\<lparr>rg_capabilities := rg_capabilities db @ [c]\<rparr>))"
proof -
  have "\<forall>k \<in> set (capability_keys db). fst k \<noteq> newId \<and> snd k \<noteq> (ap_organizationId p, ap_id p, code)"
    using assms(3,4) by (auto simp: capability_keys_def capability_key_def)
  moreover have "(ap_id p, ap_organizationId p, ap_providerCode p) \<in> set (provider_keys db)"
    using assms(2) by (force simp: provider_keys_def provider_key_def)
  moreover have "keys_ok (provider_keys db) (capability_keys db)" using assms(1) by (simp add: providers_ok_def)
  ultimately have "keys_ok (provider_keys db) (capability_keys db @ [(newId, ap_organizationId p, ap_id p, code)])"
    unfolding keys_ok_def by (fastforce simp: image_iff)
  with assms show ?thesis
    by (simp add: providers_ok_def provider_keys_def capability_keys_def)
qed

lemma setCapabilityEnabled_cases:
  obtains "fst (setCapabilityEnabled org cid b db) = db"
  | c e where "c \<in> set (rg_capabilities db)" "pc_id c = cid" "pc_organizationId c = org"
      "fst (setCapabilityEnabled org cid b db) = registry_audit e
        (db\<lparr>rg_capabilities := map (\<lambda>d. if pc_id d = cid then d\<lparr>pc_isEnabled := b\<rparr> else d) (rg_capabilities db)\<rparr>)"
proof (cases "find (\<lambda>c. pc_id c = cid \<and> pc_organizationId c = org) (rg_capabilities db)")
  case None
  then show ?thesis using that(1) by (simp add: setCapabilityEnabled_def)
next
  case (Some c)
  show ?thesis
    by (rule that(2) [of c]) (use find_SomeD [OF Some] in \<open>simp_all add: setCapabilityEnabled_def Some Let_def\<close>)
qed

lemma set_enabled_ok:
  "providers_ok db \<Longrightarrow> providers_ok (registry_audit e
     (db\<lparr>rg_capabilities := map (\<lambda>d. if pc_id d = cid then d\<lparr>pc_isEnabled := b\<rparr> else d) (rg_capabilities db)\<rparr>))"
proof -
  have "capability_key \<circ> (\<lambda>d. if pc_id d = cid then d\<lparr>pc_isEnabled := b\<rparr> else d) = capability_key"
    by (simp add: fun_eq_iff capability_key_def)
  then show "providers_ok db \<Longrightarrow> ?thesis"
    by (simp add: providers_ok_def provider_keys_def capability_keys_def)
qed

lemma recordProbe_cases:
  obtains "fst (recordProbe now org pid obs db) = db"
  | e where "fst (recordProbe now org pid obs db) = registry_audit e
        (db\<lparr>rg_providers := map (\<lambda>p. if ap_id p = pid \<and> ap_organizationId p = org then observed_row now obs p else p)
          (rg_providers db)\<rparr>)"
proof (cases "length (filter (\<lambda>p. ap_id p = pid \<and> ap_organizationId p = org) (rg_providers db)) = 1")
  case True
  show ?thesis by (rule that(2)) (use True in \<open>simp add: recordProbe_def registry_tx_fst Let_def\<close>)
next
  case False
  then show ?thesis by (intro that(1)) (simp add: recordProbe_def registry_tx_fst Let_def)
qed

lemma observed_row_fields [simp]:
  "provider_key (observed_row now obs p) = provider_key p" "credential_ok (observed_row now obs p) = credential_ok p"
  "ap_organizationId (observed_row now obs p) = ap_organizationId p" "ap_id (observed_row now obs p) = ap_id p"
  "ap_status (observed_row now obs p) = ap_status p"
  by (simp_all add: observed_row_def provider_key_def credential_ok_def)

lemma probed_ok:
  "providers_ok db \<Longrightarrow> providers_ok (registry_audit e
     (db\<lparr>rg_providers := map (\<lambda>p. if H p then observed_row now obs p else p) (rg_providers db)\<rparr>))"
proof -
  have "provider_key \<circ> (\<lambda>p. if H p then observed_row now obs p else p) = provider_key"
    by (simp add: fun_eq_iff)
  then show "providers_ok db \<Longrightarrow> ?thesis"
    by (auto simp: providers_ok_def provider_keys_def capability_keys_def list_all_iff)
qed

lemma route_tables:
  "rg_providers (fst (route env now newId req db)) = rg_providers db"
  "rg_capabilities (fst (route env now newId req db)) = rg_capabilities db"
  by (simp_all add: route_def routeInternal_def Let_def)

lemma providers_ok_tables:
  "providers_ok db \<Longrightarrow> rg_providers db' = rg_providers db \<Longrightarrow> rg_capabilities db' = rg_capabilities db \<Longrightarrow> providers_ok db'"
  by (simp add: providers_ok_def provider_keys_def capability_keys_def)

lemma registry_exec_ok:
  assumes "providers_ok db"
  shows "providers_ok (registry_exec opr db)"
proof (cases opr)
  case (RO_create newId i)
  then show ?thesis
    using assms by (cases rule: createProvider_cases [of newId i db]) (auto intro: append_provider_ok)
next
  case (RO_update now i)
  show ?thesis
    using updateProvider_cases [OF assms, of now i] RO_update assms
    by (metis registry_exec.simps(2) set_provider_ok)
next
  case (RO_activate i)
  show ?thesis
    using activateProvider_cases [OF assms, of i] RO_activate assms
    by (metis registry_exec.simps(3) activated_ok)
next
  case (RO_assign newId i)
  then show ?thesis
    using assms by (cases rule: assignCapability_cases [of newId i db]) (auto intro: append_capability_ok)
next
  case (RO_enable org cid b)
  then show ?thesis
    using assms by (cases rule: setCapabilityEnabled_cases [of org cid b db]) (simp_all add: set_enabled_ok)
next
  case (RO_probe now org pid obs)
  then show ?thesis
    using assms by (cases rule: recordProbe_cases [of now org pid obs db]) (simp_all add: probed_ok)
next
  case (RO_route env now newId req)
  then show ?thesis using assms providers_ok_tables route_tables by simp
qed

lemma registry_run_ok: "providers_ok (fold registry_exec ops empty_provider_db)"
proof -
  have "providers_ok db \<Longrightarrow> providers_ok (fold registry_exec ops db)" for db
    by (induction ops arbitrary: db) (simp_all add: registry_exec_ok)
  moreover have "providers_ok empty_provider_db"
    by (simp add: providers_ok_def keys_ok_def provider_keys_def capability_keys_def empty_provider_db_def)
  ultimately show ?thesis by blast
qed

text \<open>C14. Whatever operations the registry runs, in whatever order, its tables stay consistent: identifiers
  are unique, an organisation has one provider per code and a provider one assignment per
  capability, an assignment belongs to a provider of its own organisation, and a cloud model
  provider requires a credential.\<close>

theorem registry_invariant: "providers_ok (fold registry_exec ops empty_provider_db)"
  by (rule registry_run_ok)

section \<open>Tenants\<close>

definition foreign_providers :: "string \<Rightarrow> RegistryDb \<Rightarrow> AgentProvider list" where
  "foreign_providers org db = filter (\<lambda>p. ap_organizationId p \<noteq> org) (rg_providers db)"

definition foreign_capabilities :: "string \<Rightarrow> RegistryDb \<Rightarrow> ProviderCapability list" where
  "foreign_capabilities org db = filter (\<lambda>c. pc_organizationId c \<noteq> org) (rg_capabilities db)"

lemma foreign_set_provider:
  assumes "providers_ok db" and "p \<in> set (rg_providers db)" and "provider_key p' = provider_key p"
  shows "foreign_providers (ap_organizationId p) (registry_audit e (set_provider (ap_id p) p' db)) =
      foreign_providers (ap_organizationId p) db"
proof -
  have u: "q = p" if "q \<in> set (rg_providers db)" "ap_id q = ap_id p" for q
    using that assms(2) unique_row [OF providers_ok_ids [OF assms(1)]] by blast
  have "ap_organizationId p' = ap_organizationId p" using assms(3) by (simp add: provider_key_def)
  then have "filter (\<lambda>q. ap_organizationId q \<noteq> ap_organizationId p)
      (map (\<lambda>q. if ap_id q = ap_id p then p' else q) (rg_providers db)) =
      filter (\<lambda>q. ap_organizationId q \<noteq> ap_organizationId p) (rg_providers db)"
    by (intro filter_changed) (auto dest: u)
  then show ?thesis by (simp add: foreign_providers_def set_provider_def)
qed

lemma foreign_enabled:
  assumes "providers_ok db" and "c \<in> set (rg_capabilities db)"
  shows "foreign_capabilities (pc_organizationId c) (registry_audit e (db\<lparr>rg_capabilities :=
      map (\<lambda>d. if pc_id d = pc_id c then d\<lparr>pc_isEnabled := b\<rparr> else d) (rg_capabilities db)\<rparr>)) =
      foreign_capabilities (pc_organizationId c) db"
proof -
  have u: "d = c" if "d \<in> set (rg_capabilities db)" "pc_id d = pc_id c" for d
    using that assms(2) unique_row [OF providers_ok_capability_ids [OF assms(1)]] by blast
  have "filter (\<lambda>d. pc_organizationId d \<noteq> pc_organizationId c)
      (map (\<lambda>d. if pc_id d = pc_id c then d\<lparr>pc_isEnabled := b\<rparr> else d) (rg_capabilities db)) =
      filter (\<lambda>d. pc_organizationId d \<noteq> pc_organizationId c) (rg_capabilities db)"
    by (intro filter_changed) (auto dest: u)
  then show ?thesis by (simp add: foreign_capabilities_def)
qed

text \<open>C15. An operation of the registry for one organisation leaves the providers and the capability
  assignments of every other organisation as they are, although an update finds its row by the
  primary key alone.\<close>

theorem registry_tenant_isolation:
  assumes "providers_ok db"
  shows "foreign_providers (op_org opr) (registry_exec opr db) = foreign_providers (op_org opr) db \<and>
    foreign_capabilities (op_org opr) (registry_exec opr db) = foreign_capabilities (op_org opr) db"
proof (cases opr)
  case (RO_create newId i)
  then show ?thesis
    by (cases rule: createProvider_cases [of newId i db])
      (auto simp: foreign_providers_def foreign_capabilities_def provider_key_def)
next
  case (RO_update now i)
  then show ?thesis
    by (cases rule: updateProvider_cases [OF assms, of now i])
      (auto simp: foreign_capabilities_def dest: foreign_set_provider [OF assms])
next
  case (RO_activate i)
  show ?thesis
  proof (cases rule: activateProvider_cases [OF assms, of i])
    case (2 p e)
    then show ?thesis
      using RO_activate foreign_set_provider [OF assms 2(1), of "p\<lparr>ap_status := PS_ACTIVE\<rparr>" e]
      by (simp add: foreign_capabilities_def provider_key_def)
  qed (simp add: RO_activate)
next
  case (RO_assign newId i)
  then show ?thesis
    by (cases rule: assignCapability_cases [of newId i db])
      (auto simp: foreign_providers_def foreign_capabilities_def capability_key_def)
next
  case (RO_enable org cid b)
  then show ?thesis
    by (cases rule: setCapabilityEnabled_cases [of org cid b db])
      (auto simp: foreign_providers_def foreign_enabled [OF assms])
next
  case (RO_probe now org pid obs)
  then show ?thesis
    by (cases rule: recordProbe_cases [of now org pid obs db])
      (auto simp: foreign_providers_def foreign_capabilities_def intro!: filter_changed)
next
  case (RO_route env now newId req)
  then show ?thesis by (simp add: foreign_providers_def foreign_capabilities_def route_tables)
qed

section \<open>Activation\<close>

definition active_ids :: "RegistryDb \<Rightarrow> string set" where
  "active_ids db = {ap_id p | p. p \<in> set (rg_providers db) \<and> ap_status p = PS_ACTIVE}"

lemma active_set_provider:
  assumes "pid \<in> active_ids (registry_audit e (set_provider (ap_id p) p' db))" and "pid \<notin> active_ids db"
    and "ap_id p' = ap_id p"
  shows "pid = ap_id p \<and> ap_status p' = PS_ACTIVE"
  using assms by (auto simp: active_ids_def set_provider_def split: if_splits)

text \<open>C13. A provider that was not active turns active in two ways only: through the activation gate, with
  the credential authorisation, the capabilities and the cloud profile all confirmed and a
  capability enabled, or by being created active.  An update, an assignment, a probe or a routing
  decision never activates one.\<close>

theorem activation_gated:
  assumes "providers_ok db" and "pid \<in> active_ids (registry_exec opr db)" and "pid \<notin> active_ids db"
  shows "(\<exists>i. opr = RO_activate i \<and> ac_providerId i = pid \<and> reviewed i \<and>
      (\<exists>c \<in> set (capabilities_of db pid). pc_isEnabled c)) \<or>
    (\<exists>i. opr = RO_create pid i \<and> cp_in_status i = Some ''ACTIVE'')"
proof (cases opr)
  case (RO_create newId i)
  then show ?thesis
    using assms(2,3) by (cases rule: createProvider_cases [of newId i db]) (auto simp: active_ids_def provider_key_def)
next
  case (RO_update now i)
  then show ?thesis
  proof (cases rule: updateProvider_cases [OF assms(1), of now i])
    case (2 p p' e)
    then have "pid = ap_id p \<and> ap_status p' = PS_ACTIVE"
      using assms(2,3) RO_update active_set_provider [of pid e p p' db] by (simp add: provider_key_def)
    with 2 assms(3) show ?thesis by (auto simp: active_ids_def)
  qed (use assms(2,3) RO_update in simp)
next
  case (RO_activate i)
  then show ?thesis
  proof (cases rule: activateProvider_cases [OF assms(1), of i])
    case (2 p e)
    then have "pid = ap_id p"
      using assms(2,3) RO_activate active_set_provider [of pid e p "p\<lparr>ap_status := PS_ACTIVE\<rparr>" db] by simp
    with 2 RO_activate show ?thesis by auto
  qed (use assms(2,3) RO_activate in simp)
next
  case (RO_assign newId i)
  then show ?thesis
    using assms(2,3) by (cases rule: assignCapability_cases [of newId i db]) (auto simp: active_ids_def)
next
  case (RO_enable org cid b)
  then show ?thesis
    using assms(2,3) by (cases rule: setCapabilityEnabled_cases [of org cid b db]) (auto simp: active_ids_def)
next
  case (RO_probe now org pid' obs)
  then show ?thesis
    using assms(2,3) by (cases rule: recordProbe_cases [of now org pid' obs db]) (auto simp: active_ids_def split: if_splits)
next
  case (RO_route env now newId req)
  then show ?thesis using assms(2,3) by (simp add: active_ids_def route_tables)
qed

section \<open>A concrete registry\<close>

definition sample_create :: "string \<Rightarrow> string \<Rightarrow> CreateProviderInput" where
  "sample_create org code = (engineering_input org)\<lparr>cp_in_providerCode := code\<rparr>"

definition sample_provider_ops :: "registry_op list" where
  "sample_provider_ops = [RO_create ''p1'' (sample_create ''o1'' ''cloud.one''), RO_create ''p2'' (sample_create ''o2'' ''cloud.two''),
     RO_assign ''c1'' \<lparr>as_organizationId = ''o1'', as_agentProviderId = ''p1'', as_capabilityCode = ''CODE_BUILD'', as_isEnabled = Some True\<rparr>]"

definition sample_provider_db :: RegistryDb where
  "sample_provider_db = fold registry_exec sample_provider_ops empty_provider_db"

definition sample_activation :: ActivateProviderInput where
  "sample_activation = \<lparr>ac_organizationId = ''o1'', ac_providerId = ''p1'', ac_credentialAuthorizationConfirmed = True,
     ac_capabilitiesReviewed = True, ac_cloudProfileReviewed = True, ac_approvalNote = None\<rparr>"

lemma sample_provider_db_ok: "providers_ok sample_provider_db"
  by (simp add: sample_provider_db_def registry_run_ok)

definition statuses :: "RegistryDb \<Rightarrow> (string \<times> ProviderStatus) list" where
  "statuses db = map (\<lambda>p. (ap_id p, ap_status p)) (rg_providers db)"

lemma active_ids_statuses: "pid \<in> active_ids db \<longleftrightarrow> (pid, PS_ACTIVE) \<in> set (statuses db)"
  by (auto simp: active_ids_def statuses_def)

lemma sample_statuses: "statuses sample_provider_db = [(''p1'', PS_DISABLED), (''p2'', PS_DISABLED)]"
  by code_simp

lemma sample_activated:
  "statuses (registry_exec (RO_activate sample_activation) sample_provider_db) = [(''p1'', PS_ACTIVE), (''p2'', PS_DISABLED)]"
  by code_simp

theorem registry_tenant_isolation_witness:
  "foreign_providers ''o1'' (registry_exec (RO_activate sample_activation) sample_provider_db) = foreign_providers ''o1'' sample_provider_db"
  using registry_tenant_isolation [OF sample_provider_db_ok, of "RO_activate sample_activation"]
  by (simp add: sample_activation_def)

theorem activation_gated_witness:
  "ac_providerId sample_activation = ''p1'' \<and> reviewed sample_activation \<and>
     (\<exists>c \<in> set (capabilities_of sample_provider_db ''p1''). pc_isEnabled c)"
proof -
  have "''p1'' \<in> active_ids (registry_exec (RO_activate sample_activation) sample_provider_db)"
    unfolding active_ids_statuses sample_activated by simp
  moreover have "''p1'' \<notin> active_ids sample_provider_db" by (simp add: active_ids_statuses sample_statuses)
  ultimately show ?thesis using activation_gated [OF sample_provider_db_ok] by blast
qed

section \<open>Where the registry falls short\<close>

text \<open>C36. The endpoints spread the request body over the organisation of the tenant context, so a body
  that names another organisation replaces it: whichever tenant calls, the update endpoint disables
  any provider of any organisation.  The call succeeds, the row of that provider is disabled in
  the table and nothing else changes in it, and the audit log attributes the update to the system in the
  organisation of the provider, so that the caller appears nowhere.\<close>

theorem endpoint_crosses_tenants:
  assumes "providers_ok db" and "p \<in> set (rg_providers db)"
  shows "\<exists>db' row. ctl_updateProvider now tenant pathId (Some (ap_organizationId p)) (Some (ap_id p))
      ((empty_update tenant pathId)\<lparr>up_status := Some ''DISABLED''\<rparr>) db = (db', Inr (p\<lparr>ap_status := PS_DISABLED\<rparr>)) \<and>
    rg_providers db' = map (\<lambda>q. if q = p then p\<lparr>ap_status := PS_DISABLED\<rparr> else q) (rg_providers db) \<and>
    rg_capabilities db' = rg_capabilities db \<and> rg_auditRows db' = rg_auditRows db @ [row] \<and>
    au_organizationId row = ap_organizationId p \<and> au_actorType row = ACTOR_SYSTEM \<and> au_actorId row = None"
proof -
  let ?i = "(empty_update (ap_organizationId p) (ap_id p))\<lparr>up_status := Some ''DISABLED''\<rparr>"
  let ?p = "p\<lparr>ap_status := PS_DISABLED\<rparr>"
  let ?row = "system_row (ap_organizationId p) ''PROVIDER_UPDATED'' ''AgentProvider'' (ap_id p)
           [(''providerCode'', JStr (ap_providerCode p)), (''updatedFields'', JArr (map JStr (updated_fields ?i)))]"
  obtain q where "find_agent_provider db (ap_organizationId p) (ap_id p) = Some q"
    using assms(2) by (cases "find_agent_provider db (ap_organizationId p) (ap_id p)")
      (auto simp: find_agent_provider_def find_None_iff)
  then have "check_update ?i db = Inr None" by (simp add: check_update_def empty_update_def)
  moreover have "updated_row now ?i None p = Inr ?p"
    by (simp add: updated_row_def empty_update_def enum_update_def enum_value_def PROVIDER_STATUSES_def or_else_def)
  moreover have ids: "up_providerId ?i = ap_id p" "up_organizationId ?i = ap_organizationId p" by (simp_all add: empty_update_def)
  ultimately have u: "updateProvider now ?i db = (registry_audit ?row (set_provider (ap_id p) ?p db), Inr ?p)"
    using found_by_id [OF assms] by (simp add: updateProvider_def write_update_def registry_tx_def)
  have c: "ctl_updateProvider now tenant pathId (Some (ap_organizationId p)) (Some (ap_id p))
      ((empty_update tenant pathId)\<lparr>up_status := Some ''DISABLED''\<rparr>) db = updateProvider now ?i db"
    by (simp add: ctl_updateProvider_def or_else_def empty_update_def)
  have "ap_id q = ap_id p \<longleftrightarrow> q = p" if "q \<in> set (rg_providers db)" for q
    using unique_row [OF providers_ok_ids [OF assms(1)] that assms(2)] by blast
  then have "rg_providers (set_provider (ap_id p) ?p db) = map (\<lambda>q. if q = p then ?p else q) (rg_providers db)"
    by (simp add: set_provider_def)
  then show ?thesis unfolding c u
    by (intro exI [of _ ?row] exI [of _ "registry_audit ?row (set_provider (ap_id p) ?p db)"])
      (simp add: registry_audit_def set_provider_def system_row_def)
qed

theorem endpoint_crosses_tenants_witness:
  "\<exists>p \<in> set (rg_providers sample_provider_db). ap_organizationId p = ''o2'' \<and>
     p\<lparr>ap_status := PS_DISABLED\<rparr> \<in> set (rg_providers (fst (ctl_updateProvider 7 ''o1'' ''p1'' (Some (ap_organizationId p))
       (Some (ap_id p)) ((empty_update ''o1'' ''p1'')\<lparr>up_status := Some ''DISABLED''\<rparr>) sample_provider_db)))"
proof -
  have "list_ex (\<lambda>p. ap_organizationId p = ''o2'') (rg_providers sample_provider_db)" by code_simp
  then obtain p where p: "p \<in> set (rg_providers sample_provider_db)" "ap_organizationId p = ''o2''"
    by (auto simp: list_ex_iff)
  from endpoint_crosses_tenants [OF sample_provider_db_ok p(1), of 7 "''o1''" "''p1''"] obtain db' where
    "ctl_updateProvider 7 ''o1'' ''p1'' (Some (ap_organizationId p)) (Some (ap_id p))
      ((empty_update ''o1'' ''p1'')\<lparr>up_status := Some ''DISABLED''\<rparr>) sample_provider_db = (db', Inr (p\<lparr>ap_status := PS_DISABLED\<rparr>))"
    "rg_providers db' = map (\<lambda>q. if q = p then p\<lparr>ap_status := PS_DISABLED\<rparr> else q) (rg_providers sample_provider_db)"
    by blast
  with p show ?thesis by (intro bexI [of _ p]) (auto simp: image_iff intro!: bexI [of _ p])
qed

definition race_registry :: RegistryDb where
  "race_registry = registry_exec (RO_create ''p1'' ((sample_create ''o1'' ''tool'')\<lparr>cp_in_providerType := Some ''LOCAL_TOOL'',
     cp_in_credentialRequirement := Some ''REQUIRED''\<rparr>)) empty_provider_db"

text \<open>Two updates whose reads both precede their writes break the credential rule: a local tool
  becomes a cloud model provider that requires no credential, although each update alone is checked.\<close>

lemma credential_rule_races:
  "let toCloud = (empty_update ''o1'' ''p1'')\<lparr>up_providerType := Some ''CLOUD_LLM''\<rparr>;
       relax = (empty_update ''o1'' ''p1'')\<lparr>up_credentialRequirement := Some ''NOT_REQUIRED''\<rparr>;
       db = fst (write_update 1 relax (Some CR_NOT_REQUIRED) (fst (write_update 1 toCloud (Some CR_REQUIRED) race_registry)))
   in check_update toCloud race_registry = Inr (Some CR_REQUIRED) \<and>
      check_update relax race_registry = Inr (Some CR_NOT_REQUIRED) \<and>
      map (\<lambda>p. (ap_providerType p, ap_credentialRequirement p)) (rg_providers db) = [(CLOUD_LLM, CR_NOT_REQUIRED)]"
  by code_simp

definition ungated_ops :: "registry_op list" where
  "ungated_ops = [RO_create ''p1'' ((sample_create ''o1'' ''cloud.one'')\<lparr>cp_in_status := Some ''ACTIVE'',
       cp_in_healthStatus := Some ''HEALTHY'', cp_in_quotaStatus := Some ''AVAILABLE''\<rparr>),
     RO_assign ''c1'' \<lparr>as_organizationId = ''o1'', as_agentProviderId = ''p1'', as_capabilityCode = ''CODE_BUILD'', as_isEnabled = Some True\<rparr>]"

definition plain_router :: RouterEnv where
  "plain_router = \<lparr>re_collate = (\<lambda>a b. length a \<le> length b), re_localeCompare = (\<lambda>a b. length a \<le> length b),
     re_round = id, re_toFixed4 = (\<lambda>_. []), re_runtimeState = None, re_readinessProbe = None\<rparr>"

definition plain_request :: "string \<Rightarrow> ProviderRoutingRequest" where
  "plain_request capability = \<lparr>rt_organizationId = ''o1'', rt_capability = capability, rt_assuranceLevel = None,
     rt_workflowRunId = None, rt_workflowStepRunId = None, rt_independenceContext = None, rt_maxCostMinorUnits = None,
     rt_correlationId = ''k''\<rparr>"

text \<open>Creation is a second way to an active provider, and it asks for none of the three reviews; here a
  provider created active with a capability assigned enabled is routed to, though it never passed
  the activation gate.\<close>

lemma creation_bypasses_gate:
  "let db = fold registry_exec ungated_ops empty_provider_db in
   (case snd (route plain_router 5 ''d1'' (plain_request ''CODE_BUILD'') db) of
      Inl e \<Rightarrow> False | Inr res \<Rightarrow> map_option pd_id (rs_selectedProvider res) = Some ''p1'') \<and>
   list_all (\<lambda>a. au_action a \<noteq> ''PROVIDER_ACTIVATED'') (rg_auditRows db)"
  by code_simp

end
