(* ===== verification/Vito_RoutingSafety.thy ===== *)
theory Vito_RoutingSafety
  imports Vito_RegistrySafety
begin

text \<open>
  What the router promises: whom it selects, that it selects somebody exactly when
  somebody qualifies, that the best candidate wins, that an observation it relies
  on is recent, and that the coverage report agrees with it.  The bootstrap of the
  engineering provider grants no authority.
\<close>

section \<open>Qualification\<close>

definition independent_of :: "ProviderDeclaration \<Rightarrow> IndependenceContext \<Rightarrow> bool" where
  "independent_of p ctx = (\<exists>family. pd_modelFamily p = Some family \<and> js_trim family \<noteq> [] \<and>
     (builderProviderId ctx = Some (pd_id p) \<longrightarrow> pd_id p = []) \<and> builderModelFamily ctx \<noteq> Some family \<and>
     pd_id p \<notin> set (previousReviewerProviderIds ctx) \<and> family \<notin> set (previousReviewerModelFamilies ctx))"

definition qualifies :: "RouterEnv \<Rightarrow> int \<Rightarrow> ProviderRoutingRequest \<Rightarrow> ProviderDeclaration \<Rightarrow> bool" where
  "qualifies env now req p = (providerSupportsCapability p (rt_capability req) \<and> isProviderRoutable p \<and>
     pd_quotaStatus p \<in> {PQ_AVAILABLE, PQ_LIMITED} \<and>
     (\<forall>cfg. re_runtimeState env = Some cfg \<longrightarrow> isHealthFresh cfg now p \<and> isQuotaFresh cfg now p) \<and>
     (\<forall>level. rt_assuranceLevel req = Some level \<longrightarrow> level \<noteq> [] \<longrightarrow> providerSupportsAssuranceLevel p level) \<and>
     (\<forall>ctx. rt_independenceContext req = Some ctx \<longrightarrow> independent_of p ctx) \<and>
     (\<forall>limit. rt_maxCostMinorUnits req = Some limit \<longrightarrow> (\<exists>cost. pd_estimatedCostMinorUnits p = Some cost \<and> cost \<le> limit)))"

lemma js_trim_nonempty: "js_trim s \<noteq> [] \<Longrightarrow> s \<noteq> []"
  by auto

lemma checkIndependence_None: "checkIndependence p ctx = None \<longleftrightarrow> independent_of p ctx"
  by (cases "pd_modelFamily p"; cases "builderProviderId ctx"; cases "builderModelFamily ctx")
    (auto simp: checkIndependence_def independent_of_def)

lemma stale_iff: "\<not> stale fresh env now p \<longleftrightarrow> (\<forall>cfg. re_runtimeState env = Some cfg \<longrightarrow> fresh cfg now p)"
  by (auto simp: stale_def split: option.splits)

lemma status_ACTIVE_iff: "s = PS_ACTIVE \<longleftrightarrow> s \<noteq> PS_DISABLED \<and> s \<noteq> PS_DEGRADED"
  by (cases s) auto

lemma health_routable_iff:
  "h = PH_HEALTHY \<or> h = PH_DEGRADED \<longleftrightarrow> h \<noteq> PH_DISABLED \<and> h \<noteq> PH_UNAVAILABLE \<and> h \<noteq> PH_QUOTA_LIMITED \<and> h \<noteq> PH_UNKNOWN"
  by (cases h) auto

lemma quota_usable_iff: "q \<in> {PQ_AVAILABLE, PQ_LIMITED} \<longleftrightarrow> q \<noteq> PQ_EXHAUSTED \<and> q \<noteq> PQ_UNKNOWN"
  by (cases q) auto

lemma isProviderRoutable_iff:
  "isProviderRoutable p \<longleftrightarrow> pd_status p = PS_ACTIVE \<and> (pd_healthStatus p = PH_HEALTHY \<or> pd_healthStatus p = PH_DEGRADED)"
  by (auto simp: isProviderRoutable_def)

lemma assurance_iff:
  "\<not> (truthy l \<and> pd_assuranceLevels p \<noteq> [] \<and> the l \<notin> set (pd_assuranceLevels p)) \<longleftrightarrow>
   (\<forall>level. l = Some level \<longrightarrow> level \<noteq> [] \<longrightarrow> providerSupportsAssuranceLevel p level)"
  by (cases l) (auto simp: providerSupportsAssuranceLevel_def)

lemma evaluateCandidate_None: "evaluateCandidate env now req p = None \<longleftrightarrow> qualifies env now req p"
proof -
  have i: "Option.bind (rt_independenceContext req) (checkIndependence p) = None \<longleftrightarrow>
      (\<forall>ctx. rt_independenceContext req = Some ctx \<longrightarrow> independent_of p ctx)"
    by (cases "rt_independenceContext req") (simp_all add: checkIndependence_None)
  have b: "(case rt_maxCostMinorUnits req of None \<Rightarrow> None | Some limit \<Rightarrow>
      (case pd_estimatedCostMinorUnits p of None \<Rightarrow> Some (RR_COST_UNKNOWN, EP_BUDGET)
       | Some cost \<Rightarrow> if limit < cost then Some (RR_BUDGET_INCOMPATIBLE, EP_BUDGET) else None)) = None \<longleftrightarrow>
      (\<forall>limit. rt_maxCostMinorUnits req = Some limit \<longrightarrow> (\<exists>cost. pd_estimatedCostMinorUnits p = Some cost \<and> cost \<le> limit))"
    by (auto split: option.splits)
  have "evaluateCandidate env now req p = None \<longleftrightarrow>
      providerSupportsCapability p (rt_capability req) \<and> pd_status p = PS_ACTIVE \<and>
      \<not> stale isHealthFresh env now p \<and> (pd_healthStatus p = PH_HEALTHY \<or> pd_healthStatus p = PH_DEGRADED) \<and>
      \<not> stale isQuotaFresh env now p \<and> pd_quotaStatus p \<in> {PQ_AVAILABLE, PQ_LIMITED} \<and>
      \<not> (truthy (rt_assuranceLevel req) \<and> pd_assuranceLevels p \<noteq> [] \<and>
          the (rt_assuranceLevel req) \<notin> set (pd_assuranceLevels p)) \<and>
      Option.bind (rt_independenceContext req) (checkIndependence p) = None \<and>
      (\<forall>limit. rt_maxCostMinorUnits req = Some limit \<longrightarrow> (\<exists>cost. pd_estimatedCostMinorUnits p = Some cost \<and> cost \<le> limit))"
    unfolding evaluateCandidate_def b [symmetric] status_ACTIVE_iff health_routable_iff quota_usable_iff
    by (simp split: option.split)
  also have "\<dots> \<longleftrightarrow> qualifies env now req p"
    unfolding qualifies_def isProviderRoutable_iff stale_iff assurance_iff i by blast
  finally show ?thesis .
qed

section \<open>The outcome of a routing\<close>

lemma loadCandidates_in:
  "p \<in> set (loadCandidates env org db) \<longleftrightarrow>
     (\<exists>row \<in> set (rg_providers db). ap_organizationId row = org \<and> p = declaration_of db row)"
  by (auto simp: loadCandidates_def findAllProviders_def by_code_def)

lemma routeInternal_response:
  "routeInternal env now newId req refreshed db = (db', Inr res) \<Longrightarrow>
     res = routing_response env now newId req refreshed (loadCandidates env (rt_organizationId req) db) \<and>
     rg_providers db' = rg_providers db \<and> rg_capabilities db' = rg_capabilities db"
  by (auto simp: routeInternal_def Let_def split: if_splits)

lemma route_response:
  "route env now newId req db = (db', Inr res) \<Longrightarrow>
     res = routing_response env now newId req [] (loadCandidates env (rt_organizationId req) db)"
  unfolding route_def by (drule routeInternal_response) simp

lemma selected_of_Some: "selected_of env ps = Some p \<Longrightarrow> p \<in> set ps"
  by (metis list.case_eq_if list.set_sel(1) option.inject option.simps(3) selected_of_def set_sort_by)

lemma selected_of_None: "selected_of env ps = None \<longleftrightarrow> ps = []"
  by (simp add: selected_of_def split: list.split) (metis list.distinct(1) sort_by_eq_Nil_iff)

lemma response_selected:
  assumes "rs_selectedProvider (routing_response env now newId req refreshed ps) = Some p"
  shows "p \<in> set ps \<and> qualifies env now req p"
  using assms selected_of_Some
  by (fastforce simp: routing_response_def Let_def eligible_candidates_def evaluateCandidate_None)

lemma routeForExecution_routes:
  assumes "routeForExecution env clock newId req db = (db', Inr res)"
  obtains db1 refreshed where
    "refreshStaleCandidates env clock req (loadCandidates env (rt_organizationId req) db) db = (db1, Inr refreshed)"
    "routeInternal env (clock (length (loadCandidates env (rt_organizationId req) db))) newId req refreshed db1 = (db', Inr res)"
  using assms by (auto simp: routeForExecution_def Let_def split: prod.splits sum.splits)

text \<open>The time at which an execution route judges its candidates: the clock after one tick
  per candidate.\<close>

definition routed_at :: "RouterEnv \<Rightarrow> (nat \<Rightarrow> int) \<Rightarrow> ProviderRoutingRequest \<Rightarrow> RegistryDb \<Rightarrow> int" where
  "routed_at env clock req db = clock (length (loadCandidates env (rt_organizationId req) db))"

lemma routed_provider_qualified:
  assumes "routeForExecution env clock newId req db = (db', Inr res)" and "rs_selectedProvider res = Some p"
  shows "\<exists>row \<in> set (rg_providers db'). ap_organizationId row = rt_organizationId req \<and>
    p = declaration_of db' row \<and> qualifies env (routed_at env clock req db) req p"
proof -
  obtain db1 refreshed where r: "routeInternal env (routed_at env clock req db) newId req refreshed db1 = (db', Inr res)"
    using routeForExecution_routes [OF assms(1)] unfolding routed_at_def by metis
  note t = routeInternal_response [OF r]
  have "p \<in> set (loadCandidates env (rt_organizationId req) db1) \<and> qualifies env (routed_at env clock req db) req p"
    using assms(2) t by (intro response_selected) simp
  moreover have "declaration_of db1 row = declaration_of db' row" for row
    using t by (simp add: declaration_of_def capabilities_of_def)
  ultimately show ?thesis using t by (auto simp: loadCandidates_in)
qed

text \<open>For a provider that qualifies, both observations are held to the healthy time to live.\<close>

lemma qualified_recently_observed:
  assumes "qualifies env now req p" and "re_runtimeState env = Some cfg"
  shows "\<exists>h q. pd_healthCheckedAt p = Some h \<and> now - h \<le> rc_healthyTtlMs cfg \<and>
    pd_quotaCheckedAt p = Some q \<and> now - q \<le> rc_healthyTtlMs cfg"
  using assms by (auto simp: qualifies_def isProviderRoutable_iff isHealthFresh_def isQuotaFresh_def
      healthTtl_def quotaTtl_def split: option.splits)

text \<open>C8. The provider a dispatch executes with is one of the organisation's own as the tables now have it, it
  is active and healthy enough, has quota, an enabled assignment of the requested capability, the
  requested assurance level and a price within the budget, and
  is independent of the builder and of the earlier reviewers when independence is asked for.  When
  freshness is tracked its health and its quota were observed no longer than the configured time to
  live before the moment of this routing, the clock's reading after the refresh of the candidates.\<close>

theorem selected_provider_qualified:
  assumes "routeForExecution env clock newId req db = (db', Inr res)" and "rs_selectedProvider res = Some p"
  shows "(\<exists>row \<in> set (rg_providers db'). ap_organizationId row = rt_organizationId req \<and> p = declaration_of db' row) \<and>
    qualifies env (clock (length (loadCandidates env (rt_organizationId req) db))) req p \<and>
    (\<forall>cfg. re_runtimeState env = Some cfg \<longrightarrow> (\<exists>h q. pd_healthCheckedAt p = Some h \<and>
       clock (length (loadCandidates env (rt_organizationId req) db)) - h \<le> rc_healthyTtlMs cfg \<and>
       pd_quotaCheckedAt p = Some q \<and>
       clock (length (loadCandidates env (rt_organizationId req) db)) - q \<le> rc_healthyTtlMs cfg))"
  using routed_provider_qualified [OF assms] qualified_recently_observed unfolding routed_at_def by blast

lemma ranks_before_total:
  "(\<And>a b. re_localeCompare env a b \<or> re_localeCompare env b a) \<Longrightarrow> ranks_before env p q \<or> ranks_before env q p"
  by (auto simp: ranks_before_def)

lemma ranks_before_trans:
  assumes "\<And>a b c. re_localeCompare env a b \<Longrightarrow> re_localeCompare env b c \<Longrightarrow> re_localeCompare env a c"
    and "ranks_before env p q" and "ranks_before env q r"
  shows "ranks_before env p r"
  using assms by (auto simp: ranks_before_def split: if_splits)

text \<open>C17. A routing selects a provider exactly when one of the candidates qualifies.  The one it selects is
  a candidate that qualifies at the moment of the routing, and of those that do, one with the
  highest score, ties going to the code that sorts first.  Every candidate is either listed as
  eligible or rejected with a reason.  The order of names is any total preorder.\<close>

theorem route_selects_best:
  assumes "\<And>a b. re_localeCompare env a b \<or> re_localeCompare env b a"
    and "\<And>a b c. re_localeCompare env a b \<Longrightarrow> re_localeCompare env b c \<Longrightarrow> re_localeCompare env a c"
    and "route env now newId req db = (db', Inr res)"
  shows "(rs_selectedProvider res = None \<longleftrightarrow> (\<forall>q \<in> set (loadCandidates env (rt_organizationId req) db). \<not> qualifies env now req q)) \<and>
    (\<forall>p. rs_selectedProvider res = Some p \<longrightarrow>
       p \<in> set (loadCandidates env (rt_organizationId req) db) \<and> qualifies env now req p) \<and>
    (\<forall>p q. rs_selectedProvider res = Some p \<longrightarrow> q \<in> set (loadCandidates env (rt_organizationId req) db) \<longrightarrow>
       qualifies env now req q \<longrightarrow> finalScore env q < finalScore env p \<or>
         finalScore env q = finalScore env p \<and> re_localeCompare env (pd_providerCode p) (pd_providerCode q)) \<and>
    (\<forall>q \<in> set (loadCandidates env (rt_organizationId req) db).
       pd_id q \<in> set (rs_eligibleCandidateIds res) \<or> pd_id q \<in> fst ` set (rs_rejectionReasons res))"
proof -
  let ?ps = "loadCandidates env (rt_organizationId req) db"
  let ?es = "eligible_candidates env now req ?ps"
  note res = route_response [OF assms(3)]
  have sel: "rs_selectedProvider res = selected_of env ?es" by (simp add: res routing_response_def Let_def)
  have es: "set ?es = {q \<in> set ?ps. qualifies env now req q}"
    by (auto simp: eligible_candidates_def evaluateCandidate_None)
  have best: "ranks_before env p q" if p: "selected_of env ?es = Some p" and q: "q \<in> set ?es" for p q
  proof -
    obtain ys where ys: "sort_by (ranks_before env) ?es = p # ys"
      using p by (cases "sort_by (ranks_before env) ?es") (auto simp: selected_of_def)
    have "ranks_before env x y \<or> ranks_before env y x" for x y by (rule ranks_before_total [OF assms(1)])
    moreover have "ranks_before env x z" if "ranks_before env x y" "ranks_before env y z" for x y z
      using assms(2) that by (rule ranks_before_trans)
    ultimately show ?thesis using sort_by_hd_least [where le = "ranks_before env", OF _ _ ys q] by blast
  qed
  have "pd_id q \<in> set (rs_eligibleCandidateIds res) \<or> pd_id q \<in> fst ` set (rs_rejectionReasons res)" if "q \<in> set ?ps" for q
  proof (cases "evaluateCandidate env now req q")
    case None
    with that show ?thesis by (auto simp: res routing_response_def Let_def eligible_candidates_def)
  next
    case (Some r)
    with that have "(pd_id q, r) \<in> set (rejections env now req ?ps)"
      by (cases r) (force simp: rejections_def set_map_filter)
    then show ?thesis by (cases r) (force simp: res routing_response_def Let_def image_iff)
  qed
  moreover have "selected_of env ?es = None \<longleftrightarrow> (\<forall>q \<in> set ?ps. \<not> qualifies env now req q)"
    unfolding selected_of_None using es by (metis (mono_tags, lifting) empty_iff empty_set mem_Collect_eq set_empty2 equals0I)
  moreover have "finalScore env q < finalScore env p \<or>
      finalScore env q = finalScore env p \<and> re_localeCompare env (pd_providerCode p) (pd_providerCode q)"
    if "selected_of env ?es = Some p" "q \<in> set ?ps" "qualifies env now req q" for p q
    using best [OF that(1), of q] that(2,3) unfolding es by (auto simp: ranks_before_def split: if_splits)
  moreover have "p \<in> set ?ps \<and> qualifies env now req p" if "selected_of env ?es = Some p" for p
    using selected_of_Some [OF that] es by blast
  ultimately show ?thesis unfolding sel by blast
qed

section \<open>Recent observations\<close>

lemma boundedMs_range: "fallback \<le> MAX_TTL_MS \<Longrightarrow> boundedMs number raw fallback \<le> MAX_TTL_MS"
  by (auto simp: boundedMs_def split: option.splits)

text \<open>Whatever the environment configures, the health and the quota that a selection rests on were
  observed at most six hours before it.\<close>

lemma selected_observation_recent:
  assumes "re_runtimeState env = Some (runtime_config number ttl backoff)"
    and "route env now newId req db = (db', Inr res)" and "rs_selectedProvider res = Some p"
  shows "\<exists>h q. pd_healthCheckedAt p = Some h \<and> now - h \<le> 21600000 \<and> pd_quotaCheckedAt p = Some q \<and> now - q \<le> 21600000"
proof -
  let ?cfg = "runtime_config number ttl backoff"
  have "qualifies env now req p"
    using assms(3) response_selected unfolding route_response [OF assms(2)] by blast
  then have "isHealthFresh ?cfg now p" "isQuotaFresh ?cfg now p" using assms(1) by (auto simp: qualifies_def)
  moreover have "rc_healthyTtlMs ?cfg \<le> MAX_TTL_MS" "rc_failureBackoffMs ?cfg \<le> MAX_TTL_MS"
    using boundedMs_range [of DEFAULT_HEALTHY_TTL_MS] boundedMs_range [of DEFAULT_FAILURE_BACKOFF_MS]
    by (simp_all add: runtime_config_def DEFAULT_HEALTHY_TTL_MS_def DEFAULT_FAILURE_BACKOFF_MS_def MAX_TTL_MS_def)
  ultimately show ?thesis
    by (auto simp: isHealthFresh_def isQuotaFresh_def healthTtl_def quotaTtl_def MAX_TTL_MS_def split: option.splits if_splits)
qed

section \<open>Coverage\<close>

definition bare_request :: "string \<Rightarrow> string \<Rightarrow> string \<Rightarrow> ProviderRoutingRequest" where
  "bare_request org capability correlation = \<lparr>rt_organizationId = org, rt_capability = capability, rt_assuranceLevel = None,
     rt_workflowRunId = None, rt_workflowStepRunId = None, rt_independenceContext = None, rt_maxCostMinorUnits = None,
     rt_correlationId = correlation\<rparr>"

lemma capability_org:
  assumes "providers_ok db" and "row \<in> set (rg_providers db)" and "c \<in> set (capabilities_of db (ap_id row))"
  shows "pc_organizationId c = ap_organizationId row"
proof -
  have "c \<in> set (rg_capabilities db)" "pc_agentProviderId c = ap_id row"
    using assms(3) by (auto simp: capabilities_of_def)
  then have "capability_key c \<in> set (capability_keys db)" by (simp add: capability_keys_def)
  with assms(1) obtain pcode where "(pc_agentProviderId c, pc_organizationId c, pcode) \<in> set (provider_keys db)"
    unfolding providers_ok_def keys_ok_def capability_key_def by fastforce
  then obtain q where "q \<in> set (rg_providers db)" "ap_id q = pc_agentProviderId c" "ap_organizationId q = pc_organizationId c"
    by (auto simp: provider_keys_def provider_key_def)
  then show ?thesis
    using unique_row [OF providers_ok_ids [OF assms(1)], of q row] assms(2) \<open>pc_agentProviderId c = ap_id row\<close> by simp
qed

lemma routable_qualified:
  assumes "providers_ok db" and "row \<in> set (rg_providers db)" and "ap_organizationId row = org"
  shows "qualifies env now (bare_request org capability k) (declaration_of db row) \<longleftrightarrow>
    (\<exists>c \<in> set (capabilities_of db (ap_id row)). pc_organizationId c = org \<and> pc_isEnabled c \<and> pc_capabilityCode c = capability) \<and>
    isStaticallyRoutable row \<and> (case re_runtimeState env of None \<Rightarrow> True
      | Some cfg \<Rightarrow> isHealthFresh cfg now (declaration_of db row) \<and> isQuotaFresh cfg now (declaration_of db row))"
proof -
  have "providerSupportsCapability (declaration_of db row) capability \<longleftrightarrow>
    (\<exists>c \<in> set (capabilities_of db (ap_id row)). pc_organizationId c = org \<and> pc_isEnabled c \<and> pc_capabilityCode c = capability)"
    using capability_org [OF assms(1,2)] assms(3) by (auto simp: providerSupportsCapability_def declaration_of_def)
  moreover have "isProviderRoutable (declaration_of db row) \<and> pd_quotaStatus (declaration_of db row) \<in> {PQ_AVAILABLE, PQ_LIMITED} \<longleftrightarrow>
      isStaticallyRoutable row"
    by (auto simp: isProviderRoutable_iff declaration_of_def isStaticallyRoutable_def)
  ultimately show ?thesis
    by (auto simp: qualifies_def bare_request_def split: option.splits)
qed

text \<open>C35. The coverage report counts exactly the providers the router would accept for a bare request: its
  list of routable providers is the list of eligible candidates, so a capability is reported
  unavailable exactly when such a request is turned down.\<close>

theorem coverage_agrees_with_router:
  assumes "providers_ok db" and "route env now newId (bare_request org capability k) db = (db', Inr res)"
  shows "rs_eligibleCandidateIds res = map ap_id (routable_providers env now org capability db) \<and>
    (resilience env now org capability db = COVERAGE_UNAVAILABLE \<longleftrightarrow> rs_selectedProvider res = None)"
proof -
  let ?req = "bare_request org capability k"
  have res: "res = routing_response env now newId ?req [] (loadCandidates env org db)"
    using route_response [OF assms(2)] by (simp add: bare_request_def)
  have "filter (\<lambda>row. qualifies env now ?req (declaration_of db row)) (findAllProviders (re_collate env) org db) =
      routable_providers env now org capability db"
    unfolding routable_providers_def
    by (rule filter_cong [OF refl], rule routable_qualified [OF assms(1)]) (auto simp: findAllProviders_def by_code_def)
  then have e: "eligible_candidates env now ?req (loadCandidates env org db) =
      map (declaration_of db) (routable_providers env now org capability db)"
    by (simp add: eligible_candidates_def loadCandidates_def filter_map comp_def evaluateCandidate_None)
  have "rs_selectedProvider res = None \<longleftrightarrow> routable_providers env now org capability db = []"
    by (simp add: res routing_response_def Let_def e selected_of_None)
  moreover have "resilience env now org capability db = COVERAGE_UNAVAILABLE \<longleftrightarrow>
      routable_providers env now org capability db = []"
    unfolding resilience_def Let_def by (cases "routable_providers env now org capability db") (auto simp: Suc_le_eq)
  moreover have "rs_eligibleCandidateIds res = map ap_id (routable_providers env now org capability db)"
    by (simp add: res routing_response_def Let_def e declaration_of_def)
  ultimately show ?thesis by blast
qed

section \<open>Bootstrap\<close>

lemma assign_missing_spec:
  assumes "providers_ok db" and "assign_missing fresh n org pid existing codes db = (db', Inr u)"
  shows "providers_ok db' \<and> rg_providers db' = rg_providers db \<and>
    (\<exists>new. rg_capabilities db' = rg_capabilities db @ new \<and>
      map pc_capabilityCode new = filter (\<lambda>c. c \<notin> set existing) codes \<and>
      (\<forall>c \<in> set new. pc_agentProviderId c = pid \<and> pc_organizationId c = org \<and> \<not> pc_isEnabled c))"
  using assms
proof (induction codes arbitrary: n db)
  case (Cons code codes)
  show ?case
  proof (cases "code \<in> set existing")
    case True
    then show ?thesis using Cons by simp
  next
    case False
    let ?i = "\<lparr>as_organizationId = org, as_agentProviderId = pid, as_capabilityCode = code, as_isEnabled = Some False\<rparr>"
    obtain db1 c where a: "assignCapability (fresh n) ?i db = (db1, Inr c)"
      and rest: "assign_missing fresh (Suc n) org pid existing codes db1 = (db', Inr u)"
      using Cons.prems(2) False by (auto split: prod.splits sum.splits)
    have "providers_ok db1"
      using registry_exec_ok [OF Cons.prems(1), of "RO_assign (fresh n) ?i"] a by simp
    note ih = Cons.IH [OF this rest]
    have "rg_providers db1 = rg_providers db \<and> rg_capabilities db1 = rg_capabilities db @ [c] \<and>
        pc_capabilityCode c = code \<and> pc_agentProviderId c = pid \<and> pc_organizationId c = org \<and> \<not> pc_isEnabled c"
      using a by (auto simp: assignCapability_def insert_capability_def or_else_def Let_def dest: find_agent_providerD
          split: option.splits sum.splits if_splits)
    then show ?thesis using ih False by fastforce
  qed
qed simp

lemma find_append: "find P (xs @ ys) = (case find P xs of None \<Rightarrow> find P ys | Some x \<Rightarrow> Some x)"
  by (induction xs) simp_all

lemma engineering_provider_spec:
  assumes "providers_ok db" and "engineering_provider newId org db = (db1, Inr p)"
  shows "providers_ok db1 \<and> findProviderByCode org ENGINEERING_CODE db1 = Some p \<and> matches_bootstrap p"
proof (cases "findProviderByCode org ENGINEERING_CODE db")
  case (Some q)
  then show ?thesis using assms by (auto simp: engineering_provider_def split: if_splits)
next
  case None
  then have c: "createProvider newId (engineering_input org) db = (db1, Inr p)"
    using assms(2) by (simp add: engineering_provider_def)
  have "providers_ok db1"
    using registry_exec_ok [OF assms(1), of "RO_create newId (engineering_input org)"] c by simp
  moreover have row: "rg_providers db1 = rg_providers db @ [p]" "ap_organizationId p = org" "ap_providerCode p = ENGINEERING_CODE"
    "matches_bootstrap p"
    using c
    by (auto simp: createProvider_def registry_tx_def new_provider_def insert_provider_def engineering_input_def or_else_def
        enum_value_def PROVIDER_TYPES_def PROVIDER_STATUSES_def matches_bootstrap_def list_all_iff
        split: sum.splits if_splits)
  moreover have "findProviderByCode org ENGINEERING_CODE db1 = Some p"
    using None row by (simp add: findProviderByCode_def find_append)
  ultimately show ?thesis by blast
qed

lemma listCapabilities_of:
  assumes "providers_ok db" and "p \<in> set (rg_providers db)" and "ap_organizationId p = org" and "ap_id p \<noteq> []"
  shows "set (listCapabilities le org (Some (ap_id p)) db) = set (capabilities_of db (ap_id p))"
  using capability_org [OF assms(1,2)] assms(3,4) by (auto simp: listCapabilities_def capabilities_of_def)

lemma findProviderByCodeD:
  "findProviderByCode org code db = Some p \<Longrightarrow> p \<in> set (rg_providers db) \<and> ap_organizationId p = org"
  by (auto simp: findProviderByCode_def dest: find_SomeD)

lemma assign_missing_nothing: "set codes \<subseteq> set existing \<Longrightarrow> assign_missing fresh n org pid existing codes db = (db, Inr ())"
  by (induction codes) auto

definition bootstrapped :: "TenantContext \<Rightarrow> AgentProvider \<Rightarrow> RegistryDb \<Rightarrow> bool" where
  "bootstrapped tenant p db = (findProviderByCode (tn_organizationId tenant) ENGINEERING_CODE db = Some p \<and>
     ap_status p = PS_DISABLED \<and> pc_capabilityCode ` set (capabilities_of db (ap_id p)) = set ENGINEERING_CAPABILITIES \<and>
     (\<forall>c \<in> set (capabilities_of db (ap_id p)). \<not> pc_isEnabled c))"

text \<open>Bootstrapping the engineering provider takes a signed-in human and grants no authority: afterwards the
  provider is there, disabled, with exactly the six engineering capabilities, none of them enabled;
  and bootstrapping again changes nothing.\<close>

lemma provision_grants_nothing:
  assumes "providers_ok db" and "provision le fresh tenant db = (db', Inr p)" and "ap_id p \<noteq> []"
  shows "tn_authenticationMethod tenant = ''jwt'' \<and> truthy (tn_userId tenant) \<and> bootstrapped tenant p db' \<and>
    provision le fresh' tenant db' = (db', Inr p)"
proof -
  let ?org = "tn_organizationId tenant"
  obtain db1 where e: "engineering_provider (fresh 0) ?org db = (db1, Inr p)"
    and ok: "\<forall>c \<in> set (listCapabilities le ?org (Some (ap_id p)) db1). pc_capabilityCode c \<in> set ENGINEERING_CAPABILITIES \<and> \<not> pc_isEnabled c"
    and a: "assign_missing fresh 1 ?org (ap_id p) (map pc_capabilityCode (listCapabilities le ?org (Some (ap_id p)) db1))
        ENGINEERING_CAPABILITIES db1 = (db', Inr ())"
    and human: "tn_authenticationMethod tenant = ''jwt''" "truthy (tn_userId tenant)"
    using assms(2) by (auto simp: provision_def Let_def split: prod.splits sum.splits if_splits)
  note ep = engineering_provider_spec [OF assms(1) e]
  note am = assign_missing_spec [OF ep [THEN conjunct1] a]
  have find': "findProviderByCode ?org ENGINEERING_CODE db' = Some p"
    using ep am by (simp add: findProviderByCode_def)
  have list1: "set (listCapabilities le ?org (Some (ap_id p)) db1) = set (capabilities_of db1 (ap_id p))"
    using listCapabilities_of ep assms(3) findProviderByCodeD by blast
  have list': "set (listCapabilities le ?org (Some (ap_id p)) db') = set (capabilities_of db' (ap_id p))"
    using listCapabilities_of am find' assms(3) findProviderByCodeD by blast
  obtain new where new: "rg_capabilities db' = rg_capabilities db1 @ new"
    "map pc_capabilityCode new =
       filter (\<lambda>c. c \<notin> pc_capabilityCode ` set (capabilities_of db1 (ap_id p))) ENGINEERING_CAPABILITIES"
    "\<forall>c \<in> set new. pc_agentProviderId c = ap_id p \<and> \<not> pc_isEnabled c"
    using am by (auto simp: list1)
  have caps: "set (capabilities_of db' (ap_id p)) = set (capabilities_of db1 (ap_id p)) \<union> set new"
    using new(1,3) by (auto simp: capabilities_of_def)
  have "pc_capabilityCode ` set new = {c \<in> set ENGINEERING_CAPABILITIES. c \<notin> pc_capabilityCode ` set (capabilities_of db1 (ap_id p))}"
    using arg_cong [OF new(2), of set] by simp
  then have "pc_capabilityCode ` set (capabilities_of db' (ap_id p)) = set ENGINEERING_CAPABILITIES"
    unfolding caps image_Un using ok list1 by auto
  moreover have "\<forall>c \<in> set (capabilities_of db' (ap_id p)). \<not> pc_isEnabled c"
    unfolding caps using ok new(3) list1 by auto
  moreover have "matches_bootstrap p" "ap_status p = PS_DISABLED" using ep by (simp_all add: matches_bootstrap_def)
  ultimately have "bootstrapped tenant p db'" "provision le fresh' tenant db' = (db', Inr p)"
    using human find' list' by (auto simp: bootstrapped_def provision_def engineering_provider_def Let_def assign_missing_nothing)
  with human show ?thesis by blast
qed

section \<open>Concrete routings\<close>

definition sample_routing_db :: RegistryDb where
  "sample_routing_db = fold registry_exec (ungated_ops @
     [RO_create ''p2'' ((sample_create ''o1'' ''cloud.second'')\<lparr>cp_in_status := Some ''ACTIVE'',
        cp_in_healthStatus := Some ''HEALTHY'', cp_in_quotaStatus := Some ''AVAILABLE'', cp_in_qualityScore := Some (9 / 10)\<rparr>),
      RO_assign ''c2'' \<lparr>as_organizationId = ''o1'', as_agentProviderId = ''p2'', as_capabilityCode = ''CODE_BUILD'', as_isEnabled = Some True\<rparr>])
     empty_provider_db"

lemma sample_routing_db_ok: "providers_ok sample_routing_db"
  unfolding sample_routing_db_def by (rule registry_run_ok)

definition selected_id :: "RegistryDb \<times> (RegistryError + ProviderRoutingResponse) \<Rightarrow> string option" where
  "selected_id r = (case snd r of Inl e \<Rightarrow> None | Inr res \<Rightarrow> map_option pd_id (rs_selectedProvider res))"

lemma selected_idE:
  assumes "selected_id r = Some i"
  obtains db' res p where "r = (db', Inr res)" "rs_selectedProvider res = Some p" "pd_id p = i"
  using assms that by (cases r) (auto simp: selected_id_def split: sum.splits)

definition tracking_router :: RouterEnv where
  "tracking_router = plain_router\<lparr>re_runtimeState := Some (runtime_config (\<lambda>_. None) None None)\<rparr>"

definition observed_ops :: "registry_op list" where
  "observed_ops = [RO_probe 1000 ''o1'' ''p2'' ((failed_probe ''x'')\<lparr>ob_healthStatus := PH_HEALTHY, ob_quotaStatus := PQ_AVAILABLE\<rparr>)]"

theorem selected_provider_qualified_witness:
  "\<exists>p. map_option pd_id (Some p) = Some ''p2'' \<and> qualifies tracking_router 2000 (plain_request ''CODE_BUILD'') p \<and>
     (\<exists>h. pd_healthCheckedAt p = Some h \<and> 2000 - h \<le> DEFAULT_HEALTHY_TTL_MS)"
proof -
  let ?r = "routeForExecution tracking_router (\<lambda>_. 2000) ''d1'' (plain_request ''CODE_BUILD'')
    (fold registry_exec observed_ops sample_routing_db)"
  have "selected_id ?r = Some ''p2''" by code_simp
  then obtain db' res p where r: "?r = (db', Inr res)" and p: "rs_selectedProvider res = Some p" "pd_id p = ''p2''"
    by (rule selected_idE)
  from selected_provider_qualified [OF r p(1)] p(2) show ?thesis
    by (auto simp: tracking_router_def runtime_config_def boundedMs_def)
qed

theorem route_selects_best_witness:
  "selected_id (route plain_router 5 ''d1'' (plain_request ''CODE_BUILD'') sample_routing_db) = Some ''p2'' \<and>
   (\<exists>q \<in> set (loadCandidates plain_router ''o1'' sample_routing_db). qualifies plain_router 5 (plain_request ''CODE_BUILD'') q)"
proof -
  let ?r = "route plain_router 5 ''d1'' (plain_request ''CODE_BUILD'') sample_routing_db"
  have sel: "selected_id ?r = Some ''p2''" by code_simp
  then obtain db' res p where r: "?r = (db', Inr res)" and p: "rs_selectedProvider res = Some p" by (rule selected_idE)
  have "re_localeCompare plain_router a b \<or> re_localeCompare plain_router b a" for a b
    by (auto simp: plain_router_def)
  moreover have "re_localeCompare plain_router a b \<Longrightarrow> re_localeCompare plain_router b c \<Longrightarrow> re_localeCompare plain_router a c" for a b c
    by (auto simp: plain_router_def)
  ultimately show ?thesis
    using route_selects_best [of plain_router, OF _ _ r] p sel by (auto simp: plain_request_def)
qed

theorem coverage_agrees_with_router_witness:
  "resilience plain_router 5 ''o1'' ''CODE_BUILD'' sample_routing_db \<noteq> COVERAGE_UNAVAILABLE"
proof -
  let ?r = "route plain_router 5 ''d1'' (bare_request ''o1'' ''CODE_BUILD'' ''k'') sample_routing_db"
  have "selected_id ?r = Some ''p2''" by code_simp
  then obtain db' res p where r: "?r = (db', Inr res)" and p: "rs_selectedProvider res = Some p" by (rule selected_idE)
  from coverage_agrees_with_router [OF sample_routing_db_ok r] p show ?thesis by simp
qed

definition sample_tenant :: TenantContext where
  "sample_tenant = \<lparr>tn_organizationId = ''o1'', tn_userId = Some ''u'', tn_authenticationMethod = ''jwt''\<rparr>"

end
