(* ===== verification/Vito_CodeBuild.thy ===== *)
theory Vito_CodeBuild
  imports Vito_RoutingSafety
begin

text \<open>
  Human approvals of code builds: \<open>code-build-execution-target.ts\<close>, the data of
  \<open>code-build-approval.dto.ts\<close> and \<open>code-build-approval.service.ts\<close>.  SHA-256 and the ISO form of
  a date are arguments.  The constraints of the table (the unique keys, the
  repository, the branch and the expiry) make a write throw.  Revoking reads the
  row before it writes it; the two halves are definitions of their own.
\<close>

section \<open>The execution target\<close>

record CodeBuildExecutionTarget =
  ct_version :: string
  ct_organizationId :: string
  ct_missionId :: string
  ct_workflowRunId :: string
  ct_workflowStepRunId :: string
  ct_repository :: string
  ct_publicationBranch :: string
  ct_baseRef :: string
  ct_providerId :: string
  ct_providerCode :: string
  ct_executionTier :: ExecutionTier
  ct_commandAlias :: string

definition CODE_BUILD_EXECUTION_TARGET_VERSION :: string where
  "CODE_BUILD_EXECUTION_TARGET_VERSION = ''CODE_BUILD_TARGET_V1''"

definition CODE_BUILD_REPOSITORY :: string where "CODE_BUILD_REPOSITORY = ''lavolpeofficial/vito-platform''"
definition CODE_BUILD_BASE_REF :: string where "CODE_BUILD_BASE_REF = ''main''"

definition FEATURE_BRANCH :: "string \<Rightarrow> bool" where
  "FEATURE_BRANCH s = (let name = drop 5 s in
     take 5 s = ''feat/'' \<and> name \<noteq> [] \<and> lower_alnum (hd name) \<and> list_all (\<lambda>c. lower_alnum c \<or> c = CHR ''-'') name)"

definition PROVIDER_CODE :: "string \<Rightarrow> bool" where
  "PROVIDER_CODE = pattern_between 1 128 (\<lambda>c. is_alnum c \<or> c \<in> set ''._-'')"

definition COMMAND_ALIAS :: "string \<Rightarrow> bool" where
  "COMMAND_ALIAS s =
     (pattern_between 1 64 (\<lambda>c. lower_alnum c \<or> c \<in> set ''._-'') s \<and> lower_alnum (hd s))"

definition isCodeBuildExecutionTarget :: "CodeBuildExecutionTarget \<Rightarrow> bool" where
  "isCodeBuildExecutionTarget t = (ct_version t = CODE_BUILD_EXECUTION_TARGET_VERSION \<and> ct_organizationId t \<noteq> [] \<and>
     ct_missionId t \<noteq> [] \<and> ct_workflowRunId t \<noteq> [] \<and> ct_workflowStepRunId t \<noteq> [] \<and>
     ct_repository t = CODE_BUILD_REPOSITORY \<and> FEATURE_BRANCH (ct_publicationBranch t) \<and>
     ct_baseRef t = CODE_BUILD_BASE_REF \<and> ct_providerId t \<noteq> [] \<and> PROVIDER_CODE (ct_providerCode t) \<and>
     (ct_executionTier t = LOCAL_ISOLATED \<or> ct_executionTier t = CLOUD_GOVERNED) \<and> COMMAND_ALIAS (ct_commandAlias t))"

definition buildCodeBuildExecutionTarget :: "CodeBuildExecutionTarget \<Rightarrow> CodeBuildExecutionTarget option" where
  "buildCodeBuildExecutionTarget input =
     (let target = input\<lparr>ct_version := CODE_BUILD_EXECUTION_TARGET_VERSION, ct_baseRef := CODE_BUILD_BASE_REF\<rparr> in
      if isCodeBuildExecutionTarget target then Some target else None)"

record ConsumeCodeBuildApprovalDto =
  cs_missionId :: string
  cs_repository :: string
  cs_branch :: string
  cs_requestKey :: string

definition codeBuildTargetMatchesApprovalScope ::
  "CodeBuildExecutionTarget \<Rightarrow> string \<Rightarrow> ConsumeCodeBuildApprovalDto \<Rightarrow> bool" where
  "codeBuildTargetMatchesApprovalScope t org dto = (ct_organizationId t = org \<and> ct_missionId t = cs_missionId dto \<and>
     ct_repository t = cs_repository dto \<and> ct_publicationBranch t = cs_branch dto)"

definition codeBuildTargetMatchesContext ::
  "CodeBuildExecutionTarget \<Rightarrow> GovernedExecutionContext \<Rightarrow> ExecutionTier \<Rightarrow> bool" where
  "codeBuildTargetMatchesContext t ctx tier = (ec_capabilityCode ctx = ''CODE_BUILD'' \<and>
     ct_organizationId t = ec_organizationId ctx \<and> ct_workflowRunId t = ec_workflowRunId ctx \<and>
     ct_workflowStepRunId t = ec_workflowStepRunId ctx \<and> ct_providerId t = ec_providerId ctx \<and>
     ct_providerCode t = ec_providerCode ctx \<and> ct_executionTier t = tier \<and>
     Some (ct_commandAlias t) = map_option te_commandName (ec_trustedExecutable ctx))"

definition tier_name :: "ExecutionTier \<Rightarrow> string" where
  "tier_name t = (case t of LOCAL_ISOLATED \<Rightarrow> ''LOCAL_ISOLATED'' | CLOUD_GOVERNED \<Rightarrow> ''CLOUD_GOVERNED'')"

definition target_json :: "CodeBuildExecutionTarget \<Rightarrow> json" where
  "target_json t = JObj [(''version'', JStr (ct_version t)), (''organizationId'', JStr (ct_organizationId t)),
     (''missionId'', JStr (ct_missionId t)), (''workflowRunId'', JStr (ct_workflowRunId t)),
     (''workflowStepRunId'', JStr (ct_workflowStepRunId t)), (''repository'', JStr (ct_repository t)),
     (''publicationBranch'', JStr (ct_publicationBranch t)), (''providerId'', JStr (ct_providerId t)),
     (''providerCode'', JStr (ct_providerCode t)), (''executionTier'', JStr (tier_name (ct_executionTier t))),
     (''commandAlias'', JStr (ct_commandAlias t)), (''baseRef'', JStr (ct_baseRef t))]"

section \<open>Tables\<close>

datatype UserRole = OWNER | ADMIN | OTHER_ROLE

record UserRow =
  us_id :: string
  us_organizationId :: string
  us_active :: bool
  us_deletedAt :: "int option"
  us_isMachineIdentity :: bool
  us_machineScope :: "string option"
  us_role :: UserRole

record CodeBuildApproval =
  ca_id :: string
  ca_organizationId :: string
  ca_missionId :: string
  ca_repository :: string
  ca_branch :: string
  ca_approvalRequestKey :: string
  ca_approvalRequestHash :: string
  ca_approvedByUserId :: string
  ca_approvedAt :: int
  ca_expiresAt :: int
  ca_revokedAt :: "int option"
  ca_revokedByUserId :: "string option"
  ca_consumedAt :: "int option"
  ca_consumedByUserId :: "string option"
  ca_consumptionRequestKey :: "string option"
  ca_consumptionRequestHash :: "string option"
  ca_executionTargetHash :: "string option"
  ca_executionTarget :: "CodeBuildExecutionTarget option"

record ApprovalDb =
  al_users :: "UserRow list"
  al_approvals :: "CodeBuildApproval list"
  al_auditRows :: "AuditRow list"

datatype ApprovalError =
    CB_FORBIDDEN | CB_NOT_FOUND | CB_CONFLICT | CB_UNPROCESSABLE | CB_UNIQUE_VIOLATION | CB_CHECK_VIOLATION

record HashEnv =
  he_sha256 :: "string \<Rightarrow> string"
  he_iso :: "int \<Rightarrow> string"

definition hash_of :: "HashEnv \<Rightarrow> json \<Rightarrow> string" where
  "hash_of env v = he_sha256 env (json_text v)"

definition approval_audit :: "AuditRow \<Rightarrow> ApprovalDb \<Rightarrow> ApprovalDb" where
  "approval_audit e db = db\<lparr>al_auditRows := al_auditRows db @ [e]\<rparr>"

definition approval_tx :: "(ApprovalDb \<Rightarrow> ApprovalError + ('a \<times> ApprovalDb)) \<Rightarrow> ApprovalDb \<Rightarrow>
    ApprovalDb \<times> (ApprovalError + 'a)" where
  "approval_tx body db = (case body db of Inl e \<Rightarrow> (db, Inl e) | Inr (x, db') \<Rightarrow> (db', Inr x))"

definition find_active_user :: "ApprovalDb \<Rightarrow> string \<Rightarrow> string \<Rightarrow> UserRow option" where
  "find_active_user db org uid =
     find (\<lambda>u. us_id u = uid \<and> us_organizationId u = org \<and> us_active u \<and> us_deletedAt u = None) (al_users db)"

definition requireHuman :: "ApprovalDb \<Rightarrow> string \<Rightarrow> string \<Rightarrow> ApprovalError + UserRow" where
  "requireHuman db org uid = (case find_active_user db org uid of
       None \<Rightarrow> Inl CB_FORBIDDEN
     | Some u \<Rightarrow> if us_isMachineIdentity u \<or> (us_role u \<noteq> OWNER \<and> us_role u \<noteq> ADMIN) then Inl CB_FORBIDDEN else Inr u)"

definition role_name :: "UserRole \<Rightarrow> string" where
  "role_name r = (case r of OWNER \<Rightarrow> ''OWNER'' | ADMIN \<Rightarrow> ''ADMIN'' | OTHER_ROLE \<Rightarrow> [])"

section \<open>Granting\<close>

record CreateCodeBuildApprovalDto =
  cc_missionId :: string
  cc_repository :: string
  cc_branch :: string
  cc_expiresAt :: int
  cc_requestKey :: string

definition request_hash :: "HashEnv \<Rightarrow> CreateCodeBuildApprovalDto \<Rightarrow> string" where
  "request_hash env dto = hash_of env (JObj [(''missionId'', JStr (cc_missionId dto)), (''repository'', JStr (cc_repository dto)),
     (''branch'', JStr (cc_branch dto)), (''expiresAt'', JStr (he_iso env (cc_expiresAt dto)))])"

definition insert_approval :: "CodeBuildApproval \<Rightarrow> ApprovalDb \<Rightarrow> ApprovalError + ApprovalDb" where
  "insert_approval a db =
     (if \<exists>b \<in> set (al_approvals db). ca_id b = ca_id a \<or>
          (ca_organizationId b = ca_organizationId a \<and> ca_approvalRequestKey b = ca_approvalRequestKey a)
      then Inl CB_UNIQUE_VIOLATION
      else if ca_repository a \<noteq> CODE_BUILD_REPOSITORY \<or> \<not> FEATURE_BRANCH (ca_branch a) \<or> ca_expiresAt a \<le> ca_approvedAt a
      then Inl CB_CHECK_VIOLATION
      else Inr (db\<lparr>al_approvals := al_approvals db @ [a]\<rparr>))"

definition new_approval ::
  "HashEnv \<Rightarrow> int \<Rightarrow> string \<Rightarrow> string \<Rightarrow> string \<Rightarrow> CreateCodeBuildApprovalDto \<Rightarrow> CodeBuildApproval" where
  "new_approval env now newId org uid dto = \<lparr>ca_id = newId, ca_organizationId = org, ca_missionId = cc_missionId dto,
     ca_repository = cc_repository dto, ca_branch = cc_branch dto, ca_approvalRequestKey = cc_requestKey dto,
     ca_approvalRequestHash = request_hash env dto, ca_approvedByUserId = uid, ca_approvedAt = now,
     ca_expiresAt = cc_expiresAt dto, ca_revokedAt = None, ca_revokedByUserId = None, ca_consumedAt = None,
     ca_consumedByUserId = None, ca_consumptionRequestKey = None, ca_consumptionRequestHash = None,
     ca_executionTargetHash = None, ca_executionTarget = None\<rparr>"

definition granted_row :: "HashEnv \<Rightarrow> string \<Rightarrow> string \<Rightarrow> string \<Rightarrow> CreateCodeBuildApprovalDto \<Rightarrow> UserRow \<Rightarrow> AuditRow" where
  "granted_row env newId org uid dto approver = user_row org uid ''CODE_BUILD_APPROVAL_GRANTED'' ''CodeBuildApproval'' newId
     [(''missionId'', JStr (cc_missionId dto)), (''repository'', JStr (cc_repository dto)),
      (''branch'', JStr (cc_branch dto)), (''expiresAt'', JStr (he_iso env (cc_expiresAt dto))),
      (''role'', JStr (role_name (us_role approver)))]"

definition createApproval ::
  "HashEnv \<Rightarrow> int \<Rightarrow> string \<Rightarrow> string \<Rightarrow> string \<Rightarrow> CreateCodeBuildApprovalDto \<Rightarrow> ApprovalDb \<Rightarrow>
   ApprovalDb \<times> (ApprovalError + CodeBuildApproval)" where
  "createApproval env now newId org uid dto = approval_tx (\<lambda>db.
     bindE (guardE (cc_expiresAt dto \<le> now) CB_UNPROCESSABLE) (\<lambda>_.
     bindE (requireHuman db org uid) (\<lambda>approver.
     case find (\<lambda>a. ca_organizationId a = org \<and> ca_approvalRequestKey a = cc_requestKey dto) (al_approvals db) of
       Some existing \<Rightarrow>
         if ca_approvalRequestHash existing \<noteq> request_hash env dto \<or> ca_approvedByUserId existing \<noteq> uid
         then Inl CB_CONFLICT else Inr (existing, db)
     | None \<Rightarrow>
         (let a = new_approval env now newId org uid dto in
          bindE (insert_approval a db) (\<lambda>db'.
          Inr (a, approval_audit (granted_row env newId org uid dto approver) db'))))))"

section \<open>Revoking\<close>

definition find_approval :: "ApprovalDb \<Rightarrow> string \<Rightarrow> string \<Rightarrow> CodeBuildApproval option" where
  "find_approval db org aid = find (\<lambda>a. ca_id a = aid \<and> ca_organizationId a = org) (al_approvals db)"

definition update_approvals ::
  "(CodeBuildApproval \<Rightarrow> bool) \<Rightarrow> (CodeBuildApproval \<Rightarrow> CodeBuildApproval) \<Rightarrow> ApprovalDb \<Rightarrow> ApprovalDb" where
  "update_approvals P f db = db\<lparr>al_approvals := map (\<lambda>a. if P a then f a else a) (al_approvals db)\<rparr>"

text \<open>The reads of a revocation: the row, and whether it is to be written.\<close>

definition check_revoke :: "string \<Rightarrow> string \<Rightarrow> string \<Rightarrow> ApprovalDb \<Rightarrow> ApprovalError + (CodeBuildApproval \<times> bool)" where
  "check_revoke org uid aid db =
     bindE (requireHuman db org uid) (\<lambda>_.
     case find_approval db org aid of
       None \<Rightarrow> Inl CB_NOT_FOUND
     | Some a \<Rightarrow> if ca_revokedAt a \<noteq> None then Inr (a, False)
         else if ca_consumedAt a \<noteq> None then Inl CB_CONFLICT else Inr (a, True))"

definition write_revoke :: "int \<Rightarrow> string \<Rightarrow> string \<Rightarrow> string \<Rightarrow> ApprovalDb \<Rightarrow> ApprovalDb" where
  "write_revoke now org uid aid db =
     approval_audit (user_row org uid ''CODE_BUILD_APPROVAL_REVOKED'' ''CodeBuildApproval'' aid [])
       (update_approvals (\<lambda>a. ca_id a = aid) (\<lambda>a. a\<lparr>ca_revokedAt := Some now, ca_revokedByUserId := Some uid\<rparr>) db)"

definition revokeApproval ::
  "int \<Rightarrow> string \<Rightarrow> string \<Rightarrow> string \<Rightarrow> ApprovalDb \<Rightarrow> ApprovalDb \<times> (ApprovalError + CodeBuildApproval)" where
  "revokeApproval now org uid aid db = (case check_revoke org uid aid db of
       Inl e \<Rightarrow> (db, Inl e)
     | Inr (a, False) \<Rightarrow> (db, Inr a)
     | Inr (a, True) \<Rightarrow> (write_revoke now org uid aid db,
         Inr (a\<lparr>ca_revokedAt := Some now, ca_revokedByUserId := Some uid\<rparr>)))"

section \<open>Finding an approval for a workflow step\<close>

definition open_approvals :: "int \<Rightarrow> string \<Rightarrow> string \<Rightarrow> ApprovalDb \<Rightarrow> CodeBuildApproval list" where
  "open_approvals now org mission db =
     sort_key (\<lambda>a. - ca_approvedAt a)
       (filter (\<lambda>a. ca_organizationId a = org \<and> ca_missionId a = mission \<and> ca_repository a = CODE_BUILD_REPOSITORY \<and>
          ca_consumedAt a = None \<and> ca_revokedAt a = None \<and> now < ca_expiresAt a) (al_approvals db))"

definition bridge_users :: "string \<Rightarrow> ApprovalDb \<Rightarrow> UserRow list" where
  "bridge_users org db = filter (\<lambda>u. us_organizationId u = org \<and> us_active u \<and> us_deletedAt u = None \<and>
     us_isMachineIdentity u \<and> us_machineScope u = Some ''vito-bridge'') (al_users db)"

datatype DispatchState =
    APPROVAL_REQUIRED | APPROVAL_AMBIGUOUS | MACHINE_IDENTITY_REQUIRED | MACHINE_IDENTITY_AMBIGUOUS | DISPATCH_READY

definition workflowDispatchStatus :: "int \<Rightarrow> string \<Rightarrow> string \<Rightarrow> ApprovalDb \<Rightarrow> DispatchState" where
  "workflowDispatchStatus now org mission db =
     (let approvals = take 10 (open_approvals now org mission db); machines = length (bridge_users org db) in
      if approvals = [] then APPROVAL_REQUIRED else if 1 < length approvals then APPROVAL_AMBIGUOUS
      else if machines = 0 then MACHINE_IDENTITY_REQUIRED else if 1 < machines then MACHINE_IDENTITY_AMBIGUOUS
      else DISPATCH_READY)"

record CodeBuildEvidence =
  ev_approvalId :: string
  ev_machineUserId :: string
  ev_scope :: ConsumeCodeBuildApprovalDto

definition resolveForWorkflowDispatch ::
  "int \<Rightarrow> string \<Rightarrow> string \<Rightarrow> string \<Rightarrow> ApprovalDb \<Rightarrow> ApprovalError + CodeBuildEvidence" where
  "resolveForWorkflowDispatch now org mission sid db =
     (case take 2 (open_approvals now org mission db) of
        [] \<Rightarrow> Inl CB_FORBIDDEN
      | [a] \<Rightarrow>
          (case take 2 (bridge_users org db) of
             [] \<Rightarrow> Inl CB_FORBIDDEN
           | [u] \<Rightarrow> Inr \<lparr>ev_approvalId = ca_id a, ev_machineUserId = us_id u,
               ev_scope = \<lparr>cs_missionId = mission, cs_repository = ca_repository a, cs_branch = ca_branch a,
                 cs_requestKey = ''workflow-step:'' @ sid\<rparr>\<rparr>
           | _ \<Rightarrow> Inl CB_CONFLICT)
      | _ \<Rightarrow> Inl CB_CONFLICT)"

section \<open>Consuming\<close>

text \<open>A conditional update of the approvals; two rows of an organisation never share a consumption key.\<close>

definition claim_approvals ::
  "(CodeBuildApproval \<Rightarrow> bool) \<Rightarrow> (CodeBuildApproval \<Rightarrow> CodeBuildApproval) \<Rightarrow> string \<Rightarrow> string \<Rightarrow> ApprovalDb \<Rightarrow>
   ApprovalError + (nat \<times> ApprovalDb)" where
  "claim_approvals P f org key db =
     (let n = length (filter P (al_approvals db)) in
      if n \<noteq> 0 \<and> (\<exists>a \<in> set (al_approvals db). \<not> P a \<and> ca_organizationId a = org \<and> ca_consumptionRequestKey a = Some key)
      then Inl CB_UNIQUE_VIOLATION
      else Inr (n, update_approvals P f db))"

definition scope_hash :: "HashEnv \<Rightarrow> string \<Rightarrow> ConsumeCodeBuildApprovalDto \<Rightarrow> (string \<times> json) list \<Rightarrow> string" where
  "scope_hash env aid dto entries = hash_of env (JObj ([(''approvalId'', JStr aid), (''missionId'', JStr (cs_missionId dto)),
     (''repository'', JStr (cs_repository dto)), (''branch'', JStr (cs_branch dto))] @ entries))"

definition claimable :: "int \<Rightarrow> string \<Rightarrow> string \<Rightarrow> CodeBuildApproval \<Rightarrow> bool" where
  "claimable now org aid a = (ca_id a = aid \<and> ca_organizationId a = org \<and> ca_consumedAt a = None \<and>
     ca_revokedAt a = None \<and> now < ca_expiresAt a)"

definition in_scope :: "ConsumeCodeBuildApprovalDto \<Rightarrow> CodeBuildApproval \<Rightarrow> bool" where
  "in_scope dto a = (ca_missionId a = cs_missionId dto \<and> ca_repository a = cs_repository dto \<and> ca_branch a = cs_branch dto)"

definition dispatch_claim ::
  "HashEnv \<Rightarrow> int \<Rightarrow> string \<Rightarrow> string \<Rightarrow> ConsumeCodeBuildApprovalDto \<Rightarrow> CodeBuildExecutionTarget \<Rightarrow> CodeBuildApproval \<Rightarrow> CodeBuildApproval" where
  "dispatch_claim env now uid aid dto target a = a\<lparr>ca_consumedAt := Some now, ca_consumedByUserId := Some uid,
     ca_consumptionRequestKey := Some (cs_requestKey dto),
     ca_consumptionRequestHash := Some (scope_hash env aid dto
       [(''executionTargetHash'', JStr (hash_of env (target_json target)))]),
     ca_executionTargetHash := Some (hash_of env (target_json target)), ca_executionTarget := Some target\<rparr>"

definition consumed_row :: "string \<Rightarrow> string \<Rightarrow> string \<Rightarrow> ConsumeCodeBuildApprovalDto \<Rightarrow> (string \<times> json) list \<Rightarrow> AuditRow" where
  "consumed_row org uid aid dto entries = user_row org uid ''CODE_BUILD_APPROVAL_CONSUMED'' ''CodeBuildApproval'' aid
     ([(''missionId'', JStr (cs_missionId dto)), (''repository'', JStr (cs_repository dto)),
       (''branch'', JStr (cs_branch dto)), (''requestKey'', JStr (cs_requestKey dto))] @ entries)"

definition target_summary :: "CodeBuildExecutionTarget \<Rightarrow> json" where
  "target_summary t = JObj [(''version'', JStr (ct_version t)), (''workflowRunId'', JStr (ct_workflowRunId t)),
     (''workflowStepRunId'', JStr (ct_workflowStepRunId t)), (''providerId'', JStr (ct_providerId t)),
     (''providerCode'', JStr (ct_providerCode t)), (''executionTier'', JStr (tier_name (ct_executionTier t))),
     (''commandAlias'', JStr (ct_commandAlias t)), (''baseRef'', JStr (ct_baseRef t))]"

definition consumeForDispatch ::
  "HashEnv \<Rightarrow> int \<Rightarrow> string \<Rightarrow> string \<Rightarrow> string \<Rightarrow> ConsumeCodeBuildApprovalDto \<Rightarrow> CodeBuildExecutionTarget \<Rightarrow> ApprovalDb \<Rightarrow>
   ApprovalDb \<times> (ApprovalError + CodeBuildApproval)" where
  "consumeForDispatch env now org uid aid dto target = approval_tx (\<lambda>db.
     bindE (guardE (\<not> isCodeBuildExecutionTarget target \<or> \<not> codeBuildTargetMatchesApprovalScope target org dto) CB_FORBIDDEN) (\<lambda>_.
     bindE (guardE (\<not> option_test (\<lambda>u. us_isMachineIdentity u \<and> us_machineScope u = Some ''vito-bridge'')
       (find_active_user db org uid)) CB_FORBIDDEN) (\<lambda>_.
     bindE (claim_approvals (\<lambda>a. claimable now org aid a \<and> in_scope dto a) (dispatch_claim env now uid aid dto target)
       org (cs_requestKey dto) db) (\<lambda>(count, db').
     bindE (guardE (count \<noteq> 1) CB_FORBIDDEN) (\<lambda>_.
     case find (\<lambda>a. ca_id a = aid) (al_approvals db') of
       None \<Rightarrow> Inl CB_NOT_FOUND
     | Some a \<Rightarrow> Inr (a, approval_audit (consumed_row org uid aid dto
         [(''executionTargetHash'', JStr (hash_of env (target_json target))), (''executionTarget'', target_summary target)]) db'))))))"

definition consumeApproval ::
  "HashEnv \<Rightarrow> int \<Rightarrow> string \<Rightarrow> string \<Rightarrow> string \<Rightarrow> ConsumeCodeBuildApprovalDto \<Rightarrow> ApprovalDb \<Rightarrow>
   ApprovalDb \<times> (ApprovalError + CodeBuildApproval)" where
  "consumeApproval env now org uid aid dto = approval_tx (\<lambda>db.
     bindE (guardE (\<not> option_test us_isMachineIdentity (find_active_user db org uid)) CB_FORBIDDEN) (\<lambda>_.
     case find_approval db org aid of
       None \<Rightarrow> Inl CB_NOT_FOUND
     | Some a \<Rightarrow>
         if ca_consumedAt a \<noteq> None then
           (if ca_consumptionRequestKey a = Some (cs_requestKey dto) \<and>
               ca_consumptionRequestHash a = Some (scope_hash env aid dto []) \<and> ca_consumedByUserId a = Some uid
            then Inr (a, db) else Inl CB_CONFLICT)
         else if ca_revokedAt a \<noteq> None \<or> ca_expiresAt a \<le> now \<or> \<not> in_scope dto a then Inl CB_FORBIDDEN
         else
           bindE (claim_approvals (claimable now org aid)
             (\<lambda>a. a\<lparr>ca_consumedAt := Some now, ca_consumedByUserId := Some uid,
               ca_consumptionRequestKey := Some (cs_requestKey dto),
               ca_consumptionRequestHash := Some (scope_hash env aid dto [])\<rparr>) org (cs_requestKey dto) db) (\<lambda>(count, db').
           bindE (guardE (count \<noteq> 1) CB_CONFLICT) (\<lambda>_.
           case find (\<lambda>a. ca_id a = aid) (al_approvals db') of
             None \<Rightarrow> Inl CB_NOT_FOUND
           | Some a' \<Rightarrow> Inr (a', approval_audit (consumed_row org uid aid dto []) db')))))"

end
