(* ===== verification/Vito_GovernedRuntime.thy ===== *)
theory Vito_GovernedRuntime
  imports Vito_CodeBuild "HOL-Library.AList" "HOL-Library.Word"
begin

text \<open>
  The entry of server-side operations into the governed invocation,
  \<open>governed-runtime.service.ts\<close>.  The invocation service is an argument here (it is modelled
  in the invocation theories); the directory it prepares on disk is left out.  The
  type of the operation rules out fields of the wrong type.
\<close>

record TrustedOperation =
  go_trustOrigin :: string
  go_organizationId :: string
  go_providerId :: string
  go_capabilityCode :: string
  go_requestedAction :: ExecutionAction
  go_relativePath :: "string option"
  go_content :: "string option"
  go_command :: "string option"
  go_governedInputPayload :: "(string \<times> json) list option"
  go_correlationId :: "string option"
  go_workflowRunId :: "string option"
  go_workflowStepRunId :: "string option"
  go_executionBudget :: "ExecutionBudget option"
  go_codeBuildExecutionTarget :: "CodeBuildExecutionTarget option"

datatype EnvelopeStatus = ENVELOPE_PENDING | ENVELOPE_COMPLETED | ENVELOPE_FAILED

record GovernedOperationEnvelope =
  oe_id :: string
  oe_organizationId :: string
  oe_purposeCode :: string
  oe_correlationId :: "string option"
  oe_status :: EnvelopeStatus

record RuntimeTables =
  gt_envelopes :: "GovernedOperationEnvelope list"
  gt_executions :: "GovernedExecutionRecord list"

datatype RuntimeError =
    GR_UNTRUSTED_CONTEXT | GR_MALFORMED_OPERATION | GR_CODE_BUILD_TARGET_MISMATCH | GR_INVOKE InvokeError | GR_UNIQUE_VIOLATION

definition TRUSTED_RUNTIME_ORIGIN :: string where "TRUSTED_RUNTIME_ORIGIN = ''SERVER_RUNTIME''"
definition GOVERNED_RUNTIME_PURPOSE_CODE :: string where "GOVERNED_RUNTIME_PURPOSE_CODE = ''INTERNAL_WORKSPACE_FILE_TOOL''"
definition MAX_CONTENT_LENGTH_BYTES :: int where "MAX_CONTENT_LENGTH_BYTES = 1048576"
definition MAX_RELATIVE_PATH_LENGTH :: nat where "MAX_RELATIVE_PATH_LENGTH = 512"

text \<open>\<open>Buffer.byteLength(s, 'utf8')\<close> of a text of 16-bit code units: a surrogate pair takes four bytes,
  a lone surrogate is replaced by U+FFFD and takes three.\<close>

definition high_surrogate :: "16 word \<Rightarrow> bool" where "high_surrogate u = (0xD800 \<le> u \<and> u \<le> 0xDBFF)"
definition low_surrogate :: "16 word \<Rightarrow> bool" where "low_surrogate u = (0xDC00 \<le> u \<and> u \<le> 0xDFFF)"

definition unit_bytes :: "16 word \<Rightarrow> int" where
  "unit_bytes u = (if u < 0x80 then 1 else if u < 0x800 then 2 else 3)"

fun utf8_length :: "16 word list \<Rightarrow> int" where
  "utf8_length [] = 0"
| "utf8_length [u] = unit_bytes u"
| "utf8_length (u # v # us) =
     (if high_surrogate u \<and> low_surrogate v then 4 + utf8_length us else unit_bytes u + utf8_length (v # us))"

text \<open>The characters of a string are the code units up to U+00FF.\<close>

definition code_units :: "string \<Rightarrow> 16 word list" where
  "code_units s = map (\<lambda>c. word_of_nat (of_char c)) s"

definition byteLength :: "string \<Rightarrow> int" where
  "byteLength s = utf8_length (code_units s)"

lemma unit_bytes_range: "1 \<le> unit_bytes u" "unit_bytes u \<le> 3"
  by (simp_all add: unit_bytes_def)

lemma surrogate_bytes: "high_surrogate u \<or> low_surrogate u \<Longrightarrow> unit_bytes u = 3"
  by (auto simp: unit_bytes_def high_surrogate_def low_surrogate_def word_le_nat_alt word_less_nat_alt)

lemma low_not_high: "low_surrogate v \<Longrightarrow> \<not> high_surrogate v"
  by (auto simp: high_surrogate_def low_surrogate_def word_le_nat_alt)

lemma utf8_length_low: "low_surrogate v \<Longrightarrow> utf8_length (v # us) = 3 + utf8_length us"
  by (cases us) (simp_all add: low_not_high surrogate_bytes)

lemma utf8_length_Cons: "utf8_length (u # us) \<le> unit_bytes u + utf8_length us"
  by (cases us) (auto simp: utf8_length_low surrogate_bytes)

text \<open>A unit takes at most three bytes, and joining two texts never takes more than both.\<close>

lemma utf8_length_le: "utf8_length us \<le> 3 * int (length us)"
proof (induction us)
  case (Cons u us)
  then show ?case using utf8_length_Cons [of u us] unit_bytes_range(2) [of u] by simp
qed simp

lemma utf8_length_append: "utf8_length (xs @ ys) \<le> utf8_length xs + utf8_length ys"
proof (induction xs rule: utf8_length.induct)
  case (2 u)
  then show ?case using utf8_length_Cons [of u ys] by simp
qed auto

lemma byteLength_append: "byteLength (xs @ ys) \<le> byteLength xs + byteLength ys"
  unfolding byteLength_def code_units_def map_append by (rule utf8_length_append)

definition code_build_bound :: "TrustedOperation \<Rightarrow> bool" where
  "code_build_bound input = (case go_codeBuildExecutionTarget input of
       None \<Rightarrow> False
     | Some t \<Rightarrow> isCodeBuildExecutionTarget t \<and> ct_organizationId t = go_organizationId input \<and>
         Some (ct_workflowRunId t) = go_workflowRunId input \<and> Some (ct_workflowStepRunId t) = go_workflowStepRunId input \<and>
         ct_providerId t = go_providerId input \<and> Some (ct_commandAlias t) = go_command input)"

definition assertTrustedOperation :: "TrustedOperation \<Rightarrow> RuntimeError + unit" where
  "assertTrustedOperation input =
     bindE (guardE (go_trustOrigin input \<noteq> TRUSTED_RUNTIME_ORIGIN) GR_UNTRUSTED_CONTEXT) (\<lambda>_.
     bindE (guardE (go_organizationId input = [] \<or> go_providerId input = [] \<or> go_capabilityCode input = []) GR_MALFORMED_OPERATION) (\<lambda>_.
     bindE (guardE (go_capabilityCode input = ''CODE_BUILD'' \<and> go_requestedAction input = RUN_COMMAND \<and> \<not> code_build_bound input)
       GR_CODE_BUILD_TARGET_MISMATCH) (\<lambda>_.
     bindE (guardE (go_requestedAction input \<notin> {CREATE_FILE, WRITE_FILE, READ_FILE, RUN_COMMAND, GIT_PUSH}) GR_MALFORMED_OPERATION) (\<lambda>_.
     if go_requestedAction input = RUN_COMMAND
     then guardE (\<not> truthy (go_command input) \<or> go_content input \<noteq> None) GR_MALFORMED_OPERATION
     else if go_requestedAction input = GIT_PUSH then Inr ()
     else
       bindE (guardE (\<not> option_test (\<lambda>p. p \<noteq> [] \<and> length p \<le> MAX_RELATIVE_PATH_LENGTH) (go_relativePath input)) GR_MALFORMED_OPERATION) (\<lambda>_.
       if go_requestedAction input = READ_FILE then Inr ()
       else guardE (\<not> option_test (\<lambda>c. byteLength c \<le> MAX_CONTENT_LENGTH_BYTES) (go_content input)) GR_MALFORMED_OPERATION)))))"

definition governedPayload :: "TrustedOperation \<Rightarrow> (string \<times> json) list option" where
  "governedPayload input =
     (let base = (case go_content input of Some c \<Rightarrow> Some [(''content'', JStr c)] | None \<Rightarrow> go_governedInputPayload input) in
      case go_codeBuildExecutionTarget input of
        None \<Rightarrow> base
      | Some t \<Rightarrow> Some (AList.update ''codeBuildExecutionTarget'' (target_json t) (case base of None \<Rightarrow> [] | Some fs \<Rightarrow> fs)))"

definition invocation_request ::
  "int \<Rightarrow> string \<Rightarrow> string \<Rightarrow> string \<Rightarrow> TrustedOperation \<Rightarrow> InvocationRequest" where
  "invocation_request now invocationId envelopeId stepId input = \<lparr>rq_invocationId = invocationId,
     rq_organizationId = go_organizationId input, rq_workflowRunId = or_else (go_workflowRunId input) envelopeId,
     rq_workflowStepRunId = or_else (go_workflowStepRunId input) stepId,
     rq_correlationId = or_else (go_correlationId input) envelopeId, rq_capabilityCode = go_capabilityCode input,
     rq_providerId = go_providerId input, rq_executionProfile = BUILDER, rq_assuranceLevel = None, rq_inputReference = None,
     rq_governedInputPayload = map_option JObj (governedPayload input),
     rq_executionBudget = Some (or_else (go_executionBudget input)
       \<lparr>b_maxDurationMs = Some 30000, b_maxTokens = None, b_maxCostMinorUnits = None\<rparr>),
     rq_requestedAction = go_requestedAction input, rq_requestedPath = go_relativePath input,
     rq_requestedCommand = go_command input, rq_humanApprovalReference = None, rq_requestedAt = Some now\<rparr>"

definition execution_record :: "InvocationResult \<Rightarrow> GovernedExecutionRecord" where
  "execution_record r = \<lparr>gx_id = ir_invocationId r, gx_organizationId = ir_organizationId r,
     gx_workflowRunId = ir_workflowRunId r, gx_workflowStepRunId = ir_workflowStepRunId r,
     gx_capabilityCode = ir_capabilityCode r, gx_providerId = ir_providerId r, gx_status = ir_status r,
     gx_outputReference = ir_outputReference r,
     gx_artifactReferences = (case ir_artifactReferences r of None \<Rightarrow> JNull | Some refs \<Rightarrow> JArr (map JStr refs))\<rparr>"

definition set_envelope :: "string \<Rightarrow> EnvelopeStatus \<Rightarrow> RuntimeTables \<Rightarrow> RuntimeTables" where
  "set_envelope eid s db = db\<lparr>gt_envelopes := map (\<lambda>e. if oe_id e = eid then e\<lparr>oe_status := s\<rparr> else e) (gt_envelopes db)\<rparr>"

definition persistExecutionRecord :: "InvocationResult \<Rightarrow> RuntimeTables \<Rightarrow> RuntimeError + RuntimeTables" where
  "persistExecutionRecord r db =
     (if ir_invocationId r \<in> gx_id ` set (gt_executions db) then Inl GR_UNIQUE_VIOLATION
      else Inr (db\<lparr>gt_executions := gt_executions db @ [execution_record r]\<rparr>))"

text \<open>The ids of the envelope, the invocation and a missing step are arguments.\<close>

definition executeWorkspaceFileOperation ::
  "(InvocationRequest \<Rightarrow> InvokeError + InvocationResult) \<Rightarrow> int \<Rightarrow> string \<Rightarrow> string \<Rightarrow> string \<Rightarrow> TrustedOperation \<Rightarrow> RuntimeTables \<Rightarrow>
   RuntimeTables \<times> (RuntimeError + InvocationResult)" where
  "executeWorkspaceFileOperation invoke now envelopeId invocationId stepId input db =
     (case assertTrustedOperation input of
        Inl e \<Rightarrow> (db, Inl e)
      | Inr _ \<Rightarrow>
          if envelopeId \<in> oe_id ` set (gt_envelopes db) then (db, Inl GR_UNIQUE_VIOLATION)
          else
            (let db1 = db\<lparr>gt_envelopes := gt_envelopes db @ [\<lparr>oe_id = envelopeId, oe_organizationId = go_organizationId input,
                   oe_purposeCode = GOVERNED_RUNTIME_PURPOSE_CODE, oe_correlationId = go_correlationId input,
                   oe_status = ENVELOPE_PENDING\<rparr>]\<rparr> in
             case invoke (invocation_request now invocationId envelopeId stepId input) of
               Inl e \<Rightarrow> (set_envelope envelopeId ENVELOPE_FAILED db1, Inl (GR_INVOKE e))
             | Inr r \<Rightarrow>
                 (case persistExecutionRecord r db1 of
                    Inl e \<Rightarrow> (set_envelope envelopeId ENVELOPE_FAILED db1, Inl e)
                  | Inr db2 \<Rightarrow> (set_envelope envelopeId
                      (if ir_status r = AES_SUCCEEDED then ENVELOPE_COMPLETED else ENVELOPE_FAILED) db2, Inr r))))"

lemma assertTrustedOperation_code_build:
  "assertTrustedOperation input = Inr u \<Longrightarrow> go_capabilityCode input = ''CODE_BUILD'' \<Longrightarrow> go_requestedAction input = RUN_COMMAND \<Longrightarrow>
     code_build_bound input"
  by (simp add: assertTrustedOperation_def)

lemma executed_operation:
  assumes "executeWorkspaceFileOperation invoke now envelopeId invocationId stepId input db = (db', Inr r)"
  shows "assertTrustedOperation input = Inr () \<and> invoke (invocation_request now invocationId envelopeId stepId input) = Inr r \<and>
    gt_executions db' = gt_executions db @ [execution_record r]"
  using assms by (auto simp: executeWorkspaceFileOperation_def persistExecutionRecord_def set_envelope_def Let_def
      split: sum.splits if_splits)

end
