(* ===== verification/Vito_DispatchSafety.thy ===== *)
theory Vito_DispatchSafety
  imports Vito_AgentWorkforce "HOL-Library.Multiset"
begin

text \<open>
  What the dispatch guarantees: a code build never runs without a human approval of its own,
  whatever dispatches, revocations and consumptions interleave; the capability of a persisted step
  is the server's; the prompt stays within its limit.
\<close>

section \<open>The approval table\<close>

text \<open>A row changes only by being consumed or revoked, and neither is undone.\<close>

definition row_kept :: "CodeBuildApproval \<Rightarrow> CodeBuildApproval \<Rightarrow> bool" where
  "row_kept a b = (ca_id b = ca_id a \<and> ca_organizationId b = ca_organizationId a \<and> ca_missionId b = ca_missionId a \<and>
     ca_repository b = ca_repository a \<and> ca_branch b = ca_branch a \<and> ca_approvedByUserId b = ca_approvedByUserId a \<and>
     (ca_consumedAt a \<noteq> None \<longrightarrow> ca_consumedAt b = ca_consumedAt a \<and> ca_executionTarget b = ca_executionTarget a \<and>
        ca_consumptionRequestKey b = ca_consumptionRequestKey a) \<and>
     (ca_revokedAt a \<noteq> None \<longrightarrow> ca_revokedAt b \<noteq> None))"

definition table_kept :: "ApprovalDb \<Rightarrow> ApprovalDb \<Rightarrow> bool" where
  "table_kept db db' = list_all2 row_kept (al_approvals db) (al_approvals db')"

lemma row_kept_refl [simp]: "row_kept a a"
  by (simp add: row_kept_def)

lemma table_kept_ids: "table_kept db db' \<Longrightarrow> map ca_id (al_approvals db') = map ca_id (al_approvals db)"
  unfolding table_kept_def by (induction rule: list_all2_induct) (auto simp: row_kept_def)

lemma table_kept_id_set: "table_kept db db' \<Longrightarrow> ca_id ` set (al_approvals db') = ca_id ` set (al_approvals db)"
  by (metis table_kept_ids image_set)

lemma table_kept_forward:
  assumes "table_kept db db'" and "a \<in> set (al_approvals db)"
  shows "\<exists>b \<in> set (al_approvals db'). row_kept a b"
proof -
  obtain n where "n < length (al_approvals db)" "a = al_approvals db ! n" using assms(2) by (auto simp: in_set_conv_nth)
  with assms(1) have "row_kept a (al_approvals db' ! n)" "al_approvals db' ! n \<in> set (al_approvals db')"
    by (auto simp: table_kept_def list_all2_conv_all_nth)
  then show ?thesis by blast
qed

lemma table_kept_back:
  assumes "table_kept db db'" and "b \<in> set (al_approvals db')"
  shows "\<exists>a \<in> set (al_approvals db). row_kept a b"
proof -
  obtain n where "n < length (al_approvals db')" "b = al_approvals db' ! n" using assms(2) by (auto simp: in_set_conv_nth)
  with assms(1) have "row_kept (al_approvals db ! n) b" "al_approvals db ! n \<in> set (al_approvals db)"
    by (auto simp: table_kept_def list_all2_conv_all_nth)
  then show ?thesis by blast
qed

lemma approval_audit_rows [simp]: "al_approvals (approval_audit e db) = al_approvals db"
  by (simp add: approval_audit_def)

lemma update_approvals_rows [simp]: "al_approvals (update_approvals P f db) = map (\<lambda>a. if P a then f a else a) (al_approvals db)"
  by (simp add: update_approvals_def)

lemma update_kept:
  assumes "al_approvals db' = map (\<lambda>a. if P a then f a else a) (al_approvals db)" and "\<And>a. P a \<Longrightarrow> row_kept a (f a)"
  shows "table_kept db db'"
  using assms by (auto simp: table_kept_def list_all2_conv_all_nth)

lemma approval_tx_ok: "approval_tx body db = (db', Inr x) \<longleftrightarrow> body db = Inr (x, db')"
  by (auto simp: approval_tx_def split: sum.splits)

lemma inserted_approval:
  assumes "insert_approval a db = Inr db'"
  shows "al_approvals db' = al_approvals db @ [a]" and "ca_id a \<notin> ca_id ` set (al_approvals db)"
  using assms by (auto simp: insert_approval_def split: if_splits)

lemma new_approval_fields [simp]:
  "ca_id (new_approval env now newId org uid dto) = newId" "ca_approvedByUserId (new_approval env now newId org uid dto) = uid"
  "ca_consumedAt (new_approval env now newId org uid dto) = None" "ca_revokedAt (new_approval env now newId org uid dto) = None"
  by (simp_all add: new_approval_def)

lemma granted:
  assumes "createApproval env now newId org uid dto db = (db', Inr a)"
  obtains (replay) u where "requireHuman db org uid = Inr u" "ca_approvedByUserId a = uid"
      "al_approvals db' = al_approvals db" "a \<in> set (al_approvals db)"
  | (fresh) u where "requireHuman db org uid = Inr u" "ca_approvedByUserId a = uid"
      "al_approvals db' = al_approvals db @ [a]" "ca_id a \<notin> ca_id ` set (al_approvals db)"
      "ca_consumedAt a = None" "ca_revokedAt a = None"
proof -
  let ?found = "find (\<lambda>a. ca_organizationId a = org \<and> ca_approvalRequestKey a = cc_requestKey dto) (al_approvals db)"
  obtain u where u: "requireHuman db org uid = Inr u"
    using assms unfolding createApproval_def approval_tx_ok bindE_Inr_iff by blast
  show ?thesis
  proof (cases ?found)
    case None
    then obtain db1 where i: "insert_approval (new_approval env now newId org uid dto) db = Inr db1"
      and "a = new_approval env now newId org uid dto" and "al_approvals db' = al_approvals db1"
      using assms u by (auto simp: createApproval_def approval_tx_ok Let_def)
    then show ?thesis using inserted_approval [OF i] fresh [OF u] by simp
  next
    case (Some b)
    then have "b \<in> set (al_approvals db)" using find_SomeD by metis
    moreover have "a = b \<and> db' = db \<and> ca_approvedByUserId b = uid"
      using assms Some by (simp add: createApproval_def approval_tx_ok split: if_splits)
    ultimately show ?thesis using replay [OF u] by simp
  qed
qed

lemma revoked_rows:
  "al_approvals (write_revoke now org uid aid db) =
     map (\<lambda>a. if ca_id a = aid then a\<lparr>ca_revokedAt := Some now, ca_revokedByUserId := Some uid\<rparr> else a) (al_approvals db)"
  by (simp add: write_revoke_def)

lemma revoked_kept: "table_kept db (write_revoke now org uid aid db)"
  by (rule update_kept [OF revoked_rows]) (simp add: row_kept_def)

lemma claimed_rows:
  assumes "claim_approvals P f org key db = Inr (n, db')"
  shows "n = length (filter P (al_approvals db)) \<and> al_approvals db' = map (\<lambda>a. if P a then f a else a) (al_approvals db)"
  using assms by (auto simp: claim_approvals_def Let_def split: if_splits)

lemma consumed_kept:
  assumes "consumeApproval env now org uid aid dto db = (db', Inr a)"
  shows "table_kept db db'"
proof (cases "find_approval db org aid")
  case None
  with assms show ?thesis by (simp add: consumeApproval_def approval_tx_ok)
next
  case (Some row)
  show ?thesis
  proof (cases "ca_consumedAt row")
    case None
    with assms Some obtain n db1 where c: "claim_approvals (claimable now org aid)
        (\<lambda>a. a\<lparr>ca_consumedAt := Some now, ca_consumedByUserId := Some uid, ca_consumptionRequestKey := Some (cs_requestKey dto),
               ca_consumptionRequestHash := Some (scope_hash env aid dto [])\<rparr>) org (cs_requestKey dto) db = Inr (n, db1)"
      and r: "al_approvals db' = al_approvals db1"
      by (auto simp: consumeApproval_def approval_tx_ok split: if_splits option.splits)
    have "al_approvals db' = map (\<lambda>a. if claimable now org aid a then a\<lparr>ca_consumedAt := Some now, ca_consumedByUserId := Some uid,
        ca_consumptionRequestKey := Some (cs_requestKey dto), ca_consumptionRequestHash := Some (scope_hash env aid dto [])\<rparr> else a)
        (al_approvals db)"
      using claimed_rows [OF c] r by simp
    then show ?thesis by (rule update_kept) (simp add: row_kept_def claimable_def)
  next
    case (Some t)
    with assms \<open>find_approval db org aid = Some row\<close> have "db' = db"
      by (auto simp: consumeApproval_def approval_tx_ok split: if_splits)
    then show ?thesis by (simp add: table_kept_def list_all2_refl)
  qed
qed

text \<open>A dispatch gets an approval only if it was open and covers the target, and leaves it consumed by this target.\<close>

lemma dispatch_claim_fields [simp]:
  "ca_id (dispatch_claim env now uid aid dto t a) = ca_id a"
  "ca_organizationId (dispatch_claim env now uid aid dto t a) = ca_organizationId a"
  "ca_missionId (dispatch_claim env now uid aid dto t a) = ca_missionId a"
  "ca_repository (dispatch_claim env now uid aid dto t a) = ca_repository a"
  "ca_branch (dispatch_claim env now uid aid dto t a) = ca_branch a"
  "ca_approvedByUserId (dispatch_claim env now uid aid dto t a) = ca_approvedByUserId a"
  "ca_revokedAt (dispatch_claim env now uid aid dto t a) = ca_revokedAt a"
  "ca_consumedAt (dispatch_claim env now uid aid dto t a) = Some now"
  "ca_executionTarget (dispatch_claim env now uid aid dto t a) = Some t"
  by (simp_all add: dispatch_claim_def)

lemma claimed_for_dispatch:
  assumes "consumeForDispatch env now org uid aid dto t db = (db', Inr a)"
  shows "table_kept db db' \<and> isCodeBuildExecutionTarget t \<and> codeBuildTargetMatchesApprovalScope t org dto \<and>
    (\<exists>row \<in> set (al_approvals db). claimable now org aid row \<and> in_scope dto row \<and>
       dispatch_claim env now uid aid dto t row \<in> set (al_approvals db'))"
proof -
  let ?P = "\<lambda>a. claimable now org aid a \<and> in_scope dto a" and ?f = "dispatch_claim env now uid aid dto t"
  obtain db1 where g: "isCodeBuildExecutionTarget t" "codeBuildTargetMatchesApprovalScope t org dto"
    and c: "claim_approvals ?P ?f org (cs_requestKey dto) db = Inr (1, db1)" and r: "al_approvals db' = al_approvals db1"
    using assms by (auto simp: consumeForDispatch_def approval_tx_ok split: option.splits)
  note rows = claimed_rows [OF c]
  then have "filter ?P (al_approvals db) \<noteq> []" by (metis list.size(3) zero_neq_one)
  then obtain row where row: "row \<in> set (al_approvals db)" "?P row" unfolding filter_empty_conv by blast
  then have "?f row \<in> set (al_approvals db')" using rows r by (auto simp: image_iff intro!: bexI [of _ row])
  moreover have "al_approvals db' = map (\<lambda>a. if ?P a then ?f a else a) (al_approvals db)" using rows r by simp
  then have "table_kept db db'" by (rule update_kept) (simp add: row_kept_def claimable_def)
  ultimately show ?thesis using g row by blast
qed

section \<open>Prepared dispatches\<close>

definition code_build :: "PreparedDispatch \<Rightarrow> bool" where
  "code_build d = (pz_capabilityCode d = ''CODE_BUILD'')"

text \<open>The target of a prepared code build names the run and step of the request and the provider that will run it.\<close>

definition target_bound :: "DispatchAgentTaskInput \<Rightarrow> PreparedDispatch \<Rightarrow> CodeBuildExecutionTarget \<Rightarrow> bool" where
  "target_bound i d t = (isCodeBuildExecutionTarget t \<and> ct_organizationId t = di_organizationId i \<and>
     ct_workflowRunId t = di_workflowRunId i \<and> ct_workflowStepRunId t = di_workflowStepRunId i \<and>
     ct_providerId t = pd_id (pz_provider d) \<and> ct_providerCode t = pd_providerCode (pz_provider d) \<and>
     ct_commandAlias t = pz_commandAlias d)"

definition build_bound :: "DispatchAgentTaskInput \<Rightarrow> PreparedDispatch \<Rightarrow> bool" where
  "build_bound i d = (if code_build d
     then \<exists>ev t. di_codeBuildApproval i = Some ev \<and> pz_evidence d = Some ev \<and> pz_target d = Some t \<and> target_bound i d t
     else pz_evidence d = None)"

lemma target_for_bound:
  "target_for i ev p tier alias = Some t \<Longrightarrow> isCodeBuildExecutionTarget t \<and> ct_organizationId t = di_organizationId i \<and>
     ct_workflowRunId t = di_workflowRunId i \<and> ct_workflowStepRunId t = di_workflowStepRunId i \<and>
     ct_missionId t = cs_missionId (ev_scope ev) \<and> ct_publicationBranch t = cs_branch (ev_scope ev) \<and>
     ct_providerId t = pd_id p \<and> ct_providerCode t = pd_providerCode p \<and> ct_commandAlias t = alias"
  by (auto simp: target_for_def buildCodeBuildExecutionTarget_def Let_def split: if_splits)

lemma prepared_target:
  assumes "prepare_target env i identity correlation capability ev res = Inr d"
  shows "pz_capabilityCode d = capability \<and> pz_correlationId d = correlation \<and> pz_identity d = identity \<and> pz_routing d = res \<and> pz_evidence d = ev \<and>
    rs_selectedProvider res = Some (pz_provider d) \<and>
    (case ev of None \<Rightarrow> pz_target d = None | Some e \<Rightarrow> \<exists>t. pz_target d = Some t \<and> target_bound i d t)"
proof -
  obtain p where p: "rs_selectedProvider res = Some p"
    using assms by (cases "rs_selectedProvider res") (simp_all add: prepare_target_def)
  obtain tier where tier: "detectDispatchTier (dv_profiles env) p = Some tier"
    using assms p by (cases "detectDispatchTier (dv_profiles env) p") (simp_all add: prepare_target_def)
  show ?thesis
  proof (cases ev)
    case None
    with assms p tier show ?thesis by (auto simp: prepare_target_def)
  next
    case (Some e)
    with assms p tier obtain cmd t where "target_for i e p tier cmd = Some t"
      and d: "pz_provider d = p" "pz_commandAlias d = cmd" "pz_target d = Some t" "pz_capabilityCode d = capability"
        "pz_correlationId d = correlation"
        "pz_identity d = identity" "pz_routing d = res" "pz_evidence d = ev"
      by (auto simp: prepare_target_def split: option.splits)
    then show ?thesis using p Some target_for_bound by (simp add: target_bound_def)
  qed
qed

lemma dispatch_capability_cases:
  assumes "prepare_dispatch env clock ids i s = (s', Inr d)"
  obtains db identity capability level correlation rg res where
    "resolve_identity (dv_useAssignments env) (di_organizationId i) (di_workflowRunId i) (di_workflowStepRunId i)
       (ws_workforce s) = (db, Inr identity)"
    "capability = (case identity of Some x \<Rightarrow> xi_capabilityCode x | None \<Rightarrow> di_capabilityCode i)"
    "capability = ''CODE_BUILD'' \<Longrightarrow> evidence_present (dv_hasApprovals env) (di_codeBuildApproval i)"
    "routeForExecution (dv_router env) clock (dx_decisionId ids) (routing_request i capability level correlation)
       (ws_registry s) = (rg, Inr res)"
    "prepare_target env i identity correlation capability
       (if capability = ''CODE_BUILD'' then di_codeBuildApproval i else None) res = Inr d"
    "s' = s\<lparr>ws_workforce := db, ws_registry := rg\<rparr>" "validateInput i"
    "correlation = (case identity of Some x \<Rightarrow> xi_correlationId x | None \<Rightarrow> or_else (di_correlationId i) (dx_correlationId ids))"
    "level = (case identity of Some x \<Rightarrow> Some (xi_assuranceLevel x) | None \<Rightarrow> di_assuranceLevel i)"
proof -
  have v: "validateInput i" using assms by (auto simp: prepare_dispatch_def split: if_splits)
  obtain db r where ri: "resolve_identity (dv_useAssignments env) (di_organizationId i) (di_workflowRunId i)
      (di_workflowStepRunId i) (ws_workforce s) = (db, r)" by (metis surj_pair)
  obtain identity where identity: "r = Inr identity"
    using assms v ri by (cases r) (simp_all add: prepare_dispatch_def)
  define capability where "capability = (case identity of Some x \<Rightarrow> xi_capabilityCode x | None \<Rightarrow> di_capabilityCode i)"
  define level where "level = (case identity of Some x \<Rightarrow> Some (xi_assuranceLevel x) | None \<Rightarrow> di_assuranceLevel i)"
  define correlation where "correlation = (case identity of Some x \<Rightarrow> xi_correlationId x
      | None \<Rightarrow> or_else (di_correlationId i) (dx_correlationId ids))"
  define ev where "ev = (if capability = ''CODE_BUILD'' then di_codeBuildApproval i else None)"
  note eq = assms [unfolded prepare_dispatch_def ri identity prod.case sum.case Let_def, folded level_def correlation_def,
      folded capability_def, folded ev_def]
  have present: "evidence_present (dv_hasApprovals env) (di_codeBuildApproval i)" if "capability = ''CODE_BUILD''"
    using eq v that by (simp add: ev_def split: if_splits)
  obtain rg o' where rf: "routeForExecution (dv_router env) clock (dx_decisionId ids) (routing_request i capability level correlation)
      (ws_registry (s\<lparr>ws_workforce := db\<rparr>)) = (rg, o')" by (metis surj_pair)
  have guard: "\<not> (capability = ''CODE_BUILD'' \<and> \<not> evidence_present (dv_hasApprovals env) ev)"
    using present by (simp add: ev_def)
  obtain res where res: "o' = Inr res" using eq v guard rf by (cases o') simp_all
  have final: "s' = s\<lparr>ws_workforce := db, ws_registry := rg\<rparr>" "prepare_target env i identity correlation capability ev res = Inr d"
    using eq v guard rf res by simp_all
  show ?thesis
  proof (rule that)
    show "resolve_identity (dv_useAssignments env) (di_organizationId i) (di_workflowRunId i) (di_workflowStepRunId i)
       (ws_workforce s) = (db, Inr identity)" using ri identity by simp
    show "prepare_target env i identity correlation capability
        (if capability = ''CODE_BUILD'' then di_codeBuildApproval i else None) res = Inr d"
      using final(2) by (simp only: ev_def)
    show "s' = s\<lparr>ws_workforce := db, ws_registry := rg\<rparr>" by (rule final(1))
  qed (use v present rf res capability_def correlation_def level_def in simp_all)
qed

lemma prepared_build_bound:
  assumes "prepare_dispatch env clock ids i s = (s', Inr d)"
  shows "build_bound i d \<and> ws_approvals s' = ws_approvals s"
proof -
  obtain db identity capability level correlation rg res where
    present: "capability = ''CODE_BUILD'' \<Longrightarrow> evidence_present (dv_hasApprovals env) (di_codeBuildApproval i)"
    and t: "prepare_target env i identity correlation capability
       (if capability = ''CODE_BUILD'' then di_codeBuildApproval i else None) res = Inr d"
    and s': "s' = s\<lparr>ws_workforce := db, ws_registry := rg\<rparr>"
    using assms by (rule dispatch_capability_cases) blast
  note pt = prepared_target [OF t]
  have "build_bound i d"
  proof (cases "capability = ''CODE_BUILD''")
    case True
    with present obtain ev where ev: "di_codeBuildApproval i = Some ev"
      by (cases "di_codeBuildApproval i") (simp_all add: evidence_present_def)
    from pt True ev show ?thesis by (auto simp: build_bound_def code_build_def)
  next
    case False
    with pt show ?thesis by (simp add: build_bound_def code_build_def)
  qed
  with s' show ?thesis by simp
qed

text \<open>The routing request of a dispatch: for the step of a workflow the server's capability, assurance level and
  correlation, else those of the caller.\<close>

definition server_identity :: "DispatchEnv \<Rightarrow> DispatchAgentTaskInput \<Rightarrow> WorkforceState \<Rightarrow> ExecutionIdentity option" where
  "server_identity env i s = (case snd (resolve_identity (dv_useAssignments env) (di_organizationId i) (di_workflowRunId i)
     (di_workflowStepRunId i) (ws_workforce s)) of Inl e \<Rightarrow> None | Inr identity \<Rightarrow> identity)"

definition routed_request :: "DispatchEnv \<Rightarrow> DispatchIds \<Rightarrow> DispatchAgentTaskInput \<Rightarrow> WorkforceState \<Rightarrow> ProviderRoutingRequest" where
  "routed_request env ids i s = (case server_identity env i s of
       Some x \<Rightarrow> routing_request i (xi_capabilityCode x) (Some (xi_assuranceLevel x)) (xi_correlationId x)
     | None \<Rightarrow> routing_request i (di_capabilityCode i) (di_assuranceLevel i) (or_else (di_correlationId i) (dx_correlationId ids)))"

lemma prepared_provider:
  assumes "prepare_dispatch env clock ids i s = (s', Inr d)"
  shows "\<exists>rg res. routeForExecution (dv_router env) clock (dx_decisionId ids) (routed_request env ids i s) (ws_registry s) = (rg, Inr res) \<and>
    rs_selectedProvider res = Some (pz_provider d) \<and> rt_capability (routed_request env ids i s) = pz_capabilityCode d \<and>
    rt_organizationId (routed_request env ids i s) = di_organizationId i"
proof -
  obtain db identity capability level correlation rg res where
    ri: "resolve_identity (dv_useAssignments env) (di_organizationId i) (di_workflowRunId i) (di_workflowStepRunId i)
       (ws_workforce s) = (db, Inr identity)"
    and r: "routeForExecution (dv_router env) clock (dx_decisionId ids) (routing_request i capability level correlation)
       (ws_registry s) = (rg, Inr res)"
    and t: "prepare_target env i identity correlation capability
       (if capability = ''CODE_BUILD'' then di_codeBuildApproval i else None) res = Inr d"
    and eqs: "capability = (case identity of Some x \<Rightarrow> xi_capabilityCode x | None \<Rightarrow> di_capabilityCode i)"
      "level = (case identity of Some x \<Rightarrow> Some (xi_assuranceLevel x) | None \<Rightarrow> di_assuranceLevel i)"
      "correlation = (case identity of Some x \<Rightarrow> xi_correlationId x | None \<Rightarrow> or_else (di_correlationId i) (dx_correlationId ids))"
    using assms by (rule dispatch_capability_cases) blast
  have "routed_request env ids i s = routing_request i capability level correlation"
    unfolding routed_request_def server_identity_def ri eqs by (cases identity) simp_all
  moreover have "rt_capability (routing_request i capability level correlation) = capability"
    "rt_organizationId (routing_request i capability level correlation) = di_organizationId i"
    by (simp_all add: routing_request_def)
  ultimately show ?thesis using r prepared_target [OF t] by metis
qed

lemma executed_approvals: "ws_approvals (fst (execute_dispatch env now ids i d s)) = ws_approvals s"
  by (simp add: execute_dispatch_def split: prod.split sum.split)

section \<open>Dispatches that interleave\<close>

text \<open>What concerns an approval: it is granted (or its grant repeated) by a user, revoked, claimed by a dispatch, and
  a dispatch is executed.  The newest event stands first.\<close>

datatype approval_event =
    EV_grant string string
  | EV_revoke string
  | EV_claim string CodeBuildExecutionTarget
  | EV_execute DispatchAgentTaskInput PreparedDispatch

type_synonym dispatch_job = "DispatchAgentTaskInput \<times> PreparedDispatch"

definition claim_of :: "dispatch_job \<Rightarrow> (string \<times> CodeBuildExecutionTarget) option" where
  "claim_of j = (case (pz_evidence (snd j), pz_target (snd j)) of (Some ev, Some t) \<Rightarrow> Some (ev_approvalId ev, t) | _ \<Rightarrow> None)"

definition claim_events :: "dispatch_job \<Rightarrow> approval_event list" where
  "claim_events j = (case claim_of j of None \<Rightarrow> [] | Some (aid, t) \<Rightarrow> [EV_claim aid t])"

text \<open>The steps of any number of dispatches and of the users, in any order: a dispatch is prepared, then consumes its
  approval, then executes, and anything may happen in between.  The write of a revocation may come at
  any time after its checks; the tables that do not hold approvals change freely.\<close>

inductive dispatch_reach ::
  "DispatchEnv \<Rightarrow> WorkforceState \<Rightarrow> dispatch_job list \<Rightarrow> dispatch_job list \<Rightarrow> approval_event list \<Rightarrow> bool" for env where
  start: "al_approvals (ws_approvals s) = [] \<Longrightarrow> dispatch_reach env s [] [] []"
| elsewhere: "dispatch_reach env s ps cs tr \<Longrightarrow> al_approvals (ws_approvals s') = al_approvals (ws_approvals s) \<Longrightarrow>
    dispatch_reach env s' ps cs tr"
| grant: "dispatch_reach env s ps cs tr \<Longrightarrow> createApproval (dv_hash env) now newId org uid dto (ws_approvals s) = (adb, Inr a) \<Longrightarrow>
    dispatch_reach env (s\<lparr>ws_approvals := adb\<rparr>) ps cs (EV_grant (ca_id a) uid # tr)"
| revoke: "dispatch_reach env s ps cs tr \<Longrightarrow> find_approval (ws_approvals s) org aid = Some a \<Longrightarrow>
    dispatch_reach env (s\<lparr>ws_approvals := write_revoke now org uid aid (ws_approvals s)\<rparr>) ps cs (EV_revoke aid # tr)"
| consume: "dispatch_reach env s ps cs tr \<Longrightarrow> consumeApproval (dv_hash env) now org uid aid dto (ws_approvals s) = (adb, Inr a) \<Longrightarrow>
    dispatch_reach env (s\<lparr>ws_approvals := adb\<rparr>) ps cs tr"
| prepare: "dispatch_reach env s ps cs tr \<Longrightarrow> prepare_dispatch env clock ids i s = (s', Inr d) \<Longrightarrow>
    dispatch_reach env s' ((i, d) # ps) cs tr"
| claim: "dispatch_reach env s ps cs tr \<Longrightarrow> (i, d) \<in> set ps \<Longrightarrow>
    consume_approval env now i d (ws_approvals s) = (adb, Inr ()) \<Longrightarrow>
    dispatch_reach env (s\<lparr>ws_approvals := adb\<rparr>) (remove1 (i, d) ps) ((i, d) # cs) (claim_events (i, d) @ tr)"
| execute: "dispatch_reach env s ps cs tr \<Longrightarrow> (i, d) \<in> set cs \<Longrightarrow> execute_dispatch env now ids i d s = (s', r) \<Longrightarrow>
    dispatch_reach env s' ps (remove1 (i, d) cs) (EV_execute i d # tr)"

definition executed :: "approval_event list \<Rightarrow> dispatch_job list" where
  "executed tr = List.map_filter (\<lambda>e. case e of EV_execute i d \<Rightarrow> Some (i, d) | _ \<Rightarrow> None) tr"

definition claims_in :: "approval_event list \<Rightarrow> (string \<times> CodeBuildExecutionTarget) list" where
  "claims_in tr = List.map_filter (\<lambda>e. case e of EV_claim aid t \<Rightarrow> Some (aid, t) | _ \<Rightarrow> None) tr"

definition job_claims :: "dispatch_job list \<Rightarrow> (string \<times> CodeBuildExecutionTarget) list" where
  "job_claims js = List.map_filter claim_of js"

primrec claims_ordered :: "approval_event list \<Rightarrow> bool" where
  "claims_ordered [] = True"
| "claims_ordered (e # tr) = ((case e of
       EV_claim aid t \<Rightarrow> (\<exists>uid. EV_grant aid uid \<in> set tr) \<and> EV_revoke aid \<notin> set tr \<and> aid \<notin> fst ` set (claims_in tr)
     | _ \<Rightarrow> True) \<and> claims_ordered tr)"

definition claim_recorded :: "ApprovalDb \<Rightarrow> string \<Rightarrow> CodeBuildExecutionTarget \<Rightarrow> bool" where
  "claim_recorded db aid t = (\<exists>a \<in> set (al_approvals db). ca_id a = aid \<and> ca_consumedAt a \<noteq> None \<and> ca_executionTarget a = Some t \<and>
     ct_organizationId t = ca_organizationId a \<and> ct_missionId t = ca_missionId a \<and> ct_repository t = ca_repository a \<and>
     ct_publicationBranch t = ca_branch a)"

definition rows_logged :: "ApprovalDb \<Rightarrow> approval_event list \<Rightarrow> bool" where
  "rows_logged db tr = (distinct (map ca_id (al_approvals db)) \<and>
     (\<forall>a \<in> set (al_approvals db). EV_grant (ca_id a) (ca_approvedByUserId a) \<in> set tr \<and>
        (EV_revoke (ca_id a) \<in> set tr \<longrightarrow> ca_revokedAt a \<noteq> None)) \<and>
     (\<forall>aid. EV_revoke aid \<in> set tr \<longrightarrow> aid \<in> ca_id ` set (al_approvals db)) \<and>
     (\<forall>(aid, t) \<in> set (claims_in tr). claim_recorded db aid t))"

definition jobs_ok :: "dispatch_job list \<Rightarrow> dispatch_job list \<Rightarrow> approval_event list \<Rightarrow> bool" where
  "jobs_ok ps cs tr = ((\<forall>(i, d) \<in> set (ps @ cs @ executed tr). build_bound i d) \<and>
     mset (job_claims (cs @ executed tr)) = mset (claims_in tr) \<and> claims_ordered tr)"

lemma event_simps [simp]:
  "claims_in [] = []" "claims_in (EV_grant a u # tr) = claims_in tr" "claims_in (EV_revoke a # tr) = claims_in tr"
  "claims_in (EV_claim a t # tr) = (a, t) # claims_in tr" "claims_in (EV_execute i d # tr) = claims_in tr"
  "executed [] = []" "executed (EV_grant a u # tr) = executed tr" "executed (EV_revoke a # tr) = executed tr"
  "executed (EV_claim a t # tr) = executed tr" "executed (EV_execute i d # tr) = (i, d) # executed tr"
  by (simp_all add: claims_in_def executed_def)

lemma job_claims_simps [simp]:
  "job_claims [] = []" "job_claims (js @ ks) = job_claims js @ job_claims ks"
  "job_claims (j # js) = (case claim_of j of None \<Rightarrow> job_claims js | Some c \<Rightarrow> c # job_claims js)"
  by (simp_all add: job_claims_def map_filter_def split: option.split)

lemma claim_recorded_kept:
  assumes "claim_recorded db aid t" and "table_kept db db'"
  shows "claim_recorded db' aid t"
proof -
  obtain a where a: "a \<in> set (al_approvals db)" "ca_id a = aid" "ca_consumedAt a \<noteq> None" "ca_executionTarget a = Some t"
    "ct_organizationId t = ca_organizationId a" "ct_missionId t = ca_missionId a" "ct_repository t = ca_repository a"
    "ct_publicationBranch t = ca_branch a" using assms(1) by (auto simp: claim_recorded_def)
  obtain b where "b \<in> set (al_approvals db')" "row_kept a b" using table_kept_forward [OF assms(2) a(1)] by blast
  with a show ?thesis unfolding claim_recorded_def row_kept_def by (intro bexI [of _ b]) auto
qed

lemma rows_logged_kept:
  assumes "rows_logged db tr" and "table_kept db db'"
  shows "rows_logged db' tr"
proof -
  have "EV_grant (ca_id b) (ca_approvedByUserId b) \<in> set tr \<and> (EV_revoke (ca_id b) \<in> set tr \<longrightarrow> ca_revokedAt b \<noteq> None)"
    if b: "b \<in> set (al_approvals db')" for b
  proof -
    obtain a where "a \<in> set (al_approvals db)" "row_kept a b" using table_kept_back [OF assms(2) b] by blast
    with assms(1) show ?thesis by (auto simp: rows_logged_def row_kept_def)
  qed
  moreover note table_kept_id_set [OF assms(2)]
  moreover have "claim_recorded db' aid t" if "(aid, t) \<in> set (claims_in tr)" for aid t
    using that assms claim_recorded_kept by (auto simp: rows_logged_def)
  ultimately show ?thesis using assms(1) table_kept_ids [OF assms(2)] unfolding rows_logged_def by auto
qed

lemma rows_logged_grant:
  assumes "rows_logged db tr" and "createApproval env now newId org uid dto db = (db', Inr a)"
  shows "rows_logged db' (EV_grant (ca_id a) uid # tr)"
  using assms(2)
proof (cases rule: granted)
  case (replay u)
  then have "table_kept db db'" by (simp add: table_kept_def list_all2_refl)
  from rows_logged_kept [OF assms(1) this] show ?thesis by (auto simp: rows_logged_def)
next
  case (fresh u)
  have "EV_revoke (ca_id a) \<notin> set tr" using assms(1) fresh(4) by (auto simp: rows_logged_def)
  moreover have "claim_recorded db' aid t" if "claim_recorded db aid t" for aid t
    using that fresh(3) by (auto simp: claim_recorded_def)
  ultimately show ?thesis using assms(1) fresh by (auto simp: rows_logged_def)
qed

lemma rows_logged_revoke:
  assumes "rows_logged db tr" and "find_approval db org aid = Some a"
  shows "rows_logged (write_revoke now org uid aid db) (EV_revoke aid # tr)"
proof -
  let ?db = "write_revoke now org uid aid db"
  have kept: "rows_logged ?db tr" by (rule rows_logged_kept [OF assms(1) revoked_kept])
  have "a \<in> set (al_approvals db) \<and> ca_id a = aid" using find_SomeD [OF assms(2) [unfolded find_approval_def]] by blast
  then have "aid \<in> ca_id ` set (al_approvals ?db)" unfolding table_kept_id_set [OF revoked_kept] by blast
  moreover have "\<forall>b \<in> set (al_approvals ?db). ca_id b = aid \<longrightarrow> ca_revokedAt b \<noteq> None"
    unfolding revoked_rows by (simp add: ball_Un)
  ultimately show ?thesis using kept by (auto simp: rows_logged_def)
qed

lemma same_row: "distinct (map ca_id xs) \<Longrightarrow> a \<in> set xs \<Longrightarrow> b \<in> set xs \<Longrightarrow> ca_id a = ca_id b \<Longrightarrow> a = b"
  by (simp add: distinct_map inj_on_def)

lemma claim_recorded_claim:
  assumes "consumeForDispatch env now org uid aid dto t db = (db', Inr a)"
  shows "claim_recorded db' aid t"
proof -
  note cl = claimed_for_dispatch [OF assms]
  then obtain row where row: "claimable now org aid row" "in_scope dto row"
    "dispatch_claim env now uid aid dto t row \<in> set (al_approvals db')" by blast
  then show ?thesis unfolding claim_recorded_def using cl
    by (intro bexI [OF _ row(3)]) (auto simp: claimable_def in_scope_def codeBuildTargetMatchesApprovalScope_def)
qed

lemma rows_logged_claim:
  assumes "rows_logged db tr" and "claims_ordered tr"
    and c: "consumeForDispatch env now org uid aid dto t db = (db', Inr a)"
  shows "rows_logged db' (EV_claim aid t # tr) \<and> claims_ordered (EV_claim aid t # tr)"
proof -
  note cl = claimed_for_dispatch [OF c]
  then obtain row where row: "row \<in> set (al_approvals db)" "claimable now org aid row" "in_scope dto row"
    "dispatch_claim env now uid aid dto t row \<in> set (al_approvals db')" by blast
  have id: "ca_id row = aid" "ca_consumedAt row = None" "ca_revokedAt row = None" "ca_organizationId row = org"
    using row(2) by (auto simp: claimable_def)
  have rec: "claim_recorded db' aid t" by (rule claim_recorded_claim [OF c])
  have log: "EV_grant aid (ca_approvedByUserId row) \<in> set tr" "EV_revoke aid \<notin> set tr"
    using assms(1) row(1) id by (auto simp: rows_logged_def)
  have "aid \<notin> fst ` set (claims_in tr)"
  proof
    assume "aid \<in> fst ` set (claims_in tr)"
    then obtain b where "b \<in> set (al_approvals db)" "ca_id b = aid" "ca_consumedAt b \<noteq> None"
      using assms(1) by (fastforce simp: rows_logged_def claim_recorded_def)
    with same_row [of "al_approvals db" b row] row(1) id assms(1) show False by (simp add: rows_logged_def)
  qed
  then have "claims_ordered (EV_claim aid t # tr)" using log assms(2) by auto
  moreover have "rows_logged db' (EV_claim aid t # tr)"
    using rows_logged_kept [OF assms(1)] cl rec by (auto simp: rows_logged_def)
  ultimately show ?thesis by blast
qed

lemma consumed_approval:
  assumes "consume_approval env now i d db = (db', Inr ())"
  shows "case claim_of (i, d) of None \<Rightarrow> db' = db
    | Some (aid, t) \<Rightarrow> \<exists>uid dto a. consumeForDispatch (dv_hash env) now (di_organizationId i) uid aid dto t db = (db', Inr a)"
  using assms unfolding consume_approval_def claim_of_def
  by (simp split: option.splits prod.splits sum.splits) blast

lemma rows_logged_same: "rows_logged db tr \<Longrightarrow> al_approvals db' = al_approvals db \<Longrightarrow> rows_logged db' tr"
  by (simp add: rows_logged_def claim_recorded_def)

lemma mset_job_claims_remove1: "j \<in> set cs \<Longrightarrow> mset (job_claims (j # remove1 j cs)) = mset (job_claims cs)"
  by (induction cs) (auto split: option.splits)

lemma jobs_ok_execute:
  assumes "jobs_ok ps cs tr" and "(i, d) \<in> set cs"
  shows "jobs_ok ps (remove1 (i, d) cs) (EV_execute i d # tr)"
proof -
  have "mset (job_claims (remove1 (i, d) cs @ (i, d) # executed tr)) = mset (job_claims (cs @ executed tr))"
    using mset_job_claims_remove1 [OF assms(2)] by (auto split: option.splits)
  then show ?thesis using assms set_remove1_subset [of "(i, d)" cs] by (auto simp: jobs_ok_def)
qed

lemma dispatch_reach_invariant:
  "dispatch_reach env s ps cs tr \<Longrightarrow> rows_logged (ws_approvals s) tr \<and> jobs_ok ps cs tr"
proof (induction rule: dispatch_reach.induct)
  case (start s)
  then show ?case by (simp add: rows_logged_def jobs_ok_def)
next
  case (elsewhere s ps cs tr s')
  then show ?case using rows_logged_same by blast
next
  case (grant s ps cs tr now newId org uid dto adb a)
  then show ?case using rows_logged_grant by (fastforce simp: jobs_ok_def)
next
  case (revoke s ps cs tr org aid a now uid)
  then show ?case using rows_logged_revoke by (fastforce simp: jobs_ok_def)
next
  case (consume s ps cs tr now org uid aid dto adb a)
  then show ?case using rows_logged_kept consumed_kept by fastforce
next
  case (prepare s ps cs tr clock ids i s' d)
  then show ?case using prepared_build_bound [OF prepare.hyps(2)] by (auto simp: jobs_ok_def)
next
  case (claim s ps cs tr i d now adb)
  show ?case
  proof (cases "claim_of (i, d)")
    case None
    with consumed_approval [OF claim.hyps(3)] claim set_remove1_subset [of "(i, d)" ps] show ?thesis
      by (auto simp: jobs_ok_def claim_events_def)
  next
    case (Some c)
    obtain aid t where c: "c = (aid, t)" by (cases c)
    obtain uid dto a where "consumeForDispatch (dv_hash env) now (di_organizationId i) uid aid dto t (ws_approvals s) = (adb, Inr a)"
      using consumed_approval [OF claim.hyps(3)] Some c by auto
    with rows_logged_claim claim.IH have "rows_logged adb (EV_claim aid t # tr) \<and> claims_ordered (EV_claim aid t # tr)"
      unfolding jobs_ok_def by blast
    with claim Some c set_remove1_subset [of "(i, d)" ps] show ?thesis by (auto simp: jobs_ok_def claim_events_def)
  qed
next
  case (execute s ps cs tr i d now ids s' r)
  then have "ws_approvals s' = ws_approvals s" using executed_approvals [of env now ids i d s] by simp
  with execute jobs_ok_execute [of ps cs tr i d] show ?case by (auto simp: rows_logged_def)
qed

lemma claims_ordered_distinct: "claims_ordered tr \<Longrightarrow> distinct (map fst (claims_in tr))"
proof (induction tr)
  case (Cons e tr)
  then show ?case by (cases e) auto
qed simp

lemma claims_in_iff: "(aid, t) \<in> set (claims_in tr) \<longleftrightarrow> EV_claim aid t \<in> set tr"
proof (induction tr)
  case (Cons e tr)
  then show ?case by (cases e) auto
qed simp

lemma claim_split:
  assumes "claims_ordered tr" and "(aid, t) \<in> set (claims_in tr)"
  shows "\<exists>tr1 tr2 uid. tr = tr1 @ EV_claim aid t # tr2 \<and> EV_grant aid uid \<in> set tr2 \<and> EV_revoke aid \<notin> set tr2"
proof -
  have "EV_claim aid t \<in> set tr"
    using assms(2) by (simp add: claims_in_iff)
  then obtain tr1 tr2 where tr: "tr = tr1 @ EV_claim aid t # tr2" by (auto simp: in_set_conv_decomp)
  have "claims_ordered (xs @ ys) \<Longrightarrow> claims_ordered ys" for xs ys by (induction xs) auto
  with assms(1) tr have "claims_ordered (EV_claim aid t # tr2)" by blast
  then show ?thesis using tr by auto
qed

definition approvals_used :: "approval_event list \<Rightarrow> string list" where
  "approvals_used tr = map (\<lambda>(i, d). ev_approvalId (the (pz_evidence d))) (filter (\<lambda>(i, d). code_build d) (executed tr))"

lemma used_claims:
  assumes "\<forall>(i, d) \<in> set js. build_bound i d"
  shows "map (\<lambda>(i, d). ev_approvalId (the (pz_evidence d))) (filter (\<lambda>(i, d). code_build d) js) = map fst (job_claims js)"
  using assms by (induction js) (auto simp: build_bound_def claim_of_def)

text \<open>C2. Whatever the dispatches, grants, revocations and consumptions of a system interleave, no two executions of a code
  build rest on the same approval; each rests on one that a user granted and nobody had
  revoked when the dispatch claimed it, and the row keeps the target that was executed: its
  organisation, mission, repository and branch are those of the approval, its run, step, provider
  and command those of the execution.\<close>

theorem approval_single_use:
  assumes "dispatch_reach env s ps cs tr"
  shows "distinct (approvals_used tr) \<and>
    (\<forall>i d. (i, d) \<in> set (executed tr) \<longrightarrow> code_build d \<longrightarrow>
      (\<exists>ev t tr1 tr2 uid. pz_evidence d = Some ev \<and> pz_target d = Some t \<and> target_bound i d t \<and>
        tr = tr1 @ EV_claim (ev_approvalId ev) t # tr2 \<and> EV_grant (ev_approvalId ev) uid \<in> set tr2 \<and>
        EV_revoke (ev_approvalId ev) \<notin> set tr2 \<and> claim_recorded (ws_approvals s) (ev_approvalId ev) t))"
proof -
  have rows: "rows_logged (ws_approvals s) tr" and jobs: "jobs_ok ps cs tr" using dispatch_reach_invariant [OF assms] by blast+
  from jobs have bound: "\<forall>(i, d) \<in> set (executed tr). build_bound i d" and ord: "claims_ordered tr"
    and m: "mset (job_claims cs) + mset (job_claims (executed tr)) = mset (claims_in tr)" by (auto simp: jobs_ok_def)
  have "mset (map fst (job_claims cs)) + mset (map fst (job_claims (executed tr))) = mset (map fst (claims_in tr))"
    using arg_cong [OF m, of "image_mset fst"] by simp
  then have "mset (map fst (job_claims cs) @ map fst (job_claims (executed tr))) = mset (map fst (claims_in tr))" by simp
  from mset_eq_imp_distinct_iff [OF this]
  have "distinct (map fst (job_claims cs) @ map fst (job_claims (executed tr)))"
    using claims_ordered_distinct [OF ord] by blast
  then have "distinct (approvals_used tr)" unfolding approvals_used_def used_claims [OF bound] by simp
  moreover have "\<exists>ev t tr1 tr2 uid. pz_evidence d = Some ev \<and> pz_target d = Some t \<and> target_bound i d t \<and>
        tr = tr1 @ EV_claim (ev_approvalId ev) t # tr2 \<and> EV_grant (ev_approvalId ev) uid \<in> set tr2 \<and>
        EV_revoke (ev_approvalId ev) \<notin> set tr2 \<and> claim_recorded (ws_approvals s) (ev_approvalId ev) t"
    if x: "(i, d) \<in> set (executed tr)" and cb: "code_build d" for i d
  proof -
    obtain ev t where e: "pz_evidence d = Some ev" "pz_target d = Some t" "target_bound i d t"
      using bound [THEN bspec, OF x] cb by (auto simp: build_bound_def)
    then have "claim_of (i, d) = Some (ev_approvalId ev, t)" by (simp add: claim_of_def)
    then have "(ev_approvalId ev, t) \<in> set (job_claims (executed tr))"
      using x unfolding job_claims_def set_map_filter by blast
    then have c: "(ev_approvalId ev, t) \<in> set (claims_in tr)" using m by (metis UnI2 set_mset_mset set_mset_union)
    with rows have "claim_recorded (ws_approvals s) (ev_approvalId ev) t" by (auto simp: rows_logged_def)
    with e claim_split [OF ord c] show ?thesis by blast
  qed
  ultimately show ?thesis by blast
qed

section \<open>A successful dispatch\<close>

lemma dispatch_phases:
  assumes "dispatch env clock now ids i s = (s', Inr out)"
  obtains s1 d adb where "prepare_dispatch env clock ids i s = (s1, Inr d)"
    "consume_approval env now i d (ws_approvals s1) = (adb, Inr ())"
    "execute_dispatch env now ids i d (s1\<lparr>ws_approvals := adb\<rparr>) = (s', Inr out)"
  using assms by (auto simp: dispatch_def split: prod.splits sum.splits)

lemma execute_phases:
  assumes "execute_dispatch env now ids i d s = (s', Inr out)"
  shows "do_capabilityCode out = pz_capabilityCode d" "do_selectedProviderId out = pd_id (pz_provider d)"
    "do_correlationId out = pz_correlationId d"
    "dv_invoke env (invocation_request now (dx_invocationId ids) (dx_envelopeId ids) [] (dispatch_operation env i d)) =
       Inr (do_execution out)"
    "gt_executions (ws_runtime s') = gt_executions (ws_runtime s) @ [execution_record (do_execution out)]"
  using assms executed_operation
  by (fastforce simp: execute_dispatch_def split: prod.splits sum.splits)+

lemma operation_target:
  assumes "pz_target d = Some t"
  shows "\<exists>fs. rq_governedInputPayload (invocation_request now n e k (dispatch_operation env i d)) = Some (JObj fs) \<and>
    map_of fs ''codeBuildExecutionTarget'' = Some (target_json t)"
  using assms by (simp add: invocation_request_def governedPayload_def dispatch_operation_def Let_def AList.update_conv)

lemma operation_fields_of:
  "rq_organizationId (invocation_request now n e k (dispatch_operation env i d)) = di_organizationId i"
  "rq_workflowRunId (invocation_request now n e k (dispatch_operation env i d)) = di_workflowRunId i"
  "rq_workflowStepRunId (invocation_request now n e k (dispatch_operation env i d)) = di_workflowStepRunId i"
  "rq_correlationId (invocation_request now n e k (dispatch_operation env i d)) = pz_correlationId d"
  "rq_capabilityCode (invocation_request now n e k (dispatch_operation env i d)) = pz_capabilityCode d"
  "rq_providerId (invocation_request now n e k (dispatch_operation env i d)) = pd_id (pz_provider d)"
  "rq_requestedCommand (invocation_request now n e k (dispatch_operation env i d)) = Some (pz_commandAlias d)"
  "rq_invocationId (invocation_request now n e k (dispatch_operation env i d)) = n"
  by (simp_all add: invocation_request_def dispatch_operation_def or_else_def)

text \<open>C9. A code build that a dispatch executes had evidence of an approval that was open at that moment, covers the
  mission, repository and branch, and is now consumed by the target of this very run, step,
  provider and command.  The provider is the one that the routing of this dispatch selected, for the
  organisation, the capability and the assurance level that the server determined: a row of the organisation in the
  registry that qualified at the moment of the routing.  The request that was invoked names this organisation,
  run, step, provider and capability and carries the target, and its result stands in the ledger.\<close>

theorem code_build_dispatch_approved:
  assumes "dispatch env clock now ids i s = (s', Inr out)" and "do_capabilityCode out = ''CODE_BUILD''"
  shows "\<exists>ev t a p rg res. di_codeBuildApproval i = Some ev \<and>
    a \<in> set (al_approvals (ws_approvals s)) \<and> claimable now (di_organizationId i) (ev_approvalId ev) a \<and> in_scope (ev_scope ev) a \<and>
    claim_recorded (ws_approvals s') (ev_approvalId ev) t \<and> isCodeBuildExecutionTarget t \<and>
    ct_organizationId t = di_organizationId i \<and> ct_workflowRunId t = di_workflowRunId i \<and>
    ct_workflowStepRunId t = di_workflowStepRunId i \<and> ct_providerId t = do_selectedProviderId out \<and>
    routeForExecution (dv_router env) clock (dx_decisionId ids) (routed_request env ids i s) (ws_registry s) = (rg, Inr res) \<and>
    rs_selectedProvider res = Some p \<and> pd_id p = do_selectedProviderId out \<and>
    (\<exists>row \<in> set (rg_providers rg). ap_organizationId row = di_organizationId i \<and> p = declaration_of rg row) \<and>
    rt_capability (routed_request env ids i s) = ''CODE_BUILD'' \<and>
    qualifies (dv_router env) (clock (length (loadCandidates (dv_router env) (di_organizationId i) (ws_registry s))))
      (routed_request env ids i s) p \<and>
    (\<exists>req fs. dv_invoke env req = Inr (do_execution out) \<and> rq_invocationId req = dx_invocationId ids \<and>
       rq_organizationId req = di_organizationId i \<and> rq_workflowRunId req = di_workflowRunId i \<and>
       rq_workflowStepRunId req = di_workflowStepRunId i \<and> rq_providerId req = pd_id p \<and>
       rq_capabilityCode req = ''CODE_BUILD'' \<and> rq_requestedCommand req = Some (ct_commandAlias t) \<and>
       rq_governedInputPayload req = Some (JObj fs) \<and>
       map_of fs ''codeBuildExecutionTarget'' = Some (target_json t)) \<and>
    execution_record (do_execution out) \<in> set (gt_executions (ws_runtime s'))"
proof -
  obtain s1 d adb where prep: "prepare_dispatch env clock ids i s = (s1, Inr d)"
    and con: "consume_approval env now i d (ws_approvals s1) = (adb, Inr ())"
    and ex: "execute_dispatch env now ids i d (s1\<lparr>ws_approvals := adb\<rparr>) = (s', Inr out)"
    using assms(1) by (rule dispatch_phases)
  note out = execute_phases [OF ex]
  have cap: "pz_capabilityCode d = ''CODE_BUILD''" using assms(2) out(1) by simp
  then have cb: "code_build d" by (simp add: code_build_def)
  have ap: "ws_approvals s1 = ws_approvals s" "ws_approvals s' = adb"
    using prepared_build_bound [OF prep] executed_approvals [of env now ids i d "s1\<lparr>ws_approvals := adb\<rparr>"] ex by simp_all
  obtain ev t where e: "di_codeBuildApproval i = Some ev" "pz_evidence d = Some ev" "pz_target d = Some t" "target_bound i d t"
    using prepared_build_bound [OF prep] cb by (auto simp: build_bound_def)
  obtain a' where c: "consumeForDispatch (dv_hash env) now (di_organizationId i) (ev_machineUserId ev) (ev_approvalId ev)
      (ev_scope ev) t (ws_approvals s) = (adb, Inr a')"
    using con e ap by (auto simp: consume_approval_def split: prod.splits sum.splits)
  obtain a where a: "a \<in> set (al_approvals (ws_approvals s))" "claimable now (di_organizationId i) (ev_approvalId ev) a"
    "in_scope (ev_scope ev) a" using claimed_for_dispatch [OF c] by blast
  have rec: "claim_recorded (ws_approvals s') (ev_approvalId ev) t"
    using claim_recorded_claim [OF c] ap by simp
  obtain rg res where r: "routeForExecution (dv_router env) clock (dx_decisionId ids) (routed_request env ids i s)
      (ws_registry s) = (rg, Inr res)" and sel: "rs_selectedProvider res = Some (pz_provider d)"
    and rt: "rt_capability (routed_request env ids i s) = ''CODE_BUILD''" "rt_organizationId (routed_request env ids i s) = di_organizationId i"
    using prepared_provider [OF prep] cap by auto
  have q: "\<exists>row \<in> set (rg_providers rg). ap_organizationId row = di_organizationId i \<and> pz_provider d = declaration_of rg row"
    "qualifies (dv_router env) (clock (length (loadCandidates (dv_router env) (di_organizationId i) (ws_registry s))))
      (routed_request env ids i s) (pz_provider d)"
    using routed_provider_qualified [OF r sel, unfolded routed_at_def rt(2)] by blast+
  let ?req = "invocation_request now (dx_invocationId ids) (dx_envelopeId ids) [] (dispatch_operation env i d)"
  obtain fs where "rq_governedInputPayload ?req = Some (JObj fs)" "map_of fs ''codeBuildExecutionTarget'' = Some (target_json t)"
    using operation_target [OF e(3)] by blast
  moreover have "ct_commandAlias t = pz_commandAlias d" using e(4) by (simp add: target_bound_def)
  ultimately have inv: "\<exists>req fs. dv_invoke env req = Inr (do_execution out) \<and> rq_invocationId req = dx_invocationId ids \<and>
       rq_organizationId req = di_organizationId i \<and> rq_workflowRunId req = di_workflowRunId i \<and>
       rq_workflowStepRunId req = di_workflowStepRunId i \<and> rq_providerId req = pd_id (pz_provider d) \<and>
       rq_capabilityCode req = ''CODE_BUILD'' \<and> rq_requestedCommand req = Some (ct_commandAlias t) \<and>
       rq_governedInputPayload req = Some (JObj fs) \<and>
       map_of fs ''codeBuildExecutionTarget'' = Some (target_json t)"
    using out(4) cap by (intro exI [of _ ?req] exI [of _ fs]) (simp add: operation_fields_of)
  have led: "execution_record (do_execution out) \<in> set (gt_executions (ws_runtime s'))" using out(5) by simp
  have tb: "isCodeBuildExecutionTarget t" "ct_organizationId t = di_organizationId i" "ct_workflowRunId t = di_workflowRunId i"
    "ct_workflowStepRunId t = di_workflowStepRunId i" "ct_providerId t = do_selectedProviderId out"
    using e(4) out(2) by (simp_all add: target_bound_def)
  show ?thesis
    by (intro exI [of _ ev] exI [of _ t] exI [of _ a] exI [of _ "pz_provider d"] exI [of _ rg] exI [of _ res] conjI
        e(1) a rec tb r sel rt(1) q inv led) (rule out(2) [symmetric])
qed

section \<open>Persisted steps\<close>

lemma bound_plan_entry:
  assumes "resolveAndBind org rid t db = (db', Inr entry)"
  shows "capabilityForStep t = Some (pl_capabilityCode entry)"
  using assms by (auto simp: resolveAndBind_def assertImmutable_def Let_def split: option.splits if_splits)

lemma resolved_agent: "resolve_agent use org st run entry db = Inr x \<Longrightarrow>
    xi_capabilityCode x = pl_capabilityCode entry \<and> xi_correlationId x = wr_correlationId run"
  by (auto simp: resolve_agent_def Let_def split: option.splits if_splits)

lemma resolved_identity:
  assumes "resolve_identity use org rid sid db = (db', Inr identity)" and "step_with_run db sid = Some (st, run)"
  shows "\<exists>x. identity = Some x \<and> capabilityForStep (sr_stepType st) = Some (xi_capabilityCode x) \<and>
    xi_correlationId x = wr_correlationId run \<and> sr_organizationId st = org \<and> wr_organizationId run = org \<and> wr_id run = rid"
proof -
  have g: "sr_organizationId st = org" "wr_organizationId run = org" "sr_workflowRunId st = rid" "wr_id run = rid" "truthy (wr_taskId run)"
    using assms by (auto simp: resolve_identity_def split: if_splits)
  obtain db1 r where rb: "resolveAndBind org rid (sr_stepType st) db = (db1, r)" by (cases "resolveAndBind org rid (sr_stepType st) db")
  obtain entry where r: "r = Inr entry" using assms g rb by (cases r) (simp_all add: resolve_identity_def)
  obtain x where "resolve_agent use org st run entry db1 = Inr x" "identity = Some x"
    using assms g rb r by (cases "resolve_agent use org st run entry db1") (simp_all add: resolve_identity_def)
  then show ?thesis using g resolved_agent bound_plan_entry rb r by fastforce
qed

text \<open>C16. When the step of a dispatch is a persisted one, the server decides what runs: the capability of the request
  that is invoked, and of the outcome, is
  the one of the step's type whatever the caller asks for, the step and its run belong to the
  organisation and run of the request, which are those invoked, and the correlation is the run's.\<close>

theorem persisted_step_decides_capability:
  assumes "dispatch env clock now ids i s = (s', Inr out)"
    and "step_with_run (ws_workforce s) (di_workflowStepRunId i) = Some (st, run)"
  shows "capabilityForStep (sr_stepType st) = Some (do_capabilityCode out) \<and> do_correlationId out = wr_correlationId run \<and>
    sr_organizationId st = di_organizationId i \<and> wr_organizationId run = di_organizationId i \<and> wr_id run = di_workflowRunId i \<and>
    (\<exists>req. dv_invoke env req = Inr (do_execution out) \<and> rq_invocationId req = dx_invocationId ids \<and>
       capabilityForStep (sr_stepType st) = Some (rq_capabilityCode req) \<and> rq_correlationId req = wr_correlationId run \<and>
       rq_organizationId req = wr_organizationId run \<and> rq_workflowRunId req = wr_id run \<and>
       rq_workflowStepRunId req = di_workflowStepRunId i \<and> rq_providerId req = do_selectedProviderId out)"
proof -
  obtain s1 d adb where prep: "prepare_dispatch env clock ids i s = (s1, Inr d)"
    and ex: "execute_dispatch env now ids i d (s1\<lparr>ws_approvals := adb\<rparr>) = (s', Inr out)"
    using assms(1) by (rule dispatch_phases)
  obtain db identity capability correlation res where
    ri: "resolve_identity (dv_useAssignments env) (di_organizationId i) (di_workflowRunId i) (di_workflowStepRunId i)
       (ws_workforce s) = (db, Inr identity)"
    and cap: "capability = (case identity of Some x \<Rightarrow> xi_capabilityCode x | None \<Rightarrow> di_capabilityCode i)"
    and t: "prepare_target env i identity correlation capability
       (if capability = ''CODE_BUILD'' then di_codeBuildApproval i else None) res = Inr d"
    and cor: "correlation = (case identity of Some x \<Rightarrow> xi_correlationId x
       | None \<Rightarrow> or_else (di_correlationId i) (dx_correlationId ids))"
    using prep by (rule dispatch_capability_cases) blast
  note out = execute_phases [OF ex]
  have facts: "capabilityForStep (sr_stepType st) = Some (pz_capabilityCode d) \<and> pz_correlationId d = wr_correlationId run \<and>
    sr_organizationId st = di_organizationId i \<and> wr_organizationId run = di_organizationId i \<and> wr_id run = di_workflowRunId i"
    using resolved_identity [OF ri assms(2)] cap cor prepared_target [OF t] by auto
  let ?req = "invocation_request now (dx_invocationId ids) (dx_envelopeId ids) [] (dispatch_operation env i d)"
  have "dv_invoke env ?req = Inr (do_execution out)" by (rule out(4))
  with facts out(1-3) show ?thesis
    by (intro conjI exI [of _ ?req]) (simp_all add: operation_fields_of)
qed

section \<open>The length of the prompt\<close>

text \<open>The enrichments one after the other, each with its separator, limit and block.\<close>

definition enrich_all :: "('a list \<Rightarrow> int) \<Rightarrow> ('a list \<times> int \<times> 'a list) list \<Rightarrow> 'a list \<Rightarrow> 'a list" where
  "enrich_all bytes blocks prompt = fold (\<lambda>(separator, limit, block). enrich bytes separator limit block) blocks prompt"

definition learning_block :: "DispatchEnv \<Rightarrow> DispatchAgentTaskInput \<Rightarrow> PreparedDispatch \<Rightarrow> (string \<times> int \<times> string) list" where
  "learning_block env i d = (if learning_context env i d = [] then [] else [(learning_separator, MAX_LEARNING_CONTEXT_CHARS,
     js_join NL (map (\<lambda>(n, x). learning_line (dv_toFixed2 env) (Suc n) x) (List.enumerate 0 (learning_context env i d))))])"

definition mission_block :: "DispatchEnv \<Rightarrow> DispatchAgentTaskInput \<Rightarrow> (string \<times> int \<times> string) list" where
  "mission_block env i = (case mission_context env i of None \<Rightarrow> []
     | Some m \<Rightarrow> [(mission_separator, MAX_MISSION_CONTEXT_CHARS, json_text m)])"

definition memory_block :: "DispatchEnv \<Rightarrow> DispatchAgentTaskInput \<Rightarrow> PreparedDispatch \<Rightarrow> (string \<times> int \<times> string) list" where
  "memory_block env i d = (if memory_context env i d = [] then [] else [(memory_separator, MAX_MEMORY_CONTEXT_CHARS,
     js_join NL (map (\<lambda>(n, x). memory_line (dv_toFixed2 env) (Suc n) x) (List.enumerate 0 (memory_context env i d))))])"

lemma enriched_prompt_blocks:
  "enriched_prompt env i d =
     enrich_all byteLength (learning_block env i d @ mission_block env i @ memory_block env i d) (di_prompt i)"
  by (simp add: enriched_prompt_def enrich_all_def learning_block_def mission_block_def memory_block_def
      enrichPromptWithLearning_def enrichPromptWithMissionContext_def enrichPromptWithMemory_def split: option.split)

text \<open>In code units of 16 bits: what one enrichment adds fits in the room that was left.\<close>

lemma enrich_bounded:
  assumes "utf8_length prompt \<le> MAX_PROMPT_BYTES"
  shows "utf8_length (enrich utf8_length separator limit block prompt) \<le> MAX_PROMPT_BYTES"
proof -
  let ?room = "MAX_PROMPT_BYTES - utf8_length prompt - utf8_length separator"
  let ?budget = "min limit (?room div 4)"
  have taken: "int (length (take (nat n) block)) \<le> n" if "0 < n" for n
    using that by auto
  have "utf8_length (prompt @ separator @ take (nat ?budget) block) \<le> MAX_PROMPT_BYTES" if "0 < ?budget" "16 < ?room"
  proof -
    have "utf8_length (take (nat ?budget) block) \<le> 3 * int (length (take (nat ?budget) block))" by (rule utf8_length_le)
    also have "\<dots> \<le> 3 * ?budget" using taken [OF that(1)] by simp
    also have "\<dots> \<le> ?room" using that(2) by linarith
    finally have "utf8_length prompt + (utf8_length separator + utf8_length (take (nat ?budget) block)) \<le> MAX_PROMPT_BYTES"
      by simp
    then show ?thesis using utf8_length_append [of prompt "separator @ take (nat ?budget) block"]
        utf8_length_append [of separator "take (nat ?budget) block"] by linarith
  qed
  moreover have "enrich utf8_length separator limit block prompt =
      (if 16 < ?room \<and> 0 < ?budget then prompt @ separator @ take (nat ?budget) block else prompt)"
    by (auto simp: enrich_def Let_def)
  ultimately show ?thesis using assms by (auto simp del: min_less_iff_conj)
qed

lemma enrich_all_bounded:
  "utf8_length prompt \<le> MAX_PROMPT_BYTES \<Longrightarrow> utf8_length (enrich_all utf8_length blocks prompt) \<le> MAX_PROMPT_BYTES"
  unfolding enrich_all_def by (induction blocks arbitrary: prompt) (auto simp: enrich_bounded)

lemma enrich_all_front: "\<exists>context. enrich_all bytes blocks prompt = prompt @ context"
proof (induction blocks arbitrary: prompt)
  case (Cons b blocks)
  obtain sep limit block where b: "b = (sep, limit, block)" by (metis surj_pair)
  have "\<exists>c. enrich bytes sep limit block prompt = prompt @ c" by (auto simp: enrich_def Let_def)
  then obtain c where c: "enrich bytes sep limit block prompt = prompt @ c" by blast
  obtain c' where "enrich_all bytes blocks (prompt @ c) = (prompt @ c) @ c'" using Cons by blast
  then show ?case unfolding enrich_all_def b by (simp add: c)
qed (simp add: enrich_all_def)

text \<open>The strings of the model are such texts.\<close>

definition block_units :: "string \<times> int \<times> string \<Rightarrow> 16 word list \<times> int \<times> 16 word list" where
  "block_units b = (case b of (separator, limit, block) \<Rightarrow> (code_units separator, limit, code_units block))"

lemma enrich_units:
  "code_units (enrich byteLength separator limit block prompt) =
     enrich utf8_length (code_units separator) limit (code_units block) (code_units prompt)"
  by (simp add: enrich_def Let_def byteLength_def code_units_def take_map)

lemma enrich_all_units:
  "code_units (enrich_all byteLength blocks prompt) =
     enrich_all utf8_length (map block_units blocks) (code_units prompt)"
  unfolding enrich_all_def by (induction blocks arbitrary: prompt) (auto simp: block_units_def enrich_units)

text \<open>C32. What learning, mission and memory add to a prompt never takes it over the 524288 bytes that a request
  is checked against, and the prompt of the request stays in front.  This is so for every prompt and all blocks
  of 16-bit code units, whatever each unit takes in UTF-8 and wherever the cut falls, also inside a surrogate pair; a
  dispatch adds its blocks to the prompt in this way.\<close>

theorem prompt_bounded:
  assumes "validateInput i"
  shows "byteLength (enriched_prompt env i d) \<le> 524288 \<and> (\<exists>context. enriched_prompt env i d = di_prompt i @ context) \<and>
    (\<forall>blocks prompt. utf8_length prompt \<le> 524288 \<longrightarrow> utf8_length (enrich_all utf8_length blocks prompt) \<le> 524288)"
proof -
  have "utf8_length (code_units (di_prompt i)) \<le> MAX_PROMPT_BYTES"
    using assms by (simp add: validateInput_def byteLength_def)
  then have "byteLength (enriched_prompt env i d) \<le> MAX_PROMPT_BYTES"
    unfolding byteLength_def enriched_prompt_blocks enrich_all_units by (rule enrich_all_bounded)
  moreover have "\<exists>context. enriched_prompt env i d = di_prompt i @ context"
    unfolding enriched_prompt_blocks by (rule enrich_all_front)
  ultimately show ?thesis using enrich_all_bounded by (simp add: MAX_PROMPT_BYTES_def)
qed

section \<open>Where the approvals fall short\<close>

text \<open>C33. The key a workflow step consumes with is fixed by the step, and keys are unique: a step that once consumed an
  approval never consumes another, so when its dispatch failed after the consumption, no new approval lets it be
  dispatched again.\<close>

theorem claimed_step_not_redispatched:
  assumes "b \<in> set (al_approvals db)" and "ca_organizationId b = org" and "ca_consumedAt b \<noteq> None"
    and "ca_consumptionRequestKey b = Some (''workflow-step:'' @ sid)"
    and "resolveForWorkflowDispatch now org mission sid db = Inr ev"
  shows "\<exists>e. consumeForDispatch env now' org uid (ev_approvalId ev) (ev_scope ev) t db = (db, Inl e)"
proof -
  let ?P = "\<lambda>a. claimable now' org (ev_approvalId ev) a \<and> in_scope (ev_scope ev) a"
  have key: "cs_requestKey (ev_scope ev) = ''workflow-step:'' @ sid"
    using assms(5) by (auto simp: resolveForWorkflowDispatch_def split: list.splits)
  have "\<not> ?P b" using assms(3) by (simp add: claimable_def)
  with assms(1,2,4) have x: "\<exists>a \<in> set (al_approvals db). \<not> ?P a \<and> ca_organizationId a = org \<and>
      ca_consumptionRequestKey a = Some (cs_requestKey (ev_scope ev))" unfolding key by blast
  have none: "length (filter ?P (al_approvals db)) = n" "n \<noteq> 0 \<Longrightarrow> False"
    if "claim_approvals ?P f org (cs_requestKey (ev_scope ev)) db = Inr (n, db')" for f n db'
    using that x by (auto simp only: claim_approvals_def Let_def split: if_splits)
  have "False" if "consumeForDispatch env now' org uid (ev_approvalId ev) (ev_scope ev) t db = (db', Inr a)" for db' a
    using that none(2) by (auto simp: consumeForDispatch_def approval_tx_ok split: option.splits)
  moreover have "\<exists>x. consumeForDispatch env now' org uid (ev_approvalId ev) (ev_scope ev) t db = (db, Inl x) \<or>
      (\<exists>db' a. consumeForDispatch env now' org uid (ev_approvalId ev) (ev_scope ev) t db = (db', Inr a))"
    unfolding consumeForDispatch_def approval_tx_def by (auto split: sum.split)
  ultimately show ?thesis by blast
qed

lemma claim_users: "consumeForDispatch env now org uid aid dto t db = (db', Inr a) \<Longrightarrow> al_users db' = al_users db"
  by (auto simp: consumeForDispatch_def approval_tx_ok claim_approvals_def approval_audit_def update_approvals_def Let_def
      split: option.splits if_splits)

lemma found_approval:
  assumes "distinct (map ca_id (al_approvals db))" and "b \<in> set (al_approvals db)" and "ca_id b = aid" and "ca_organizationId b = org"
  shows "find_approval db org aid = Some b"
proof (cases "find_approval db org aid")
  case None
  with assms show ?thesis by (simp add: find_approval_def find_None_iff)
next
  case (Some x)
  then have "x \<in> set (al_approvals db) \<and> ca_id x = aid"
    using find_SomeD [OF Some [unfolded find_approval_def]] by blast
  with Some same_row [OF assms(1)] assms(2,3) show ?thesis by metis
qed

text \<open>C34. A revocation reads the approval and then writes it by its id alone: when a dispatch claims the approval in
  between, the revocation still succeeds on the consumed approval, which it refuses when it comes after the claim.\<close>

theorem revocation_races_claim:
  assumes "distinct (map ca_id (al_approvals db))" and "check_revoke org human aid db = Inr (a, True)"
    and "consumeForDispatch env now org uid aid dto t db = (db', Inr a')"
  shows "check_revoke org human aid db' = Inl CB_CONFLICT \<and>
    (\<exists>b \<in> set (al_approvals (write_revoke now' org human aid db')). ca_id b = aid \<and> ca_revokedAt b = Some now' \<and>
       ca_consumedAt b \<noteq> None \<and> ca_executionTarget b = Some t)"
proof -
  note cl = claimed_for_dispatch [OF assms(3)]
  then obtain row where row: "claimable now org aid row" "dispatch_claim (env) now uid aid dto t row \<in> set (al_approvals db')" by blast
  let ?b = "dispatch_claim env now uid aid dto t row"
  have b: "?b \<in> set (al_approvals db')" "ca_id ?b = aid" "ca_organizationId ?b = org" "ca_revokedAt ?b = None"
    using row by (simp_all add: claimable_def)
  have "distinct (map ca_id (al_approvals db'))" using assms(1) table_kept_ids cl by metis
  then have "find_approval db' org aid = Some ?b" using b(1-3) by (rule found_approval)
  moreover obtain u where "requireHuman db' org human = Inr u"
    using assms(2) by (auto simp: check_revoke_def requireHuman_def find_active_user_def claim_users [OF assms(3)])
  ultimately have "check_revoke org human aid db' = Inl CB_CONFLICT" using b(4) by (simp add: check_revoke_def)
  moreover have "?b\<lparr>ca_revokedAt := Some now', ca_revokedByUserId := Some human\<rparr> \<in> set (al_approvals (write_revoke now' org human aid db'))"
    unfolding revoked_rows using b(1,2) by (auto intro!: image_eqI [of _ _ ?b])
  then have "\<exists>x \<in> set (al_approvals (write_revoke now' org human aid db')). ca_id x = aid \<and> ca_revokedAt x = Some now' \<and>
       ca_consumedAt x \<noteq> None \<and> ca_executionTarget x = Some t"
    by (rule bexI [rotated]) (use b(2) in simp)
  ultimately show ?thesis by blast
qed

section \<open>A concrete dispatch\<close>

definition build_registry :: RegistryDb where
  "build_registry = \<lparr>rg_providers = [\<lparr>ap_id = ''p'', ap_organizationId = ''o'', ap_providerCode = ''cloud.main'', ap_displayName = ''P'',
       ap_providerType = CLOUD_LLM, ap_status = PS_ACTIVE, ap_credentialRequirement = CR_REQUIRED, ap_modelFamily = Some ''f'',
       ap_modelName = None, ap_modelCode = None, ap_supportedCapabilities = [], ap_estimatedCostMinorUnits = None,
       ap_healthStatus = PH_HEALTHY, ap_healthCheckedAt = None, ap_quotaStatus = PQ_AVAILABLE, ap_quotaCheckedAt = None,
       ap_qualityScore = None, ap_latencyScore = None, ap_costScore = None, ap_costMetadata = [], ap_assuranceLevels = [],
       ap_metadata = [(''commandAlias'', JStr ''agent'')]\<rparr>],
     rg_capabilities = [\<lparr>pc_id = ''k'', pc_organizationId = ''o'', pc_agentProviderId = ''p'', pc_capabilityCode = ''CODE_BUILD'',
       pc_isEnabled = True\<rparr>], rg_decisions = [], rg_auditRows = []\<rparr>"

definition build_workflow :: WorkflowDb where
  "build_workflow = \<lparr>db_runs = [\<lparr>wr_id = ''r'', wr_organizationId = ''o'', wr_taskId = Some ''t'', wr_workflowDefinitionCode = ''w'',
       wr_workflowDefinitionVersion = ''1'', wr_assuranceLevel = ''AL1'', wr_status = RUN_RUNNING, wr_currentStepType = Some BUILD,
       wr_correctionLoopCount = 0, wr_maxCorrectionLoops = 2, wr_correlationId = ''c'', wr_blockReasonCode = None,
       wr_failureReasonCode = None, wr_createdAt = 0, wr_startedAt = Some 1, wr_completedAt = None\<rparr>],
     db_steps = [\<lparr>sr_id = ''s2'', sr_organizationId = ''o'', sr_workflowRunId = ''r'', sr_stepType = BUILD, sr_status = STEP_READY,
       sr_attemptNumber = 1, sr_causationId = None, sr_metadata = JNull, sr_startedAt = Some 2, sr_finishedAt = None\<rparr>],
     db_executions = [], db_auditRows = []\<rparr>"

definition build_users :: "UserRow list" where
  "build_users = [\<lparr>us_id = ''h'', us_organizationId = ''o'', us_active = True, us_deletedAt = None, us_isMachineIdentity = False,
       us_machineScope = None, us_role = OWNER\<rparr>,
     \<lparr>us_id = ''m'', us_organizationId = ''o'', us_active = True, us_deletedAt = None, us_isMachineIdentity = True,
       us_machineScope = Some ''vito-bridge'', us_role = OTHER_ROLE\<rparr>]"

definition build_approvals :: ApprovalDb where
  "build_approvals = \<lparr>al_users = build_users, al_approvals = [], al_auditRows = []\<rparr>"

definition build_state :: WorkforceState where
  "build_state = \<lparr>ws_workforce = \<lparr>wf_workflow = build_workflow, wf_plan = [],
       wf_assignments = [], wf_tasks = [\<lparr>tk_id = ''t'', tk_organizationId = ''o'', tk_assignedDigitalEmployeeId = Some ''e''\<rparr>],
       wf_employees = [\<lparr>em_id = ''e'', em_organizationId = ''o'', em_active = True, em_enabledCapabilities = []\<rparr>], wf_auditRows = []\<rparr>,
     ws_registry = build_registry, ws_approvals = build_approvals,
     ws_runtime = \<lparr>gt_envelopes = [], gt_executions = []\<rparr>\<rparr>"

definition build_result :: "InvocationRequest \<Rightarrow> InvocationResult" where
  "build_result rq = \<lparr>ir_invocationId = rq_invocationId rq, ir_organizationId = rq_organizationId rq,
     ir_workflowRunId = rq_workflowRunId rq, ir_workflowStepRunId = rq_workflowStepRunId rq,
     ir_correlationId = rq_correlationId rq, ir_capabilityCode = rq_capabilityCode rq, ir_providerId = rq_providerId rq,
     ir_status = AES_SUCCEEDED, ir_startedAt = 0, ir_completedAt = 1, ir_durationMs = 1, ir_outputReference = None,
     ir_artifactReferences = None, ir_evidenceReferences = None, ir_providerExecutionMetadata = JObj [],
     ir_normalizedError = None, ir_policyDecisionReference = DecisionRef ''v'' 0,
     ir_sideEffectSummary = None, ir_usageMetadata = None\<rparr>"

definition build_env :: DispatchEnv where
  "build_env = \<lparr>dv_router = plain_router, dv_profiles = [(''cloud.main'', sample_profile)],
     dv_hash = \<lparr>he_sha256 = (\<lambda>s. s), he_iso = (\<lambda>_. [])\<rparr>, dv_useAssignments = True, dv_hasApprovals = True, dv_observes = True,
     dv_toFixed2 = (\<lambda>_. []), dv_number = (\<lambda>_. JNull), dv_learning = (\<lambda>_. None), dv_memory = (\<lambda>_ _ _. None), dv_mission = (\<lambda>_ _. Some (JObj [])),
     dv_invoke = (\<lambda>rq. Inr (build_result rq)), dv_experience = (\<lambda>_ _. None)\<rparr>"

definition build_scope :: ConsumeCodeBuildApprovalDto where
  "build_scope = \<lparr>cs_missionId = ''m1'', cs_repository = CODE_BUILD_REPOSITORY, cs_branch = ''feat/x'',
     cs_requestKey = ''workflow-step:s2''\<rparr>"

definition build_input :: DispatchAgentTaskInput where
  "build_input = \<lparr>di_organizationId = ''o'', di_workflowRunId = ''r'', di_workflowStepRunId = ''s2'', di_capabilityCode = ''OTHER'',
     di_prompt = ''build it'', di_assuranceLevel = None, di_correlationId = None, di_independenceContext = None,
     di_executionBudget = None, di_codeBuildApproval = Some \<lparr>ev_approvalId = ''a'', ev_machineUserId = ''m'', ev_scope = build_scope\<rparr>\<rparr>"

definition build_ids :: DispatchIds where
  "build_ids = \<lparr>dx_correlationId = ''k'', dx_decisionId = ''d'', dx_envelopeId = ''e'', dx_invocationId = ''i''\<rparr>"

definition build_grant :: "ApprovalDb \<times> (ApprovalError + CodeBuildApproval)" where
  "build_grant = createApproval (dv_hash build_env) 1 ''a'' ''o'' ''h'' \<lparr>cc_missionId = ''m1'', cc_repository = CODE_BUILD_REPOSITORY,
     cc_branch = ''feat/x'', cc_expiresAt = 100, cc_requestKey = ''g''\<rparr> build_approvals"

definition granted_state :: WorkforceState where
  "granted_state = build_state\<lparr>ws_approvals := fst build_grant\<rparr>"

definition build_prepared :: "WorkforceState \<times> (DispatchError + PreparedDispatch)" where
  "build_prepared = prepare_dispatch build_env (\<lambda>_. 5) build_ids build_input granted_state"

definition build_outcome :: "WorkforceState \<times> (DispatchError + DispatchOutcome)" where
  "build_outcome = dispatch build_env (\<lambda>_. 5) 6 build_ids build_input granted_state"

lemma build_granted: "map_sum (\<lambda>_. ()) ca_id (snd build_grant) = Inr ''a''"
  by code_simp

lemma build_is_prepared:
  "map_sum (\<lambda>_. ()) (\<lambda>d. (pz_capabilityCode d, map_option ev_approvalId (pz_evidence d))) (snd build_prepared) = Inr (''CODE_BUILD'', Some ''a'')"
  by code_simp

lemma build_input_di: "map_option ev_approvalId (di_codeBuildApproval build_input) = Some ''a''" "di_capabilityCode build_input = ''OTHER''"
  "di_organizationId build_input = ''o''"
  by (simp_all add: build_input_def)

lemma result_Inr:
  assumes "map_sum (\<lambda>_. ()) f (snd r) = Inr y"
  obtains x where "r = (fst r, Inr x)" "f x = y"
  using assms that by (cases r; cases "snd r") auto

abbreviation build_d :: PreparedDispatch where
  "build_d \<equiv> projr (snd build_prepared)"

abbreviation build_t :: CodeBuildExecutionTarget where
  "build_t \<equiv> the (pz_target build_d)"

lemma build_target_ok:
  "pz_target build_d \<noteq> None \<and> isCodeBuildExecutionTarget build_t \<and> codeBuildTargetMatchesApprovalScope build_t ''o'' build_scope"
  by code_simp

lemma build_open:
  "length (filter (\<lambda>a. claimable 6 ''o'' ''a'' a \<and> in_scope build_scope a) (al_approvals (fst build_grant))) = 1 \<and>
   length (al_approvals (fst build_grant)) = 1 \<and> map ca_id (al_approvals (fst build_grant)) = [''a''] \<and>
   option_test (\<lambda>u. us_isMachineIdentity u \<and> us_machineScope u = Some ''vito-bridge'') (find_active_user (fst build_grant) ''o'' ''m'')"
  by code_simp

lemma build_trusted: "assertTrustedOperation (dispatch_operation build_env build_input build_d) = Inr ()"
  by code_simp

lemma open_approval_claimed:
  assumes "isCodeBuildExecutionTarget t" and "codeBuildTargetMatchesApprovalScope t org dto"
    and "option_test (\<lambda>u. us_isMachineIdentity u \<and> us_machineScope u = Some ''vito-bridge'') (find_active_user db org uid)"
    and "al_approvals db = [a]" and "claimable now org aid a" and "in_scope dto a"
  shows "\<exists>db'. consumeForDispatch env now org uid aid dto t db = (db', Inr (dispatch_claim env now uid aid dto t a))"
  using assms by (auto simp: consumeForDispatch_def approval_tx_def claim_approvals_def Let_def claimable_def in_scope_def
      guardE_def)

lemma build_consumed:
  "\<exists>db' x. consumeForDispatch (dv_hash build_env) 6 ''o'' ''m'' ''a'' build_scope build_t (fst build_grant) = (db', Inr x)"
proof -
  obtain a where a: "al_approvals (fst build_grant) = [a]"
    using build_open by (metis (no_types, lifting) One_nat_def length_0_conv length_Suc_conv)
  then have "claimable 6 ''o'' ''a'' a" "in_scope build_scope a" using build_open by (simp_all split: if_splits)
  with a build_target_ok build_open show ?thesis using open_approval_claimed by blast
qed

lemma build_claimed: "\<exists>db'. consume_approval build_env 6 build_input build_d (fst build_grant) = (db', Inr ())"
proof -
  note build_consumed
  moreover have "pz_evidence build_d = Some \<lparr>ev_approvalId = ''a'', ev_machineUserId = ''m'', ev_scope = build_scope\<rparr>"
  proof -
    obtain d where p: "build_prepared = (fst build_prepared, Inr d)" and c: "code_build d"
      using build_is_prepared by (rule result_Inr) (simp add: code_build_def)
    have "pz_evidence d = di_codeBuildApproval build_input"
      using prepared_build_bound [OF p [unfolded build_prepared_def]] c by (auto simp: build_bound_def)
    then show ?thesis by (simp add: p [THEN arg_cong, of snd] build_input_def)
  qed
  ultimately show ?thesis using build_target_ok by (auto simp: consume_approval_def build_input_def)
qed

lemma build_phases:
  obtains s1 s2 adb d where "prepare_dispatch build_env (\<lambda>_. 5) build_ids build_input granted_state = (s1, Inr d)"
    "code_build d" "ws_approvals s1 = fst build_grant" "consume_approval build_env 6 build_input d (ws_approvals s1) = (adb, Inr ())"
    "assertTrustedOperation (dispatch_operation build_env build_input d) = Inr ()"
proof -
  obtain d where "build_prepared = (fst build_prepared, Inr d)" and c: "code_build d"
    using build_is_prepared by (rule result_Inr) (simp add: code_build_def)
  then obtain s1 where p: "build_prepared = (s1, Inr d)" by blast
  then have pd: "prepare_dispatch build_env (\<lambda>_. 5) build_ids build_input granted_state = (s1, Inr d)" by (simp add: build_prepared_def)
  moreover have ap: "ws_approvals s1 = fst build_grant" using prepared_build_bound [OF pd] by (simp add: granted_state_def)
  moreover obtain adb where "consume_approval build_env 6 build_input d (ws_approvals s1) = (adb, Inr ())"
    using build_claimed ap p [THEN arg_cong, of snd] by auto
  moreover have "assertTrustedOperation (dispatch_operation build_env build_input d) = Inr ()" using build_trusted p [THEN arg_cong, of snd] by simp
  ultimately show ?thesis using that c by blast
qed

lemma prepared_runtime:
  assumes "prepare_dispatch env clock ids i s = (s', Inr d)"
  shows "ws_runtime s' = ws_runtime s"
  using assms by (rule dispatch_capability_cases) simp

lemma executes:
  assumes "assertTrustedOperation (dispatch_operation env i d) = Inr ()" and "ws_runtime s = \<lparr>gt_envelopes = [], gt_executions = []\<rparr>"
    and "\<And>rq. dv_invoke env rq = Inr (f rq)"
  shows "\<exists>s' out. execute_dispatch env now ids i d s = (s', Inr out)"
  using assms by (simp add: execute_dispatch_def executeWorkspaceFileOperation_def persistExecutionRecord_def)

lemma build_dispatched:
  obtains s' out where "dispatch build_env (\<lambda>_. 5) 6 build_ids build_input granted_state = (s', Inr out)"
    "do_capabilityCode out = ''CODE_BUILD''"
proof -
  obtain s1 adb d where p: "prepare_dispatch build_env (\<lambda>_. 5) build_ids build_input granted_state = (s1, Inr d)" "code_build d"
    "consume_approval build_env 6 build_input d (ws_approvals s1) = (adb, Inr ())"
    "assertTrustedOperation (dispatch_operation build_env build_input d) = Inr ()" by (rule build_phases)
  have "ws_runtime (s1\<lparr>ws_approvals := adb\<rparr>) = \<lparr>gt_envelopes = [], gt_executions = []\<rparr>"
    using prepared_runtime [OF p(1)] by (simp add: granted_state_def build_state_def)
  moreover have "dv_invoke build_env rq = Inr (build_result rq)" for rq by (simp add: build_env_def)
  ultimately obtain s' out where ex: "execute_dispatch build_env 6 build_ids build_input d (s1\<lparr>ws_approvals := adb\<rparr>) = (s', Inr out)"
    using executes [OF p(4)] by blast
  then have "dispatch build_env (\<lambda>_. 5) 6 build_ids build_input granted_state = (s', Inr out)" using p by (simp add: dispatch_def)
  moreover have "do_capabilityCode out = ''CODE_BUILD''" using execute_phases(1) [OF ex] p(2) by (simp add: code_build_def)
  ultimately show ?thesis by (rule that)
qed

theorem approval_single_use_witness:
  "\<exists>s cs tr d. dispatch_reach build_env s [] cs tr \<and> executed tr = [(build_input, d)] \<and> approvals_used tr = [''a''] \<and>
     (\<exists>t. claim_recorded (ws_approvals s) ''a'' t \<and> ct_providerId t = pd_id (pz_provider d))"
proof -
  obtain s1 adb d where p: "prepare_dispatch build_env (\<lambda>_. 5) build_ids build_input granted_state = (s1, Inr d)" "code_build d"
    "consume_approval build_env 6 build_input d (ws_approvals s1) = (adb, Inr ())" by (rule build_phases)
  obtain a where a: "build_grant = (fst build_grant, Inr a)" using build_granted by (rule result_Inr)
  have "dispatch_reach build_env build_state [] [] []" by (rule start) (simp add: build_state_def build_approvals_def)
  from grant [OF this] a have "dispatch_reach build_env granted_state [] [] [EV_grant (ca_id a) ''h'']"
    unfolding granted_state_def build_grant_def by (simp add: build_state_def)
  from prepare [OF this p(1)] have "dispatch_reach build_env s1 [(build_input, d)] [] [EV_grant (ca_id a) ''h'']" .
  from claim [OF this _ p(3)] have c: "dispatch_reach build_env (s1\<lparr>ws_approvals := adb\<rparr>) [] [(build_input, d)]
      (claim_events (build_input, d) @ [EV_grant (ca_id a) ''h''])" by simp
  obtain s' r where "execute_dispatch build_env 6 build_ids build_input d (s1\<lparr>ws_approvals := adb\<rparr>) = (s', r)" by (metis surj_pair)
  from execute [OF c _ this] have e: "dispatch_reach build_env s' [] [] (EV_execute build_input d # claim_events (build_input, d) @
      [EV_grant (ca_id a) ''h''])" by simp
  have x: "executed (claim_events (build_input, d) @ [EV_grant (ca_id a) ''h'']) = []"
    by (simp add: claim_events_def split: option.split)
  let ?tr = "EV_execute build_input d # claim_events (build_input, d) @ [EV_grant (ca_id a) ''h'']"
  have ev: "map_option ev_approvalId (pz_evidence d) = Some ''a''"
    using prepared_build_bound [OF p(1)] p(2) build_input_di(1) by (auto simp: build_bound_def)
  then have "executed ?tr = [(build_input, d)]" "approvals_used ?tr = [''a'']" using x p(2) by (auto simp: approvals_used_def)
  moreover have "\<exists>t. claim_recorded (ws_approvals s') ''a'' t \<and> ct_providerId t = pd_id (pz_provider d)"
    using approval_single_use [OF e] p(2) ev by (fastforce simp: target_bound_def)
  ultimately show ?thesis using e by blast
qed

theorem code_build_dispatch_approved_witness:
  "\<exists>t. claim_recorded (ws_approvals (fst build_outcome)) ''a'' t \<and> isCodeBuildExecutionTarget t"
proof -
  obtain s' out where d: "dispatch build_env (\<lambda>_. 5) 6 build_ids build_input granted_state = (s', Inr out)"
    "do_capabilityCode out = ''CODE_BUILD''" by (rule build_dispatched)
  obtain ev where ev: "di_codeBuildApproval build_input = Some ev" "ev_approvalId ev = ''a''" by (simp add: build_input_def)
  have "fst build_outcome = s'" by (simp add: build_outcome_def d(1))
  with code_build_dispatch_approved [OF d] ev show ?thesis by force
qed

theorem persisted_step_decides_capability_witness:
  "di_capabilityCode build_input = ''OTHER'' \<and> (\<exists>s' out. build_outcome = (s', Inr out) \<and> do_capabilityCode out = ''CODE_BUILD'' \<and>
     do_correlationId out = ''c'')"
proof -
  obtain s' out where d: "dispatch build_env (\<lambda>_. 5) 6 build_ids build_input granted_state = (s', Inr out)" by (rule build_dispatched)
  have "step_with_run (ws_workforce granted_state) (di_workflowStepRunId build_input) =
      Some (hd (db_steps build_workflow), hd (db_runs build_workflow))"
    by (simp add: step_with_run_def granted_state_def build_state_def build_workflow_def build_input_def)
  from persisted_step_decides_capability [OF d this] d show ?thesis
    by (auto simp: build_outcome_def build_workflow_def build_input_di)
qed

theorem prompt_bounded_witness:
  "(\<forall>d. byteLength (enriched_prompt build_env build_input d) \<le> 524288) \<and>
   utf8_length (enrich_all utf8_length [([10], 1000, replicate 500 0x20AC)] (code_units ''build'')) \<le> 524288"
proof -
  have "validateInput build_input" by code_simp
  note b = prompt_bounded [OF this, of build_env]
  have "utf8_length (code_units ''build'') \<le> 524288" by code_simp
  with b show ?thesis by blast
qed

definition blocked_approvals :: ApprovalDb where
  "blocked_approvals = (let dto = \<lparr>cc_missionId = ''m1'', cc_repository = CODE_BUILD_REPOSITORY, cc_branch = ''feat/x'',
       cc_expiresAt = 100, cc_requestKey = ''g''\<rparr>; fresh = \<lambda>k. new_approval (dv_hash build_env) 1 k ''o'' ''h'' dto in
     \<lparr>al_users = build_users, al_approvals = [(fresh ''a'')\<lparr>ca_consumedAt := Some 6, ca_consumedByUserId := Some ''m'',
        ca_consumptionRequestKey := Some ''workflow-step:s2''\<rparr>, (fresh ''b'')\<lparr>ca_approvalRequestKey := ''g2''\<rparr>], al_auditRows = []\<rparr>)"

theorem claimed_step_not_redispatched_witness:
  "\<exists>ev e. resolveForWorkflowDispatch 7 ''o'' ''m1'' ''s2'' blocked_approvals = Inr ev \<and> ev_approvalId ev = ''b'' \<and>
     consumeForDispatch (dv_hash build_env) 7 ''o'' ''m'' ''b'' (ev_scope ev) build_t blocked_approvals = (blocked_approvals, Inl e)"
proof -
  have "map_sum (\<lambda>_. ()) ev_approvalId (resolveForWorkflowDispatch 7 ''o'' ''m1'' ''s2'' blocked_approvals) = Inr ''b''" by code_simp
  then obtain ev where ev: "resolveForWorkflowDispatch 7 ''o'' ''m1'' ''s2'' blocked_approvals = Inr ev" "ev_approvalId ev = ''b''"
    by (cases "resolveForWorkflowDispatch 7 ''o'' ''m1'' ''s2'' blocked_approvals") auto
  have "list_ex (\<lambda>b. ca_organizationId b = ''o'' \<and> ca_consumedAt b \<noteq> None \<and>
      ca_consumptionRequestKey b = Some (''workflow-step:'' @ ''s2'')) (al_approvals blocked_approvals)" by code_simp
  then obtain b where "b \<in> set (al_approvals blocked_approvals)" "ca_organizationId b = ''o''" "ca_consumedAt b \<noteq> None"
    "ca_consumptionRequestKey b = Some (''workflow-step:'' @ ''s2'')" by (auto simp: list_ex_iff)
  from claimed_step_not_redispatched [OF this ev(1)] ev show ?thesis by metis
qed

theorem revocation_races_claim_witness:
  "\<exists>db'. \<exists>b \<in> set (al_approvals (write_revoke 7 ''o'' ''h'' ''a'' db')). ca_revokedAt b = Some 7 \<and> ca_executionTarget b = Some build_t"
proof -
  have "map_sum (\<lambda>_. ()) snd (check_revoke ''o'' ''h'' ''a'' (fst build_grant)) = Inr True" by code_simp
  then obtain a where "check_revoke ''o'' ''h'' ''a'' (fst build_grant) = Inr (a, True)"
    by (cases "check_revoke ''o'' ''h'' ''a'' (fst build_grant)") auto
  moreover have "distinct (map ca_id (al_approvals (fst build_grant)))" using build_open by simp
  moreover obtain db' x where "consumeForDispatch (dv_hash build_env) 6 ''o'' ''m'' ''a'' build_scope build_t (fst build_grant) = (db', Inr x)"
    using build_consumed by blast
  ultimately show ?thesis using revocation_races_claim by blast
qed

end
