(* ===== verification/Spec2Isabelle.thy ===== *)
theory Spec2Isabelle
  imports Vito_InvocationSafety Vito_VerdictSafety Vito_DispatchSafety
begin

text \<open>
  A verification library for the execution core of the VITO platform: the code
  that decides what an AI agent may do to a repository, runs it at most once,
  keeps secrets out of what is reported, and moves an engineering workflow from
  plan to release under human control.

  \<^bold>\<open>The program.\<close>  An engineering workflow is a run of steps (PLAN, BUILD, TEST,
  PACKAGE, RED\_TEAM, PARSE\_VERDICT, CORRECTION, VERIFY, HUMAN\_RELEASE\_GATE,
  RELEASE\_EXECUTION, REMOTE\_VERIFY).  The workflow runtime keeps runs and steps
  in a database, asks a pure state machine for the successor of a completed
  step and writes it in one transaction; humans approve releases, ask for
  corrections and reopen blocked runs through four small services.  What a step
  does is done by a provider, through the governed invocation service: it
  validates provider and profile, evaluates the execution policy, claims the
  logical operation in an idempotency store, calls the provider's adapter,
  redacts and normalises the answer, settles the claim and writes an audit
  trail.  A registry carries the cancellation of a run to the executions that
  run for it.  Which provider executes is decided by a router over the registry
  of providers and what their executions and probes reveal; an agent's task is
  dispatched through it, and a code build only with a human approval that the
  dispatch consumes.

  \<^bold>\<open>Theories, code and results.\<close>

  \<^item> \<open>Vito_Prelude\<close>, \<open>Vito_Regex\<close>: results as sums (\<open>bindE\<close>, \<open>guardE\<close>), the string
    functions of the language, decimal printing, and the regular expressions the
    source uses, as a datatype with a matcher.

  \<^item> \<open>Vito_StateMachine\<close>: \<open>state-machine.ts\<close>, \<open>human-decision.ts\<close> and the vocabulary
    of \<open>packages/contracts/src/engineering\<close>.  A run from PLAN is bounded by its
    correction budget; at assurance level AL4 VERIFY needs real review evidence;
    two gaps of the AL4 check.

  \<^item> \<open>Vito_PolicyTypes\<close>, \<open>Vito_CommandPolicy\<close>, \<open>Vito_PathPolicy\<close>,
    \<open>Vito_ExecutionPolicy\<close>: \<open>execution-policy.ts\<close>.  Accepted command lines, the
    tokenizer against escaping, exact path containment, secret paths, the policy
    matrix and its closed failure; command lines that slip through.

  \<^item> \<open>Vito_Invocation\<close>: \<open>invocation.ts\<close>.  Injective identities, the metadata
    sanitizer, the scope of a human approval, the life cycle of an invocation.

  \<^item> \<open>Vito_IdempotencyStore\<close>: \<open>prisma-governed-idempotency.store.ts\<close>.  The contract of
    a claim store is the locale \<open>claim_store\<close>, interpreted on the model of the
    store; a key is won once and settled by its owner only.

  \<^item> \<open>Vito_Redaction\<close>, \<open>Vito_Provider\<close>, \<open>Vito_GovernedInvocation\<close>,
    \<open>Vito_InvocationPipeline\<close>, \<open>Vito_InvocationSafety\<close>:
    \<open>governed-invocation.service.ts\<close> with the provider declarations, tiers and
    registries it reads.  \<open>invoke\<close> is the composition of four phases; many attempts
    interleave at the phase boundaries, may be retried, lose answers or crash.
    Under every schedule consequential operations execute at most once, each
    execution was authorised and audited, a release needs its human approval, and
    no credential is returned.

  \<^item> \<open>Vito_Transition\<close>: the locales \<open>service\<close> and \<open>monotone_service\<close>, the contract of
    a component with a state, its admissible operations and an invariant, and what
    follows for every sequence of operations.

  \<^item> \<open>Vito_Cancellation\<close>: \<open>execution-cancellation.registry.ts\<close>, an interpretation of
    \<open>service\<close>.  The registry is bounded; cancelling reaches exactly the executions
    of the run; a late registration within the hour is signalled at once.

  \<^item> \<open>Vito_WorkflowRuntime\<close>: \<open>workflow-runtime.service.ts\<close>; \<open>Vito_HumanGates\<close>:
    \<open>human-decision-correction.service.ts\<close>, \<open>human-release-approval.service.ts\<close>,
    \<open>loop-exhausted-test-recovery.service.ts\<close> and
    \<open>release-verification-recovery.service.ts\<close>.  The tables of runs, steps, governed
    executions and audit rows, and every operation that writes runs or steps.

  \<^item> \<open>Vito_WorkflowInvariant\<close>, \<open>Vito_WorkflowOperations\<close>, \<open>Vito_WorkflowSafety\<close>: the
    invariant of the tables, stated run by run; the abstract life cycle
    \<open>run_trans\<close>, whose advances are the transitions of the state machine; one
    lemma per operation that it is such a change; and the runtime as an
    interpretation of \<open>monotone_service\<close>.  The tables stay consistent, the runtime
    refines the life cycle, ended rows are final, no step completes twice, the
    current step can always complete, the correction budget holds, and a release
    step has a human approval behind it; two defects of the resume operation.

  \<^item> \<open>Vito_StepResults\<close>, \<open>Vito_AgentRuntime\<close>: the projectors of agent output,
    \<open>workflow-agent-runtime.service.ts\<close> and \<open>workflow-agent-runner.service.ts\<close>.  A
    step an agent executed succeeds only with the evidence its type asks for; the
    runner is a bounded sequence of ordinary completions; verdicts, the release
    gate and the release are out of the agents' reach.

  \<^item> \<open>Vito_ReviewVerdict\<close>, \<open>Vito_VerdictSafety\<close>:
    \<open>workflow-review-evidence.service.ts\<close>, \<open>workflow-review-verdict.service.ts\<close> and
    \<open>workflow-al4-review-coordinator.service.ts\<close>.  A verdict is bound to the ledger of
    governed executions; two AL4 reviews are independent of each other and of the
    builder; what the agent runtime and the coordinator persist, the verdict
    service accepts; a review of an AL4 run that bypasses the coordinator strands
    the run.

  \<^item> \<open>Vito_ProviderRegistry\<close>, \<open>Vito_ProviderRuntime\<close>, \<open>Vito_RegistrySafety\<close>:
    \<open>provider-registry.service.ts\<close>, \<open>engineering-provider-provisioning.service.ts\<close>, the
    endpoints, \<open>provider-runtime-state.service.ts\<close> and
    \<open>provider-readiness-probe.service.ts\<close>.  The tables keep their keys and the credential
    rule under sequential operations, organisations are isolated, a provider that
    exists turns active only through the activation gate; an endpoint that crosses
    organisations, two updates that race, and a creation that bypasses the gate.

  \<^item> \<open>Vito_Routing\<close>, \<open>Vito_RoutingSafety\<close>: \<open>provider-router.ts\<close>,
    \<open>provider-router.service.ts\<close> and the coverage report of
    \<open>provider-intelligence.service.ts\<close>.  Who is selected qualifies and is the best; the
    report agrees with the router.

  \<^item> \<open>Vito_CodeBuild\<close>, \<open>Vito_GovernedRuntime\<close>, \<open>Vito_AgentWorkforce\<close>,
    \<open>Vito_DispatchSafety\<close>: \<open>code-build-approval.service.ts\<close>,
    \<open>code-build-execution-target.ts\<close>, \<open>governed-runtime.service.ts\<close> and the services of
    \<open>agent-workforce\<close>.  Under every interleaving of dispatches, grants, revocations and
    consumptions (the relation \<open>dispatch_reach\<close>) an approval backs one execution at
    most; the capability of a persisted step is the server's; the prompt is
    bounded; a step that cannot be dispatched again, and a revocation that comes
    too late and says it did not.

  \<^bold>\<open>How state, errors and time are modelled.\<close>  A database table is a list of rows in
  insertion order; its unique keys and conditional updates are written out.  A
  database transaction is one atomic step that returns the new tables or, when
  it throws, leaves them unchanged; what an operation reads before its
  transaction is a separate argument, so the statements also cover callers with
  an outdated view.  A thrown exception is the left value of a sum.  Clocks,
  random identifiers, the disk, the adapters of the providers and the resolvers
  the service is configured with are parameters.  JavaScript numbers that count
  are integers; strings are lists of characters; a JSON value is a datatype.
  Loops of the source are structural recursions or have a termination proof, so
  no fuel is needed: every definition is total and executable.  Among rows with
  equal time stamps, where the database may return either, the model takes the
  one inserted last.

  \<^bold>\<open>Not modelled.\<close>  The text of prompts and the manifests handed to review and
  correction agents, the resolvers and adapters behind the invocation
  service, cloud sandboxes and remote workers, the operator bridge, the modules
  that keep organisations, workforce, tasks, memory and learning records,
  authentication and credential storage, the web user interface, and the
  database schema beyond the constraints the modelled operations rely on.
  Within the modelled files, message texts in German, log output and the JSON
  rendering \<open>auditSafe\<close> are left out.  The modules of record keeping and of network access have
  little logic beyond database and network calls.
\<close>

end
